(* ===== verification/Go_Runtime.thy ===== *)
theory Go_Runtime
  imports Main "HOL-Library.Word" "HOL-Library.AList"
begin

text \<open>
  The prelude. What the provider uses of the Go language, independent of any component:
  \<^item> the outcome of running a piece of Go code (\<open>Ret\<close>, or \<open>Panic\<close> for a nil dereference or an
    index out of range) and the state-passing computations built on it;
  \<^item> Go errors with the wrapping of \<^verbatim>\<open>github.com/pkg/errors\<close> and \<^verbatim>\<open>fmt.Errorf("%w")\<close>;
  \<^item> the 64-bit \<^verbatim>\<open>int\<close>, the string operations and the maps the sources use;
  \<^item> the logic of computations: inversion rules for results (collection \<open>go_inv\<close>) and, in the
    locale \<open>frame\<close>, the rules by which a reflexive and transitive relation between the state before
    and the state after a computation is shown along the structure of the code (collection
    \<open>frame_rules\<close> of an interpretation).
\<close>

section \<open>Outcomes and computations\<close>

datatype 'a go = Ret 'a | Panic

type_synonym ('s, 'a) comp = "'s \<Rightarrow> 'a go \<times> 's"

definition ret :: "'a \<Rightarrow> ('s, 'a) comp" where
  "ret a = (\<lambda>s. (Ret a, s))"

definition panic :: "('s, 'a) comp" where
  "panic = (\<lambda>s. (Panic, s))"

definition bind :: "('s, 'a) comp \<Rightarrow> ('a \<Rightarrow> ('s, 'b) comp) \<Rightarrow> ('s, 'b) comp" where
  "bind m f = (\<lambda>s. case m s of (Ret a, s') \<Rightarrow> f a s' | (Panic, s') \<Rightarrow> (Panic, s'))"

text \<open>\<^verbatim>\<open>*p\<close>: a nil pointer panics.\<close>

definition deref :: "'p option \<Rightarrow> ('p \<Rightarrow> ('s, 'a) comp) \<Rightarrow> ('s, 'a) comp" where
  "deref p f = (case p of None \<Rightarrow> panic | Some a \<Rightarrow> f a)"

text \<open>\<^verbatim>\<open>xs[0]\<close>: an empty slice panics.\<close>

definition index0 :: "'p list \<Rightarrow> ('p \<Rightarrow> ('s, 'a) comp) \<Rightarrow> ('s, 'a) comp" where
  "index0 xs f = (case xs of [] \<Rightarrow> panic | x # _ \<Rightarrow> f x)"

section \<open>Errors\<close>

text \<open>
  \<open>Errorf fmt args\<close> is an error made by \<^verbatim>\<open>errors.Errorf\<close>, \<^verbatim>\<open>errors.New\<close> or \<^verbatim>\<open>fmt.Errorf\<close> with the
  source's format string and its string arguments; \<open>Wrap msg e\<close> is \<^verbatim>\<open>errors.Wrap(e, msg)\<close> (also
  \<^verbatim>\<open>fmt.Errorf("msg: %w", e)\<close>, and \<^verbatim>\<open>errors.Wrapf\<close> with its format string as \<open>msg\<close>). \<open>ErrNotFound\<close> is the Kubernetes API
  error that \<^verbatim>\<open>apierrors.IsNotFound\<close> recognises, \<open>ErrExternal\<close> any other error a client or a
  library returns. \<open>ErrBootstrapNotReady\<close> is the sentinel \<^verbatim>\<open>errBootstrapNotReady\<close>.
\<close>

datatype error =
    ErrNotFound
  | ErrExternal string
  | ErrBootstrapNotReady
  | Errorf string "string list"
  | Wrap string error

text \<open>\<^verbatim>\<open>errors.Is(err, errBootstrapNotReady)\<close> follows the chain of wrapped errors.\<close>

fun isBootstrapNotReady :: "error \<Rightarrow> bool" where
  "isBootstrapNotReady ErrBootstrapNotReady = True"
| "isBootstrapNotReady (Wrap m e) = isBootstrapNotReady e"
| "isBootstrapNotReady _ = False"

text \<open>
  A Go function with results \<^verbatim>\<open>(T, error)\<close> that returns the zero value beside an error is a
  computation of type \<open>error + T\<close>.
\<close>

definition fail :: "error \<Rightarrow> ('s, error + 'a) comp" where
  "fail e = ret (Inl e)"

definition ok :: "'a \<Rightarrow> ('s, error + 'a) comp" where
  "ok a = ret (Inr a)"

text \<open>\<^verbatim>\<open>x, err := m; if err != nil { return err }; ...\<close>\<close>

definition andThen :: "('s, error + 'a) comp \<Rightarrow> ('a \<Rightarrow> ('s, error + 'b) comp) \<Rightarrow> ('s, error + 'b) comp" where
  "andThen m f = bind m (\<lambda>r. case r of Inl e \<Rightarrow> fail e | Inr a \<Rightarrow> f a)"

text \<open>\<^verbatim>\<open>x, err := m; if err != nil { return errors.Wrap(err, msg) }; ...\<close>\<close>

definition andThenWrap ::
    "string \<Rightarrow> ('s, error + 'a) comp \<Rightarrow> ('a \<Rightarrow> ('s, error + 'b) comp) \<Rightarrow> ('s, error + 'b) comp" where
  "andThenWrap msg m f = bind m (\<lambda>r. case r of Inl e \<Rightarrow> fail (Wrap msg e) | Inr a \<Rightarrow> f a)"

text \<open>The same on pure functions that return \<open>error + T\<close>.\<close>

definition chain :: "error + 'a \<Rightarrow> ('a \<Rightarrow> error + 'b) \<Rightarrow> error + 'b" where
  "chain r f = (case r of Inl e \<Rightarrow> Inl e | Inr a \<Rightarrow> f a)"

definition chainWrap :: "string \<Rightarrow> error + 'a \<Rightarrow> ('a \<Rightarrow> error + 'b) \<Rightarrow> error + 'b" where
  "chainWrap msg r f = (case r of Inl e \<Rightarrow> Inl (Wrap msg e) | Inr a \<Rightarrow> f a)"

section \<open>Integers, strings, maps\<close>

text \<open>Go's \<^verbatim>\<open>int\<close> on the 64-bit targets the image is built for; arithmetic wraps around.\<close>

type_synonym goint = "64 word"

definition newline :: string where
  "newline = [CHR 0x0A]"

definition unlines :: "string list \<Rightarrow> string" where
  "unlines ls = concat (map (\<lambda>l. l @ newline) ls)"

text \<open>The verb \<^verbatim>\<open>%d\<close> on a non-negative number.\<close>

fun itoa :: "nat \<Rightarrow> string" where
  "itoa n = (if n < 10 then [char_of (48 + n)] else itoa (n div 10) @ [char_of (48 + n mod 10)])"

declare itoa.simps [simp del]

text \<open>\<^verbatim>\<open>strings.TrimPrefix(s, prefix)\<close>\<close>

definition trimPrefix :: "string \<Rightarrow> string \<Rightarrow> string" where
  "trimPrefix s pre = (if take (length pre) s = pre then drop (length pre) s else s)"

text \<open>
  A Go map is an association list with distinct keys. Reading a missing key of a map of strings
  (or of byte slices) gives the zero value.
\<close>

type_synonym ('k, 'v) gomap = "('k \<times> 'v) list"

definition wf_map :: "('k, 'v) gomap \<Rightarrow> bool" where
  "wf_map m \<longleftrightarrow> distinct (map fst m)"

definition getStr :: "(string, string) gomap \<Rightarrow> string \<Rightarrow> string" where
  "getStr m k = (case map_of m k of None \<Rightarrow> [] | Some v \<Rightarrow> v)"

section \<open>Inversion of results\<close>

named_theorems go_inv \<open>inversion of computations that returned\<close>

text \<open>The simplifier leaves the message texts of errors alone.\<close>

lemma Errorf_weak_cong [cong]: "Errorf f a = Errorf f a"
  by (rule refl)

lemma Wrap_weak_cong [cong]: "e = e' \<Longrightarrow> Wrap m e = Wrap m e'"
  by simp

lemma bind_ret [simp]: "bind (ret a) f = f a"
  by (simp add: bind_def ret_def)

lemma bind_panic [simp]: "bind panic f = panic"
  by (simp add: bind_def panic_def)

lemma bind_ret_right [simp]: "bind m ret = m"
  by (rule ext) (simp add: bind_def ret_def split: prod.split go.split)

lemma bind_bind: "bind (bind m f) g = bind m (\<lambda>a. bind (f a) g)"
  by (rule ext) (simp add: bind_def split: prod.split go.split)

lemma ret_eq [go_inv]: "ret a s = (r, s') \<longleftrightarrow> Ret a = r \<and> s' = s"
  by (auto simp: ret_def)

lemma panic_eq [go_inv]: "panic s = (r, s') \<longleftrightarrow> Panic = r \<and> s' = s"
  by (auto simp: panic_def)

lemma bind_eq_Ret [go_inv]:
  "bind m f s = (Ret b, s') \<longleftrightarrow> (\<exists>a t. m s = (Ret a, t) \<and> f a t = (Ret b, s'))"
  by (auto simp: bind_def split: prod.splits go.splits)

lemma bind_eq_Panic:
  "bind m f s = (Panic, s') \<longleftrightarrow> m s = (Panic, s') \<or> (\<exists>a t. m s = (Ret a, t) \<and> f a t = (Panic, s'))"
  by (auto simp: bind_def split: prod.splits go.splits)

lemma deref_eq_Ret [go_inv]:
  "deref p f s = (Ret b, s') \<longleftrightarrow> (\<exists>a. p = Some a \<and> f a s = (Ret b, s'))"
  by (auto simp: deref_def panic_def split: option.splits)

lemma deref_eq_Panic:
  "deref p f s = (Panic, s') \<longleftrightarrow> p = None \<and> s' = s \<or> (\<exists>a. p = Some a \<and> f a s = (Panic, s'))"
  by (auto simp: deref_def panic_def split: option.splits)

lemma deref_simps [simp]: "deref None f = panic" "deref (Some a) f = f a"
  by (simp_all add: deref_def)

lemma index0_eq_Ret [go_inv]:
  "index0 xs f s = (Ret b, s') \<longleftrightarrow> (\<exists>x ys. xs = x # ys \<and> f x s = (Ret b, s'))"
  by (auto simp: index0_def panic_def split: list.splits)

lemma index0_simps [simp]: "index0 [] f = panic" "index0 (x # xs) f = f x"
  by (simp_all add: index0_def)

lemma fail_eq [go_inv]: "fail e s = (r, s') \<longleftrightarrow> Ret (Inl e) = r \<and> s' = s"
  by (auto simp: fail_def ret_def)

lemma ok_eq [go_inv]: "ok a s = (r, s') \<longleftrightarrow> Ret (Inr a) = r \<and> s' = s"
  by (auto simp: ok_def ret_def)

lemma andThen_eq_Inr [go_inv]:
  "andThen m f s = (Ret (Inr b), s') \<longleftrightarrow> (\<exists>a t. m s = (Ret (Inr a), t) \<and> f a t = (Ret (Inr b), s'))"
  by (auto simp: andThen_def bind_def fail_eq split: prod.splits go.splits sum.splits)

lemma andThenWrap_eq_Inr [go_inv]:
  "andThenWrap msg m f s = (Ret (Inr b), s') \<longleftrightarrow>
     (\<exists>a t. m s = (Ret (Inr a), t) \<and> f a t = (Ret (Inr b), s'))"
  by (auto simp: andThenWrap_def bind_def fail_eq split: prod.splits go.splits sum.splits)

lemma andThen_eq_Inl:
  "andThen m f s = (Ret (Inl e), s') \<longleftrightarrow>
     m s = (Ret (Inl e), s') \<or> (\<exists>a t. m s = (Ret (Inr a), t) \<and> f a t = (Ret (Inl e), s'))"
  by (auto simp: andThen_def bind_def fail_eq split: prod.splits go.splits sum.splits)

lemma andThenWrap_eq_Inl:
  "andThenWrap msg m f s = (Ret (Inl e), s') \<longleftrightarrow>
     (\<exists>e'. m s = (Ret (Inl e'), s') \<and> e = Wrap msg e') \<or>
     (\<exists>a t. m s = (Ret (Inr a), t) \<and> f a t = (Ret (Inl e), s'))"
  by (auto simp: andThenWrap_def bind_def fail_eq split: prod.splits go.splits sum.splits)

text \<open>Case distinctions of the code, as disjunctions of what holds on each branch.\<close>

lemma case_sum_eq [go_inv]:
  "(case x of Inl e \<Rightarrow> f e | Inr a \<Rightarrow> g a) s = (r, s') \<longleftrightarrow>
     (\<exists>e. x = Inl e \<and> f e s = (r, s')) \<or> (\<exists>a. x = Inr a \<and> g a s = (r, s'))"
  by (cases x) auto

lemma case_option_eq [go_inv]:
  "(case x of None \<Rightarrow> f | Some a \<Rightarrow> g a) s = (r, s') \<longleftrightarrow>
     x = None \<and> f s = (r, s') \<or> (\<exists>a. x = Some a \<and> g a s = (r, s'))"
  by (cases x) auto

lemma case_prod_eq [go_inv]:
  "(case x of (a, b) \<Rightarrow> f a b) s = (r, s') \<longleftrightarrow> (\<exists>a b. x = (a, b) \<and> f a b s = (r, s'))"
  by (cases x) auto

lemma if_eq [go_inv]:
  "(if b then f else g) s = (r, s') \<longleftrightarrow> b \<and> f s = (r, s') \<or> \<not> b \<and> g s = (r, s')"
  by simp

lemma chain_eq_Inr [go_inv]: "chain r f = Inr b \<longleftrightarrow> (\<exists>a. r = Inr a \<and> f a = Inr b)"
  by (auto simp: chain_def split: sum.splits)

lemma chainWrap_eq_Inr [go_inv]: "chainWrap msg r f = Inr b \<longleftrightarrow> (\<exists>a. r = Inr a \<and> f a = Inr b)"
  by (auto simp: chainWrap_def split: sum.splits)

lemma chain_simps [simp]: "chain (Inl e) f = Inl e" "chain (Inr a) f = f a"
  by (simp_all add: chain_def)

lemma chainWrap_simps [simp]: "chainWrap msg (Inl e) f = Inl (Wrap msg e)" "chainWrap msg (Inr a) f = f a"
  by (simp_all add: chainWrap_def)

section \<open>Frames\<close>

text \<open>
  \<open>preserves R m\<close>: running \<open>m\<close>, whether it returns or panics, relates the state before to the
  state after by \<open>R\<close>.
\<close>

definition preserves :: "('s \<Rightarrow> 's \<Rightarrow> bool) \<Rightarrow> ('s, 'a) comp \<Rightarrow> bool" where
  "preserves R m \<longleftrightarrow> (\<forall>s. R s (snd (m s)))"

lemma preservesI: "(\<And>s r s'. m s = (r, s') \<Longrightarrow> R s s') \<Longrightarrow> preserves R m"
  by (auto simp: preserves_def) (metis prod.collapse)

lemma preservesD: "preserves R m \<Longrightarrow> m s = (r, s') \<Longrightarrow> R s s'"
  by (auto simp: preserves_def) (metis snd_conv)

lemma preserves_mono: "preserves R m \<Longrightarrow> (\<And>s s'. R s s' \<Longrightarrow> R' s s') \<Longrightarrow> preserves R' m"
  by (auto simp: preserves_def)

locale frame =
  fixes R :: "'s \<Rightarrow> 's \<Rightarrow> bool"
  assumes refl: "R s s"
    and trans: "R s t \<Longrightarrow> R t u \<Longrightarrow> R s u"
begin

lemma ret: "preserves R (ret a)"
  by (simp add: preserves_def ret_def refl)

lemma panic: "preserves R panic"
  by (simp add: preserves_def panic_def refl)

lemma bind:
  assumes "preserves R m" and "\<And>a. preserves R (f a)"
  shows "preserves R (bind m f)"
proof (rule preservesI)
  fix s r s'
  assume run: "bind m f s = (r, s')"
  show "R s s'"
  proof (cases "m s")
    case (Pair x t)
    then have st: "R s t" by (rule preservesD [OF assms(1)])
    show ?thesis
    proof (cases x)
      case Panic
      with run Pair st show ?thesis by (simp add: bind_def)
    next
      case (Ret a)
      with run Pair have "f a t = (r, s')" by (simp add: bind_def)
      then have "R t s'" by (rule preservesD [OF assms(2)])
      with st show ?thesis by (rule trans)
    qed
  qed
qed

text \<open>The same with what the first step returned.\<close>

lemma bind_run:
  assumes "preserves R m" and "\<And>s a t. m s = (Ret a, t) \<Longrightarrow> preserves R (f a)"
  shows "preserves R (bind m f)"
  unfolding preserves_def
proof
  fix s
  obtain x t where m: "m s = (x, t)" by fastforce
  with assms(1) have "R s t" by (rule preservesD)
  then show "R s (snd (bind m f s))"
    using m assms(2) trans by (cases x) (auto simp: bind_def preserves_def)
qed

lemma fail: "preserves R (fail e)"
  by (simp add: fail_def ret)

lemma ok: "preserves R (ok a)"
  by (simp add: ok_def ret)

lemma deref: "(\<And>a. p = Some a \<Longrightarrow> preserves R (f a)) \<Longrightarrow> preserves R (deref p f)"
  by (cases p) (simp_all add: panic)

lemma index0: "(\<And>x ys. xs = x # ys \<Longrightarrow> preserves R (f x)) \<Longrightarrow> preserves R (index0 xs f)"
  by (cases xs) (simp_all add: panic)

lemma andThen: "preserves R m \<Longrightarrow> (\<And>a. preserves R (f a)) \<Longrightarrow> preserves R (andThen m f)"
  unfolding andThen_def by (rule bind) (auto split: sum.split intro: fail)

lemma andThenWrap: "preserves R m \<Longrightarrow> (\<And>a. preserves R (f a)) \<Longrightarrow> preserves R (andThenWrap msg m f)"
  unfolding andThenWrap_def by (rule bind) (auto split: sum.split intro: fail)

lemma andThenWrap_run:
  "preserves R m \<Longrightarrow> (\<And>s a t. m s = (Ret (Inr a), t) \<Longrightarrow> preserves R (f a)) \<Longrightarrow> preserves R (andThenWrap msg m f)"
  unfolding andThenWrap_def by (rule bind_run) (auto split: sum.split intro: fail)

lemma ite: "(b \<Longrightarrow> preserves R m) \<Longrightarrow> (\<not> b \<Longrightarrow> preserves R n) \<Longrightarrow> preserves R (if b then m else n)"
  by simp

lemma case_option:
  "(p = None \<Longrightarrow> preserves R m) \<Longrightarrow> (\<And>a. p = Some a \<Longrightarrow> preserves R (f a)) \<Longrightarrow>
   preserves R (case p of None \<Rightarrow> m | Some a \<Rightarrow> f a)"
  by (simp split: option.split)

lemma case_sum:
  "(\<And>e. p = Inl e \<Longrightarrow> preserves R (f e)) \<Longrightarrow> (\<And>a. p = Inr a \<Longrightarrow> preserves R (g a)) \<Longrightarrow>
   preserves R (case p of Inl e \<Rightarrow> f e | Inr a \<Rightarrow> g a)"
  by (simp split: sum.split)

lemma case_prod: "(\<And>a b. p = (a, b) \<Longrightarrow> preserves R (f a b)) \<Longrightarrow> preserves R (case p of (a, b) \<Rightarrow> f a b)"
  by (simp split: prod.split)

lemma let_in: "(\<And>x. x = a \<Longrightarrow> preserves R (f x)) \<Longrightarrow> preserves R (let x = a in f x)"
  by simp

lemmas frame_rules =
  ret panic bind fail ok deref index0 andThen andThenWrap ite case_option case_sum case_prod let_in

end

section \<open>Absence of panics\<close>

definition no_panic :: "('s, 'a) comp \<Rightarrow> bool" where
  "no_panic m \<longleftrightarrow> (\<forall>s. fst (m s) \<noteq> Panic)"

lemma no_panicD: "no_panic m \<Longrightarrow> \<exists>a s'. m s = (Ret a, s')"
  unfolding no_panic_def by (metis go.exhaust prod.collapse)

lemma no_panic_ret [simp]: "no_panic (ret a)" "no_panic (fail e)" "no_panic (ok b)"
  by (simp_all add: no_panic_def ret_def fail_def ok_def)

lemma no_panic_bind: "no_panic m \<Longrightarrow> (\<And>a. no_panic (f a)) \<Longrightarrow> no_panic (bind m f)"
  by (auto simp: no_panic_def bind_def split: prod.split go.split) (metis fst_conv)

lemma no_panic_andThen: "no_panic m \<Longrightarrow> (\<And>a. no_panic (f a)) \<Longrightarrow> no_panic (andThen m f)"
  unfolding andThen_def by (rule no_panic_bind) (auto split: sum.split)

lemma no_panic_andThenWrap: "no_panic m \<Longrightarrow> (\<And>a. no_panic (f a)) \<Longrightarrow> no_panic (andThenWrap msg m f)"
  unfolding andThenWrap_def by (rule no_panic_bind) (auto split: sum.split)

lemmas no_panic_rules = no_panic_ret no_panic_bind no_panic_andThen no_panic_andThenWrap

end
