(* ===== verification/Api_Types.thy ===== *)
theory Api_Types
  imports Go_Runtime
begin

text \<open>
  The data of the provider. First the Go structs of \<^verbatim>\<open>api/v1beta2\<close>, field by field (field names
  carry a short prefix per struct, because HOL record fields are global constants). Then the
  Kubernetes and Cluster API objects and the Waldur REST objects the controllers read: of those,
  only the fields the sources use. A Go pointer field is an \<open>option\<close>, a slice a list, a map an
  association list, \<^verbatim>\<open>int\<close> a 64-bit word.
\<close>

section \<open>Enumerations of the Waldur client\<close>

text \<open>
  String types of the Waldur client with the constants the sources name; any other string value is
  in the last constructor (the zero value is the empty string there).
\<close>

datatype OrderState =
    OrderStateDone | OrderStateErred | OrderStateCanceled | OrderStatePendingProvider
  | OrderStateOther string

datatype RequestTypes = Create | Terminate | RequestTypeOther string

datatype CoreStates = CoreStatesOK | CoreStatesERRED | CoreStatesCREATING | CoreStatesOther string

datatype ResourceState = ResourceStateOK | ResourceStateOther string

text \<open>The string behind a state, as the verb \<^verbatim>\<open>%s\<close> prints it.\<close>

primrec resourceStateString :: "ResourceState \<Rightarrow> string" where
  "resourceStateString ResourceStateOK = ''OK''"
| "resourceStateString (ResourceStateOther s) = s"

section \<open>The resources of the API group\<close>

datatype ClusterTopology = SingleDatacenter | MultiDatacenter

datatype NodeType = WorkerNode | StorageNode | ControlPlaneNode

record OpenstackInfrastructure =
  oi_Name :: string
  oi_CustomerName :: string
  oi_Uuid :: "string option"

record NodeGroupSpec =
  ng_Type :: NodeType
  ng_Flavor :: string
  ng_Count :: goint
  ng_DataDiskSize :: "goint option"
  ng_VsanDiskSize :: "goint option"

record DatacenterSpec =
  dc_OfferingSlug :: string
  dc_Name :: string
  dc_OpenstackInfrastructure :: OpenstackInfrastructure
  dc_NodeGroups :: "NodeGroupSpec list"

record SecurityRule =
  sr_Direction :: string
  sr_CIDR :: string
  sr_Port :: "string option"
  sr_Protocol :: "string option"

record APIEndpoint =
  ep_Host :: string
  ep_Port :: int

record WaldurClusterSpec =
  cs_KubernetesVersion :: string
  cs_Topology :: ClusterTopology
  cs_Datacenters :: "DatacenterSpec list"
  cs_SecurityRules :: "SecurityRule list"
  cs_ControlPlaneEndpoint :: APIEndpoint

record WaldurOrder =
  wo_Uuid :: string
  wo_Type :: RequestTypes
  wo_State :: OrderState
  wo_MarketplaceResourceUuid :: string
  wo_ResourceUuid :: "string option"

record OpenStackTenant =
  t_State :: CoreStates
  t_Uuid :: "string option"
  t_Name :: string
  t_MarketplaceResourceUuid :: string
  t_MarketplaceResourceState :: ResourceState
  t_ProjectSlug :: "string option"
  t_Order :: "WaldurOrder option"

datatype ConditionStatus = ConditionTrue | ConditionFalse | ConditionUnknown

record Condition =
  cond_Type :: string
  cond_Status :: ConditionStatus
  cond_Reason :: string
  cond_Message :: string

text \<open>\<^verbatim>\<open>WaldurClusterInitialization\<close> and \<^verbatim>\<open>WaldurMachineInitialization\<close> have the one field
  \<^verbatim>\<open>Provisioned *bool\<close>.\<close>

record WaldurClusterInitialization =
  ci_Provisioned :: "bool option"

record WaldurClusterStatus =
  cst_Conditions :: "Condition list"
  cst_Initialization :: "WaldurClusterInitialization option"
  cst_Tenants :: "(string, OpenStackTenant) gomap"

record OwnerReference =
  or_Kind :: string
  or_Name :: string

record ObjectMeta =
  om_Name :: string
  om_Namespace :: string
  om_Labels :: "(string, string) gomap"
  om_Finalizers :: "string list"
  om_OwnerReferences :: "OwnerReference list"
  om_DeletionTimestamp :: "int option"

record WaldurCluster =
  wc_Meta :: ObjectMeta
  wc_Spec :: WaldurClusterSpec
  wc_Status :: WaldurClusterStatus

record WaldurMachineSpec =
  ms_ProviderID :: "string option"
  ms_OfferingSlug :: string
  ms_NodeType :: NodeType
  ms_Flavor :: string
  ms_Image :: string
  ms_SystemDiskSize :: "goint option"
  ms_DataDiskSize :: "goint option"
  ms_VsanDiskSize :: "goint option"

record WaldurMachineInitialization =
  mi_Provisioned :: "bool option"

record WaldurMachineStatus =
  mst_Conditions :: "Condition list"
  mst_Initialization :: "WaldurMachineInitialization option"
  mst_VmUuid :: "string option"
  mst_State :: CoreStates
  mst_MarketplaceResourceUuid :: string
  mst_MarketplaceResourceState :: ResourceState
  mst_Order :: "WaldurOrder option"

record WaldurMachine =
  wm_Meta :: ObjectMeta
  wm_Spec :: WaldurMachineSpec
  wm_Status :: WaldurMachineStatus

record WaldurMachineTemplateResource =
  mtr_Meta :: ObjectMeta
  mtr_Spec :: WaldurMachineSpec

record WaldurMachineTemplateSpec =
  mts_Template :: WaldurMachineTemplateResource

record WaldurMachineTemplate =
  mt_Meta :: ObjectMeta
  mt_Spec :: WaldurMachineTemplateSpec

section \<open>Kubernetes and Cluster API objects\<close>

record NamespacedName =
  nn_Namespace :: string
  nn_Name :: string

abbreviation namespacedName :: "string \<Rightarrow> string \<Rightarrow> NamespacedName" where
  "namespacedName ns n \<equiv> \<lparr>nn_Namespace = ns, nn_Name = n\<rparr>"

text \<open>The CAPI \<^verbatim>\<open>v1beta1\<close> Machine and Cluster; the \<^verbatim>\<open>infrastructureRef\<close> is a pointer.\<close>

record Machine =
  ma_Meta :: ObjectMeta
  ma_ClusterName :: string
  ma_DataSecretName :: "string option"

record Cluster =
  cl_Meta :: ObjectMeta
  cl_InfrastructureRefName :: "string option"

record Secret =
  sec_Data :: "(string, string) gomap"

record ConfigMap =
  cm_Data :: "(string, string) gomap"

text \<open>\<^verbatim>\<open>DeletionTimestamp.IsZero()\<close>: nil and the zero time count as zero.\<close>

definition timeIsZero :: "int option \<Rightarrow> bool" where
  "timeIsZero t = (case t of None \<Rightarrow> True | Some x \<Rightarrow> x = 0)"

definition ClusterNameLabel :: string where
  "ClusterNameLabel = ''cluster.x-k8s.io/cluster-name''"

text \<open>\<^verbatim>\<open>ctrl.Result\<close> with its field \<^verbatim>\<open>RequeueAfter\<close>, in seconds; 0 means no requeue.\<close>

record Result =
  RequeueAfter :: nat

abbreviation requeueAfter :: "nat \<Rightarrow> Result" where
  "requeueAfter n \<equiv> \<lparr>RequeueAfter = n\<rparr>"

section \<open>Waldur REST objects\<close>

type_synonym uuid = "128 word"

text \<open>
  A response of the generated client: the HTTP status, the raw body, and the decoded body of the
  success status (\<^verbatim>\<open>JSON200\<close> or \<^verbatim>\<open>JSON201\<close>), nil otherwise.
\<close>

record 'a response =
  StatusCode :: nat
  Body :: string
  JSON :: "'a option"

record Customer =
  cus_Slug :: "string option"
  cus_Uuid :: "uuid option"
  cus_Url :: "string option"

record Project =
  prj_Slug :: "string option"
  prj_Uuid :: "uuid option"
  prj_Name :: "string option"
  prj_Url :: "string option"

record PublicOfferingDetails =
  off_Uuid :: "uuid option"
  off_Slug :: "string option"
  off_Url :: "string option"
  off_PlanUrls :: "string option list option"

record OpenStackFlavor =
  fl_Url :: "string option"
  fl_Cores :: "goint option"
  fl_Ram :: "goint option"

record OpenStackImage =
  img_Url :: "string option"

record OpenStackSecurityGroup =
  sg_Name :: "string option"
  sg_Url :: "string option"

record OpenStackSubNet =
  sn_Url :: "string option"

record OpenStackVolumeType =
  vt_Url :: "string option"

record SubresourceOffering =
  so_Uuid :: "uuid option"
  so_Type :: "string option"

record Resource =
  res_State :: "ResourceState option"
  res_Scope :: "string option"
  res_ResourceUuid :: "uuid option"

record OrderDetails =
  od_Uuid :: "uuid option"
  od_Type :: "RequestTypes option"
  od_State :: "OrderState option"
  od_MarketplaceResourceUuid :: "uuid option"
  od_ResourceUuid :: "uuid option"
  od_ResourceName :: "string option"

record OpenStackTenantDetails =
  ot_State :: "CoreStates option"
  ot_Name :: "string option"

record OpenStackInstance =
  ins_State :: "CoreStates option"
  ins_Uuid :: "uuid option"
  ins_RuntimeState :: "string option"
  ins_InternalIps :: "string list option"

record OrderUUID =
  ou_OrderUuid :: "uuid option"

text \<open>The attributes of the two kinds of create orders, and the order itself.\<close>

record OpenStackTenantCreateOrderAttributes =
  ta_Name :: string
  ta_SubnetCidr :: "string option"

record OpenStackInstanceCreateOrderAttributes =
  ia_Name :: string
  ia_Flavor :: "string option"
  ia_Image :: "string option"
  ia_SecurityGroups :: "string list"
  ia_Ports :: "string list"
  ia_FloatingIps :: "string list"
  ia_UserData :: "string option"
  ia_SystemVolumeSize :: "goint option"
  ia_DataVolumeSize :: "goint option"
  ia_SystemVolumeType :: "string option"
  ia_DataVolumeType :: "string option"

datatype OrderAttributes =
    TenantAttributes OpenStackTenantCreateOrderAttributes
  | InstanceAttributes OpenStackInstanceCreateOrderAttributes

record OrderCreateRequest =
  oc_Type :: RequestTypes
  oc_Offering :: string
  oc_Project :: string
  oc_Plan :: "string option"
  oc_Attributes :: OrderAttributes
  oc_Limits :: "(string, goint) gomap option"
  oc_AcceptingTermsOfService :: bool

record ProjectCreateRequest =
  pc_Name :: string
  pc_Customer :: string

text \<open>\<^verbatim>\<open>ProjectsListParams\<close>: the filters the sources set.\<close>

record ProjectsListParams =
  pl_NameExact :: "string option"
  pl_Customer :: "uuid list option"
  pl_Slug :: "string option"

end
