(* ===== verification/Platform.thy ===== *)
theory Platform
  imports Api_Types
begin

text \<open>
  The world outside the repository, as parameters. The Kubernetes API server behind the
  controller-runtime client, the Waldur REST API behind the generated Go client, the Vault server
  behind \<^verbatim>\<open>net/http\<close> and the file system are an environment \<open>env\<close> of oracles: each call is answered
  by a function of the history of all calls so far and of its arguments, so that a statement for
  every \<open>env\<close> is a statement for every behaviour of those services. The history is part of the
  world, and every call appends one \<open>event\<close> with its arguments and its answer: what the code does to
  the outside is what it appends. Pure third-party functions (UUID parsing and printing, the YAML
  codec, the condition and finalizer helpers) are the fields of \<open>lib\<close>.
\<close>

section \<open>The Vault client object\<close>

text \<open>
  The struct \<^verbatim>\<open>client\<close> of \<^verbatim>\<open>internal/vault/client.go\<close>. It is part of the world because the reconciler
  holds a pointer to one such object, whose token a login replaces.
\<close>

datatype authMethod = authMethodAppRole | authMethodKubernetes

record vault_client =
  vc_addr :: string
  vc_vaultToken :: string
  vc_method :: authMethod
  vc_k8sAuthPath :: string
  vc_k8sRole :: string
  vc_k8sTokenPath :: string
  vc_appRoleID :: string
  vc_appSecretID :: string

section \<open>HTTP and JSON\<close>

text \<open>
  A request body is the value that \<^verbatim>\<open>json.Marshal\<close> encodes (the keys of a Go map in sorted order). A
  response carries the value the JSON decoder reads from its body, or \<open>None\<close> when the body is not
  JSON.
\<close>

datatype json =
    JNull
  | JBool bool
  | JNumber string
  | JString string
  | JArray "json list"
  | JObject "(string \<times> json) list"

record http_request =
  rq_Method :: string
  rq_Url :: string
  rq_VaultToken :: "string option"
  rq_ContentType :: "string option"
  rq_Body :: "json option"

record http_response =
  rs_StatusCode :: nat
  rs_Body :: string
  rs_Json :: "json option"

section \<open>Events\<close>

datatype CustomerField = CustomerFieldUrl | CustomerFieldSlug | CustomerFieldUuid

datatype InstanceField = InstanceFieldState | InstanceFieldUuid | InstanceFieldRuntimeState | InstanceFieldInternalIps

text \<open>
  Calls of the controller-runtime client. The answer of a write is what the client leaves in
  the caller's variable, which it decodes the server's response into; it is unconstrained and may
  depend on the object sent. A patch carries the new object
  and the base of the merge patch (\<^verbatim>\<open>client.MergeFrom(base)\<close>); \<open>ListWaldurMachines\<close> carries the
  namespace and the value of the cluster-name label.
\<close>

datatype kube_event =
    GetWaldurMachine NamespacedName "error + WaldurMachine"
  | GetWaldurCluster NamespacedName "error + WaldurCluster"
  | GetMachine NamespacedName "error + Machine"
  | GetCluster NamespacedName "error + Cluster"
  | GetSecret NamespacedName "error + Secret"
  | GetConfigMap NamespacedName "error + ConfigMap"
  | ListWaldurMachines string string "error + WaldurMachine list"
  | UpdateWaldurMachine WaldurMachine "error + WaldurMachine"
  | PatchWaldurMachine WaldurMachine WaldurMachine "error + WaldurMachine"
  | PatchWaldurMachineStatus WaldurMachine WaldurMachine "error + WaldurMachine"
  | UpdateWaldurCluster WaldurCluster "error + WaldurCluster"
  | PatchWaldurClusterStatus WaldurCluster WaldurCluster "error + WaldurCluster"

text \<open>Calls of the Waldur client.\<close>

datatype waldur_event =
    CustomersList string "CustomerField list" "error + (Customer list) response"
  | ProjectsList ProjectsListParams "error + (Project list) response"
  | ProjectsCreate ProjectCreateRequest "error + Project response"
  | ProjectsDestroy uuid "error + unit response"
  | OpenstackFlavorsList "uuid option" string "error + (OpenStackFlavor list) response"
  | OpenstackImagesList "uuid option" string "error + (OpenStackImage list) response"
  | OpenstackSecurityGroupsList uuid "error + (OpenStackSecurityGroup list) response"
  | OpenstackSubnetsList uuid "error + (OpenStackSubNet list) response"
  | OpenstackVolumeTypesList uuid "error + (OpenStackVolumeType list) response"
  | MarketplacePublicOfferingsList string "error + (PublicOfferingDetails list) response"
  | MarketplacePublicOfferingsRetrieve uuid "error + PublicOfferingDetails response"
  | MarketplaceResourcesRetrieve uuid "error + Resource response"
  | MarketplaceResourcesOfferingForSubresourcesList uuid "error + (SubresourceOffering list) response"
  | MarketplaceResourcesTerminate uuid "error + OrderUUID response"
  | MarketplaceOrdersCreate OrderCreateRequest "error + OrderDetails response"
  | MarketplaceOrdersRetrieve uuid "error + OrderDetails response"
  | OpenstackTenantsRetrieve uuid "error + OpenStackTenantDetails response"
  | OpenstackInstancesRetrieve uuid "InstanceField list" "error + OpenStackInstance response"
  | OpenstackInstancesStop uuid "error + unit response"

text \<open>Calls of the operating system and of \<^verbatim>\<open>net/http\<close>.\<close>

datatype net_event =
    ReadFile string "error + string"
  | HttpSend http_request "error + http_response"

datatype event = KubeEv kube_event | WaldurEv waldur_event | NetEv net_event

section \<open>Environments\<close>

record kube_api =
  on_GetWaldurMachine :: "event list \<Rightarrow> NamespacedName \<Rightarrow> error + WaldurMachine"
  on_GetWaldurCluster :: "event list \<Rightarrow> NamespacedName \<Rightarrow> error + WaldurCluster"
  on_GetMachine :: "event list \<Rightarrow> NamespacedName \<Rightarrow> error + Machine"
  on_GetCluster :: "event list \<Rightarrow> NamespacedName \<Rightarrow> error + Cluster"
  on_GetSecret :: "event list \<Rightarrow> NamespacedName \<Rightarrow> error + Secret"
  on_GetConfigMap :: "event list \<Rightarrow> NamespacedName \<Rightarrow> error + ConfigMap"
  on_ListWaldurMachines :: "event list \<Rightarrow> string \<Rightarrow> string \<Rightarrow> error + WaldurMachine list"
  on_UpdateWaldurMachine :: "event list \<Rightarrow> WaldurMachine \<Rightarrow> error + WaldurMachine"
  on_PatchWaldurMachine :: "event list \<Rightarrow> WaldurMachine \<Rightarrow> WaldurMachine \<Rightarrow> error + WaldurMachine"
  on_PatchWaldurMachineStatus :: "event list \<Rightarrow> WaldurMachine \<Rightarrow> WaldurMachine \<Rightarrow> error + WaldurMachine"
  on_UpdateWaldurCluster :: "event list \<Rightarrow> WaldurCluster \<Rightarrow> error + WaldurCluster"
  on_PatchWaldurClusterStatus :: "event list \<Rightarrow> WaldurCluster \<Rightarrow> WaldurCluster \<Rightarrow> error + WaldurCluster"

record waldur_api =
  on_CustomersList :: "event list \<Rightarrow> string \<Rightarrow> CustomerField list \<Rightarrow> error + (Customer list) response"
  on_ProjectsList :: "event list \<Rightarrow> ProjectsListParams \<Rightarrow> error + (Project list) response"
  on_ProjectsCreate :: "event list \<Rightarrow> ProjectCreateRequest \<Rightarrow> error + Project response"
  on_ProjectsDestroy :: "event list \<Rightarrow> uuid \<Rightarrow> error + unit response"
  on_OpenstackFlavorsList :: "event list \<Rightarrow> uuid option \<Rightarrow> string \<Rightarrow> error + (OpenStackFlavor list) response"
  on_OpenstackImagesList :: "event list \<Rightarrow> uuid option \<Rightarrow> string \<Rightarrow> error + (OpenStackImage list) response"
  on_OpenstackSecurityGroupsList :: "event list \<Rightarrow> uuid \<Rightarrow> error + (OpenStackSecurityGroup list) response"
  on_OpenstackSubnetsList :: "event list \<Rightarrow> uuid \<Rightarrow> error + (OpenStackSubNet list) response"
  on_OpenstackVolumeTypesList :: "event list \<Rightarrow> uuid \<Rightarrow> error + (OpenStackVolumeType list) response"
  on_MarketplacePublicOfferingsList :: "event list \<Rightarrow> string \<Rightarrow> error + (PublicOfferingDetails list) response"
  on_MarketplacePublicOfferingsRetrieve :: "event list \<Rightarrow> uuid \<Rightarrow> error + PublicOfferingDetails response"
  on_MarketplaceResourcesRetrieve :: "event list \<Rightarrow> uuid \<Rightarrow> error + Resource response"
  on_MarketplaceResourcesOfferingForSubresourcesList :: "event list \<Rightarrow> uuid \<Rightarrow> error + (SubresourceOffering list) response"
  on_MarketplaceResourcesTerminate :: "event list \<Rightarrow> uuid \<Rightarrow> error + OrderUUID response"
  on_MarketplaceOrdersCreate :: "event list \<Rightarrow> OrderCreateRequest \<Rightarrow> error + OrderDetails response"
  on_MarketplaceOrdersRetrieve :: "event list \<Rightarrow> uuid \<Rightarrow> error + OrderDetails response"
  on_OpenstackTenantsRetrieve :: "event list \<Rightarrow> uuid \<Rightarrow> error + OpenStackTenantDetails response"
  on_OpenstackInstancesRetrieve :: "event list \<Rightarrow> uuid \<Rightarrow> InstanceField list \<Rightarrow> error + OpenStackInstance response"
  on_OpenstackInstancesStop :: "event list \<Rightarrow> uuid \<Rightarrow> error + unit response"

record net_api =
  on_ReadFile :: "event list \<Rightarrow> string \<Rightarrow> error + string"
  on_HttpSend :: "event list \<Rightarrow> http_request \<Rightarrow> error + http_response"

text \<open>
  \<open>env_newRequest\<close> is the check of \<^verbatim>\<open>http.NewRequestWithContext\<close> on a method and a URL.
\<close>

record env =
  env_kube :: kube_api
  env_waldur :: waldur_api
  env_net :: net_api
  env_newRequest :: "string \<Rightarrow> string \<Rightarrow> error option"

section \<open>Computations over the world\<close>

record world =
  hist :: "event list"
  vault :: vault_client

type_synonym 'a io = "(world, 'a) comp"

definition perform :: "(event list \<Rightarrow> 'r) \<Rightarrow> ('r \<Rightarrow> event) \<Rightarrow> 'r io" where
  "perform oracle mk = (\<lambda>w. let r = oracle (hist w) in (Ret r, w\<lparr>hist := hist w @ [mk r]\<rparr>))"

definition k_GetWaldurMachine :: "env \<Rightarrow> NamespacedName \<Rightarrow> (error + WaldurMachine) io" where
  "k_GetWaldurMachine E x = perform (\<lambda>h. on_GetWaldurMachine (env_kube E) h x) (\<lambda>r. KubeEv (GetWaldurMachine x r))"

definition k_GetWaldurCluster :: "env \<Rightarrow> NamespacedName \<Rightarrow> (error + WaldurCluster) io" where
  "k_GetWaldurCluster E x = perform (\<lambda>h. on_GetWaldurCluster (env_kube E) h x) (\<lambda>r. KubeEv (GetWaldurCluster x r))"

definition k_GetMachine :: "env \<Rightarrow> NamespacedName \<Rightarrow> (error + Machine) io" where
  "k_GetMachine E x = perform (\<lambda>h. on_GetMachine (env_kube E) h x) (\<lambda>r. KubeEv (GetMachine x r))"

definition k_GetCluster :: "env \<Rightarrow> NamespacedName \<Rightarrow> (error + Cluster) io" where
  "k_GetCluster E x = perform (\<lambda>h. on_GetCluster (env_kube E) h x) (\<lambda>r. KubeEv (GetCluster x r))"

definition k_GetSecret :: "env \<Rightarrow> NamespacedName \<Rightarrow> (error + Secret) io" where
  "k_GetSecret E x = perform (\<lambda>h. on_GetSecret (env_kube E) h x) (\<lambda>r. KubeEv (GetSecret x r))"

definition k_GetConfigMap :: "env \<Rightarrow> NamespacedName \<Rightarrow> (error + ConfigMap) io" where
  "k_GetConfigMap E x = perform (\<lambda>h. on_GetConfigMap (env_kube E) h x) (\<lambda>r. KubeEv (GetConfigMap x r))"

definition k_ListWaldurMachines :: "env \<Rightarrow> string \<Rightarrow> string \<Rightarrow> (error + WaldurMachine list) io" where
  "k_ListWaldurMachines E x y = perform (\<lambda>h. on_ListWaldurMachines (env_kube E) h x y) (\<lambda>r. KubeEv (ListWaldurMachines x y r))"

definition k_UpdateWaldurMachine :: "env \<Rightarrow> WaldurMachine \<Rightarrow> (error + WaldurMachine) io" where
  "k_UpdateWaldurMachine E x = perform (\<lambda>h. on_UpdateWaldurMachine (env_kube E) h x) (\<lambda>r. KubeEv (UpdateWaldurMachine x r))"

definition k_PatchWaldurMachine :: "env \<Rightarrow> WaldurMachine \<Rightarrow> WaldurMachine \<Rightarrow> (error + WaldurMachine) io" where
  "k_PatchWaldurMachine E x y = perform (\<lambda>h. on_PatchWaldurMachine (env_kube E) h x y) (\<lambda>r. KubeEv (PatchWaldurMachine x y r))"

definition k_PatchWaldurMachineStatus :: "env \<Rightarrow> WaldurMachine \<Rightarrow> WaldurMachine \<Rightarrow> (error + WaldurMachine) io" where
  "k_PatchWaldurMachineStatus E x y = perform (\<lambda>h. on_PatchWaldurMachineStatus (env_kube E) h x y) (\<lambda>r. KubeEv (PatchWaldurMachineStatus x y r))"

definition k_UpdateWaldurCluster :: "env \<Rightarrow> WaldurCluster \<Rightarrow> (error + WaldurCluster) io" where
  "k_UpdateWaldurCluster E x = perform (\<lambda>h. on_UpdateWaldurCluster (env_kube E) h x) (\<lambda>r. KubeEv (UpdateWaldurCluster x r))"

definition k_PatchWaldurClusterStatus :: "env \<Rightarrow> WaldurCluster \<Rightarrow> WaldurCluster \<Rightarrow> (error + WaldurCluster) io" where
  "k_PatchWaldurClusterStatus E x y = perform (\<lambda>h. on_PatchWaldurClusterStatus (env_kube E) h x y) (\<lambda>r. KubeEv (PatchWaldurClusterStatus x y r))"

definition w_CustomersList :: "env \<Rightarrow> string \<Rightarrow> CustomerField list \<Rightarrow> (error + (Customer list) response) io" where
  "w_CustomersList E x y = perform (\<lambda>h. on_CustomersList (env_waldur E) h x y) (\<lambda>r. WaldurEv (CustomersList x y r))"

definition w_ProjectsList :: "env \<Rightarrow> ProjectsListParams \<Rightarrow> (error + (Project list) response) io" where
  "w_ProjectsList E x = perform (\<lambda>h. on_ProjectsList (env_waldur E) h x) (\<lambda>r. WaldurEv (ProjectsList x r))"

definition w_ProjectsCreate :: "env \<Rightarrow> ProjectCreateRequest \<Rightarrow> (error + Project response) io" where
  "w_ProjectsCreate E x = perform (\<lambda>h. on_ProjectsCreate (env_waldur E) h x) (\<lambda>r. WaldurEv (ProjectsCreate x r))"

definition w_ProjectsDestroy :: "env \<Rightarrow> uuid \<Rightarrow> (error + unit response) io" where
  "w_ProjectsDestroy E x = perform (\<lambda>h. on_ProjectsDestroy (env_waldur E) h x) (\<lambda>r. WaldurEv (ProjectsDestroy x r))"

definition w_OpenstackFlavorsList :: "env \<Rightarrow> uuid option \<Rightarrow> string \<Rightarrow> (error + (OpenStackFlavor list) response) io" where
  "w_OpenstackFlavorsList E x y = perform (\<lambda>h. on_OpenstackFlavorsList (env_waldur E) h x y) (\<lambda>r. WaldurEv (OpenstackFlavorsList x y r))"

definition w_OpenstackImagesList :: "env \<Rightarrow> uuid option \<Rightarrow> string \<Rightarrow> (error + (OpenStackImage list) response) io" where
  "w_OpenstackImagesList E x y = perform (\<lambda>h. on_OpenstackImagesList (env_waldur E) h x y) (\<lambda>r. WaldurEv (OpenstackImagesList x y r))"

definition w_OpenstackSecurityGroupsList :: "env \<Rightarrow> uuid \<Rightarrow> (error + (OpenStackSecurityGroup list) response) io" where
  "w_OpenstackSecurityGroupsList E x = perform (\<lambda>h. on_OpenstackSecurityGroupsList (env_waldur E) h x) (\<lambda>r. WaldurEv (OpenstackSecurityGroupsList x r))"

definition w_OpenstackSubnetsList :: "env \<Rightarrow> uuid \<Rightarrow> (error + (OpenStackSubNet list) response) io" where
  "w_OpenstackSubnetsList E x = perform (\<lambda>h. on_OpenstackSubnetsList (env_waldur E) h x) (\<lambda>r. WaldurEv (OpenstackSubnetsList x r))"

definition w_OpenstackVolumeTypesList :: "env \<Rightarrow> uuid \<Rightarrow> (error + (OpenStackVolumeType list) response) io" where
  "w_OpenstackVolumeTypesList E x = perform (\<lambda>h. on_OpenstackVolumeTypesList (env_waldur E) h x) (\<lambda>r. WaldurEv (OpenstackVolumeTypesList x r))"

definition w_MarketplacePublicOfferingsList :: "env \<Rightarrow> string \<Rightarrow> (error + (PublicOfferingDetails list) response) io" where
  "w_MarketplacePublicOfferingsList E x = perform (\<lambda>h. on_MarketplacePublicOfferingsList (env_waldur E) h x) (\<lambda>r. WaldurEv (MarketplacePublicOfferingsList x r))"

definition w_MarketplacePublicOfferingsRetrieve :: "env \<Rightarrow> uuid \<Rightarrow> (error + PublicOfferingDetails response) io" where
  "w_MarketplacePublicOfferingsRetrieve E x = perform (\<lambda>h. on_MarketplacePublicOfferingsRetrieve (env_waldur E) h x) (\<lambda>r. WaldurEv (MarketplacePublicOfferingsRetrieve x r))"

definition w_MarketplaceResourcesRetrieve :: "env \<Rightarrow> uuid \<Rightarrow> (error + Resource response) io" where
  "w_MarketplaceResourcesRetrieve E x = perform (\<lambda>h. on_MarketplaceResourcesRetrieve (env_waldur E) h x) (\<lambda>r. WaldurEv (MarketplaceResourcesRetrieve x r))"

definition w_MarketplaceResourcesOfferingForSubresourcesList :: "env \<Rightarrow> uuid \<Rightarrow> (error + (SubresourceOffering list) response) io" where
  "w_MarketplaceResourcesOfferingForSubresourcesList E x = perform (\<lambda>h. on_MarketplaceResourcesOfferingForSubresourcesList (env_waldur E) h x) (\<lambda>r. WaldurEv (MarketplaceResourcesOfferingForSubresourcesList x r))"

definition w_MarketplaceResourcesTerminate :: "env \<Rightarrow> uuid \<Rightarrow> (error + OrderUUID response) io" where
  "w_MarketplaceResourcesTerminate E x = perform (\<lambda>h. on_MarketplaceResourcesTerminate (env_waldur E) h x) (\<lambda>r. WaldurEv (MarketplaceResourcesTerminate x r))"

definition w_MarketplaceOrdersCreate :: "env \<Rightarrow> OrderCreateRequest \<Rightarrow> (error + OrderDetails response) io" where
  "w_MarketplaceOrdersCreate E x = perform (\<lambda>h. on_MarketplaceOrdersCreate (env_waldur E) h x) (\<lambda>r. WaldurEv (MarketplaceOrdersCreate x r))"

definition w_MarketplaceOrdersRetrieve :: "env \<Rightarrow> uuid \<Rightarrow> (error + OrderDetails response) io" where
  "w_MarketplaceOrdersRetrieve E x = perform (\<lambda>h. on_MarketplaceOrdersRetrieve (env_waldur E) h x) (\<lambda>r. WaldurEv (MarketplaceOrdersRetrieve x r))"

definition w_OpenstackTenantsRetrieve :: "env \<Rightarrow> uuid \<Rightarrow> (error + OpenStackTenantDetails response) io" where
  "w_OpenstackTenantsRetrieve E x = perform (\<lambda>h. on_OpenstackTenantsRetrieve (env_waldur E) h x) (\<lambda>r. WaldurEv (OpenstackTenantsRetrieve x r))"

definition w_OpenstackInstancesRetrieve :: "env \<Rightarrow> uuid \<Rightarrow> InstanceField list \<Rightarrow> (error + OpenStackInstance response) io" where
  "w_OpenstackInstancesRetrieve E x y = perform (\<lambda>h. on_OpenstackInstancesRetrieve (env_waldur E) h x y) (\<lambda>r. WaldurEv (OpenstackInstancesRetrieve x y r))"

definition w_OpenstackInstancesStop :: "env \<Rightarrow> uuid \<Rightarrow> (error + unit response) io" where
  "w_OpenstackInstancesStop E x = perform (\<lambda>h. on_OpenstackInstancesStop (env_waldur E) h x) (\<lambda>r. WaldurEv (OpenstackInstancesStop x r))"

definition n_ReadFile :: "env \<Rightarrow> string \<Rightarrow> (error + string) io" where
  "n_ReadFile E x = perform (\<lambda>h. on_ReadFile (env_net E) h x) (\<lambda>r. NetEv (ReadFile x r))"

definition n_HttpSend :: "env \<Rightarrow> http_request \<Rightarrow> (error + http_response) io" where
  "n_HttpSend E x = perform (\<lambda>h. on_HttpSend (env_net E) h x) (\<lambda>r. NetEv (HttpSend x r))"

section \<open>Third-party pure functions\<close>

text \<open>The \<^verbatim>\<open>any\<close> values YAML documents decode to.\<close>

datatype any =
    AnyNil
  | AnyBool bool
  | AnyInt int
  | AnyString string
  | AnySlice "any list"
  | AnyMap "(string \<times> any) list"
  | AnyOther string

record CloudInitFile =
  f_Path :: string
  f_Content :: string
  f_Permissions :: string
  f_Owner :: string
  f_Encoding :: string

record CloudInit =
  ci_WriteFiles :: "CloudInitFile list"
  ci_RunCmd :: "any list"
  ci_BootCmd :: "any list"

record lib =
  uuid_Parse :: "string \<Rightarrow> error + uuid"
  uuid_String :: "uuid \<Rightarrow> string"
  SetStatusCondition :: "Condition list \<Rightarrow> Condition \<Rightarrow> Condition list"
  ContainsFinalizer :: "string list \<Rightarrow> string \<Rightarrow> bool"
  AddFinalizer :: "string list \<Rightarrow> string \<Rightarrow> string list"
  RemoveFinalizer :: "string list \<Rightarrow> string \<Rightarrow> string list"
  yaml_UnmarshalCloudInit :: "string \<Rightarrow> error + CloudInit"
  yaml_MarshalCloudInit :: "CloudInit \<Rightarrow> error + string"
  yaml_UnmarshalMap :: "string \<Rightarrow> error + (string, any) gomap"
  yaml_MarshalMap :: "(string, any) gomap \<Rightarrow> error + string"
  FromTenantAttributes :: "OpenStackTenantCreateOrderAttributes \<Rightarrow> error option"
  FromInstanceAttributes :: "OpenStackInstanceCreateOrderAttributes \<Rightarrow> error option"

text \<open>What the documentation of those packages promises, where a property relies on it.\<close>

definition uuid_codec :: "lib \<Rightarrow> bool" where
  "uuid_codec L \<longleftrightarrow> (\<forall>u. uuid_Parse L (uuid_String L u) = Inr u \<and> uuid_String L u \<noteq> [])"

definition lookupCondition :: "Condition list \<Rightarrow> string \<Rightarrow> Condition option" where
  "lookupCondition cs ty = find (\<lambda>c. cond_Type c = ty) cs"

definition condition_setter :: "lib \<Rightarrow> bool" where
  "condition_setter L \<longleftrightarrow> (\<forall>cs c. lookupCondition (SetStatusCondition L cs c) (cond_Type c) = Some c)"

definition finalizer_ops :: "lib \<Rightarrow> bool" where
  "finalizer_ops L \<longleftrightarrow> (\<forall>fs f.
     (ContainsFinalizer L fs f \<longleftrightarrow> f \<in> set fs) \<and>
     set (AddFinalizer L fs f) = insert f (set fs) \<and>
     set (RemoveFinalizer L fs f) = set fs - {f})"

section \<open>Events a computation may emit\<close>

lemmas prim_defs =
  k_GetWaldurMachine_def k_GetWaldurCluster_def k_GetMachine_def k_GetCluster_def k_GetSecret_def
  k_GetConfigMap_def k_ListWaldurMachines_def k_UpdateWaldurMachine_def k_PatchWaldurMachine_def
  k_PatchWaldurMachineStatus_def k_UpdateWaldurCluster_def k_PatchWaldurClusterStatus_def
  w_CustomersList_def w_ProjectsList_def w_ProjectsCreate_def w_ProjectsDestroy_def
  w_OpenstackFlavorsList_def w_OpenstackImagesList_def w_OpenstackSecurityGroupsList_def
  w_OpenstackSubnetsList_def w_OpenstackVolumeTypesList_def w_MarketplacePublicOfferingsList_def
  w_MarketplacePublicOfferingsRetrieve_def w_MarketplaceResourcesRetrieve_def
  w_MarketplaceResourcesOfferingForSubresourcesList_def w_MarketplaceResourcesTerminate_def
  w_MarketplaceOrdersCreate_def w_MarketplaceOrdersRetrieve_def w_OpenstackTenantsRetrieve_def
  w_OpenstackInstancesRetrieve_def w_OpenstackInstancesStop_def n_ReadFile_def n_HttpSend_def

definition extends :: "(event \<Rightarrow> bool) \<Rightarrow> world \<Rightarrow> world \<Rightarrow> bool" where
  "extends P w w' \<longleftrightarrow> (\<exists>es. hist w' = hist w @ es \<and> list_all P es)"

abbreviation emits :: "(event \<Rightarrow> bool) \<Rightarrow> 'a io \<Rightarrow> bool" where
  "emits P \<equiv> preserves (extends P)"

interpretation ext: frame "extends P" for P
proof unfold_locales
  fix w
  show "extends P w w" by (simp add: extends_def)
next
  fix w v u
  assume "extends P w v" and "extends P v u"
  then show "extends P w u" by (auto simp: extends_def)
qed

named_theorems emits_prims \<open>which events a call emits\<close>

lemma emits_perform [emits_prims]: "(\<And>r. P (mk r)) \<Longrightarrow> emits P (perform f mk)"
  by (auto simp: preserves_def perform_def extends_def Let_def)

lemma emits_mono: "emits P m \<Longrightarrow> (\<And>e. P e \<Longrightarrow> Q e) \<Longrightarrow> emits Q m"
  by (erule preserves_mono) (auto simp: extends_def list.pred_mono_strong)

lemma emitsD:
  assumes "emits P m" and "m w = (r, w')"
  obtains es where "hist w' = hist w @ es" and "list_all P es"
  using preservesD [OF assms] by (auto simp: extends_def)

lemma emits_event:
  "emits P m \<Longrightarrow> m w = (r, w') \<Longrightarrow> hist w' = hist w @ es \<Longrightarrow> e \<in> set es \<Longrightarrow> P e"
  by (elim emitsD) (auto simp: list_all_iff)

text \<open>An event the first step cannot emit was emitted by the rest, which therefore ran.\<close>

lemma later_event_bind:
  assumes "emits P m" and "\<not> P e" and rest: "\<And>a. emits Q (f a)"
    and run: "bind m f w = (res, w')" and es: "hist w' = hist w @ es" and ev: "e \<in> set es"
  obtains a u fs where "m w = (Ret a, u)" and "f a u = (res, w')" and "hist w' = hist u @ fs" and "e \<in> set fs"
proof -
  obtain x u where m: "m w = (x, u)" by fastforce
  from emitsD [OF assms(1) m] obtain es1 where es1: "hist u = hist w @ es1" "list_all P es1" .
  with assms(2) have none: "e \<notin> set es1" by (auto simp: list_all_iff)
  show ?thesis
  proof (cases x)
    case Panic
    with run m es es1(1) none ev show ?thesis by (simp add: bind_def)
  next
    case (Ret a)
    with run m have f: "f a u = (res, w')" by (simp add: bind_def)
    from emitsD [OF rest f] obtain fs where "hist w' = hist u @ fs" by blast
    with es es1(1) none ev m Ret f that show ?thesis by auto
  qed
qed

lemma later_event:
  assumes "emits P m" and "\<not> P e" and rest: "\<And>a. emits Q (f a)"
    and run: "andThen m f w = (res, w')" and es: "hist w' = hist w @ es" and ev: "e \<in> set es"
  obtains a u fs where "m w = (Ret (Inr a), u)" and "f a u = (res, w')" and "hist w' = hist u @ fs" and "e \<in> set fs"
proof -
  have any: "emits (\<lambda>_. True) (case r of Inl e \<Rightarrow> fail e | Inr a \<Rightarrow> f a)" for r
    by (cases r) (auto intro: ext.fail emits_mono [OF rest])
  obtain r u fs where "m w = (Ret r, u)" "(case r of Inl e \<Rightarrow> fail e | Inr a \<Rightarrow> f a) u = (res, w')"
    "hist w' = hist u @ fs" "e \<in> set fs"
    by (rule later_event_bind [OF assms(1,2) any run [unfolded andThen_def] es ev])
  with that show ?thesis by (cases r) (auto simp: fail_def ret_def)
qed

lemma later_event_wrap:
  assumes "emits P m" and "\<not> P e" and rest: "\<And>a. emits Q (f a)"
    and run: "andThenWrap msg m f w = (res, w')" and es: "hist w' = hist w @ es" and ev: "e \<in> set es"
  obtains a u fs where "m w = (Ret (Inr a), u)" and "f a u = (res, w')" and "hist w' = hist u @ fs" and "e \<in> set fs"
proof -
  have any: "emits (\<lambda>_. True) (case r of Inl e \<Rightarrow> fail (Wrap msg e) | Inr a \<Rightarrow> f a)" for r
    by (cases r) (auto intro: ext.fail emits_mono [OF rest])
  obtain r u fs where "m w = (Ret r, u)" "(case r of Inl e \<Rightarrow> fail (Wrap msg e) | Inr a \<Rightarrow> f a) u = (res, w')"
    "hist w' = hist u @ fs" "e \<in> set fs"
    by (rule later_event_bind [OF assms(1,2) any run [unfolded andThenWrap_def] es ev])
  with that show ?thesis by (cases r) (auto simp: fail_def ret_def)
qed

lemma perform_eq [go_inv]:
  "perform f mk w = (r, w') \<longleftrightarrow> Ret (f (hist w)) = r \<and> w' = w\<lparr>hist := hist w @ [mk (f (hist w))]\<rparr>"
  by (auto simp: perform_def Let_def)

lemma no_panic_perform [simp]: "no_panic (perform f mk)"
  by (simp add: no_panic_def perform_def Let_def)

text \<open>Calls never touch the Vault client object.\<close>

definition same_vault :: "world \<Rightarrow> world \<Rightarrow> bool" where
  "same_vault w w' \<longleftrightarrow> vault w' = vault w"

interpretation sv: frame same_vault
  by unfold_locales (simp_all add: same_vault_def)

lemma same_vault_perform: "preserves same_vault (perform f mk)"
  by (simp add: preserves_def perform_def same_vault_def Let_def)

section \<open>Counting events\<close>

text \<open>\<open>at_most P n m\<close>: a run of \<open>m\<close> appends at most \<open>n\<close> events with \<open>P\<close>.\<close>

definition at_most :: "(event \<Rightarrow> bool) \<Rightarrow> nat \<Rightarrow> 'a io \<Rightarrow> bool" where
  "at_most P n m \<longleftrightarrow> (\<forall>w. \<exists>es. hist (snd (m w)) = hist w @ es \<and> length (filter P es) \<le> n)"

lemma at_most_emits: "emits Q m \<Longrightarrow> (\<And>e. Q e \<Longrightarrow> \<not> P e) \<Longrightarrow> at_most P 0 m"
  by (auto simp: at_most_def preserves_def extends_def filter_empty_conv list_all_iff) metis

lemma at_most_perform: "at_most P 1 (perform f mk)"
  by (simp add: at_most_def perform_def Let_def)

lemma at_most_mono: "at_most P n m \<Longrightarrow> n \<le> k \<Longrightarrow> at_most P k m"
  by (auto simp: at_most_def) (meson order_trans)

lemma at_mostD:
  assumes "at_most P n m" and "m w = (r, w')"
  obtains es where "hist w' = hist w @ es" and "length (filter P es) \<le> n"
  using assms by (auto simp: at_most_def) (metis snd_conv)

lemma at_most_bind:
  assumes "at_most P j m" and "\<And>a. at_most P k (f a)"
  shows "at_most P (j + k) (bind m f)"
  unfolding at_most_def
proof
  fix w
  obtain x t where m: "m w = (x, t)" by (cases "m w")
  with assms(1) obtain es where es: "hist t = hist w @ es" "length (filter P es) \<le> j" by (rule at_mostD)
  show "\<exists>es. hist (snd (bind m f w)) = hist w @ es \<and> length (filter P es) \<le> j + k"
  proof (cases x)
    case Panic
    with m es show ?thesis by (auto simp: bind_def)
  next
    case (Ret a)
    obtain y u where f: "f a t = (y, u)" by (cases "f a t")
    with assms(2) obtain fs where "hist u = hist t @ fs" "length (filter P fs) \<le> k" by (rule at_mostD)
    with Ret m f es show ?thesis by (intro exI [of _ "es @ fs"]) (simp add: bind_def)
  qed
qed

lemma at_most_ret: "at_most P 0 (ret a)" "at_most P 0 (fail e)" "at_most P 0 (ok b)" "at_most P 0 panic"
  by (simp_all add: at_most_def ret_def fail_def ok_def panic_def)

lemma at_most_andThen:
  "at_most P j m \<Longrightarrow> (\<And>a. at_most P k (f a)) \<Longrightarrow> at_most P (j + k) (andThen m f)"
  unfolding andThen_def
  by (rule at_most_bind) (auto split: sum.split intro: at_most_mono [OF at_most_ret(2)])

lemma at_most_andThenWrap:
  "at_most P j m \<Longrightarrow> (\<And>a. at_most P k (f a)) \<Longrightarrow> at_most P (j + k) (andThenWrap msg m f)"
  unfolding andThenWrap_def
  by (rule at_most_bind) (auto split: sum.split intro: at_most_mono [OF at_most_ret(2)])

text \<open>Steps before the counted part that emit no such event, and branches.\<close>

lemma at_most_steps:
  "at_most P 0 m \<Longrightarrow> (\<And>a. at_most P k (f a)) \<Longrightarrow> at_most P k (andThenWrap msg m f)"
  "at_most P 0 m \<Longrightarrow> (\<And>a. at_most P k (f a)) \<Longrightarrow> at_most P k (andThen m f)"
  "at_most P 0 n \<Longrightarrow> (\<And>b. at_most P k (g b)) \<Longrightarrow> at_most P k (bind n g)"
  "(\<And>c. q = Some c \<Longrightarrow> at_most P k (d c)) \<Longrightarrow> at_most P k (deref q d)"
  "(b \<Longrightarrow> at_most P k m') \<Longrightarrow> (\<not> b \<Longrightarrow> at_most P k n') \<Longrightarrow> at_most P k (if b then m' else n')"
  "at_most P k (h x) \<Longrightarrow> at_most P k (let y = x in h y)"
  using at_most_andThenWrap [of P 0 m k f msg] at_most_andThen [of P 0 m k f] at_most_bind [of P 0 n k g]
  by (auto simp: deref_def split: option.split intro: at_most_mono [OF at_most_ret(4)])

lemma at_most_branches:
  "at_most P k (ret a)" "at_most P k (fail e)" "at_most P k (ok b)"
  "(\<And>x ys. xs = x # ys \<Longrightarrow> at_most P k (f x)) \<Longrightarrow> at_most P k (index0 xs f)"
  "(p = None \<Longrightarrow> at_most P k m) \<Longrightarrow> (\<And>c. p = Some c \<Longrightarrow> at_most P k (g c)) \<Longrightarrow>
     at_most P k (case p of None \<Rightarrow> m | Some c \<Rightarrow> g c)"
  "(\<And>e'. q = Inl e' \<Longrightarrow> at_most P k (h e')) \<Longrightarrow> (\<And>c. q = Inr c \<Longrightarrow> at_most P k (i c)) \<Longrightarrow>
     at_most P k (case q of Inl e' \<Rightarrow> h e' | Inr c \<Rightarrow> i c)"
  "(\<And>c d. x = (c, d) \<Longrightarrow> at_most P k (j c d)) \<Longrightarrow> at_most P k (case x of (c, d) \<Rightarrow> j c d)"
  using at_most_mono [OF at_most_ret(1)] at_most_mono [OF at_most_ret(2)] at_most_mono [OF at_most_ret(3)]
    at_most_mono [OF at_most_ret(4)]
  by (auto simp: index0_def split: list.split option.split sum.split prod.split)

end
