(* ===== verification/Sample_Env.thy ===== *)
theory Sample_Env
  imports Platform
begin

text \<open>
  Concrete instances of the parameters, for evaluating the model on concrete inputs. In \<open>env_down\<close>
  every service answers every call with an error; a sample environment overrides the calls it
  needs. \<open>lib_sample\<close> has UUIDs in unary notation, finalizers and conditions as plain lists, and no
  YAML; samples that need YAML documents override the codec by a table.
\<close>

definition kube_down :: kube_api where
  "kube_down = \<lparr>
     on_GetWaldurMachine = (\<lambda>_ _. Inl ErrNotFound), on_GetWaldurCluster = (\<lambda>_ _. Inl ErrNotFound),
     on_GetMachine = (\<lambda>_ _. Inl ErrNotFound), on_GetCluster = (\<lambda>_ _. Inl ErrNotFound),
     on_GetSecret = (\<lambda>_ _. Inl ErrNotFound), on_GetConfigMap = (\<lambda>_ _. Inl ErrNotFound),
     on_ListWaldurMachines = (\<lambda>_ _ _. Inl (ErrExternal [])),
     on_UpdateWaldurMachine = (\<lambda>_ _. Inl (ErrExternal [])),
     on_PatchWaldurMachine = (\<lambda>_ _ _. Inl (ErrExternal [])),
     on_PatchWaldurMachineStatus = (\<lambda>_ _ _. Inl (ErrExternal [])),
     on_UpdateWaldurCluster = (\<lambda>_ _. Inl (ErrExternal [])),
     on_PatchWaldurClusterStatus = (\<lambda>_ _ _. Inl (ErrExternal []))\<rparr>"

definition waldur_down :: waldur_api where
  "waldur_down = \<lparr>
     on_CustomersList = (\<lambda>_ _ _. Inl (ErrExternal [])), on_ProjectsList = (\<lambda>_ _. Inl (ErrExternal [])),
     on_ProjectsCreate = (\<lambda>_ _. Inl (ErrExternal [])), on_ProjectsDestroy = (\<lambda>_ _. Inl (ErrExternal [])),
     on_OpenstackFlavorsList = (\<lambda>_ _ _. Inl (ErrExternal [])),
     on_OpenstackImagesList = (\<lambda>_ _ _. Inl (ErrExternal [])),
     on_OpenstackSecurityGroupsList = (\<lambda>_ _. Inl (ErrExternal [])),
     on_OpenstackSubnetsList = (\<lambda>_ _. Inl (ErrExternal [])),
     on_OpenstackVolumeTypesList = (\<lambda>_ _. Inl (ErrExternal [])),
     on_MarketplacePublicOfferingsList = (\<lambda>_ _. Inl (ErrExternal [])),
     on_MarketplacePublicOfferingsRetrieve = (\<lambda>_ _. Inl (ErrExternal [])),
     on_MarketplaceResourcesRetrieve = (\<lambda>_ _. Inl (ErrExternal [])),
     on_MarketplaceResourcesOfferingForSubresourcesList = (\<lambda>_ _. Inl (ErrExternal [])),
     on_MarketplaceResourcesTerminate = (\<lambda>_ _. Inl (ErrExternal [])),
     on_MarketplaceOrdersCreate = (\<lambda>_ _. Inl (ErrExternal [])),
     on_MarketplaceOrdersRetrieve = (\<lambda>_ _. Inl (ErrExternal [])),
     on_OpenstackTenantsRetrieve = (\<lambda>_ _. Inl (ErrExternal [])),
     on_OpenstackInstancesRetrieve = (\<lambda>_ _ _. Inl (ErrExternal [])),
     on_OpenstackInstancesStop = (\<lambda>_ _. Inl (ErrExternal []))\<rparr>"

definition net_down :: net_api where
  "net_down = \<lparr>on_ReadFile = (\<lambda>_ _. Inl (ErrExternal [])), on_HttpSend = (\<lambda>_ _. Inl (ErrExternal []))\<rparr>"

definition env_down :: env where
  "env_down = \<lparr>env_kube = kube_down, env_waldur = waldur_down, env_net = net_down,
     env_newRequest = (\<lambda>_ _. None)\<rparr>"

definition client_sample :: vault_client where
  "client_sample = \<lparr>vc_addr = ''v'', vc_vaultToken = ''t'', vc_method = authMethodAppRole,
     vc_k8sAuthPath = [], vc_k8sRole = [], vc_k8sTokenPath = [],
     vc_appRoleID = ''r'', vc_appSecretID = ''s''\<rparr>"

definition world_sample :: world where
  "world_sample = \<lparr>hist = [], vault = client_sample\<rparr>"

definition lib_sample :: lib where
  "lib_sample = \<lparr>
     uuid_Parse = (\<lambda>s. if s = [] then Inl (ErrExternal []) else Inr (of_nat (length s - 1))),
     uuid_String = (\<lambda>u. replicate (Suc (unat u)) (CHR ''0'')),
     SetStatusCondition = (\<lambda>cs c. c # filter (\<lambda>d. cond_Type d \<noteq> cond_Type c) cs),
     ContainsFinalizer = (\<lambda>fs f. f \<in> set fs),
     AddFinalizer = (\<lambda>fs f. if f \<in> set fs then fs else fs @ [f]),
     RemoveFinalizer = (\<lambda>fs f. removeAll f fs),
     yaml_UnmarshalCloudInit = (\<lambda>_. Inl (ErrExternal [])),
     yaml_MarshalCloudInit = (\<lambda>_. Inl (ErrExternal [])),
     yaml_UnmarshalMap = (\<lambda>_. Inl (ErrExternal [])),
     yaml_MarshalMap = (\<lambda>_. Inl (ErrExternal [])),
     FromTenantAttributes = (\<lambda>_. None),
     FromInstanceAttributes = (\<lambda>_. None)\<rparr>"

lemmas sample_defs = kube_down_def waldur_down_def net_down_def env_down_def client_sample_def
  world_sample_def lib_sample_def

lemma lib_sample_ok: "uuid_codec lib_sample" "condition_setter lib_sample" "finalizer_ops lib_sample"
proof -
  show "uuid_codec lib_sample"
    by (simp add: uuid_codec_def lib_sample_def)
  show "condition_setter lib_sample"
    by (simp add: condition_setter_def lib_sample_def lookupCondition_def)
  show "finalizer_ops lib_sample"
    by (auto simp: finalizer_ops_def lib_sample_def)
qed

end
