(* ===== verification/Vault_Client.thy ===== *)
theory Vault_Client
  imports Sample_Env
begin

text \<open>
  The Vault client of \<^verbatim>\<open>internal/vault/client.go\<close>: login by AppRole or by Kubernetes service account,
  authenticated requests with one retry after a new login, and the four operations of the
  interface \<^verbatim>\<open>Client\<close>. The methods take the client object and return it with the token a login
  may have replaced; \<open>clientOf\<close> is the interface value the machine reconciler holds, whose methods
  work on the one client object of the world. The locale \<open>vault_contract\<close> states what the machine
  reconciler relies on; it is interpreted by \<open>clientOf\<close>.
\<close>

section \<open>Decoding JSON into Go structs\<close>

text \<open>
  Keys match field names up to ASCII case; \<open>null\<close> leaves the target as it is; a later member
  overwrites an earlier one; a value of another type makes the decoder return an error.
\<close>

definition toLower :: "char \<Rightarrow> char" where
  "toLower c = (let n = of_char c in if 65 \<le> n \<and> n \<le> 90 then char_of (n + 32 :: nat) else c)"

definition equalFold :: "string \<Rightarrow> string \<Rightarrow> bool" where
  "equalFold s t \<longleftrightarrow> map toLower s = map toLower t"

fun decodeString :: "json \<Rightarrow> string \<Rightarrow> string option" where
  "decodeString JNull cur = Some cur"
| "decodeString (JString s) cur = Some s"
| "decodeString _ cur = None"

fun decodeMembers :: "(json \<Rightarrow> 'a \<Rightarrow> 'a option) \<Rightarrow> string \<Rightarrow> (string \<times> json) list \<Rightarrow> 'a \<Rightarrow> 'a option" where
  "decodeMembers dec name [] cur = Some cur"
| "decodeMembers dec name ((k, v) # ms) cur =
     (if equalFold k name
      then (case dec v cur of None \<Rightarrow> None | Some cur' \<Rightarrow> decodeMembers dec name ms cur')
      else decodeMembers dec name ms cur)"

fun decodeStruct :: "string \<Rightarrow> (json \<Rightarrow> 'a \<Rightarrow> 'a option) \<Rightarrow> json \<Rightarrow> 'a \<Rightarrow> 'a option" where
  "decodeStruct name dec JNull cur = Some cur"
| "decodeStruct name dec (JObject ms) cur = decodeMembers dec name ms cur"
| "decodeStruct name dec _ cur = None"

text \<open>
  A nested struct with one string field, \<^verbatim>\<open>struct { Outer struct { Inner string } }\<close>, decoded from a
  response body into its zero value.
\<close>

definition decodeNested :: "string \<Rightarrow> string \<Rightarrow> http_response \<Rightarrow> string option" where
  "decodeNested outer inner resp =
     (case rs_Json resp of
        None \<Rightarrow> None
      | Some j \<Rightarrow> decodeStruct outer (decodeStruct inner decodeString) j [])"

section \<open>Login\<close>

definition postJson :: "string \<Rightarrow> (string \<times> string) list \<Rightarrow> http_request" where
  "postJson url kvs = \<lparr>rq_Method = ''POST'', rq_Url = url, rq_VaultToken = None,
     rq_ContentType = Some ''application/json'',
     rq_Body = Some (JObject (map (\<lambda>(k, v). (k, JString v)) kvs))\<rparr>"

definition extractToken :: "http_response \<Rightarrow> vault_client \<Rightarrow> error option \<times> vault_client" where
  "extractToken resp c =
     (case decodeNested ''auth'' ''client_token'' resp of
        None \<Rightarrow> (Some (Wrap ''vault: failed to decode auth response'' (ErrExternal ''encoding/json'')), c)
      | Some t \<Rightarrow>
          if t = [] then (Some (Errorf ''vault: auth response contained empty token'' []), c)
          else (None, c\<lparr>vc_vaultToken := t\<rparr>))"

definition loginWithKubernetes :: "env \<Rightarrow> vault_client \<Rightarrow> (error option \<times> vault_client) io" where
  "loginWithKubernetes E c =
     bind (n_ReadFile E (vc_k8sTokenPath c)) (\<lambda>f. case f of
       Inl e \<Rightarrow> ret (Some (Wrap ''vault: unable to read service account token'' e), c)
     | Inr jwt \<Rightarrow>
         bind (n_HttpSend E (postJson (vc_addr c @ ''/v1/'' @ vc_k8sAuthPath c @ ''/login'')
                 [(''jwt'', jwt), (''role'', vc_k8sRole c)])) (\<lambda>r. case r of
           Inl e \<Rightarrow> ret (Some (Wrap ''vault: kubernetes auth request failed'' e), c)
         | Inr resp \<Rightarrow>
             if rs_StatusCode resp \<noteq> 200
             then ret (Some (Errorf ''vault: kubernetes auth returned %d: %s''
                              [itoa (rs_StatusCode resp), rs_Body resp]), c)
             else ret (extractToken resp c)))"

definition loginWithAppRole :: "env \<Rightarrow> vault_client \<Rightarrow> (error option \<times> vault_client) io" where
  "loginWithAppRole E c =
     bind (n_HttpSend E (postJson (vc_addr c @ ''/v1/auth/approle/login'')
             [(''role_id'', vc_appRoleID c), (''secret_id'', vc_appSecretID c)])) (\<lambda>r. case r of
       Inl e \<Rightarrow> ret (Some (Wrap ''vault: approle auth request failed'' e), c)
     | Inr resp \<Rightarrow>
         if rs_StatusCode resp \<noteq> 200
         then ret (Some (Errorf ''vault: approle auth returned %d: %s''
                          [itoa (rs_StatusCode resp), rs_Body resp]), c)
         else ret (extractToken resp c))"

definition login :: "env \<Rightarrow> vault_client \<Rightarrow> (error option \<times> vault_client) io" where
  "login E c = (if vc_method c = authMethodAppRole then loginWithAppRole E c else loginWithKubernetes E c)"

section \<open>Constructors\<close>

definition defaultTokenPath :: string where
  "defaultTokenPath = ''/var/run/secrets/kubernetes.io/serviceaccount/token''"

record Config =
  cfg_Addr :: string
  cfg_AuthPath :: string
  cfg_Role :: string
  cfg_TokenPath :: string

definition NewClient :: "env \<Rightarrow> Config \<Rightarrow> (error + vault_client) io" where
  "NewClient E cfg =
     (let authPath = (if cfg_AuthPath cfg = [] then ''auth/kubernetes'' else cfg_AuthPath cfg);
          tokenPath = (if cfg_TokenPath cfg = [] then defaultTokenPath else cfg_TokenPath cfg);
          c = \<lparr>vc_addr = cfg_Addr cfg, vc_vaultToken = [], vc_method = authMethodKubernetes,
               vc_k8sAuthPath = authPath, vc_k8sRole = cfg_Role cfg, vc_k8sTokenPath = tokenPath,
               vc_appRoleID = [], vc_appSecretID = []\<rparr>
      in bind (login E c) (\<lambda>(err, c'). case err of
           Some e \<Rightarrow> fail (Wrap ''vault: kubernetes auth login failed'' e)
         | None \<Rightarrow> ok c'))"

definition NewClientWithAppRole :: "env \<Rightarrow> string \<Rightarrow> string \<Rightarrow> string \<Rightarrow> (error + vault_client) io" where
  "NewClientWithAppRole E addr roleID secretID =
     (let c = \<lparr>vc_addr = addr, vc_vaultToken = [], vc_method = authMethodAppRole,
               vc_k8sAuthPath = [], vc_k8sRole = [], vc_k8sTokenPath = [],
               vc_appRoleID = roleID, vc_appSecretID = secretID\<rparr>
      in bind (login E c) (\<lambda>(err, c'). case err of
           Some e \<Rightarrow> fail (Wrap ''vault: approle auth login failed'' e)
         | None \<Rightarrow> ok c'))"

section \<open>Authenticated requests\<close>

text \<open>
  The bodies passed to \<^verbatim>\<open>doOnce\<close> are maps of strings, which \<^verbatim>\<open>json.Marshal\<close> always encodes.
\<close>

definition doOnce :: "env \<Rightarrow> vault_client \<Rightarrow> string \<Rightarrow> string \<Rightarrow> json option \<Rightarrow> (error + http_response) io" where
  "doOnce E c meth path body =
     (let url = vc_addr c @ ''/v1/'' @ trimPrefix path ''/'' in
      case env_newRequest E meth url of
        Some e \<Rightarrow> fail e
      | None \<Rightarrow> n_HttpSend E \<lparr>rq_Method = meth, rq_Url = url, rq_VaultToken = Some (vc_vaultToken c),
                  rq_ContentType = (if body \<noteq> None then Some ''application/json'' else None),
                  rq_Body = body\<rparr>)"

definition doReq ::
    "env \<Rightarrow> vault_client \<Rightarrow> string \<Rightarrow> string \<Rightarrow> json option \<Rightarrow> ((error + http_response) \<times> vault_client) io" where
  "doReq E c meth path body =
     bind (doOnce E c meth path body) (\<lambda>r. case r of
       Inl e \<Rightarrow> ret (Inl e, c)
     | Inr resp \<Rightarrow>
         if rs_StatusCode resp = 401 \<or> rs_StatusCode resp = 403
         then bind (login E c) (\<lambda>(loginErr, c'). case loginErr of
                Some e \<Rightarrow> ret (Inl (Wrap ''vault: re-authentication failed'' e), c')
              | None \<Rightarrow> bind (doOnce E c' meth path body) (\<lambda>r'. ret (r', c')))
         else ret (Inr resp, c))"

section \<open>The four operations\<close>

definition client_SecretExists :: "env \<Rightarrow> vault_client \<Rightarrow> string \<Rightarrow> ((error + bool) \<times> vault_client) io" where
  "client_SecretExists E c path =
     bind (doReq E c ''GET'' path None) (\<lambda>(r, c'). case r of
       Inl e \<Rightarrow> ret (Inl (Wrap (''vault: SecretExists GET '' @ path) e), c')
     | Inr resp \<Rightarrow>
         if rs_StatusCode resp = 404 then ret (Inr False, c')
         else if rs_StatusCode resp \<noteq> 200
         then ret (Inl (Errorf ''vault: SecretExists returned %d: %s''
                         [itoa (rs_StatusCode resp), rs_Body resp]), c')
         else ret (Inr True, c'))"

definition client_WriteSecret ::
    "env \<Rightarrow> vault_client \<Rightarrow> string \<Rightarrow> (string, string) gomap \<Rightarrow> (error option \<times> vault_client) io" where
  "client_WriteSecret E c path data =
     bind (doReq E c ''POST'' path
             (Some (JObject [(''data'', JObject (map (\<lambda>(k, v). (k, JString v)) data))]))) (\<lambda>(r, c'). case r of
       Inl e \<Rightarrow> ret (Some (Wrap (''vault: WriteSecret POST '' @ path) e), c')
     | Inr resp \<Rightarrow>
         if rs_StatusCode resp \<noteq> 200 \<and> rs_StatusCode resp \<noteq> 204
         then ret (Some (Errorf ''vault: WriteSecret returned %d: %s''
                          [itoa (rs_StatusCode resp), rs_Body resp]), c')
         else ret (None, c'))"

definition client_GenerateSecretID :: "env \<Rightarrow> vault_client \<Rightarrow> string \<Rightarrow> ((error + string) \<times> vault_client) io" where
  "client_GenerateSecretID E c roleName =
     bind (doReq E c ''POST'' (''auth/approle/role/'' @ roleName @ ''/secret-id'') (Some (JObject []))) (\<lambda>(r, c'). case r of
       Inl e \<Rightarrow> ret (Inl (Wrap (''vault: GenerateSecretID for role '' @ roleName) e), c')
     | Inr resp \<Rightarrow>
         if rs_StatusCode resp \<noteq> 200
         then ret (Inl (Errorf ''vault: GenerateSecretID returned %d: %s''
                         [itoa (rs_StatusCode resp), rs_Body resp]), c')
         else (case decodeNested ''data'' ''secret_id'' resp of
             None \<Rightarrow> ret (Inl (Wrap ''vault: failed to decode secret_id response'' (ErrExternal ''encoding/json'')), c')
           | Some sid \<Rightarrow>
               if sid = []
               then ret (Inl (Errorf ''vault: empty secret_id in response for role %q'' [roleName]), c')
               else ret (Inr sid, c')))"

definition client_RevokeSecretID ::
    "env \<Rightarrow> vault_client \<Rightarrow> string \<Rightarrow> string \<Rightarrow> (error option \<times> vault_client) io" where
  "client_RevokeSecretID E c roleName secretID =
     bind (doReq E c ''POST'' (''auth/approle/role/'' @ roleName @ ''/secret-id/destroy'')
             (Some (JObject [(''secret_id'', JString secretID)]))) (\<lambda>(r, c'). case r of
       Inl e \<Rightarrow> ret (Some (Wrap (''vault: RevokeSecretID for role '' @ roleName) e), c')
     | Inr resp \<Rightarrow>
         if rs_StatusCode resp \<noteq> 204 \<and> rs_StatusCode resp \<noteq> 200
         then ret (Some (Errorf ''vault: RevokeSecretID returned %d: %s''
                          [itoa (rs_StatusCode resp), rs_Body resp]), c')
         else ret (None, c'))"

section \<open>The interface value\<close>

record vault_iface =
  SecretExists :: "string \<Rightarrow> (error + bool) io"
  WriteSecret :: "string \<Rightarrow> (string, string) gomap \<Rightarrow> error option io"
  GenerateSecretID :: "string \<Rightarrow> (error + string) io"
  RevokeSecretID :: "string \<Rightarrow> string \<Rightarrow> error option io"

text \<open>A method call on the client object of the world.\<close>

definition withClient :: "(vault_client \<Rightarrow> ('a \<times> vault_client) io) \<Rightarrow> 'a io" where
  "withClient f = (\<lambda>w. case f (vault w) w of
       (Ret (a, c), w') \<Rightarrow> (Ret a, w'\<lparr>vault := c\<rparr>)
     | (Panic, w') \<Rightarrow> (Panic, w'))"

definition clientOf :: "env \<Rightarrow> vault_iface" where
  "clientOf E = \<lparr>
     SecretExists = (\<lambda>p. withClient (\<lambda>c. client_SecretExists E c p)),
     WriteSecret = (\<lambda>p d. withClient (\<lambda>c. client_WriteSecret E c p d)),
     GenerateSecretID = (\<lambda>rn. withClient (\<lambda>c. client_GenerateSecretID E c rn)),
     RevokeSecretID = (\<lambda>rn sid. withClient (\<lambda>c. client_RevokeSecretID E c rn sid))\<rparr>"

section \<open>Login and requests\<close>

lemma extractToken_cases:
  "extractToken resp c = (err, c') \<Longrightarrow>
     (\<exists>e. err = Some e \<and> c' = c) \<or> (\<exists>t. t \<noteq> [] \<and> err = None \<and> c' = c\<lparr>vc_vaultToken := t\<rparr>)"
  by (auto simp: extractToken_def split: option.splits if_splits)

lemma login_cases:
  assumes "login E c w = (Ret (err, c'), w')"
  obtains e where "err = Some e" and "c' = c"
  | t where "t \<noteq> []" and "err = None" and "c' = c\<lparr>vc_vaultToken := t\<rparr>"
proof -
  from assms have "(\<exists>e. err = Some e \<and> c' = c) \<or> (\<exists>resp. extractToken resp c = (err, c'))"
    by (auto simp: login_def loginWithAppRole_def loginWithKubernetes_def go_inv)
  with that extractToken_cases show ?thesis by metis
qed

text \<open>
  \<open>login_answer c t e\<close>: the event is a login of the client, with the credentials of its method and no
  token, that Vault answered with status 200 and the token \<open>t\<close>.
\<close>

definition login_answer :: "vault_client \<Rightarrow> string \<Rightarrow> event \<Rightarrow> bool" where
  "login_answer c t e \<longleftrightarrow> (\<exists>rq resp jwt. e = NetEv (HttpSend rq (Inr resp)) \<and>
     rq = (if vc_method c = authMethodAppRole
           then postJson (vc_addr c @ ''/v1/auth/approle/login'')
                  [(''role_id'', vc_appRoleID c), (''secret_id'', vc_appSecretID c)]
           else postJson (vc_addr c @ ''/v1/'' @ vc_k8sAuthPath c @ ''/login'')
                  [(''jwt'', jwt), (''role'', vc_k8sRole c)]) \<and>
     rs_StatusCode resp = 200 \<and> decodeNested ''auth'' ''client_token'' resp = Some t \<and> t \<noteq> [])"

lemma login_succeeds:
  assumes "login E c w = (Ret (None, c'), w')"
  shows "\<exists>es e. hist w' = hist w @ es @ [e] \<and> login_answer c (vc_vaultToken c') e"
proof -
  from assms obtain es rq resp jwt where "hist w' = hist w @ es @ [NetEv (HttpSend rq (Inr resp))]"
    and "rq = (if vc_method c = authMethodAppRole
           then postJson (vc_addr c @ ''/v1/auth/approle/login'')
                  [(''role_id'', vc_appRoleID c), (''secret_id'', vc_appSecretID c)]
           else postJson (vc_addr c @ ''/v1/'' @ vc_k8sAuthPath c @ ''/login'')
                  [(''jwt'', jwt), (''role'', vc_k8sRole c)])"
    and "rs_StatusCode resp = 200" and "extractToken resp c = (None, c')"
    by (fastforce simp: login_def loginWithAppRole_def loginWithKubernetes_def prim_defs go_inv split: if_splits)
  then show ?thesis
    by (fastforce simp: login_answer_def extractToken_def split: option.splits if_splits)
qed

lemma no_panic_login: "no_panic (login E c)"
  unfolding login_def loginWithAppRole_def loginWithKubernetes_def prim_defs
  by (auto intro!: no_panic_rules split: sum.split)

lemma no_panic_doOnce: "no_panic (doOnce E c meth path body)"
  by (auto simp: doOnce_def Let_def n_HttpSend_def split: option.split)

lemma no_panic_doReq: "no_panic (doReq E c meth path body)"
  unfolding doReq_def
  by (auto intro!: no_panic_rules no_panic_doOnce no_panic_login split: sum.split option.split)

text \<open>The Vault tokens carried by the authenticated requests of a history, in order.\<close>

fun request_token :: "event \<Rightarrow> string option" where
  "request_token (NetEv (HttpSend rq r)) = rq_VaultToken rq"
| "request_token _ = None"

definition auth_tokens :: "event list \<Rightarrow> string list" where
  "auth_tokens es = List.map_filter request_token es"

lemma auth_tokens_simps [simp]:
  "auth_tokens [] = []"
  "auth_tokens (e # es) = (case request_token e of None \<Rightarrow> auth_tokens es | Some t \<Rightarrow> t # auth_tokens es)"
  "auth_tokens (es @ fs) = auth_tokens es @ auth_tokens fs"
  by (simp_all add: auth_tokens_def List.map_filter_def split: option.split)

abbreviation net_event :: "event \<Rightarrow> bool" where
  "net_event e \<equiv> (\<exists>n. e = NetEv n)"

lemma login_answer_token: "login_answer c t e \<Longrightarrow> request_token e = None"
  by (auto simp: login_answer_def postJson_def)

text \<open>A login sends unauthenticated requests only.\<close>

lemma emits_login: "emits (\<lambda>e. net_event e \<and> request_token e = None) (login E c)"
  unfolding login_def loginWithAppRole_def loginWithKubernetes_def prim_defs
  by (intro ext.frame_rules emits_prims) (simp_all add: postJson_def)

lemma emits_doOnce: "emits net_event (doOnce E c meth path body)"
  unfolding doOnce_def prim_defs by (intro ext.frame_rules emits_prims) auto

lemma emits_doReq: "emits net_event (doReq E c meth path body)"
  unfolding doReq_def
  by (intro ext.frame_rules emits_doOnce emits_mono [OF emits_login]) auto

lemma login_events:
  assumes "login E c w = (r, w')"
  obtains es where "hist w' = hist w @ es" and "auth_tokens es = []" and "list_all net_event es"
proof -
  from emitsD [OF emits_login assms] obtain es
    where es: "hist w' = hist w @ es" "list_all (\<lambda>e. net_event e \<and> request_token e = None) es" .
  from es(2) have "auth_tokens es = []" by (induction es) auto
  moreover from es(2) have "list_all net_event es" by (induction es) auto
  ultimately show ?thesis using es(1) that by blast
qed

lemma doOnce_events:
  assumes "doOnce E c meth path body w = (Ret r, w')"
  obtains e where "r = Inl e" and "w' = w"
  | rq where "rq_VaultToken rq = Some (vc_vaultToken c)" and "rq_Method rq = meth" and "rq_Body rq = body"
      and "rq_Url rq = vc_addr c @ ''/v1/'' @ trimPrefix path ''/''"
      and "hist w' = hist w @ [NetEv (HttpSend rq r)]"
  using assms by (fastforce simp: doOnce_def n_HttpSend_def Let_def go_inv split: option.splits)

lemma doReq_cases:
  assumes "doReq E c meth path body w = (Ret (r, c'), w')"
  obtains (unsent) e where "r = Inl e" and "c' = c" and "w' = w"
  | (once) rq where "rq_VaultToken rq = Some (vc_vaultToken c)" and "c' = c"
      and "hist w' = hist w @ [NetEv (HttpSend rq r)]"
      and "\<And>resp. r = Inr resp \<Longrightarrow> rs_StatusCode resp \<noteq> 401 \<and> rs_StatusCode resp \<noteq> 403"
      and "rq_Method rq = meth" and "rq_Body rq = body"
      and "rq_Url rq = vc_addr c @ ''/v1/'' @ trimPrefix path ''/''"
  | (no_login) rq q e es where "rq_VaultToken rq = Some (vc_vaultToken c)" and "c' = c" and "r = Inl e"
      and "hist w' = hist w @ NetEv (HttpSend rq q) # es" and "auth_tokens es = []"
  | (resend_unsent) rq q es e t where "rq_VaultToken rq = Some (vc_vaultToken c)" and "r = Inl e"
      and "t \<noteq> []" and "c' = c\<lparr>vc_vaultToken := t\<rparr>"
      and "hist w' = hist w @ NetEv (HttpSend rq q) # es" and "auth_tokens es = []"
  | (twice) rq q es t rq' fs e where "rq_VaultToken rq = Some (vc_vaultToken c)"
      and "rs_StatusCode q \<in> {401, 403}" and "es = fs @ [e]" and "login_answer c t e"
      and "t \<noteq> []" and "c' = c\<lparr>vc_vaultToken := t\<rparr>" and "rq_VaultToken rq' = Some t"
      and "hist w' = hist w @ NetEv (HttpSend rq (Inr q)) # es @ [NetEv (HttpSend rq' r)]" and "auth_tokens es = []"
      and "rq_Method rq' = meth" and "rq_Body rq' = body"
      and "rq_Url rq' = vc_addr c @ ''/v1/'' @ trimPrefix path ''/''"
proof -
  from assms obtain q w1 where first: "doOnce E c meth path body w = (Ret q, w1)"
    and rest: "(case q of Inl e \<Rightarrow> ret (Inl e, c)
       | Inr resp \<Rightarrow> if rs_StatusCode resp = 401 \<or> rs_StatusCode resp = 403
           then bind (login E c) (\<lambda>(loginErr, c'). case loginErr of
                  Some e \<Rightarrow> ret (Inl (Wrap ''vault: re-authentication failed'' e), c')
                | None \<Rightarrow> bind (doOnce E c' meth path body) (\<lambda>r'. ret (r', c')))
           else ret (Inr resp, c)) w1 = (Ret (r, c'), w')"
    by (auto simp: doReq_def bind_eq_Ret)
  show ?thesis
    using first
  proof (cases rule: doOnce_events)
    case (1 e)
    with rest unsent show ?thesis by (auto simp: go_inv)
  next
    case (2 rq)
    show ?thesis
    proof (cases "\<exists>resp. q = Inr resp \<and> (rs_StatusCode resp = 401 \<or> rs_StatusCode resp = 403)")
      case False
      with rest have "r = q" "c' = c" "w' = w1" by (auto simp: go_inv split: sum.splits if_splits)
      with False 2 once show ?thesis by auto
    next
      case True
      then obtain resp where q: "q = Inr resp" "rs_StatusCode resp \<in> {401, 403}" by auto
      with rest obtain err d w2 where log: "login E c w1 = (Ret (err, d), w2)"
        and cont: "(case err of Some e \<Rightarrow> ret (Inl (Wrap ''vault: re-authentication failed'' e), d)
                | None \<Rightarrow> bind (doOnce E d meth path body) (\<lambda>r'. ret (r', d))) w2 = (Ret (r, c'), w')"
        by (auto simp: bind_eq_Ret)
      from log obtain es where es: "hist w2 = hist w1 @ es" "auth_tokens es = []"
        by (rule login_events)
      from log show ?thesis
      proof (cases rule: login_cases)
        case (1 e)
        with cont es 2 show ?thesis by (intro no_login [of rq _ q es]) (auto simp: go_inv)
      next
        case (2 t)
        with cont have again: "doOnce E d meth path body w2 = (Ret r, w')" and "c' = d"
          by (auto simp: go_inv)
        from again show ?thesis
        proof (cases rule: doOnce_events)
          case (1 e)
          with 2 es \<open>c' = d\<close> \<open>rq_VaultToken rq = _\<close> \<open>hist w1 = _\<close> show ?thesis
            by (intro resend_unsent [of rq e t q es]) auto
        next
          case (2 rq')
          from login_succeeds [OF log [unfolded \<open>err = None\<close>]] obtain fs e
            where fs: "es = fs @ [e]" "login_answer c t e" using es(1) \<open>d = _\<close> by auto
          from 2 q fs \<open>t \<noteq> []\<close> \<open>d = _\<close> es \<open>c' = d\<close> \<open>rq_VaultToken rq = _\<close> \<open>hist w1 = _\<close> show ?thesis
            by (intro twice [of rq resp es fs e t rq']) auto
        qed
      qed
    qed
  qed
qed

section \<open>What the operations do to the client\<close>

text \<open>
  \<open>client_step c c'\<close>: the configuration and the credentials of the client are as before, and a
  client that holds a token still holds one.
\<close>

definition client_step :: "vault_client \<Rightarrow> vault_client \<Rightarrow> bool" where
  "client_step c c' \<longleftrightarrow> (\<exists>t. c' = c\<lparr>vc_vaultToken := t\<rparr> \<and> (vc_vaultToken c \<noteq> [] \<longrightarrow> t \<noteq> []))"

definition vault_step :: "world \<Rightarrow> world \<Rightarrow> bool" where
  "vault_step w w' \<longleftrightarrow> client_step (vault w) (vault w')"

lemma client_step_refl: "client_step c c"
  by (auto simp: client_step_def intro: exI [of _ "vc_vaultToken c"])

lemma client_step_trans: "client_step a b \<Longrightarrow> client_step b c \<Longrightarrow> client_step a c"
  by (auto simp: client_step_def)

interpretation vs: frame vault_step
  by unfold_locales (auto simp: vault_step_def intro: client_step_refl client_step_trans)

lemma doReq_client_step:
  assumes "doReq E c meth path body w = (Ret (r, c'), w')"
  shows "client_step c c'"
  using assms
proof (cases rule: doReq_cases)
  case unsent
  then show ?thesis by (simp add: client_step_refl)
next
  case once
  then show ?thesis by (simp add: client_step_refl)
next
  case no_login
  then show ?thesis by (simp add: client_step_refl)
next
  case resend_unsent
  then show ?thesis by (auto simp: client_step_def)
next
  case twice
  then show ?thesis by (auto simp: client_step_def)
qed

text \<open>The four operations are a request followed by a decision on its answer.\<close>

lemma client_op_via_doReq:
  "client_SecretExists E c p w = (Ret (a, c'), w') \<Longrightarrow> \<exists>r. doReq E c ''GET'' p None w = (Ret (r, c'), w')"
  "client_WriteSecret E c p d w = (Ret (x, c'), w') \<Longrightarrow> \<exists>r b. doReq E c ''POST'' p b w = (Ret (r, c'), w')"
  "client_GenerateSecretID E c n w = (Ret (y, c'), w') \<Longrightarrow> \<exists>r q b. doReq E c ''POST'' q b w = (Ret (r, c'), w')"
  "client_RevokeSecretID E c n i w = (Ret (z, c'), w') \<Longrightarrow> \<exists>r q b. doReq E c ''POST'' q b w = (Ret (r, c'), w')"
  by (auto simp: client_SecretExists_def client_WriteSecret_def client_GenerateSecretID_def
      client_RevokeSecretID_def go_inv)

lemma no_panic_client_ops:
  "no_panic (client_SecretExists E c p)" "no_panic (client_WriteSecret E c p d)"
  "no_panic (client_GenerateSecretID E c n)" "no_panic (client_RevokeSecretID E c n i)"
  unfolding client_SecretExists_def client_WriteSecret_def client_GenerateSecretID_def
    client_RevokeSecretID_def
  by (auto intro!: no_panic_rules no_panic_doReq split: sum.split option.split)

lemma emits_client_ops:
  "emits net_event (client_SecretExists E c p)" "emits net_event (client_WriteSecret E c p d)"
  "emits net_event (client_GenerateSecretID E c n)" "emits net_event (client_RevokeSecretID E c n i)"
  unfolding client_SecretExists_def client_WriteSecret_def client_GenerateSecretID_def
    client_RevokeSecretID_def
  by (intro ext.frame_rules emits_doReq)+

lemma withClient_eq_Ret [go_inv]:
  "withClient f w = (Ret a, w') \<longleftrightarrow> (\<exists>c u. f (vault w) w = (Ret (a, c), u) \<and> w' = u\<lparr>vault := c\<rparr>)"
  by (auto simp: withClient_def split: prod.splits go.splits)

lemma no_panic_withClient: "(\<And>c. no_panic (f c)) \<Longrightarrow> no_panic (withClient f)"
  by (auto simp: no_panic_def withClient_def split: prod.splits go.splits) (metis fst_conv)

lemma emits_withClient: "(\<And>c. emits P (f c)) \<Longrightarrow> emits P (withClient f)"
  by (auto simp: preserves_def withClient_def extends_def split: prod.splits go.splits) (metis snd_conv)+

lemma vault_step_withClient:
  assumes "\<And>c. no_panic (f c)"
    and "\<And>c w a c' w'. f c w = (Ret (a, c'), w') \<Longrightarrow> client_step c c'"
  shows "preserves vault_step (withClient f)"
proof (rule preservesI)
  fix w r w'
  assume run: "withClient f w = (r, w')"
  from no_panicD [OF assms(1)] obtain a c u where "f (vault w) w = (Ret (a, c), u)"
    by (metis prod.exhaust)
  with run assms(2) show "vault_step w w'" by (auto simp: withClient_def vault_step_def)
qed

section \<open>The contract of the interface\<close>

locale vault_contract =
  fixes V :: vault_iface
  assumes no_panic_ops: "no_panic (SecretExists V p)" "no_panic (WriteSecret V p d)"
      "no_panic (GenerateSecretID V rn)" "no_panic (RevokeSecretID V rn sid)"
    and net_only: "emits net_event (SecretExists V p)" "emits net_event (WriteSecret V p d)"
      "emits net_event (GenerateSecretID V rn)" "emits net_event (RevokeSecretID V rn sid)"
    and vault_steps: "preserves vault_step (SecretExists V p)" "preserves vault_step (WriteSecret V p d)"
      "preserves vault_step (GenerateSecretID V rn)" "preserves vault_step (RevokeSecretID V rn sid)"
    and generated_nonempty: "GenerateSecretID V rn w = (Ret (Inr sid), w') \<Longrightarrow> sid \<noteq> []"
begin

text \<open>What a client of the interface may conclude: a call returns, and it only talks to Vault.\<close>

lemma emits_ops:
  assumes "\<And>n. P (NetEv n)"
  shows "emits P (SecretExists V p)" "emits P (WriteSecret V p d)"
    "emits P (GenerateSecretID V rn)" "emits P (RevokeSecretID V rn sid)"
  using assms by (auto intro: emits_mono [OF net_only(1)] emits_mono [OF net_only(2)]
      emits_mono [OF net_only(3)] emits_mono [OF net_only(4)])

end

interpretation vc: vault_contract "clientOf E" for E
proof unfold_locales
  show "no_panic (SecretExists (clientOf E) p)" "no_panic (WriteSecret (clientOf E) p d)"
    "no_panic (GenerateSecretID (clientOf E) rn)" "no_panic (RevokeSecretID (clientOf E) rn sid)"
    for E p d rn sid
    by (auto simp: clientOf_def intro!: no_panic_withClient no_panic_client_ops)
  show "emits net_event (SecretExists (clientOf E) p)" "emits net_event (WriteSecret (clientOf E) p d)"
    "emits net_event (GenerateSecretID (clientOf E) rn)" "emits net_event (RevokeSecretID (clientOf E) rn sid)"
    for E p d rn sid
    by (auto simp: clientOf_def intro!: emits_withClient emits_client_ops)
  show "preserves vault_step (SecretExists (clientOf E) p)" "preserves vault_step (WriteSecret (clientOf E) p d)"
    "preserves vault_step (GenerateSecretID (clientOf E) rn)"
    "preserves vault_step (RevokeSecretID (clientOf E) rn sid)" for E p d rn sid
    by (auto simp: clientOf_def intro!: vault_step_withClient no_panic_client_ops
        dest!: client_op_via_doReq intro: doReq_client_step)
  show "sid \<noteq> []" if "GenerateSecretID (clientOf E) rn w = (Ret (Inr sid), w')" for E rn w sid w'
    using that
    by (auto simp: clientOf_def client_GenerateSecretID_def go_inv)
qed

section \<open>Properties\<close>

lemma doReq_answer:
  assumes "doReq E c meth path body w = (Ret (Inr resp, c'), w')"
  shows "\<exists>rq. last (hist w') = NetEv (HttpSend rq (Inr resp)) \<and> hist w' \<noteq> [] \<and> rq_Method rq = meth \<and>
    rq_Body rq = body \<and> rq_VaultToken rq = Some (vc_vaultToken c') \<and>
    rq_Url rq = vc_addr c @ ''/v1/'' @ trimPrefix path ''/''"
  using assms by (cases rule: doReq_cases) auto

lemma trimPrefix_auth: "trimPrefix (CHR ''a'' # s) ''/'' = CHR ''a'' # s"
  by (simp add: trimPrefix_def)

text \<open>C21: an authenticated Vault request is sent at most twice, each time with the token the client
  then holds. It is sent a second time only if the first one was answered with 401 or 403 and a new
  login succeeded in between: an unauthenticated login request with the credentials of the client's
  method, answered with status 200 and the token of the second sending. The answer that is returned is
  the answer to the last request, and an answer 401 or 403 is passed on to the caller only after that
  second attempt.\<close>

theorem do_retries_once:
  assumes "doReq E c meth path body w = (Ret (r, c'), w')"
  shows "\<exists>es. hist w' = hist w @ es \<and>
    auth_tokens es \<in> {[], [vc_vaultToken c], [vc_vaultToken c, vc_vaultToken c']} \<and>
    (1 < length (auth_tokens es) \<longrightarrow>
      (\<exists>rq q fs e rq'. es = NetEv (HttpSend rq (Inr q)) # fs @ [e, NetEv (HttpSend rq' r)] \<and>
         rq_VaultToken rq = Some (vc_vaultToken c) \<and> rs_StatusCode q \<in> {401, 403} \<and>
         auth_tokens fs = [] \<and> login_answer c (vc_vaultToken c') e \<and>
         rq_VaultToken rq' = Some (vc_vaultToken c'))) \<and>
    (\<forall>resp. r = Inr resp \<longrightarrow>
      (\<exists>rq. es \<noteq> [] \<and> last es = NetEv (HttpSend rq (Inr resp)) \<and> rq_Method rq = meth \<and> rq_Body rq = body \<and>
         rq_VaultToken rq = Some (vc_vaultToken c') \<and>
         rq_Url rq = vc_addr c @ ''/v1/'' @ trimPrefix path ''/'') \<and>
      (rs_StatusCode resp \<in> {401, 403} \<longrightarrow> auth_tokens es = [vc_vaultToken c, vc_vaultToken c']))"
  using assms
proof (cases rule: doReq_cases)
  case (once rq)
  then show ?thesis by (intro exI [of _ "[NetEv (HttpSend rq r)]"]) auto
next
  case (no_login rq q e es)
  then show ?thesis by (intro exI [of _ "NetEv (HttpSend rq q) # es"]) simp
next
  case (resend_unsent rq q es e t)
  then show ?thesis by (intro exI [of _ "NetEv (HttpSend rq q) # es"]) simp
next
  case (twice rq q es t rq' fs e)
  have "auth_tokens fs = []" using \<open>es = fs @ [e]\<close> \<open>auth_tokens es = []\<close> by simp
  with twice login_answer_token [of c t e] show ?thesis
    by (intro exI [of _ "NetEv (HttpSend rq (Inr q)) # fs @ [e, NetEv (HttpSend rq' r)]"]) auto
qed simp

definition token_json :: "string \<Rightarrow> string \<Rightarrow> string \<Rightarrow> json" where
  "token_json outer inner v = JObject [(outer, JObject [(inner, JString v)])]"

text \<open>A Vault server that rejects the token \<open>t\<close>, accepts the login and the token it gives out.\<close>

definition env_relogin :: env where
  "env_relogin = env_down\<lparr>env_net := net_down\<lparr>on_HttpSend := (\<lambda>h rq. Inr (
      if rq_VaultToken rq = None
      then \<lparr>rs_StatusCode = 200, rs_Body = [], rs_Json = Some (token_json ''auth'' ''client_token'' ''new'')\<rparr>
      else if rq_VaultToken rq = Some ''t'' then \<lparr>rs_StatusCode = 403, rs_Body = [], rs_Json = None\<rparr>
      else \<lparr>rs_StatusCode = 200, rs_Body = [], rs_Json = Some (token_json ''data'' ''secret_id'' ''sid'')\<rparr>))\<rparr>\<rparr>"

lemmas relogin_defs = env_relogin_def sample_defs token_json_def doReq_def doOnce_def login_def
  loginWithAppRole_def extractToken_def decodeNested_def postJson_def n_HttpSend_def perform_def
  bind_def ret_def Let_def equalFold_def toLower_def trimPrefix_def

lemma relogin_run:
  "\<exists>resp c' w'. doReq env_relogin client_sample ''GET'' ''p'' None world_sample = (Ret (Inr resp, c'), w') \<and>
     auth_tokens (hist w') = [''t'', ''new''] \<and> vc_vaultToken c' = ''new''"
  by (simp add: relogin_defs)

theorem do_retries_once_witness:
  "\<exists>resp c' w' es. doReq env_relogin client_sample ''GET'' ''p'' None world_sample = (Ret (Inr resp, c'), w') \<and>
     hist w' = hist world_sample @ es \<and> auth_tokens es = [''t'', ''new''] \<and>
     (\<exists>rq q fs e rq'. es = NetEv (HttpSend rq (Inr q)) # fs @ [e, NetEv (HttpSend rq' (Inr resp))] \<and>
        login_answer client_sample ''new'' e)"
proof -
  obtain resp c' w' where run: "doReq env_relogin client_sample ''GET'' ''p'' None world_sample = (Ret (Inr resp, c'), w')"
    and toks: "auth_tokens (hist w') = [''t'', ''new'']" and new: "vc_vaultToken c' = ''new''"
    using relogin_run by blast
  have "hist world_sample = []" by (simp add: world_sample_def)
  with do_retries_once [OF run] run toks new show ?thesis by (fastforce simp del: auth_tokens_simps)
qed

text \<open>No operation of the Vault client changes its address, its authentication method or its
  credentials, and a client that holds a token never loses it, whatever Vault answers.\<close>

lemma client_operations_keep_client:
  "preserves vault_step (SecretExists (clientOf E) p) \<and>
   preserves vault_step (WriteSecret (clientOf E) p d) \<and>
   preserves vault_step (GenerateSecretID (clientOf E) rn) \<and>
   preserves vault_step (RevokeSecretID (clientOf E) rn sid)"
  by (simp add: vc.vault_steps)

text \<open>C27: a secret identifier that is handed out is not empty and is the one Vault answered, with
  status 200, to a POST on the role's \<^verbatim>\<open>secret-id\<close> path.\<close>

theorem generated_secret_id:
  assumes "client_GenerateSecretID E c rn w = (Ret (Inr sid, c'), w')"
  shows "sid \<noteq> [] \<and> (\<exists>rq resp. last (hist w') = NetEv (HttpSend rq (Inr resp)) \<and> rq_Method rq = ''POST'' \<and>
    rq_Url rq = vc_addr c @ ''/v1/auth/approle/role/'' @ rn @ ''/secret-id'' \<and>
    rq_VaultToken rq = Some (vc_vaultToken c') \<and>
    rs_StatusCode resp = 200 \<and> decodeNested ''data'' ''secret_id'' resp = Some sid)"
proof -
  from assms obtain resp where "sid \<noteq> []" "rs_StatusCode resp = 200" "decodeNested ''data'' ''secret_id'' resp = Some sid"
    and run: "doReq E c ''POST'' (''auth/approle/role/'' @ rn @ ''/secret-id'') (Some (JObject [])) w = (Ret (Inr resp, c'), w')"
    by (auto simp: client_GenerateSecretID_def go_inv)
  with doReq_answer [OF run] show ?thesis by (auto simp: trimPrefix_auth)
qed

theorem generated_secret_id_witness:
  "\<exists>c' w'. client_GenerateSecretID env_relogin client_sample ''n'' world_sample = (Ret (Inr ''sid'', c'), w') \<and>
     (\<exists>rq resp. last (hist w') = NetEv (HttpSend rq (Inr resp)) \<and> rs_StatusCode resp = 200 \<and>
        rq_VaultToken rq = Some (vc_vaultToken c'))"
proof -
  have "\<exists>c' w'. client_GenerateSecretID env_relogin client_sample ''n'' world_sample = (Ret (Inr ''sid'', c'), w')"
    by (simp add: client_GenerateSecretID_def relogin_defs)
  then obtain c' w' where run:
    "client_GenerateSecretID env_relogin client_sample ''n'' world_sample = (Ret (Inr ''sid'', c'), w')" by blast
  from generated_secret_id [OF run] run show ?thesis by blast
qed

end
