(* ===== verification/Cloud_Init.thy ===== *)
theory Cloud_Init
  imports Sample_Env
begin

text \<open>
  The cloud-init documents of \<^verbatim>\<open>internal/controller/cloudinit.go\<close>: removing the RKE2 join token from
  the bootstrap document, and building the final user data on the RKE2 path (static, bootstrap and
  Vault sections) and on the Rancher path. The YAML codec is a parameter; \<open>yaml_roundtrip\<close> states
  what the sources rely on, that a document survives \<^verbatim>\<open>Marshal\<close> followed by \<^verbatim>\<open>Unmarshal\<close>. All functions
  here are pure: byte slices are strings, and an error is the left summand.
\<close>

definition rke2ConfigPath :: string where
  "rke2ConfigPath = ''/etc/rancher/rke2/config.yaml''"

record VaultParams =
  vp_Addr :: string
  vp_SecretPath :: string
  vp_RoleID :: string
  vp_SecretID :: string

record MergeInput =
  mg_BootstrapCloudInit :: string
  mg_StaticCloudInit :: string
  mg_VaultParams :: VaultParams

record RancherVaultParams =
  rvp_Addr :: string
  rvp_SecretPath :: string
  rvp_RoleID :: string
  rvp_SecretID :: string

record RancherAgentInput =
  ra_StaticCloudInit :: string
  ra_VaultParams :: RancherVaultParams
  ra_RancherURL :: string

section \<open>Stripping the join token\<close>

text \<open>
  The loop over \<^verbatim>\<open>ci.WriteFiles\<close>: it stops at the first entry for the RKE2 configuration. The type
  assertion \<^verbatim>\<open>rke2cfg["token"].(string)\<close> fails for a missing key and for a value of another type.
\<close>

fun stripFiles :: "lib \<Rightarrow> CloudInitFile list \<Rightarrow> error + (CloudInitFile list \<times> string)" where
  "stripFiles L [] = Inr ([], [])"
| "stripFiles L (f # fs) =
     (if f_Path f \<noteq> rke2ConfigPath
      then chain (stripFiles L fs) (\<lambda>(fs', token). Inr (f # fs', token))
      else chainWrap ''failed to parse embedded rke2 config'' (yaml_UnmarshalMap L (f_Content f)) (\<lambda>rke2cfg.
        let token = (case map_of rke2cfg ''token'' of Some (AnyString t) \<Rightarrow> t | _ \<Rightarrow> []) in
        if token = [] then Inl (Errorf ''token field not found in embedded rke2 config'' [])
        else chain (yaml_MarshalMap L (AList.delete ''token'' rke2cfg)) (\<lambda>updated.
               Inr (f\<lparr>f_Content := updated\<rparr> # fs, token))))"

definition stripRKE2Token :: "lib \<Rightarrow> string \<Rightarrow> error + (string \<times> string)" where
  "stripRKE2Token L rawCloudInit =
     chainWrap ''failed to parse bootstrap cloud-init'' (yaml_UnmarshalCloudInit L rawCloudInit) (\<lambda>ci.
     chain (stripFiles L (ci_WriteFiles ci)) (\<lambda>(files, token).
     chain (yaml_MarshalCloudInit L (ci\<lparr>ci_WriteFiles := files\<rparr>)) (\<lambda>out. Inr (out, token))))"

section \<open>The scripts\<close>

definition rancherFetchScript :: "string \<Rightarrow> string \<Rightarrow> string \<Rightarrow> string" where
  \<open>rancherFetchScript addr secretPath rancherURL = unlines [
      ''#!/bin/sh'',
      ''# Fetch Rancher registration token from Vault using AppRole credentials.'',
      ''# Runs as runcmd[0] '' @ [CHR 0xE2, CHR 0x80, CHR 0x94] @ '' before rancher-system-agent starts.'',
      ''set -e'',
      [],
      ''VAULT_ADDR="'' @ addr @ ''"'',
      ''VAULT_SECRET_PATH="'' @ secretPath @ ''"'',
      ''RANCHER_URL="'' @ rancherURL @ ''"'',
      [],
      ''ROLE_ID=$(cat /etc/vault/role-id)'',
      ''SECRET_ID=$(cat /etc/vault/secret-id)'',
      [],
      ''VAULT_TOKEN=$(curl -sf "${VAULT_ADDR}/v1/auth/approle/login" '' @ [CHR 0x5C],
      ''  --data "{'' @ [CHR 0x5C] @ ''"role_id'' @ [CHR 0x5C] @ ''":'' @ [CHR 0x5C] @ ''"${ROLE_ID}'' @ [CHR 0x5C] @ ''",'' @ [CHR 0x5C] @ ''"secret_id'' @ [CHR 0x5C] @ ''":'' @ [CHR 0x5C] @ ''"${SECRET_ID}'' @ [CHR 0x5C] @ ''"}" '' @ [CHR 0x5C],
      ''  | grep -o '"client_token":"[^"]*"' | sed 's/"client_token":"//;s/"//')'',
      ''[ -z "${VAULT_TOKEN}" ] && { echo "[ERROR] Vault login failed"; exit 1; }'',
      [],
      ''RANCHER_TOKEN=$(curl -sf "${VAULT_ADDR}/v1/${VAULT_SECRET_PATH}" '' @ [CHR 0x5C],
      ''  -H "X-Vault-Token: ${VAULT_TOKEN}" '' @ [CHR 0x5C],
      ''  | grep -o '"clusterToken":"[^"]*"' | sed 's/"clusterToken":"//;s/"//')'',
      ''[ -z "${RANCHER_TOKEN}" ] && { echo "[ERROR] Failed to fetch Rancher token from Vault"; exit 1; }'',
      [],
      ''mkdir -p /etc/rancher-agent'',
      ''printf 'token: %s'' @ [CHR 0x5C] @ ''nurl: %s'' @ [CHR 0x5C] @ ''n' "${RANCHER_TOKEN}" "${RANCHER_URL}" > /etc/rancher-agent/config.yaml'',
      ''echo "[INFO] Rancher registration token written to /etc/rancher-agent/config.yaml"'',
      [],
      ''rm -f /etc/vault/role-id /etc/vault/secret-id'']\<close>

definition rke2FetchScript :: "string \<Rightarrow> string \<Rightarrow> string" where
  \<open>rke2FetchScript addr secretPath = unlines [
      ''#!/bin/bash'',
      ''# Fetch the RKE2 join token from Vault using AppRole credentials.'',
      ''# Runs as the first runcmd step '' @ [CHR 0xE2, CHR 0x80, CHR 0x94] @ '' before RKE2 starts.'',
      ''# Appends the token to /etc/rancher/rke2/config.yaml which already'',
      ''# contains the server URL (written by the bootstrap provider).'',
      ''set -euo pipefail'',
      [],
      ''VAULT_ADDR="'' @ addr @ ''"'',
      ''VAULT_SECRET_PATH="'' @ secretPath @ ''"'',
      ''ROLE_ID=$(cat /etc/vault/role-id)'',
      ''SECRET_ID=$(cat /etc/vault/secret-id)'',
      [],
      ''VAULT_TOKEN=$(curl -sf "${VAULT_ADDR}/v1/auth/approle/login" '' @ [CHR 0x5C],
      ''  --data "{'' @ [CHR 0x5C] @ ''"role_id'' @ [CHR 0x5C] @ ''":'' @ [CHR 0x5C] @ ''"${ROLE_ID}'' @ [CHR 0x5C] @ ''",'' @ [CHR 0x5C] @ ''"secret_id'' @ [CHR 0x5C] @ ''":'' @ [CHR 0x5C] @ ''"${SECRET_ID}'' @ [CHR 0x5C] @ ''"}" '' @ [CHR 0x5C],
      ''  | grep -o '"client_token":"[^"]*"' | sed 's/"client_token":"//;s/"//')'',
      ''[ -z "${VAULT_TOKEN}" ] && { echo "[ERROR] Vault login failed"; exit 1; }'',
      [],
      ''RKE2_TOKEN=$(curl -sf "${VAULT_ADDR}/v1/${VAULT_SECRET_PATH}" '' @ [CHR 0x5C],
      ''  -H "X-Vault-Token: ${VAULT_TOKEN}" '' @ [CHR 0x5C],
      ''  | grep -o '"token":"[^"]*"' | head -1 | sed 's/"token":"//;s/"//')'',
      ''[ -z "${RKE2_TOKEN}" ] && { echo "[ERROR] Failed to fetch RKE2 token"; exit 1; }'',
      [],
      ''mkdir -p /etc/rancher/rke2'',
      ''echo "token: ${RKE2_TOKEN}" >> /etc/rancher/rke2/config.yaml'',
      ''echo "[INFO] RKE2 join token injected into config."'',
      [],
      ''# Remove credentials from disk '' @ [CHR 0xE2, CHR 0x80, CHR 0x94] @ '' no longer needed after first use'',
      ''rm -f /etc/vault/role-id /etc/vault/secret-id'']\<close>

section \<open>Building the user data\<close>

definition emptyCloudInit :: CloudInit where
  "emptyCloudInit = \<lparr>ci_WriteFiles = [], ci_RunCmd = [], ci_BootCmd = []\<rparr>"

text \<open>\<^verbatim>\<open>if len(in.StaticCloudInit) > 0 { yaml.Unmarshal(...) }\<close>\<close>

definition parseStatic :: "lib \<Rightarrow> string \<Rightarrow> error + CloudInit" where
  "parseStatic L s = (if s = [] then Inr emptyCloudInit
     else chainWrap ''failed to parse static cloud-init'' (yaml_UnmarshalCloudInit L s) Inr)"

definition credentialFile :: "string \<Rightarrow> string \<Rightarrow> string \<Rightarrow> CloudInitFile" where
  "credentialFile path content perm =
     \<lparr>f_Path = path, f_Content = content, f_Permissions = perm, f_Owner = [], f_Encoding = []\<rparr>"

definition cloudConfigHeader :: string where
  "cloudConfigHeader = ''#cloud-config'' @ newline"

definition rancherFiles :: "RancherAgentInput \<Rightarrow> CloudInitFile list" where
  "rancherFiles inp = (let p = ra_VaultParams inp in
     [credentialFile ''/etc/vault/role-id'' (rvp_RoleID p @ newline) ''0600'',
      credentialFile ''/etc/vault/secret-id'' (rvp_SecretID p @ newline) ''0600'',
      credentialFile ''/var/opt/scripts/vault-fetch-rancher-registration.sh''
        (rancherFetchScript (rvp_Addr p) (rvp_SecretPath p) (ra_RancherURL inp)) ''0755''])"

definition BuildRancherAgentUserData :: "lib \<Rightarrow> RancherAgentInput \<Rightarrow> error + string" where
  "BuildRancherAgentUserData L inp =
     chain (parseStatic L (ra_StaticCloudInit inp)) (\<lambda>static.
     let merged = \<lparr>ci_WriteFiles = rancherFiles inp @ ci_WriteFiles static,
           ci_RunCmd = [AnyString ''/var/opt/scripts/vault-fetch-rancher-registration.sh'',
             AnyString ''systemctl enable --now rancher-system-agent''] @ ci_RunCmd static,
           ci_BootCmd = ci_BootCmd static\<rparr>
     in chain (yaml_MarshalCloudInit L merged) (\<lambda>out. Inr (cloudConfigHeader @ out)))"

definition vaultFiles :: "VaultParams \<Rightarrow> CloudInitFile list" where
  "vaultFiles p =
     [credentialFile ''/etc/vault/role-id'' (vp_RoleID p @ newline) ''0600'',
      credentialFile ''/etc/vault/secret-id'' (vp_SecretID p @ newline) ''0600'',
      credentialFile ''/var/opt/scripts/vault-fetch-rke2-token.sh''
        (rke2FetchScript (vp_Addr p) (vp_SecretPath p)) ''0755'']"

definition mergeCloudInit :: "lib \<Rightarrow> MergeInput \<Rightarrow> error + string" where
  "mergeCloudInit L inp =
     chain (parseStatic L (mg_StaticCloudInit inp)) (\<lambda>static.
     chainWrap ''failed to parse bootstrap cloud-init''
       (yaml_UnmarshalCloudInit L (mg_BootstrapCloudInit inp)) (\<lambda>bootstrap.
     let merged = \<lparr>ci_WriteFiles = ci_WriteFiles static @ ci_WriteFiles bootstrap,
           ci_RunCmd = ci_RunCmd static @ ci_RunCmd bootstrap,
           ci_BootCmd = ci_BootCmd static @ ci_BootCmd bootstrap\<rparr>;
         merged = merged\<lparr>ci_WriteFiles := vaultFiles (mg_VaultParams inp) @ ci_WriteFiles merged\<rparr>;
         merged = merged\<lparr>ci_RunCmd :=
           [AnyString ''/var/opt/scripts/vault-fetch-rke2-token.sh''] @ ci_RunCmd merged\<rparr>
     in chain (yaml_MarshalCloudInit L merged) (\<lambda>out. Inr (cloudConfigHeader @ out))))"

section \<open>The codec\<close>

definition yaml_roundtrip :: "lib \<Rightarrow> bool" where
  "yaml_roundtrip L \<longleftrightarrow>
     (\<forall>d s. yaml_MarshalCloudInit L d = Inr s \<longrightarrow> yaml_UnmarshalCloudInit L s = Inr d) \<and>
     (\<forall>m s. yaml_MarshalMap L m = Inr s \<longrightarrow> (\<exists>m'. yaml_UnmarshalMap L s = Inr m' \<and> map_of m' = map_of m))"

abbreviation is_rke2_config :: "CloudInitFile \<Rightarrow> bool" where
  "is_rke2_config f \<equiv> f_Path f = rke2ConfigPath"

text \<open>\<open>token_free L f\<close>: the file is no RKE2 configuration with a token.\<close>

definition token_free :: "lib \<Rightarrow> CloudInitFile \<Rightarrow> bool" where
  "token_free L f \<longleftrightarrow> (is_rke2_config f \<longrightarrow>
     (\<exists>cfg. yaml_UnmarshalMap L (f_Content f) = Inr cfg \<and> map_of cfg ''token'' = None))"

section \<open>The loop\<close>

lemma stripFiles_no_config:
  "list_all (\<lambda>f. \<not> is_rke2_config f) fs \<Longrightarrow> stripFiles L fs = Inr (fs, [])"
  by (induction fs) auto

lemma stripFiles_config:
  assumes "stripFiles L fs = Inr (fs', token)" and "list_ex is_rke2_config fs"
  shows "\<exists>pre f post cfg updated. fs = pre @ f # post \<and> fs' = pre @ f\<lparr>f_Content := updated\<rparr> # post \<and>
    list_all (\<lambda>g. \<not> is_rke2_config g) pre \<and> is_rke2_config f \<and>
    yaml_UnmarshalMap L (f_Content f) = Inr cfg \<and> map_of cfg ''token'' = Some (AnyString token) \<and> token \<noteq> [] \<and>
    yaml_MarshalMap L (AList.delete ''token'' cfg) = Inr updated"
  using assms
proof (induction fs arbitrary: fs')
  case Nil
  then show ?case by simp
next
  case (Cons f fs)
  show ?case
  proof (cases "is_rke2_config f")
    case True
    with Cons.prems(1) obtain cfg updated where
      "yaml_UnmarshalMap L (f_Content f) = Inr cfg" "map_of cfg ''token'' = Some (AnyString token)" "token \<noteq> []"
      "yaml_MarshalMap L (AList.delete ''token'' cfg) = Inr updated" "fs' = f\<lparr>f_Content := updated\<rparr> # fs"
      by (auto simp: go_inv Let_def split: if_splits option.splits any.splits)
    with True show ?thesis by (intro exI [of _ "[]"]) auto
  next
    case False
    with Cons.prems obtain fs'' where "stripFiles L fs = Inr (fs'', token)" "fs' = f # fs''" "list_ex is_rke2_config fs"
      by (auto simp: go_inv)
    with Cons.IH obtain pre g post cfg updated where
      "fs = pre @ g # post" "fs'' = pre @ g\<lparr>f_Content := updated\<rparr> # post"
      "list_all (\<lambda>g. \<not> is_rke2_config g) pre" "is_rke2_config g"
      "yaml_UnmarshalMap L (f_Content g) = Inr cfg" "map_of cfg ''token'' = Some (AnyString token)" "token \<noteq> []"
      "yaml_MarshalMap L (AList.delete ''token'' cfg) = Inr updated" by blast
    with False \<open>fs' = _\<close> show ?thesis by (intro exI [of _ "f # pre"]) auto
  qed
qed

lemma AList_delete_token: "map_of (AList.delete k m) k = None"
  by (simp add: delete_conv')

lemma stripFiles_token_free:
  assumes codec: "yaml_roundtrip L" and run: "stripFiles L fs = Inr (fs', token)"
    and single: "length (filter is_rke2_config fs) \<le> 1"
  shows "list_all (token_free L) fs'"
proof (cases "list_ex is_rke2_config fs")
  case False
  then have "list_all (\<lambda>f. \<not> is_rke2_config f) fs" by (auto simp: list_ex_iff list_all_iff)
  with run stripFiles_no_config have "fs' = fs" by fastforce
  with \<open>list_all _ fs\<close> show ?thesis by (auto simp: list_all_iff token_free_def)
next
  case True
  from stripFiles_config [OF run True] obtain pre f post cfg updated where
    split: "fs = pre @ f # post" "fs' = pre @ f\<lparr>f_Content := updated\<rparr> # post"
    and pre: "list_all (\<lambda>g. \<not> is_rke2_config g) pre" and f: "is_rke2_config f"
    and upd: "yaml_MarshalMap L (AList.delete ''token'' cfg) = Inr updated" by blast
  from single split f have "filter is_rke2_config post = []" by simp
  then have post: "list_all (\<lambda>g. \<not> is_rke2_config g) post" by (auto simp: filter_empty_conv list_all_iff)
  from codec upd have "token_free L (f\<lparr>f_Content := updated\<rparr>)"
    unfolding yaml_roundtrip_def token_free_def using AList_delete_token by fastforce
  with split pre post show ?thesis by (auto simp: list_all_iff token_free_def)
qed

lemma parseStatic_Inr:
  "parseStatic L s = Inr d \<longleftrightarrow> s = [] \<and> d = emptyCloudInit \<or> s \<noteq> [] \<and> yaml_UnmarshalCloudInit L s = Inr d"
  by (auto simp: parseStatic_def go_inv)

lemma mergeCloudInit_parsed:
  assumes "parseStatic L (mg_StaticCloudInit inp) = Inr static"
    and "yaml_UnmarshalCloudInit L (mg_BootstrapCloudInit inp) = Inr bootstrap"
  shows "mergeCloudInit L inp = Inr ud \<longleftrightarrow> (\<exists>out. ud = cloudConfigHeader @ out \<and>
    yaml_MarshalCloudInit L \<lparr>
      ci_WriteFiles = vaultFiles (mg_VaultParams inp) @ ci_WriteFiles static @ ci_WriteFiles bootstrap,
      ci_RunCmd = AnyString ''/var/opt/scripts/vault-fetch-rke2-token.sh'' # ci_RunCmd static @ ci_RunCmd bootstrap,
      ci_BootCmd = ci_BootCmd static @ ci_BootCmd bootstrap\<rparr> = Inr out)"
  by (auto simp: mergeCloudInit_def assms go_inv Let_def)

lemma BuildRancherAgentUserData_parsed:
  assumes "parseStatic L (ra_StaticCloudInit inp) = Inr static"
  shows "BuildRancherAgentUserData L inp = Inr ud \<longleftrightarrow> (\<exists>out. ud = cloudConfigHeader @ out \<and>
    yaml_MarshalCloudInit L \<lparr>ci_WriteFiles = rancherFiles inp @ ci_WriteFiles static,
      ci_RunCmd = AnyString ''/var/opt/scripts/vault-fetch-rancher-registration.sh'' #
        AnyString ''systemctl enable --now rancher-system-agent'' # ci_RunCmd static,
      ci_BootCmd = ci_BootCmd static\<rparr> = Inr out)"
  by (auto simp: BuildRancherAgentUserData_def assms go_inv Let_def)

lemma vaultFiles_no_config: "list_all (\<lambda>f. \<not> is_rke2_config f) (vaultFiles p)"
  by (simp add: vaultFiles_def credentialFile_def rke2ConfigPath_def)

text \<open>
  With Vault, the join token does not reach the user data: when the bootstrap document has at most
  one RKE2 configuration and the static base has none, the document that is submitted (whose text
  is the user data after the header line) contains no RKE2 configuration with a token.
\<close>

lemma merge_token_free:
  assumes codec: "yaml_roundtrip L"
    and strip: "stripRKE2Token L raw = Inr (sanitised, token)"
    and merge: "mergeCloudInit L \<lparr>mg_BootstrapCloudInit = sanitised, mg_StaticCloudInit = base, mg_VaultParams = p\<rparr> = Inr ud"
    and bootstrap: "yaml_UnmarshalCloudInit L raw = Inr ci"
      "length (filter is_rke2_config (ci_WriteFiles ci)) \<le> 1"
    and static: "parseStatic L base = Inr static" "list_all (\<lambda>f. \<not> is_rke2_config f) (ci_WriteFiles static)"
  shows "\<exists>doc out. ud = cloudConfigHeader @ out \<and> yaml_MarshalCloudInit L doc = Inr out \<and>
    yaml_UnmarshalCloudInit L out = Inr doc \<and> list_all (token_free L) (ci_WriteFiles doc)"
proof -
  from strip bootstrap(1) obtain files where files: "stripFiles L (ci_WriteFiles ci) = Inr (files, token)"
    and san: "yaml_MarshalCloudInit L (ci\<lparr>ci_WriteFiles := files\<rparr>) = Inr sanitised"
    by (auto simp: stripRKE2Token_def go_inv)
  from codec san have reread: "yaml_UnmarshalCloudInit L sanitised = Inr (ci\<lparr>ci_WriteFiles := files\<rparr>)"
    by (simp add: yaml_roundtrip_def)
  from codec files bootstrap(2) have "list_all (token_free L) files" by (rule stripFiles_token_free)
  moreover have "list_all (token_free L) (vaultFiles p)" "list_all (token_free L) (ci_WriteFiles static)"
    using vaultFiles_no_config static(2) by (auto simp: list_all_iff token_free_def)
  ultimately have free: "list_all (token_free L) (vaultFiles p @ ci_WriteFiles static @ files)" by simp
  let ?doc = "\<lparr>ci_WriteFiles = vaultFiles p @ ci_WriteFiles static @ files,
    ci_RunCmd = AnyString ''/var/opt/scripts/vault-fetch-rke2-token.sh'' # ci_RunCmd static @ ci_RunCmd ci,
    ci_BootCmd = ci_BootCmd static @ ci_BootCmd ci\<rparr>"
  from merge static(1) reread obtain out where "ud = cloudConfigHeader @ out" "yaml_MarshalCloudInit L ?doc = Inr out"
    by (auto simp: mergeCloudInit_parsed)
  with codec free show ?thesis
    by (intro exI [of _ ?doc] exI [of _ out]) (simp add: yaml_roundtrip_def)
qed

lemma rancherFiles_no_config: "list_all (\<lambda>f. \<not> is_rke2_config f) (rancherFiles inp)"
  by (simp add: rancherFiles_def credentialFile_def rke2ConfigPath_def Let_def)

lemma rancher_token_free:
  assumes codec: "yaml_roundtrip L" and build: "BuildRancherAgentUserData L inp = Inr ud"
    and static: "parseStatic L (ra_StaticCloudInit inp) = Inr static" "list_all (\<lambda>f. \<not> is_rke2_config f) (ci_WriteFiles static)"
  shows "\<exists>doc out. ud = cloudConfigHeader @ out \<and> yaml_MarshalCloudInit L doc = Inr out \<and>
    yaml_UnmarshalCloudInit L out = Inr doc \<and> list_all (token_free L) (ci_WriteFiles doc)"
proof -
  have "list_all (token_free L) (rancherFiles inp @ ci_WriteFiles static)"
    using rancherFiles_no_config static(2) by (auto simp: list_all_iff token_free_def)
  with codec build static(1) show ?thesis
    by (fastforce simp: BuildRancherAgentUserData_parsed yaml_roundtrip_def)
qed

section \<open>Properties\<close>

text \<open>A sample codec: documents \<open>ci_raw\<close> (with a token) and its sanitised and merged forms, by table.\<close>

definition rke2_file :: "string \<Rightarrow> CloudInitFile" where
  "rke2_file c = credentialFile rke2ConfigPath c ''0640''"

definition ci_of :: "CloudInitFile list \<Rightarrow> any list \<Rightarrow> CloudInit" where
  "ci_of fs run = \<lparr>ci_WriteFiles = fs, ci_RunCmd = run, ci_BootCmd = []\<rparr>"

definition params_sample :: VaultParams where
  "params_sample = \<lparr>vp_Addr = ''v'', vp_SecretPath = ''p'', vp_RoleID = ''r'', vp_SecretID = ''s''\<rparr>"

definition lib_yaml :: lib where
  "lib_yaml = (let raw = ci_of [rke2_file ''with''] []; clean = ci_of [rke2_file ''without''] [];
       merged = ci_of (vaultFiles params_sample @ [rke2_file ''without''])
         [AnyString ''/var/opt/scripts/vault-fetch-rke2-token.sh'']
     in lib_sample\<lparr>
       yaml_UnmarshalCloudInit := (\<lambda>s. if s = ''raw'' then Inr raw else if s = ''clean'' then Inr clean
          else if s = ''merged'' then Inr merged else Inl (ErrExternal [])),
       yaml_MarshalCloudInit := (\<lambda>d. if d = raw then Inr ''raw'' else if d = clean then Inr ''clean''
          else if d = merged then Inr ''merged'' else Inl (ErrExternal [])),
       yaml_UnmarshalMap := (\<lambda>s. if s = ''with'' then Inr [(''server'', AnyString ''u''), (''token'', AnyString ''T'')]
          else if s = ''without'' then Inr [(''server'', AnyString ''u'')] else Inl (ErrExternal [])),
       yaml_MarshalMap := (\<lambda>m. if m = [(''server'', AnyString ''u'')] then Inr ''without'' else Inl (ErrExternal []))\<rparr>)"

lemma lib_yaml_roundtrip: "yaml_roundtrip lib_yaml"
  by (auto simp: yaml_roundtrip_def lib_yaml_def Let_def ci_of_def rke2_file_def credentialFile_def
      vaultFiles_def split: if_splits)

lemma lib_yaml_strip: "stripRKE2Token lib_yaml ''raw'' = Inr (''clean'', ''T'')"
  by (simp add: stripRKE2Token_def lib_yaml_def Let_def ci_of_def rke2_file_def credentialFile_def rke2ConfigPath_def)

lemma lib_yaml_merge:
  "mergeCloudInit lib_yaml \<lparr>mg_BootstrapCloudInit = ''clean'', mg_StaticCloudInit = [], mg_VaultParams = params_sample\<rparr>
     = Inr (cloudConfigHeader @ ''merged'')"
  by (simp add: mergeCloudInit_def parseStatic_def emptyCloudInit_def lib_yaml_def Let_def ci_of_def rke2_file_def
      credentialFile_def vaultFiles_def)

text \<open>C28: stripping removes the token of the first RKE2 configuration and nothing else: the other files,
  the commands and the boot commands are the ones of the bootstrap document, that configuration
  keeps every key but the token, and the token that is returned is its non-empty value.\<close>

theorem strip_keeps_the_rest:
  assumes "stripRKE2Token L raw = Inr (out, token)"
    and "yaml_UnmarshalCloudInit L raw = Inr ci" and "list_ex is_rke2_config (ci_WriteFiles ci)"
  shows "\<exists>pre f post cfg updated. ci_WriteFiles ci = pre @ f # post \<and> is_rke2_config f \<and>
    list_all (\<lambda>g. \<not> is_rke2_config g) pre \<and>
    yaml_UnmarshalMap L (f_Content f) = Inr cfg \<and> map_of cfg ''token'' = Some (AnyString token) \<and> token \<noteq> [] \<and>
    yaml_MarshalMap L (AList.delete ''token'' cfg) = Inr updated \<and>
    yaml_MarshalCloudInit L (ci\<lparr>ci_WriteFiles := pre @ f\<lparr>f_Content := updated\<rparr> # post\<rparr>) = Inr out"
proof -
  from assms(1,2) obtain files where files: "stripFiles L (ci_WriteFiles ci) = Inr (files, token)"
    and out: "yaml_MarshalCloudInit L (ci\<lparr>ci_WriteFiles := files\<rparr>) = Inr out"
    by (auto simp: stripRKE2Token_def go_inv)
  from stripFiles_config [OF files assms(3)] out show ?thesis by blast
qed

theorem strip_keeps_the_rest_witness:
  "\<exists>pre f post. ci_WriteFiles (ci_of [rke2_file ''with''] []) = pre @ f # post \<and> is_rke2_config f \<and>
     (\<exists>cfg. yaml_UnmarshalMap lib_yaml (f_Content f) = Inr cfg \<and> map_of cfg ''token'' = Some (AnyString ''T''))"
proof -
  have "yaml_UnmarshalCloudInit lib_yaml ''raw'' = Inr (ci_of [rke2_file ''with''] [])"
    by (simp add: lib_yaml_def Let_def)
  moreover have "list_ex is_rke2_config (ci_WriteFiles (ci_of [rke2_file ''with''] []))"
    by (simp add: ci_of_def rke2_file_def credentialFile_def)
  ultimately show ?thesis using strip_keeps_the_rest [OF lib_yaml_strip] by blast
qed

text \<open>C37: a bootstrap document without an RKE2 configuration is not rejected: it is passed on as it is,
  with the empty string as the token.\<close>

theorem strip_without_config:
  assumes "yaml_UnmarshalCloudInit L raw = Inr ci" and "list_all (\<lambda>f. \<not> is_rke2_config f) (ci_WriteFiles ci)"
    and "yaml_MarshalCloudInit L ci = Inr out"
  shows "stripRKE2Token L raw = Inr (out, [])"
  using assms by (simp add: stripRKE2Token_def stripFiles_no_config)

theorem strip_without_config_witness:
  "stripRKE2Token (lib_sample\<lparr>yaml_UnmarshalCloudInit := (\<lambda>_. Inr emptyCloudInit),
     yaml_MarshalCloudInit := (\<lambda>_. Inr ''doc'')\<rparr>) ''raw'' = Inr (''doc'', [])"
  by (rule strip_without_config [where ci = emptyCloudInit]) (simp_all add: emptyCloudInit_def)

text \<open>C29: the user data of the RKE2 path starts with the cloud-config header; its document has first the
  two credential files (mode 0600) and the fetch script, then the static and then the bootstrap
  files; its first command runs that script, and the static commands precede the bootstrap ones.\<close>

theorem merge_order:
  assumes "mergeCloudInit L inp = Inr ud"
    and "parseStatic L (mg_StaticCloudInit inp) = Inr static"
    and "yaml_UnmarshalCloudInit L (mg_BootstrapCloudInit inp) = Inr bootstrap"
  shows "\<exists>out script. ud = cloudConfigHeader @ out \<and>
    yaml_MarshalCloudInit L \<lparr>
      ci_WriteFiles =
        credentialFile ''/etc/vault/role-id'' (vp_RoleID (mg_VaultParams inp) @ newline) ''0600'' #
        credentialFile ''/etc/vault/secret-id'' (vp_SecretID (mg_VaultParams inp) @ newline) ''0600'' #
        script # ci_WriteFiles static @ ci_WriteFiles bootstrap,
      ci_RunCmd = AnyString (f_Path script) # ci_RunCmd static @ ci_RunCmd bootstrap,
      ci_BootCmd = ci_BootCmd static @ ci_BootCmd bootstrap\<rparr> = Inr out \<and>
    f_Permissions script = ''0755''"
proof -
  let ?script = "credentialFile ''/var/opt/scripts/vault-fetch-rke2-token.sh''
    (rke2FetchScript (vp_Addr (mg_VaultParams inp)) (vp_SecretPath (mg_VaultParams inp))) ''0755''"
  from assms(1) obtain out where "ud = cloudConfigHeader @ out"
    "yaml_MarshalCloudInit L \<lparr>
      ci_WriteFiles = vaultFiles (mg_VaultParams inp) @ ci_WriteFiles static @ ci_WriteFiles bootstrap,
      ci_RunCmd = AnyString ''/var/opt/scripts/vault-fetch-rke2-token.sh'' # ci_RunCmd static @ ci_RunCmd bootstrap,
      ci_BootCmd = ci_BootCmd static @ ci_BootCmd bootstrap\<rparr> = Inr out"
    using assms(2,3) by (auto simp: mergeCloudInit_parsed)
  then show ?thesis
    by (intro exI [of _ out] exI [of _ ?script]) (simp add: vaultFiles_def credentialFile_def)
qed

theorem merge_order_witness:
  "\<exists>script. yaml_MarshalCloudInit lib_yaml (ci_of
       [credentialFile ''/etc/vault/role-id'' (''r'' @ newline) ''0600'',
        credentialFile ''/etc/vault/secret-id'' (''s'' @ newline) ''0600'', script, rke2_file ''without'']
       [AnyString (f_Path script)]) = Inr ''merged''"
proof -
  let ?inp = "\<lparr>mg_BootstrapCloudInit = ''clean'', mg_StaticCloudInit = [], mg_VaultParams = params_sample\<rparr>"
  have "parseStatic lib_yaml (mg_StaticCloudInit ?inp) = Inr emptyCloudInit"
    "yaml_UnmarshalCloudInit lib_yaml (mg_BootstrapCloudInit ?inp) = Inr (ci_of [rke2_file ''without''] [])"
    by (simp_all add: parseStatic_def lib_yaml_def Let_def)
  from merge_order [OF lib_yaml_merge this] show ?thesis
    by (auto simp: params_sample_def emptyCloudInit_def ci_of_def)
qed









end
