(* ===== verification/Waldur_Helpers.thy ===== *)
theory Waldur_Helpers
  imports Sample_Env
begin

text \<open>
  The lookups and order operations of \<^verbatim>\<open>internal/controller/waldur_helpers.go\<close>, which both reconcilers
  share. A list answer is dereferenced without a look at the HTTP status, so an answer other than
  200 (\<open>JSON\<close> nil) panics here as it does in the code. The locale \<open>terminable\<close> is the deletion
  protocol that machines and tenants have in common: which step of the termination is due is a
  function of the recorded marketplace resource and order (\<open>deletePhase\<close>), and refreshing or
  resubmitting moves between the phases in one way only.
\<close>

section \<open>Lookups\<close>

definition getFlavor :: "env \<Rightarrow> PublicOfferingDetails \<Rightarrow> string \<Rightarrow> (error + OpenStackFlavor) io" where
  "getFlavor E offering flavorName =
     andThen (w_OpenstackFlavorsList E (off_Uuid offering) flavorName) (\<lambda>resp.
     deref (JSON resp) (\<lambda>flavors.
     if flavors = [] then deref (off_Slug offering) (\<lambda>slug.
       fail (Errorf ''flavor %q not found in offering %s'' [flavorName, slug]))
     else ok (hd flavors)))"

definition getImage :: "env \<Rightarrow> PublicOfferingDetails \<Rightarrow> string \<Rightarrow> (error + OpenStackImage) io" where
  "getImage E offering imageName =
     andThen (w_OpenstackImagesList E (off_Uuid offering) imageName) (\<lambda>resp.
     deref (JSON resp) (\<lambda>images.
     if images = [] then deref (off_Slug offering) (\<lambda>slug.
       fail (Errorf ''image %q not found in offering %s'' [imageName, slug]))
     else ok (hd images)))"

definition getTenantSecurityGroups :: "env \<Rightarrow> uuid \<Rightarrow> (error + OpenStackSecurityGroup list) io" where
  "getTenantSecurityGroups E tenantUuid =
     andThenWrap ''unable to list security groups'' (w_OpenstackSecurityGroupsList E tenantUuid) (\<lambda>resp.
     deref (JSON resp) ok)"

definition getTenantSubnets :: "env \<Rightarrow> uuid \<Rightarrow> (error + OpenStackSubNet list) io" where
  "getTenantSubnets E tenantUuid =
     andThenWrap ''unable to list subnets'' (w_OpenstackSubnetsList E tenantUuid) (\<lambda>resp.
     deref (JSON resp) ok)"

definition getTenantVolumeTypes :: "env \<Rightarrow> uuid \<Rightarrow> (error + OpenStackVolumeType list) io" where
  "getTenantVolumeTypes E tenantUuid =
     andThenWrap ''unable to list volume types'' (w_OpenstackVolumeTypesList E tenantUuid) (\<lambda>resp.
     deref (JSON resp) ok)"

definition getOffering :: "env \<Rightarrow> string \<Rightarrow> (error + PublicOfferingDetails) io" where
  "getOffering E offeringSlug =
     andThen (w_MarketplacePublicOfferingsList E offeringSlug) (\<lambda>resp.
     deref (JSON resp) (\<lambda>offerings.
     if offerings = [] then fail (Errorf ''unable to find an offering with slug %s'' [offeringSlug])
     else ok (hd offerings)))"

definition getOfferingByUUID :: "env \<Rightarrow> uuid \<Rightarrow> (error + PublicOfferingDetails) io" where
  "getOfferingByUUID E offeringUuid =
     andThen (w_MarketplacePublicOfferingsRetrieve E offeringUuid) (\<lambda>resp. deref (JSON resp) ok)"

text \<open>The result may be a nil pointer without an error.\<close>

definition getMarketplaceResource :: "lib \<Rightarrow> env \<Rightarrow> string \<Rightarrow> (error + Resource option) io" where
  "getMarketplaceResource L E marketplaceResourceUuid =
     andThenWrap ''unable to parse marketplace resource UUID'' (ret (uuid_Parse L marketplaceResourceUuid)) (\<lambda>resourceUuid.
     andThenWrap ''unable to retrieve marketplace resource'' (w_MarketplaceResourcesRetrieve E resourceUuid) (\<lambda>resp.
     ok (JSON resp)))"

section \<open>Orders\<close>

definition refreshOrder :: "lib \<Rightarrow> env \<Rightarrow> WaldurOrder \<Rightarrow> (error + WaldurOrder) io" where
  "refreshOrder L E existingOrder =
     andThen (ret (uuid_Parse L (wo_Uuid existingOrder))) (\<lambda>orderUuid.
     andThen (w_MarketplaceOrdersRetrieve E orderUuid) (\<lambda>resp.
     deref (JSON resp) (\<lambda>order.
     deref (od_State order) (\<lambda>state.
     let o1 = existingOrder\<lparr>wo_State := state\<rparr> in
     case od_ResourceUuid order of
       None \<Rightarrow> ok o1
     | Some u \<Rightarrow> ok (o1\<lparr>wo_ResourceUuid := Some (uuid_String L u)\<rparr>)))))"

definition submitTerminationOrder :: "lib \<Rightarrow> env \<Rightarrow> string \<Rightarrow> (error + WaldurOrder) io" where
  "submitTerminationOrder L E marketplaceResourceUuid =
     andThenWrap ''unable to parse marketplace resource UUID'' (ret (uuid_Parse L marketplaceResourceUuid)) (\<lambda>resourceUuid.
     andThen (w_MarketplaceResourcesTerminate E resourceUuid) (\<lambda>resp.
     if StatusCode resp \<noteq> 200 \<and> StatusCode resp \<noteq> 202
     then fail (Errorf ''unable to submit termination order, status %d: %s'' [itoa (StatusCode resp), Body resp])
     else (case JSON resp of
         None \<Rightarrow> fail (Errorf ''termination order response missing order UUID'' [])
       | Some body \<Rightarrow> (case ou_OrderUuid body of
             None \<Rightarrow> fail (Errorf ''termination order response missing order UUID'' [])
           | Some u \<Rightarrow> ok \<lparr>wo_Uuid = uuid_String L u, wo_Type = Terminate, wo_State = OrderStatePendingProvider,
               wo_MarketplaceResourceUuid = marketplaceResourceUuid, wo_ResourceUuid = None\<rparr>))))"

definition isOrderTerminal :: "OrderState \<Rightarrow> bool" where
  "isOrderTerminal state \<longleftrightarrow>
     state = OrderStateDone \<or> state = OrderStateErred \<or> state = OrderStateCanceled"

section \<open>Which calls change Waldur\<close>

definition creates_order :: "event \<Rightarrow> bool" where
  "creates_order e = (case e of WaldurEv (MarketplaceOrdersCreate _ _) \<Rightarrow> True | _ \<Rightarrow> False)"

definition terminates :: "event \<Rightarrow> bool" where
  "terminates e = (case e of WaldurEv (MarketplaceResourcesTerminate _ _) \<Rightarrow> True | _ \<Rightarrow> False)"

definition waldur_write :: "event \<Rightarrow> bool" where
  "waldur_write e = (case e of
     WaldurEv (ProjectsCreate _ _) \<Rightarrow> True | WaldurEv (ProjectsDestroy _ _) \<Rightarrow> True
   | WaldurEv (MarketplaceResourcesTerminate _ _) \<Rightarrow> True | WaldurEv (MarketplaceOrdersCreate _ _) \<Rightarrow> True
   | WaldurEv (OpenstackInstancesStop _ _) \<Rightarrow> True | _ \<Rightarrow> False)"

definition waldur_read :: "event \<Rightarrow> bool" where
  "waldur_read e \<longleftrightarrow> (\<exists>x. e = WaldurEv x) \<and> \<not> waldur_write e"

lemmas event_class_defs = creates_order_def terminates_def waldur_write_def waldur_read_def

lemma creates_order_iff: "creates_order e \<longleftrightarrow> (\<exists>p a. e = WaldurEv (MarketplaceOrdersCreate p a))"
  by (auto simp: creates_order_def split: event.splits waldur_event.splits)

lemma terminates_iff: "terminates e \<longleftrightarrow> (\<exists>u a. e = WaldurEv (MarketplaceResourcesTerminate u a))"
  by (auto simp: terminates_def split: event.splits waldur_event.splits)

lemma waldur_read_classes: "waldur_read e \<Longrightarrow> \<not> creates_order e" "waldur_read e \<Longrightarrow> \<not> terminates e" "waldur_read e \<Longrightarrow> e \<noteq> KubeEv k"
  by (auto simp: waldur_read_def waldur_write_def creates_order_iff terminates_iff)

lemmas helper_defs = getFlavor_def getImage_def getTenantSecurityGroups_def getTenantSubnets_def
  getTenantVolumeTypes_def getOffering_def getOfferingByUUID_def getMarketplaceResource_def refreshOrder_def

text \<open>The lookups and the refresh of an order only read.\<close>

lemma emits_helpers:
  "emits waldur_read (getFlavor E off n)" "emits waldur_read (getImage E off n)"
  "emits waldur_read (getTenantSecurityGroups E u)" "emits waldur_read (getTenantSubnets E u)"
  "emits waldur_read (getTenantVolumeTypes E u)" "emits waldur_read (getOffering E n)"
  "emits waldur_read (getOfferingByUUID E u)" "emits waldur_read (getMarketplaceResource L E n)"
  "emits waldur_read (refreshOrder L E ord)"
  unfolding helper_defs prim_defs
  by (intro ext.frame_rules emits_prims; simp add: event_class_defs)+

lemma emits_submitTerminationOrder:
  "emits (\<lambda>e. waldur_read e \<or> terminates e) (submitTerminationOrder L E n)"
  unfolding submitTerminationOrder_def prim_defs
  by (intro ext.frame_rules emits_prims) (simp_all add: event_class_defs)

lemma submitTerminationOrder_Inr:
  assumes "submitTerminationOrder L E mp w = (Ret (Inr ord), w')"
  shows "wo_Type ord = Terminate" "wo_State ord = OrderStatePendingProvider" "wo_MarketplaceResourceUuid ord = mp"
    "\<exists>u resp body v. uuid_Parse L mp = Inr u \<and> StatusCode resp \<in> {200, 202} \<and> JSON resp = Some body \<and>
       ou_OrderUuid body = Some v \<and> wo_Uuid ord = uuid_String L v \<and>
       hist w' = hist w @ [WaldurEv (MarketplaceResourcesTerminate u (Inr resp))]"
  using assms by (fastforce simp: submitTerminationOrder_def w_MarketplaceResourcesTerminate_def go_inv)+

lemma refreshOrder_Inr:
  assumes "refreshOrder L E ord w = (Ret (Inr ord'), w')"
  shows "wo_Uuid ord' = wo_Uuid ord" "wo_Type ord' = wo_Type ord"
    "wo_MarketplaceResourceUuid ord' = wo_MarketplaceResourceUuid ord"
    "\<exists>u resp od st. uuid_Parse L (wo_Uuid ord) = Inr u \<and> JSON resp = Some od \<and> od_State od = Some st \<and>
       wo_State ord' = st \<and> hist w' = hist w @ [WaldurEv (MarketplaceOrdersRetrieve u (Inr resp))]"
  using assms by (auto simp: refreshOrder_def w_MarketplaceOrdersRetrieve_def go_inv Let_def)

text \<open>Where the result of a lookup comes from.\<close>

lemma lookup_Inr:
  "getOffering E n w = (Ret (Inr x), w') \<Longrightarrow> \<exists>resp xs. JSON resp = Some (x # xs) \<and>
     hist w' = hist w @ [WaldurEv (MarketplacePublicOfferingsList n (Inr resp))]"
  "getOfferingByUUID E u w = (Ret (Inr x), w') \<Longrightarrow> \<exists>resp. JSON resp = Some x \<and>
     hist w' = hist w @ [WaldurEv (MarketplacePublicOfferingsRetrieve u (Inr resp))]"
  "getFlavor E off n w = (Ret (Inr fl), w') \<Longrightarrow> \<exists>resp xs. JSON resp = Some (fl # xs) \<and>
     hist w' = hist w @ [WaldurEv (OpenstackFlavorsList (off_Uuid off) n (Inr resp))]"
  "getImage E off n w = (Ret (Inr im), w') \<Longrightarrow> \<exists>resp xs. JSON resp = Some (im # xs) \<and>
     hist w' = hist w @ [WaldurEv (OpenstackImagesList (off_Uuid off) n (Inr resp))]"
  "getTenantSecurityGroups E u w = (Ret (Inr sgs), w') \<Longrightarrow> \<exists>resp. JSON resp = Some sgs \<and>
     hist w' = hist w @ [WaldurEv (OpenstackSecurityGroupsList u (Inr resp))]"
  "getTenantSubnets E u w = (Ret (Inr sns), w') \<Longrightarrow> \<exists>resp. JSON resp = Some sns \<and>
     hist w' = hist w @ [WaldurEv (OpenstackSubnetsList u (Inr resp))]"
  "getTenantVolumeTypes E u w = (Ret (Inr vts), w') \<Longrightarrow> \<exists>resp. JSON resp = Some vts \<and>
     hist w' = hist w @ [WaldurEv (OpenstackVolumeTypesList u (Inr resp))]"
  unfolding helper_defs prim_defs
  by (fastforce simp: go_inv neq_Nil_conv)+

section \<open>The deletion protocol\<close>

text \<open>
  What is due for an object under deletion, from the marketplace resource it has recorded (the
  empty string: none) and its latest order.
\<close>

datatype delete_phase = NeverProvisioned | SubmitDue | InFlight | Terminated

definition deletePhase :: "string \<Rightarrow> WaldurOrder option \<Rightarrow> delete_phase" where
  "deletePhase mp ord =
     (if mp = [] then NeverProvisioned
      else case ord of
        None \<Rightarrow> SubmitDue
      | Some x \<Rightarrow>
          if wo_Type x = Terminate \<and> \<not> isOrderTerminal (wo_State x) then InFlight
          else if wo_Type x = Terminate \<and> wo_State x = OrderStateDone then Terminated
          else SubmitDue)"

lemma deletePhase_finished:
  "deletePhase mp ord \<in> {NeverProvisioned, Terminated} \<longleftrightarrow>
     mp = [] \<or> (\<exists>x. ord = Some x \<and> wo_Type x = Terminate \<and> wo_State x = OrderStateDone)"
  by (auto simp: deletePhase_def isOrderTerminal_def split: option.split)

text \<open>A refresh keeps which order it is, and leaves a terminal order alone.\<close>

definition order_step :: "WaldurOrder option \<Rightarrow> WaldurOrder option \<Rightarrow> bool" where
  "order_step a b = (case a of
     None \<Rightarrow> b = None
   | Some x \<Rightarrow> (case b of None \<Rightarrow> False
       | Some y \<Rightarrow> wo_Uuid y = wo_Uuid x \<and> wo_Type y = wo_Type x \<and>
           wo_MarketplaceResourceUuid y = wo_MarketplaceResourceUuid x \<and>
           (isOrderTerminal (wo_State x) \<longrightarrow> y = x)))"

lemma order_step_refl: "order_step a a"
  by (simp add: order_step_def split: option.split)

lemma order_step_refreshed:
  assumes "refreshOrder L E x w = (Ret (Inr y), w')" and "\<not> isOrderTerminal (wo_State x)"
  shows "order_step (Some x) (Some y)"
  using refreshOrder_Inr(1-3) [OF assms(1)] assms(2) by (simp add: order_step_def)

locale terminable =
  fixes mp :: "'r \<Rightarrow> string"
    and ord :: "'r \<Rightarrow> WaldurOrder option"
    and set_ord :: "WaldurOrder \<Rightarrow> 'r \<Rightarrow> 'r"
    and refresh :: "'r \<Rightarrow> ('r \<times> error option) io"
  assumes ord_set: "ord (set_ord x r) = Some x"
    and mp_set: "mp (set_ord x r) = mp r"
    and refresh_mp: "refresh r w = (Ret (r', err), w') \<Longrightarrow> mp r \<noteq> [] \<Longrightarrow> mp r' = mp r"
    and refresh_ord: "refresh r w = (Ret (r', err), w') \<Longrightarrow> order_step (ord r) (ord r')"
    and refresh_reads: "emits waldur_read (refresh r)"
begin

lemma submitted_in_flight:
  assumes "submitTerminationOrder L E (mp r) w = (Ret (Inr x), w')" and "mp r \<noteq> []"
  shows "deletePhase (mp (set_ord x r)) (ord (set_ord x r)) = InFlight"
  using submitTerminationOrder_Inr(1,2) [OF assms(1)] assms(2)
  by (simp add: deletePhase_def ord_set mp_set isOrderTerminal_def)

lemma refresh_in_flight:
  assumes "refresh r w = (Ret (r', err), w')" and "deletePhase (mp r) (ord r) = InFlight"
  shows "deletePhase (mp r') (ord r') \<in> {InFlight, Terminated, SubmitDue}"
proof -
  from assms(2) have "mp r \<noteq> []" by (auto simp: deletePhase_def)
  with refresh_mp [OF assms(1)] have "mp r' \<noteq> []" by simp
  then show ?thesis by (auto simp: deletePhase_def split: option.split)
qed

lemma refresh_terminated:
  assumes "refresh r w = (Ret (r', err), w')" and "deletePhase (mp r) (ord r) = Terminated"
  shows "deletePhase (mp r') (ord r') = Terminated \<and> ord r' = ord r"
proof -
  from assms(2) obtain x where x: "ord r = Some x" "wo_Type x = Terminate" "wo_State x = OrderStateDone" "mp r \<noteq> []"
    by (auto simp: deletePhase_def split: if_splits option.splits)
  with refresh_ord [OF assms(1)] have "ord r' = Some x"
    by (auto simp: order_step_def isOrderTerminal_def split: option.splits)
  with x refresh_mp [OF assms(1)] show ?thesis by (simp add: deletePhase_def isOrderTerminal_def)
qed

lemma refresh_no_write: "refresh r w = (x, w') \<Longrightarrow> \<exists>es. hist w' = hist w @ es \<and> list_all waldur_read es"
  using refresh_reads by (blast elim: emitsD)

end

section \<open>Properties\<close>

text \<open>A termination is recorded only when Waldur accepted it: the order that is returned is the one
  Waldur named in its answer to exactly one terminate call for the resource, it is a termination
  of that resource, and it starts in the pending state, so the next pass polls it.\<close>

lemma termination_order_recorded:
  assumes "submitTerminationOrder L E mp w = (Ret (Inr ord), w')" and "mp \<noteq> []"
  shows "deletePhase mp (Some ord) = InFlight \<and> wo_MarketplaceResourceUuid ord = mp \<and>
    (\<exists>u resp body v. uuid_Parse L mp = Inr u \<and> StatusCode resp \<in> {200, 202} \<and> JSON resp = Some body \<and>
       ou_OrderUuid body = Some v \<and> wo_Uuid ord = uuid_String L v \<and>
       hist w' = hist w @ [WaldurEv (MarketplaceResourcesTerminate u (Inr resp))])"
  using submitTerminationOrder_Inr [OF assms(1)] assms(2)
  by (simp add: deletePhase_def isOrderTerminal_def)

definition env_terminate :: "nat \<Rightarrow> OrderUUID option \<Rightarrow> env" where
  "env_terminate code body = env_down\<lparr>env_waldur := waldur_down\<lparr>
     on_MarketplaceResourcesTerminate := (\<lambda>_ _. Inr \<lparr>StatusCode = code, Body = [], JSON = body\<rparr>)\<rparr>\<rparr>"

text \<open>C32: the status 202 that the code accepts for a termination never leads to a recorded order. The
  generated client decodes a body only for status 200; under that behaviour, a 202 answer makes the
  call fail after the terminate request was sent.\<close>

theorem accepted_termination_fails:
  assumes client: "\<And>h u r. on_MarketplaceResourcesTerminate (env_waldur E) h u = Inr r \<Longrightarrow> JSON r \<noteq> None \<Longrightarrow> StatusCode r = 200"
    and "uuid_Parse L mp = Inr u"
    and "on_MarketplaceResourcesTerminate (env_waldur E) (hist w) u = Inr resp" and "StatusCode resp = 202"
  shows "\<exists>e. submitTerminationOrder L E mp w =
    (Ret (Inl e), w\<lparr>hist := hist w @ [WaldurEv (MarketplaceResourcesTerminate u (Inr resp))]\<rparr>)"
proof -
  from client [OF assms(3)] assms(4) have "JSON resp = None" by fastforce
  with assms(2-4) show ?thesis
    by (simp add: submitTerminationOrder_def w_MarketplaceResourcesTerminate_def andThen_def andThenWrap_def perform_def
        fail_def bind_def ret_def Let_def)
qed

theorem accepted_termination_fails_witness:
  "\<exists>e. submitTerminationOrder lib_sample (env_terminate 202 None) ''00'' world_sample =
    (Ret (Inl e), world_sample\<lparr>hist := hist world_sample @
       [WaldurEv (MarketplaceResourcesTerminate 1 (Inr \<lparr>StatusCode = 202, Body = [], JSON = None\<rparr>))]\<rparr>)"
  by (rule accepted_termination_fails) (auto simp: env_terminate_def lib_sample_def)

end
