(* ===== verification/Machine_Controller.thy ===== *)
theory Machine_Controller
  imports Vault_Client Cloud_Init Waldur_Helpers
begin

text \<open>
  The reconciler of \<^verbatim>\<open>WaldurMachine\<close> objects, \<^verbatim>\<open>internal/controller/waldurmachine_controller.go\<close>: one
  definition per method, with the long ones cut at their natural seams. \<^verbatim>\<open>createVM\<close> is \<open>vmUserData\<close> followed by
  \<open>submitVMOrder\<close>, whose end after the answer is \<open>handleOrderResponse\<close> and \<open>recordVMOrder\<close>; the guards of
  \<^verbatim>\<open>buildOrderPayload\<close> are \<open>readyTenant\<close>; \<^verbatim>\<open>Reconcile\<close> goes on in \<open>machine_reconcileLoaded\<close> once the machine was
  read and in \<open>reconcileVM\<close>, \<open>setProviderID\<close> and \<open>patchMachineStatus\<close> once its owners were; \<open>stopVM\<close> and
  \<open>terminateVM\<close> are the end of \<^verbatim>\<open>reconcileDelete\<close>. A Go variable
  that a client call overwrites with the server's answer is rebound here to that answer. Logging is
  left out, except where evaluating a log argument can panic.
\<close>

section \<open>The reconciler\<close>

definition machineFinalizer :: string where
  "machineFinalizer = ''waldurmachine.infrastructure.cluster.waldur.com/finalizer''"

record WaldurMachineReconciler =
  mr_VaultClient :: "vault_iface option"
  mr_BaseTemplate :: string
  mr_OperatorNamespace :: string

section \<open>User data\<close>

definition readVaultConfigSecret :: "env \<Rightarrow> WaldurMachineReconciler \<Rightarrow> string \<Rightarrow> (error + Secret) io" where
  "readVaultConfigSecret E r clusterName =
     andThenWrap ''failed to fetch vault config secret %q''
       (k_GetSecret E (namespacedName (mr_OperatorNamespace r) (''vault-config-'' @ clusterName))) ok"

definition hasRancherFields :: "Secret \<Rightarrow> bool" where
  "hasRancherFields secret \<longleftrightarrow> map_of (sec_Data secret) ''rancher_url'' \<noteq> None"

text \<open>Both builders return the user data, the secret identifier and the role name.\<close>

definition buildUserDataWithRancherAgent ::
    "lib \<Rightarrow> vault_iface \<Rightarrow> WaldurMachineReconciler \<Rightarrow> Machine \<Rightarrow> Secret \<Rightarrow> (error + string \<times> string \<times> string) io" where
  "buildUserDataWithRancherAgent L V r machine vaultConfigSecret =
     (let vaultAddr = getStr (sec_Data vaultConfigSecret) ''vault_addr'';
          roleName = getStr (sec_Data vaultConfigSecret) ''role_name'';
          roleID = getStr (sec_Data vaultConfigSecret) ''role_id'';
          rancherURL = getStr (sec_Data vaultConfigSecret) ''rancher_url'';
          secretPath0 = getStr (sec_Data vaultConfigSecret) ''rancher_vault_secret_path'';
          secretPath = (if secretPath0 = []
            then ''secret/data/haldus.k8s.riigipilv.ee/rancher/'' @ ma_ClusterName machine else secretPath0)
      in andThenWrap ''failed to generate Vault secret_id'' (GenerateSecretID V roleName) (\<lambda>secretID.
         case BuildRancherAgentUserData L \<lparr>ra_StaticCloudInit = mr_BaseTemplate r,
                ra_VaultParams = \<lparr>rvp_Addr = vaultAddr, rvp_SecretPath = secretPath, rvp_RoleID = roleID, rvp_SecretID = secretID\<rparr>,
                ra_RancherURL = rancherURL\<rparr> of
           Inl e \<Rightarrow> bind (RevokeSecretID V roleName secretID) (\<lambda>_.
                      fail (Wrap ''failed to build rancher-agent cloud-init'' e))
         | Inr userData \<Rightarrow> ok (userData, secretID, roleName)))"

definition buildUserDataWithVault ::
    "lib \<Rightarrow> vault_iface \<Rightarrow> WaldurMachineReconciler \<Rightarrow> string \<Rightarrow> Secret \<Rightarrow> (error + string \<times> string \<times> string) io" where
  "buildUserDataWithVault L V r rawCloudInit vaultConfigSecret =
     andThenWrap ''failed to strip RKE2 token from bootstrap cloud-init'' (ret (stripRKE2Token L rawCloudInit)) (\<lambda>(sanitisedCI, rke2Token).
     let vaultAddr = getStr (sec_Data vaultConfigSecret) ''vault_addr'';
         secretPath = getStr (sec_Data vaultConfigSecret) ''vault_secret_path'';
         roleName = getStr (sec_Data vaultConfigSecret) ''role_name'';
         roleID = getStr (sec_Data vaultConfigSecret) ''role_id''
     in andThenWrap ''failed to check if RKE2 token exists in Vault'' (SecretExists V secretPath) (\<lambda>exists.
        bind (if \<not> exists then WriteSecret V secretPath [(''token'', rke2Token)] else ret None) (\<lambda>werr.
        case werr of
          Some e \<Rightarrow> fail (Wrap ''failed to write RKE2 token to Vault'' e)
        | None \<Rightarrow>
            andThenWrap ''failed to generate Vault secret_id'' (GenerateSecretID V roleName) (\<lambda>secretID.
            case mergeCloudInit L \<lparr>mg_BootstrapCloudInit = sanitisedCI, mg_StaticCloudInit = mr_BaseTemplate r,
                   mg_VaultParams = \<lparr>vp_Addr = vaultAddr, vp_SecretPath = secretPath, vp_RoleID = roleID, vp_SecretID = secretID\<rparr>\<rparr> of
              Inl e \<Rightarrow> bind (RevokeSecretID V roleName secretID) (\<lambda>_. fail (Wrap ''failed to merge cloud-init'' e))
            | Inr userData \<Rightarrow> ok (userData, secretID, roleName)))))"

section \<open>The order\<close>

text \<open>The loop over the offerings: the first one of type OpenStack.Instance; a nil type panics.\<close>

fun findVMOffering :: "SubresourceOffering list \<Rightarrow> SubresourceOffering option io" where
  "findVMOffering [] = ret None"
| "findVMOffering (offering # offerings) =
     deref (so_Type offering) (\<lambda>ty.
     if ty = ''OpenStack.Instance'' then ret (Some offering) else findVMOffering offerings)"

definition getVMOffering :: "lib \<Rightarrow> env \<Rightarrow> string \<Rightarrow> (error + SubresourceOffering) io" where
  "getVMOffering L E tenantMarketplaceUuid =
     andThen (ret (uuid_Parse L tenantMarketplaceUuid)) (\<lambda>tenantMPUuid.
     andThen (w_MarketplaceResourcesOfferingForSubresourcesList E tenantMPUuid) (\<lambda>resp.
     if StatusCode resp \<noteq> 200
     then fail (Errorf ''Unable to list subresource offerings for the marketplace resource %s, code %d, reason %s''
                 [uuid_String L tenantMPUuid, itoa (StatusCode resp), Body resp])
     else deref (JSON resp) (\<lambda>offerings.
          bind (findVMOffering offerings) (\<lambda>found. case found of
            Some offering \<Rightarrow> ok offering
          | None \<Rightarrow> fail (Errorf ''Unable to find a VM offering for the marketplace resource offering %s, list is empty''
                            [uuid_String L tenantMPUuid])))))"

text \<open>The loop over the security groups; \<^verbatim>\<open>*sg.Name\<close> is read only when the URL is set.\<close>

fun defaultSecurityGroups :: "OpenStackSecurityGroup list \<Rightarrow> string list io" where
  "defaultSecurityGroups [] = ret []"
| "defaultSecurityGroups (sg # sgs) =
     (case sg_Url sg of
        None \<Rightarrow> defaultSecurityGroups sgs
      | Some url \<Rightarrow> deref (sg_Name sg) (\<lambda>name.
          bind (defaultSecurityGroups sgs) (\<lambda>rest.
          ret (if name = ''default'' then url # rest else rest))))"

definition instanceAttributes ::
    "WaldurMachine \<Rightarrow> OpenStackFlavor \<Rightarrow> OpenStackImage \<Rightarrow> string list \<Rightarrow> OpenStackSubNet list \<Rightarrow>
     OpenStackVolumeType list \<Rightarrow> string option \<Rightarrow> OpenStackInstanceCreateOrderAttributes" where
  "instanceAttributes waldurMachine flavor img sgRequests subnets volumeTypes userData =
     (let volumeType = (case volumeTypes of [] \<Rightarrow> None | v # _ \<Rightarrow> vt_Url v)
      in \<lparr>ia_Name = om_Name (wm_Meta waldurMachine),
          ia_Flavor = fl_Url flavor,
          ia_Image = img_Url img,
          ia_SecurityGroups = sgRequests,
          ia_Ports = List.map_filter sn_Url subnets,
          ia_FloatingIps = [],
          ia_UserData = userData,
          ia_SystemVolumeSize = map_option (\<lambda>gb. gb * 1024) (ms_SystemDiskSize (wm_Spec waldurMachine)),
          ia_DataVolumeSize = map_option (\<lambda>gb. gb * 1024) (ms_DataDiskSize (wm_Spec waldurMachine)),
          ia_SystemVolumeType = volumeType,
          ia_DataVolumeType = volumeType\<rparr>)"

text \<open>The guards at the start of \<^verbatim>\<open>buildOrderPayload\<close>: the tenant, its project slug and its UUID.\<close>

definition readyTenant :: "WaldurMachine \<Rightarrow> WaldurCluster \<Rightarrow> error + OpenStackTenant \<times> string \<times> string" where
  "readyTenant waldurMachine waldurCluster =
     (let slug = ms_OfferingSlug (wm_Spec waldurMachine) in
      case map_of (cst_Tenants (wc_Status waldurCluster)) slug of
        None \<Rightarrow> Inl (Errorf ''tenant for offering %q not found in WaldurCluster status'' [slug])
      | Some tenant \<Rightarrow>
          if t_MarketplaceResourceState tenant \<noteq> ResourceStateOK
          then Inl (Errorf ''tenant for offering %q is not ready (state: %s)''
                 [slug, resourceStateString (t_MarketplaceResourceState tenant)])
          else (case t_ProjectSlug tenant of
              None \<Rightarrow> Inl (Errorf ''tenant for offering %q has no project slug'' [slug])
            | Some projectSlug \<Rightarrow> (case t_Uuid tenant of
                None \<Rightarrow> Inl (Errorf ''tenant for offering %q has no UUID yet'' [slug])
              | Some tenantUuid \<Rightarrow> Inr (tenant, projectSlug, tenantUuid))))"

definition buildOrderPayload ::
    "lib \<Rightarrow> env \<Rightarrow> WaldurMachine \<Rightarrow> WaldurCluster \<Rightarrow> string option \<Rightarrow> (error + OrderCreateRequest) io" where
  "buildOrderPayload L E waldurMachine waldurCluster userData =
     andThen (ret (readyTenant waldurMachine waldurCluster)) (\<lambda>(tenant, projectSlug, tenantUuidStr).
     andThenWrap ''unable to list projects''
       (w_ProjectsList E \<lparr>pl_NameExact = None, pl_Customer = None, pl_Slug = Some projectSlug\<rparr>) (\<lambda>projectResp.
     deref (JSON projectResp) (\<lambda>projects.
     if projects = [] then fail (Errorf ''project with slug %q not found'' [projectSlug])
     else
     andThenWrap ''unable to get parent offering'' (getOffering E (ms_OfferingSlug (wm_Spec waldurMachine))) (\<lambda>parentOffering.
     andThenWrap ''unable to get VM subresource offering'' (getVMOffering L E (t_MarketplaceResourceUuid tenant)) (\<lambda>subresourceOffering.
     deref (so_Uuid subresourceOffering) (\<lambda>offeringUuid.
     andThenWrap ''unable to get VM offering'' (getOfferingByUUID E offeringUuid) (\<lambda>offering.
     andThenWrap ''unable to parse tenant UUID'' (ret (uuid_Parse L tenantUuidStr)) (\<lambda>tenantUuid.
     andThenWrap ''unable to get flavor %q'' (getFlavor E parentOffering (ms_Flavor (wm_Spec waldurMachine))) (\<lambda>flavor.
     andThenWrap ''unable to get image %q'' (getImage E parentOffering (ms_Image (wm_Spec waldurMachine))) (\<lambda>img.
     andThenWrap ''unable to get security groups'' (getTenantSecurityGroups E tenantUuid) (\<lambda>securityGroups.
     bind (defaultSecurityGroups securityGroups) (\<lambda>sgRequests.
     andThenWrap ''unable to get subnets'' (getTenantSubnets E tenantUuid) (\<lambda>subnets.
     andThenWrap ''unable to get volume types'' (getTenantVolumeTypes E tenantUuid) (\<lambda>volumeTypes.
     let rawAttrs = instanceAttributes waldurMachine flavor img sgRequests subnets volumeTypes userData in
     (case FromInstanceAttributes L rawAttrs of
        Some e \<Rightarrow> fail (Wrap ''unable to build order attributes'' e)
      | None \<Rightarrow>
          deref (off_Url offering) (\<lambda>offeringUrl.
          deref (prj_Url (hd projects)) (\<lambda>projectUrl.
          ok \<lparr>oc_Type = Create, oc_Offering = offeringUrl, oc_Project = projectUrl, oc_Plan = None,
              oc_Attributes = InstanceAttributes rawAttrs, oc_Limits = None,
              oc_AcceptingTermsOfService = True\<rparr>)))))))))))))))))"

section \<open>Creating the VM\<close>

text \<open>The end of \<^verbatim>\<open>createVM\<close>: from the payload to the recorded order.\<close>

definition recordVMOrder :: "lib \<Rightarrow> WaldurMachine \<Rightarrow> OrderDetails \<Rightarrow> (error + WaldurMachine) io" where
  "recordVMOrder L waldurMachine order =
     deref (od_Uuid order) (\<lambda>orderUuid.
     deref (od_Type order) (\<lambda>ty.
     deref (od_State order) (\<lambda>state.
     deref (od_MarketplaceResourceUuid order) (\<lambda>mpUuid.
     ok (waldurMachine\<lparr>wm_Status := (wm_Status waldurMachine)\<lparr>
           mst_Order := Some \<lparr>wo_Uuid = uuid_String L orderUuid, wo_Type = ty, wo_State = state,
             wo_MarketplaceResourceUuid = uuid_String L mpUuid, wo_ResourceUuid = None\<rparr>,
           mst_MarketplaceResourceUuid := uuid_String L mpUuid,
           mst_State := CoreStatesCREATING\<rparr>\<rparr>)))))"

definition revokeRejected :: "WaldurMachineReconciler \<Rightarrow> string \<Rightarrow> string \<Rightarrow> error option io" where
  "revokeRejected r vaultRoleName vaultSecretID =
     (case mr_VaultClient r of
        Some V \<Rightarrow> if vaultSecretID \<noteq> [] then RevokeSecretID V vaultRoleName vaultSecretID else ret None
      | None \<Rightarrow> ret None)"

definition handleOrderResponse ::
    "lib \<Rightarrow> WaldurMachineReconciler \<Rightarrow> WaldurMachine \<Rightarrow> string \<Rightarrow> string \<Rightarrow> OrderDetails response \<Rightarrow>
     (error + WaldurMachine) io" where
  "handleOrderResponse L r waldurMachine vaultSecretID vaultRoleName orderResp =
     (if StatusCode orderResp \<noteq> 201
      then bind (revokeRejected r vaultRoleName vaultSecretID) (\<lambda>_.
             fail (Errorf ''unable to submit VM creation order, status %d: %s'' [itoa (StatusCode orderResp), Body orderResp]))
      else deref (JSON orderResp) (recordVMOrder L waldurMachine))"

definition submitVMOrder ::
    "lib \<Rightarrow> env \<Rightarrow> WaldurMachineReconciler \<Rightarrow> WaldurMachine \<Rightarrow> WaldurCluster \<Rightarrow> string \<Rightarrow> string \<Rightarrow> string \<Rightarrow>
     (error + WaldurMachine) io" where
  "submitVMOrder L E r waldurMachine waldurCluster userData vaultSecretID vaultRoleName =
     andThen (buildOrderPayload L E waldurMachine waldurCluster (Some userData)) (\<lambda>orderPayload.
     andThenWrap ''unable to submit order'' (w_MarketplaceOrdersCreate E orderPayload)
       (handleOrderResponse L r waldurMachine vaultSecretID vaultRoleName))"

text \<open>The first half of \<^verbatim>\<open>createVM\<close>: the user data, the secret identifier and the role.\<close>

definition vmUserData :: "lib \<Rightarrow> env \<Rightarrow> WaldurMachineReconciler \<Rightarrow> Machine \<Rightarrow> (error + string \<times> string \<times> string) io" where
  "vmUserData L E r machine =
     (case mr_VaultClient r of
        Some V \<Rightarrow>
          andThen (readVaultConfigSecret E r (ma_ClusterName machine)) (\<lambda>vaultConfigSecret.
          if hasRancherFields vaultConfigSecret
          then buildUserDataWithRancherAgent L V r machine vaultConfigSecret
          else (case ma_DataSecretName machine of
            None \<Rightarrow> fail ErrBootstrapNotReady
          | Some secretName \<Rightarrow>
              andThenWrap ''failed to fetch bootstrap secret''
                (k_GetSecret E (namespacedName (om_Namespace (ma_Meta machine)) secretName)) (\<lambda>bootstrapSecret.
              buildUserDataWithVault L V r (getStr (sec_Data bootstrapSecret) ''value'') vaultConfigSecret)))
      | None \<Rightarrow> (case ma_DataSecretName machine of
            None \<Rightarrow> fail ErrBootstrapNotReady
          | Some secretName \<Rightarrow>
              andThenWrap ''failed to fetch bootstrap secret''
                (k_GetSecret E (namespacedName (om_Namespace (ma_Meta machine)) secretName)) (\<lambda>bootstrapSecret.
              ok (getStr (sec_Data bootstrapSecret) ''value'', [], []))))"

definition createVM ::
    "lib \<Rightarrow> env \<Rightarrow> WaldurMachineReconciler \<Rightarrow> Machine \<Rightarrow> WaldurMachine \<Rightarrow> WaldurCluster \<Rightarrow> (error + WaldurMachine) io" where
  "createVM L E r machine waldurMachine waldurCluster =
     andThen (vmUserData L E r machine) (\<lambda>(userData, vaultSecretID, vaultRoleName).
     submitVMOrder L E r waldurMachine waldurCluster userData vaultSecretID vaultRoleName)"

section \<open>Refreshing the VM\<close>

text \<open>The part of \<^verbatim>\<open>refreshVM\<close> after the instance was retrieved.\<close>

definition applyInstance :: "lib \<Rightarrow> OpenStackInstance \<Rightarrow> WaldurMachine \<Rightarrow> WaldurMachine" where
  "applyInstance L inst waldurMachine =
     (let st = wm_Status waldurMachine;
          st = (case ins_State inst of Some s \<Rightarrow> st\<lparr>mst_State := s\<rparr> | None \<Rightarrow> st);
          st = (case ins_Uuid inst of Some u \<Rightarrow> st\<lparr>mst_VmUuid := Some (uuid_String L u)\<rparr> | None \<Rightarrow> st);
          st = (if mst_State st = CoreStatesOK
                then st\<lparr>mst_Initialization := Some \<lparr>mi_Provisioned = Some True\<rparr>\<rparr> else st)
      in waldurMachine\<lparr>wm_Status := st\<rparr>)"

text \<open>
  \<^verbatim>\<open>refreshVM\<close> changes the machine in place, also when it returns an error: the machine is returned
  beside the error.
\<close>

definition refreshVMResource :: "lib \<Rightarrow> env \<Rightarrow> WaldurMachine \<Rightarrow> (WaldurMachine \<times> error option) io" where
  "refreshVMResource L E waldurMachine =
     bind (getMarketplaceResource L E (mst_MarketplaceResourceUuid (wm_Status waldurMachine))) (\<lambda>res. case res of
       Inl e \<Rightarrow> ret (waldurMachine, Some e)
     | Inr resourcePtr \<Rightarrow>
         deref resourcePtr (\<lambda>resource.
         let wm1 = (case res_State resource of
               Some s \<Rightarrow> waldurMachine\<lparr>wm_Status := (wm_Status waldurMachine)\<lparr>mst_MarketplaceResourceState := s\<rparr>\<rparr>
             | None \<Rightarrow> waldurMachine)
         in case (res_Scope resource, res_ResourceUuid resource) of
              (Some _, Some vmUuid) \<Rightarrow>
                bind (w_OpenstackInstancesRetrieve E vmUuid [InstanceFieldState, InstanceFieldUuid]) (\<lambda>resp. case resp of
                  Inl e \<Rightarrow> ret (wm1, Some (Wrap ''unable to retrieve OpenStack instance'' e))
                | Inr instanceResp \<Rightarrow> (case JSON instanceResp of
                    None \<Rightarrow> ret (wm1, Some (Errorf ''unexpected nil instance in response (status %d)'' [itoa (StatusCode instanceResp)]))
                  | Some inst \<Rightarrow> ret (applyInstance L inst wm1, None)))
            | _ \<Rightarrow> ret (wm1, None)))"

definition refreshVM :: "lib \<Rightarrow> env \<Rightarrow> WaldurMachine \<Rightarrow> (WaldurMachine \<times> error option) io" where
  "refreshVM L E waldurMachine =
     (case mst_Order (wm_Status waldurMachine) of
        Some ord \<Rightarrow>
          if \<not> isOrderTerminal (wo_State ord)
          then bind (refreshOrder L E ord) (\<lambda>r. case r of
                 Inl e \<Rightarrow> ret (waldurMachine, Some (Wrap ''unable to refresh order'' e))
               | Inr ord' \<Rightarrow> refreshVMResource L E (waldurMachine\<lparr>wm_Status := (wm_Status waldurMachine)\<lparr>mst_Order := Some ord'\<rparr>\<rparr>))
          else refreshVMResource L E waldurMachine
      | None \<Rightarrow> refreshVMResource L E waldurMachine)"

section \<open>Deletion\<close>

definition removeMachineFinalizer :: "lib \<Rightarrow> env \<Rightarrow> WaldurMachine \<Rightarrow> (error + Result) io" where
  "removeMachineFinalizer L E waldurMachine =
     andThenWrap ''unable to remove finalizer''
       (k_UpdateWaldurMachine E (waldurMachine\<lparr>wm_Meta := (wm_Meta waldurMachine)\<lparr>
          om_Finalizers := RemoveFinalizer L (om_Finalizers (wm_Meta waldurMachine)) machineFinalizer\<rparr>\<rparr>)) (\<lambda>_.
     ok (requeueAfter 0))"

definition terminateVM :: "lib \<Rightarrow> env \<Rightarrow> WaldurMachine \<Rightarrow> (error + Result) io" where
  "terminateVM L E waldurMachine =
     bind (submitTerminationOrder L E (mst_MarketplaceResourceUuid (wm_Status waldurMachine))) (\<lambda>r. case r of
       Inl e \<Rightarrow> ok (requeueAfter 15)
     | Inr order \<Rightarrow>
         andThenWrap ''unable to patch status''
           (k_PatchWaldurMachineStatus E
              (waldurMachine\<lparr>wm_Status := (wm_Status waldurMachine)\<lparr>mst_Order := Some order\<rparr>\<rparr>) waldurMachine) (\<lambda>_.
         ok (requeueAfter 15)))"

definition stopVM :: "lib \<Rightarrow> env \<Rightarrow> WaldurMachine \<Rightarrow> string \<Rightarrow> (error + Result) io" where
  "stopVM L E waldurMachine vmUuid =
     andThenWrap ''invalid VM UUID'' (ret (uuid_Parse L vmUuid)) (\<lambda>vmUUID.
     andThenWrap ''unable to retrieve VM runtime state''
       (w_OpenstackInstancesRetrieve E vmUUID [InstanceFieldRuntimeState]) (\<lambda>instanceResp.
     case Option.bind (JSON instanceResp) ins_RuntimeState of
       Some runtimeState \<Rightarrow>
         if runtimeState \<noteq> ''SHUTOFF'' \<and> runtimeState \<noteq> ''ERROR''
         then andThenWrap ''unable to stop VM'' (w_OpenstackInstancesStop E vmUUID) (\<lambda>_. ok (requeueAfter 15))
         else terminateVM L E waldurMachine
     | None \<Rightarrow> terminateVM L E waldurMachine))"

definition machine_reconcileDelete :: "lib \<Rightarrow> env \<Rightarrow> WaldurMachine \<Rightarrow> (error + Result) io" where
  "machine_reconcileDelete L E waldurMachine =
     (let st = wm_Status waldurMachine in
      if mst_MarketplaceResourceUuid st = [] then removeMachineFinalizer L E waldurMachine
      else if (case mst_Order st of
             Some ord \<Rightarrow> wo_Type ord = Terminate \<and> \<not> isOrderTerminal (wo_State ord) | None \<Rightarrow> False)
      then bind (refreshVM L E waldurMachine) (\<lambda>(wm', _).
           andThenWrap ''unable to patch status'' (k_PatchWaldurMachineStatus E wm' waldurMachine) (\<lambda>_.
           ok (requeueAfter 15)))
      else if (case mst_Order st of
             Some ord \<Rightarrow> wo_Type ord = Terminate \<and> wo_State ord = OrderStateDone | None \<Rightarrow> False)
      then removeMachineFinalizer L E waldurMachine
      else case mst_VmUuid st of
             Some vmUuid \<Rightarrow> stopVM L E waldurMachine vmUuid
           | None \<Rightarrow> terminateVM L E waldurMachine)"

section \<open>Reconciliation\<close>

definition setMachineReadyCondition :: "lib \<Rightarrow> WaldurMachine \<Rightarrow> WaldurMachine" where
  "setMachineReadyCondition L waldurMachine =
     (let cond = (case mst_State (wm_Status waldurMachine) of
            CoreStatesOK \<Rightarrow> \<lparr>cond_Type = ''Ready'', cond_Status = ConditionTrue,
              cond_Reason = ''Provisioned'', cond_Message = ''VM is running''\<rparr>
          | CoreStatesERRED \<Rightarrow> \<lparr>cond_Type = ''Ready'', cond_Status = ConditionFalse,
              cond_Reason = ''ProvisioningFailed'', cond_Message = ''VM provisioning failed''\<rparr>
          | _ \<Rightarrow> \<lparr>cond_Type = ''Ready'', cond_Status = ConditionFalse,
              cond_Reason = ''Provisioning'', cond_Message = ''VM is being provisioned''\<rparr>)
      in waldurMachine\<lparr>wm_Status := (wm_Status waldurMachine)\<lparr>
           mst_Conditions := SetStatusCondition L (mst_Conditions (wm_Status waldurMachine)) cond\<rparr>\<rparr>)"

definition patchMachineStatus :: "lib \<Rightarrow> env \<Rightarrow> WaldurMachine \<Rightarrow> WaldurMachine \<Rightarrow> (error + Result) io" where
  "patchMachineStatus L E base waldurMachine =
     andThenWrap ''couldn't patch status for machine %q''
       (k_PatchWaldurMachineStatus E (setMachineReadyCondition L waldurMachine) base) (\<lambda>patched.
     ok (requeueAfter (if mst_State (wm_Status patched) = CoreStatesOK then 300 else 15)))"

definition setProviderID :: "lib \<Rightarrow> env \<Rightarrow> WaldurMachine \<Rightarrow> WaldurMachine \<Rightarrow> (error + Result) io" where
  "setProviderID L E base waldurMachine =
     (case mst_VmUuid (wm_Status waldurMachine) of
        Some vmUuid \<Rightarrow>
          if mst_State (wm_Status waldurMachine) = CoreStatesOK \<and> ms_ProviderID (wm_Spec waldurMachine) = None
          then andThenWrap ''unable to patch providerID''
                 (k_PatchWaldurMachine E (waldurMachine\<lparr>wm_Spec := (wm_Spec waldurMachine)\<lparr>
                    ms_ProviderID := Some (''waldur://'' @ vmUuid)\<rparr>\<rparr>) base) (\<lambda>patched.
               patchMachineStatus L E patched patched)
          else patchMachineStatus L E base waldurMachine
      | None \<Rightarrow> patchMachineStatus L E base waldurMachine)"

definition reconcileVM ::
    "lib \<Rightarrow> env \<Rightarrow> WaldurMachineReconciler \<Rightarrow> Machine \<Rightarrow> WaldurMachine \<Rightarrow> WaldurCluster \<Rightarrow> (error + Result) io" where
  "reconcileVM L E r machine waldurMachine waldurCluster =
     (if mst_MarketplaceResourceUuid (wm_Status waldurMachine) = []
      then bind (createVM L E r machine waldurMachine waldurCluster) (\<lambda>c. case c of
             Inl e \<Rightarrow> if isBootstrapNotReady e then ok (requeueAfter 10)
                      else setProviderID L E waldurMachine waldurMachine
           | Inr wm' \<Rightarrow> setProviderID L E waldurMachine wm')
      else bind (refreshVM L E waldurMachine) (\<lambda>(wm', _). setProviderID L E waldurMachine wm'))"

text \<open>The first owner reference of a kind; the empty string when there is none.\<close>

definition ownerName :: "string \<Rightarrow> OwnerReference list \<Rightarrow> string" where
  "ownerName kind refs = (case find (\<lambda>ref. or_Kind ref = kind) refs of None \<Rightarrow> [] | Some ref \<Rightarrow> or_Name ref)"

text \<open>\<^verbatim>\<open>Reconcile\<close> after the machine was read.\<close>

definition machine_reconcileLoaded :: "lib \<Rightarrow> env \<Rightarrow> WaldurMachineReconciler \<Rightarrow> WaldurMachine \<Rightarrow> (error + Result) io" where
  "machine_reconcileLoaded L E r waldurMachine =
     (let meta = wm_Meta waldurMachine in
      if \<not> timeIsZero (om_DeletionTimestamp meta) then machine_reconcileDelete L E waldurMachine
      else if \<not> ContainsFinalizer L (om_Finalizers meta) machineFinalizer
      then andThenWrap ''unable to add finalizer''
             (k_UpdateWaldurMachine E (waldurMachine\<lparr>wm_Meta := meta\<lparr>
                om_Finalizers := AddFinalizer L (om_Finalizers meta) machineFinalizer\<rparr>\<rparr>)) (\<lambda>_. ok (requeueAfter 0))
      else let machineName = ownerName ''Machine'' (om_OwnerReferences meta) in
      if machineName = [] then ok (requeueAfter 0)
      else
      andThenWrap ''unable to get owner Machine'' (k_GetMachine E (namespacedName (om_Namespace meta) machineName)) (\<lambda>machine.
      let clusterName = getStr (om_Labels (ma_Meta machine)) ClusterNameLabel in
      if clusterName = [] then ok (requeueAfter 0)
      else
      andThenWrap ''unable to get Cluster'' (k_GetCluster E (namespacedName (om_Namespace (ma_Meta machine)) clusterName)) (\<lambda>cluster.
      deref (cl_InfrastructureRefName cluster) (\<lambda>refName.
      andThenWrap ''unable to get WaldurCluster''
        (k_GetWaldurCluster E (namespacedName (om_Namespace (cl_Meta cluster)) refName)) (\<lambda>waldurCluster.
      reconcileVM L E r machine waldurMachine waldurCluster)))))"

definition machine_Reconcile :: "lib \<Rightarrow> env \<Rightarrow> WaldurMachineReconciler \<Rightarrow> NamespacedName \<Rightarrow> (error + Result) io" where
  "machine_Reconcile L E r req =
     bind (k_GetWaldurMachine E req) (\<lambda>g. case g of
       Inl e \<Rightarrow> if e = ErrNotFound then ok (requeueAfter 0) else fail e
     | Inr waldurMachine \<Rightarrow> machine_reconcileLoaded L E r waldurMachine)"

section \<open>Which events the steps emit\<close>

abbreviation kube_get :: "event \<Rightarrow> bool" where
  "kube_get e \<equiv> (\<exists>x r. e = KubeEv (GetSecret x r))"

text \<open>What may happen before the order is submitted: reads, and traffic with Vault.\<close>

definition before_order :: "event \<Rightarrow> bool" where
  "before_order e \<longleftrightarrow> kube_get e \<or> net_event e \<or> waldur_read e"

lemma before_order_not: "before_order e \<Longrightarrow> \<not> creates_order e" "waldur_read e \<Longrightarrow> \<not> creates_order e"
  by (auto simp: before_order_def creates_order_iff dest: waldur_read_classes)

lemma emits_findVMOffering: "emits P (findVMOffering offs)"
  by (induction offs) (auto intro!: ext.frame_rules)

lemma emits_defaultSecurityGroups: "emits P (defaultSecurityGroups sgs)"
  by (induction sgs) (auto intro!: ext.frame_rules)

lemma emits_getVMOffering: "emits waldur_read (getVMOffering L E u)"
  unfolding getVMOffering_def prim_defs
  by (intro ext.frame_rules emits_prims emits_findVMOffering) (simp_all add: event_class_defs)

lemma emits_buildOrderPayload: "emits waldur_read (buildOrderPayload L E m c ud)"
  unfolding buildOrderPayload_def prim_defs
  by (intro ext.frame_rules emits_prims emits_helpers emits_getVMOffering emits_defaultSecurityGroups)
    (simp_all add: event_class_defs)

lemma emits_readVaultConfigSecret: "emits kube_get (readVaultConfigSecret E r n)"
  unfolding readVaultConfigSecret_def prim_defs
  by (intro ext.frame_rules emits_prims) simp_all

lemma emits_refreshVMResource: "emits waldur_read (refreshVMResource L E m)"
  unfolding refreshVMResource_def prim_defs
  by (intro ext.frame_rules emits_prims emits_helpers) (simp_all add: event_class_defs)

lemma emits_refreshVM: "emits waldur_read (refreshVM L E m)"
  unfolding refreshVM_def
  by (intro ext.frame_rules emits_helpers emits_refreshVMResource)

context vault_contract
begin

lemma emits_buildUserDataWithRancherAgent: "emits net_event (buildUserDataWithRancherAgent L V r ma sec)"
  unfolding buildUserDataWithRancherAgent_def
  by (intro ext.frame_rules net_only)

lemma emits_buildUserDataWithVault: "emits net_event (buildUserDataWithVault L V r raw sec)"
  unfolding buildUserDataWithVault_def
  by (intro ext.frame_rules net_only)

lemma userData_secretID:
  "buildUserDataWithRancherAgent L V r ma sec w = (Ret (Inr (ud, sid, role)), w') \<Longrightarrow> sid \<noteq> []"
  "buildUserDataWithVault L V r raw sec w = (Ret (Inr (ud, sid, role)), w') \<Longrightarrow> sid \<noteq> []"
  by (auto simp: buildUserDataWithRancherAgent_def buildUserDataWithVault_def Let_def go_inv dest: generated_nonempty)

end

text \<open>
  The reconciler has either no Vault client or one that keeps the contract of the interface; the
  client of \<^verbatim>\<open>internal/vault\<close>, which the manager passes, does.
\<close>

definition wired :: "WaldurMachineReconciler \<Rightarrow> bool" where
  "wired r \<longleftrightarrow> (\<forall>V. mr_VaultClient r = Some V \<longrightarrow> vault_contract V)"

lemma wired_clientOf: "mr_VaultClient r \<in> {None, Some (clientOf E)} \<Longrightarrow> wired r"
  by (auto simp: wired_def vc.vault_contract_axioms)

section \<open>The deletion protocol of machines\<close>

abbreviation machineResource :: "WaldurMachine \<Rightarrow> string" where
  "machineResource m \<equiv> mst_MarketplaceResourceUuid (wm_Status m)"

abbreviation machineOrder :: "WaldurMachine \<Rightarrow> WaldurOrder option" where
  "machineOrder m \<equiv> mst_Order (wm_Status m)"

abbreviation setMachineOrder :: "WaldurOrder \<Rightarrow> WaldurMachine \<Rightarrow> WaldurMachine" where
  "setMachineOrder x m \<equiv> m\<lparr>wm_Status := (wm_Status m)\<lparr>mst_Order := Some x\<rparr>\<rparr>"

lemma applyInstance_keeps [simp]:
  "machineResource (applyInstance L i m) = machineResource m" "machineOrder (applyInstance L i m) = machineOrder m"
  "wm_Spec (applyInstance L i m) = wm_Spec m" "wm_Meta (applyInstance L i m) = wm_Meta m"
  by (simp_all add: applyInstance_def Let_def split: option.split)

text \<open>Refreshing keeps the identity of the machine: its metadata, its specification, its resource.\<close>

definition same_machine :: "WaldurMachine \<Rightarrow> WaldurMachine \<Rightarrow> bool" where
  "same_machine m m' \<longleftrightarrow> machineResource m' = machineResource m \<and> wm_Spec m' = wm_Spec m \<and> wm_Meta m' = wm_Meta m"

lemma refreshVMResource_keeps:
  assumes "refreshVMResource L E m w = (Ret (m', err), w')"
  shows "same_machine m m' \<and> machineOrder m' = machineOrder m"
  using assms
  by (auto simp: refreshVMResource_def w_OpenstackInstancesRetrieve_def same_machine_def Let_def go_inv split: option.splits)

lemma refreshVM_keeps:
  assumes "refreshVM L E m w = (Ret (m', err), w')"
  shows "same_machine m m' \<and> order_step (machineOrder m) (machineOrder m')"
  using assms
  by (auto simp: refreshVM_def same_machine_def go_inv order_step_refl
      dest!: refreshVMResource_keeps dest: order_step_refreshed)

interpretation mt: terminable machineResource machineOrder setMachineOrder "refreshVM L E" for L E
  by unfold_locales (auto dest: refreshVM_keeps simp: same_machine_def intro: emits_refreshVM)

text \<open>\<^verbatim>\<open>reconcileDelete\<close> does what the protocol says is due.\<close>

lemma machine_reconcileDelete_phase:
  "machine_reconcileDelete L E m =
     (case deletePhase (machineResource m) (machineOrder m) of
        NeverProvisioned \<Rightarrow> removeMachineFinalizer L E m
      | Terminated \<Rightarrow> removeMachineFinalizer L E m
      | InFlight \<Rightarrow> bind (refreshVM L E m) (\<lambda>(m', _).
           andThenWrap ''unable to patch status'' (k_PatchWaldurMachineStatus E m' m) (\<lambda>_. ok (requeueAfter 15)))
      | SubmitDue \<Rightarrow> (case mst_VmUuid (wm_Status m) of
           Some vmUuid \<Rightarrow> stopVM L E m vmUuid
         | None \<Rightarrow> terminateVM L E m))"
  by (simp add: machine_reconcileDelete_def deletePhase_def Let_def split: option.split)

section \<open>Reconciliation, event by event\<close>

text \<open>A pass reads the machine once and goes on with what it read.\<close>

lemma machine_Reconcile_cases [consumes 1, case_names unread loaded]:
  assumes "machine_Reconcile L E r req w = (res, w')"
  obtains (unread) e where "on_GetWaldurMachine (env_kube E) (hist w) req = Inl e"
      and "w' = w\<lparr>hist := hist w @ [KubeEv (GetWaldurMachine req (Inl e))]\<rparr>"
      and "res = Ret (if e = ErrNotFound then Inr (requeueAfter 0) else Inl e)"
  | (loaded) m where "on_GetWaldurMachine (env_kube E) (hist w) req = Inr m"
      and "machine_reconcileLoaded L E r m (w\<lparr>hist := hist w @ [KubeEv (GetWaldurMachine req (Inr m))]\<rparr>) = (res, w')"
proof (cases "on_GetWaldurMachine (env_kube E) (hist w) req")
  case (Inl e)
  with assms unread show ?thesis
    by (auto simp: machine_Reconcile_def k_GetWaldurMachine_def bind_def perform_def ok_def fail_def ret_def Let_def
        split: if_splits)
next
  case (Inr m)
  with assms loaded show ?thesis
    by (auto simp: machine_Reconcile_def k_GetWaldurMachine_def bind_def perform_def Let_def)
qed

lemma machine_Reconcile_events [consumes 2, case_names unread loaded]:
  assumes "machine_Reconcile L E r req w = (res, w')"
    and "\<And>m. on_GetWaldurMachine (env_kube E) (hist w) req = Inr m \<Longrightarrow> emits (P m) (machine_reconcileLoaded L E r m)"
  obtains (unread) e where "on_GetWaldurMachine (env_kube E) (hist w) req = Inl e"
      and "hist w' = hist w @ [KubeEv (GetWaldurMachine req (Inl e))]"
  | (loaded) m es where "on_GetWaldurMachine (env_kube E) (hist w) req = Inr m"
      and "hist w' = hist w @ KubeEv (GetWaldurMachine req (Inr m)) # es" and "list_all (P m) es"
  using assms(1)
proof (cases rule: machine_Reconcile_cases)
  case (unread e)
  then show ?thesis using that(1) by simp
next
  case (loaded m)
  from emitsD [OF assms(2) [OF loaded(1)] loaded(2)] obtain es where
    "hist w' = hist w @ KubeEv (GetWaldurMachine req (Inr m)) # es" "list_all (P m) es" by auto
  with loaded(1) that(2) show ?thesis by blast
qed

lemmas machine_step_defs = machine_reconcileLoaded_def reconcileVM_def setProviderID_def patchMachineStatus_def
  machine_reconcileDelete_def removeMachineFinalizer_def stopVM_def terminateVM_def

lemma emits_vmUserData: "wired r \<Longrightarrow> emits before_order (vmUserData L E r ma)"
  unfolding vmUserData_def prim_defs wired_def
  by (intro ext.frame_rules emits_prims emits_mono [OF emits_readVaultConfigSecret]
      emits_mono [OF vault_contract.emits_buildUserDataWithRancherAgent]
      emits_mono [OF vault_contract.emits_buildUserDataWithVault])
    (auto simp: before_order_def)

text \<open>After the order is answered there is at most traffic with Vault.\<close>

lemma emits_handleOrderResponse:
  assumes "wired r"
  shows "emits net_event (handleOrderResponse L r m sid role resp)"
  unfolding handleOrderResponse_def recordVMOrder_def revokeRejected_def
  using assms by (auto simp: wired_def intro!: ext.frame_rules vault_contract.net_only(4))

lemma emits_submitVMOrder:
  assumes "wired r"
  shows "emits (\<lambda>e. before_order e \<or> creates_order e) (submitVMOrder L E r m c ud sid role)"
  unfolding submitVMOrder_def prim_defs
  by (intro ext.frame_rules emits_prims emits_mono [OF emits_buildOrderPayload]
      emits_mono [OF emits_handleOrderResponse] assms)
    (auto simp: before_order_def creates_order_def)

lemma emits_createVM:
  assumes "wired r"
  shows "emits (\<lambda>e. before_order e \<or> creates_order e) (createVM L E r ma m c)"
  unfolding createVM_def
  by (intro ext.frame_rules emits_mono [OF emits_vmUserData] emits_submitVMOrder assms) simp

lemma at_most_submitVMOrder:
  assumes "wired r"
  shows "at_most creates_order 1 (submitVMOrder L E r m c ud sid role)"
proof -
  have "at_most creates_order (0 + (1 + 0)) (submitVMOrder L E r m c ud sid role)"
    unfolding submitVMOrder_def w_MarketplaceOrdersCreate_def
    by (intro at_most_andThen at_most_andThenWrap at_most_perform at_most_emits [OF emits_handleOrderResponse]
        at_most_emits [OF emits_buildOrderPayload] assms)
      (auto simp: creates_order_iff dest: waldur_read_classes)
  then show ?thesis by simp
qed

lemma at_most_createVM:
  assumes "wired r"
  shows "at_most creates_order 1 (createVM L E r ma m c)"
proof -
  have "at_most creates_order (0 + 1) (createVM L E r ma m c)"
    unfolding createVM_def
    by (intro at_most_andThen at_most_emits [OF emits_vmUserData] assms)
      (simp_all add: before_order_not at_most_submitVMOrder [OF assms] split: prod.split del: One_nat_def)
  then show ?thesis by simp
qed

lemma emits_setProviderID: "emits (\<lambda>e. \<exists>k. e = KubeEv k) (setProviderID L E b m)"
  unfolding setProviderID_def patchMachineStatus_def prim_defs
  by (intro ext.frame_rules emits_prims) auto

lemma at_most_reconcileVM:
  assumes "wired r"
  shows "at_most creates_order 1 (reconcileVM L E r ma m c)"
proof -
  have spi: "at_most creates_order 0 (setProviderID L E b n)" for b n
    by (rule at_most_emits [OF emits_setProviderID]) (auto simp: event_class_defs)
  have "at_most creates_order (1 + 0) (reconcileVM L E r ma m c)"
  proof (cases "machineResource m = []")
    case True
    have "at_most creates_order (1 + 0) (bind (createVM L E r ma m c) (\<lambda>c. case c of
         Inl e \<Rightarrow> if isBootstrapNotReady e then ok (requeueAfter 10) else setProviderID L E m m
       | Inr m' \<Rightarrow> setProviderID L E m m'))"
      by (rule at_most_bind [OF at_most_createVM [OF assms]]) (simp add: spi at_most_ret split: sum.split)
    with True show ?thesis by (simp add: reconcileVM_def)
  next
    case False
    have "at_most creates_order 1 (refreshVM L E m)"
      by (rule at_most_mono [OF at_most_emits [OF emits_refreshVM]]) (auto dest: before_order_not)
    then have "at_most creates_order (1 + 0) (bind (refreshVM L E m) (\<lambda>(m', _). setProviderID L E m m'))"
      by (rule at_most_bind) (simp add: spi split: prod.split)
    with False show ?thesis by (simp add: reconcileVM_def)
  qed
  then show ?thesis by simp
qed

text \<open>What a deletion pass may do.\<close>

definition deletion_event :: "event \<Rightarrow> bool" where
  "deletion_event e \<longleftrightarrow> waldur_read e \<or> terminates e \<or> (\<exists>u a. e = WaldurEv (OpenstackInstancesStop u a)) \<or>
     (\<exists>m a. e = KubeEv (UpdateWaldurMachine m a)) \<or> (\<exists>m b a. e = KubeEv (PatchWaldurMachineStatus m b a))"

lemma emits_terminateVM: "emits deletion_event (terminateVM L E m)"
  unfolding terminateVM_def prim_defs
  by (intro ext.frame_rules emits_prims emits_mono [OF emits_submitTerminationOrder]) (auto simp: deletion_event_def)

lemma emits_machine_reconcileDelete: "emits deletion_event (machine_reconcileDelete L E m)"
  unfolding machine_reconcileDelete_def removeMachineFinalizer_def stopVM_def prim_defs
  by (intro ext.frame_rules emits_prims emits_terminateVM emits_mono [OF emits_refreshVM])
    (auto simp: deletion_event_def event_class_defs)

lemma deletion_event_no_order: "deletion_event e \<Longrightarrow> \<not> creates_order e"
  by (auto simp: deletion_event_def creates_order_iff terminates_iff dest: waldur_read_classes)

lemma at_most_reconcileLoaded:
  assumes "wired r"
  shows "at_most creates_order 1 (machine_reconcileLoaded L E r m)"
proof -
  have get: "at_most creates_order 0 (k_GetMachine E x)" "at_most creates_order 0 (k_GetCluster E x)"
    "at_most creates_order 0 (k_GetWaldurCluster E x)" "at_most creates_order 0 (k_UpdateWaldurMachine E n)" for x n
    unfolding prim_defs by (auto intro!: at_most_emits [OF emits_perform, of "\<lambda>e. \<not> creates_order e"] simp: creates_order_def)
  have del: "at_most creates_order 0 (machine_reconcileDelete L E m)"
    by (rule at_most_emits [OF emits_machine_reconcileDelete deletion_event_no_order])
  have idle: "at_most creates_order 1 (ok x)" for x :: Result
    by (rule at_most_mono [OF at_most_ret(3)]) simp
  show ?thesis
    unfolding machine_reconcileLoaded_def
    by (intro at_most_steps at_most_mono [OF del] at_most_reconcileVM assms get idle) simp
qed

end
