(* ===== verification/Machine_Properties.thy ===== *)
theory Machine_Properties
  imports Machine_Controller
begin

text \<open>
  What the machine reconciler guarantees, for every behaviour of the Kubernetes API server, of
  Waldur and of Vault: when it orders a VM and what it orders, what it records, when it stops,
  terminates and lets go of a machine, and what happens to the credentials it generates.
\<close>

section \<open>Samples\<close>

definition meta_sample :: "int option \<Rightarrow> ObjectMeta" where
  "meta_sample del = \<lparr>om_Name = ''m'', om_Namespace = ''ns'', om_Labels = [(ClusterNameLabel, ''c'')],
     om_Finalizers = [machineFinalizer], om_OwnerReferences = [\<lparr>or_Kind = ''Machine'', or_Name = ''m''\<rparr>],
     om_DeletionTimestamp = del\<rparr>"

definition spec_sample :: WaldurMachineSpec where
  "spec_sample = \<lparr>ms_ProviderID = None, ms_OfferingSlug = ''o'', ms_NodeType = WorkerNode, ms_Flavor = ''f'',
     ms_Image = ''i'', ms_SystemDiskSize = Some 20, ms_DataDiskSize = None, ms_VsanDiskSize = Some 7\<rparr>"

definition order_sample :: "RequestTypes \<Rightarrow> OrderState \<Rightarrow> WaldurOrder" where
  "order_sample ty st = \<lparr>wo_Uuid = ''00'', wo_Type = ty, wo_State = st, wo_MarketplaceResourceUuid = ''000'',
     wo_ResourceUuid = None\<rparr>"

definition machine_sample ::
    "int option \<Rightarrow> string \<Rightarrow> WaldurOrder option \<Rightarrow> string option \<Rightarrow> CoreStates \<Rightarrow> WaldurMachine" where
  "machine_sample del mp ord vm st = \<lparr>wm_Meta = meta_sample del, wm_Spec = spec_sample,
     wm_Status = \<lparr>mst_Conditions = [], mst_Initialization = None, mst_VmUuid = vm, mst_State = st,
       mst_MarketplaceResourceUuid = mp, mst_MarketplaceResourceState = ResourceStateOther [], mst_Order = ord\<rparr>\<rparr>"

text \<open>An API server with one machine, which accepts every write.\<close>

definition kube_sample :: "WaldurMachine \<Rightarrow> kube_api" where
  "kube_sample m = kube_down\<lparr>
     on_GetWaldurMachine := (\<lambda>_ _. Inr m),
     on_UpdateWaldurMachine := (\<lambda>_ n. Inr n),
     on_PatchWaldurMachine := (\<lambda>_ n b. Inr n),
     on_PatchWaldurMachineStatus := (\<lambda>_ n b. Inr n)\<rparr>"

definition env_machine :: "WaldurMachine \<Rightarrow> env" where
  "env_machine m = env_down\<lparr>env_kube := kube_sample m\<rparr>"

definition reconciler_sample :: WaldurMachineReconciler where
  "reconciler_sample = \<lparr>mr_VaultClient = None, mr_BaseTemplate = [], mr_OperatorNamespace = ''op''\<rparr>"

lemma wired_sample: "wired reconciler_sample"
  by (simp add: wired_def reconciler_sample_def)

lemmas machine_samples = meta_sample_def spec_sample_def order_sample_def machine_sample_def kube_sample_def
  env_machine_def reconciler_sample_def

lemmas run_defs = andThen_def andThenWrap_def perform_def ok_def fail_def bind_def ret_def panic_def Let_def

section \<open>Deletion\<close>

text \<open>
  \<open>takes_off e\<close>: the event is a write of a machine that leaves it without the finalizer. An update
  sends the whole object; a patch sends how the object differs from its base.
\<close>

fun takes_off :: "event \<Rightarrow> bool" where
  "takes_off (KubeEv (UpdateWaldurMachine m' a)) \<longleftrightarrow> machineFinalizer \<notin> set (om_Finalizers (wm_Meta m'))"
| "takes_off (KubeEv (PatchWaldurMachine m' b a)) \<longleftrightarrow>
     om_Finalizers (wm_Meta m') \<noteq> om_Finalizers (wm_Meta b) \<and> machineFinalizer \<notin> set (om_Finalizers (wm_Meta m'))"
| "takes_off (KubeEv (PatchWaldurMachineStatus m' b a)) \<longleftrightarrow>
     om_Finalizers (wm_Meta m') \<noteq> om_Finalizers (wm_Meta b) \<and> machineFinalizer \<notin> set (om_Finalizers (wm_Meta m'))"
| "takes_off _ \<longleftrightarrow> False"

text \<open>\<open>release_guard m e\<close>: if the event takes the finalizer off, the machine \<open>m\<close> has nothing left in Waldur.\<close>

definition release_guard :: "WaldurMachine \<Rightarrow> event \<Rightarrow> bool" where
  "release_guard m e \<longleftrightarrow> (takes_off e \<longrightarrow>
     \<not> timeIsZero (om_DeletionTimestamp (wm_Meta m)) \<and>
     deletePhase (machineResource m) (machineOrder m) \<in> {NeverProvisioned, Terminated})"

lemma emits_release_guard_delete:
  assumes "\<not> timeIsZero (om_DeletionTimestamp (wm_Meta m))"
  shows "emits (release_guard m) (machine_reconcileDelete L E m)"
proof -
  have patch: "wm_Meta a = wm_Meta m \<Longrightarrow> emits (release_guard m) (k_PatchWaldurMachineStatus E a m)" for a
    unfolding prim_defs by (rule emits_perform) (simp add: release_guard_def)
  have terminate: "emits (release_guard m) (terminateVM L E m)"
    unfolding terminateVM_def
    by (intro ext.frame_rules patch emits_mono [OF emits_submitTerminationOrder])
      (auto simp: release_guard_def waldur_read_def terminates_iff)
  have stop: "emits (release_guard m) (stopVM L E m v)" for v
    unfolding stopVM_def prim_defs
    by (intro ext.frame_rules terminate emits_prims) (simp_all add: release_guard_def)
  have remove: "deletePhase (machineResource m) (machineOrder m) \<in> {NeverProvisioned, Terminated} \<Longrightarrow>
      emits (release_guard m) (removeMachineFinalizer L E m)"
    unfolding removeMachineFinalizer_def prim_defs using assms
    by (intro ext.frame_rules emits_prims) (simp add: release_guard_def)
  have "emits (release_guard m) (refreshVM L E m)"
    by (rule emits_mono [OF emits_refreshVM]) (auto simp: release_guard_def waldur_read_def)
  then have poll: "emits (release_guard m) (bind (refreshVM L E m) (\<lambda>(m', _).
      andThenWrap msg (k_PatchWaldurMachineStatus E m' m) (\<lambda>_. ok x)))" for msg and x :: Result
    by (rule ext.bind_run) (auto intro!: ext.frame_rules patch dest: refreshVM_keeps simp: same_machine_def)
  show ?thesis
    unfolding machine_reconcileDelete_phase
    by (auto split: delete_phase.split option.split intro!: remove terminate stop poll)
qed

text \<open>Neither the order nor a refresh touches the metadata, and the patches of a live pass keep it.\<close>

lemma createVM_meta: "createVM L E r ma m c w = (Ret (Inr m'), w') \<Longrightarrow> wm_Meta m' = wm_Meta m"
  by (auto simp: createVM_def submitVMOrder_def handleOrderResponse_def recordVMOrder_def go_inv)

lemma patches_keep_meta:
  assumes "wm_Meta n = wm_Meta b"
  shows "emits (release_guard m) (setProviderID L E b n)"
  unfolding setProviderID_def patchMachineStatus_def prim_defs using assms
  by (intro ext.frame_rules emits_prims) (simp_all add: release_guard_def setMachineReadyCondition_def Let_def)

lemma emits_release_guard_reconcileVM:
  assumes "wired r"
  shows "emits (release_guard m) (reconcileVM L E r ma m c)"
proof -
  have "emits (release_guard m) (createVM L E r ma m c)"
    by (rule emits_mono [OF emits_createVM [OF assms]])
      (auto simp: release_guard_def before_order_def waldur_read_def creates_order_iff)
  then have create: "emits (release_guard m) (bind (createVM L E r ma m c) (\<lambda>x. case x of
      Inl e \<Rightarrow> if isBootstrapNotReady e then ok y else setProviderID L E m m
    | Inr m' \<Rightarrow> setProviderID L E m m'))" for y
    by (rule ext.bind_run) (auto split: sum.split intro!: ext.ok patches_keep_meta dest: createVM_meta)
  have "emits (release_guard m) (refreshVM L E m)"
    by (rule emits_mono [OF emits_refreshVM]) (auto simp: release_guard_def waldur_read_def)
  then have "emits (release_guard m) (bind (refreshVM L E m) (\<lambda>(m', _). setProviderID L E m m'))"
    by (rule ext.bind_run) (auto intro!: patches_keep_meta dest: refreshVM_keeps simp: same_machine_def)
  with create show ?thesis unfolding reconcileVM_def by (intro ext.ite)
qed

lemma emits_release_guard:
  assumes "finalizer_ops L" and "wired r"
  shows "emits (release_guard m) (machine_reconcileLoaded L E r m)"
  unfolding machine_reconcileLoaded_def prim_defs
  by (intro ext.frame_rules emits_prims emits_release_guard_delete emits_release_guard_reconcileVM [OF assms(2)])
    (use assms(1) in \<open>auto simp: release_guard_def finalizer_ops_def\<close>)

text \<open>C2: a machine is let go (its finalizer removed) only when its deletion was requested and either
  it never had a resource in Waldur or its recorded termination order is done. Whatever the
  services answer, no other write of a pass, be it an update, a patch of the object or a patch of its
  status, takes the finalizer off.\<close>

theorem machine_released_only_when_terminated:
  assumes "finalizer_ops L" and "wired r"
    and "machine_Reconcile L E r req w = (res, w')" and "hist w' = hist w @ es"
    and "e \<in> set es" and "takes_off e"
  shows "\<exists>m. KubeEv (GetWaldurMachine req (Inr m)) \<in> set es \<and> \<not> timeIsZero (om_DeletionTimestamp (wm_Meta m)) \<and>
    (machineResource m = [] \<or>
     (\<exists>ord. machineOrder m = Some ord \<and> wo_Type ord = Terminate \<and> wo_State ord = OrderStateDone))"
  using assms(3) emits_release_guard [OF assms(1,2)]
proof (cases rule: machine_Reconcile_events)
  case (unread err)
  with assms(4,5,6) show ?thesis by auto
next
  case (loaded m fs)
  with assms(4,5,6) have "es = KubeEv (GetWaldurMachine req (Inr m)) # fs" "e \<in> set fs" by auto
  with loaded(3) assms(6) have "\<not> timeIsZero (om_DeletionTimestamp (wm_Meta m))"
    "deletePhase (machineResource m) (machineOrder m) \<in> {NeverProvisioned, Terminated}"
    by (auto simp: list_all_iff release_guard_def)
  then show ?thesis using \<open>es = _\<close>
    by (intro exI [of _ m]) (simp only: deletePhase_finished, simp)
qed

definition machine_terminated :: WaldurMachine where
  "machine_terminated = machine_sample (Some 1) ''000'' (Some (order_sample Terminate OrderStateDone)) None CoreStatesOK"

theorem machine_released_only_when_terminated_witness:
  "\<exists>res w' es m' a. machine_Reconcile lib_sample (env_machine machine_terminated) reconciler_sample
       (namespacedName ''ns'' ''m'') world_sample = (res, w') \<and> hist w' = hist world_sample @ es \<and>
     KubeEv (UpdateWaldurMachine m' a) \<in> set es \<and>
     (\<exists>m. KubeEv (GetWaldurMachine (namespacedName ''ns'' ''m'') (Inr m)) \<in> set es \<and>
        \<not> timeIsZero (om_DeletionTimestamp (wm_Meta m)))"
proof -
  let ?E = "env_machine machine_terminated"
  let ?req = "namespacedName ''ns'' ''m''"
  let ?m = "machine_terminated\<lparr>wm_Meta := (wm_Meta machine_terminated)\<lparr>om_Finalizers := []\<rparr>\<rparr>"
  let ?es = "[KubeEv (GetWaldurMachine ?req (Inr machine_terminated)), KubeEv (UpdateWaldurMachine ?m (Inr ?m))]"
  have run: "machine_Reconcile lib_sample ?E reconciler_sample ?req world_sample =
      (Ret (Inr (requeueAfter 0)), world_sample\<lparr>hist := ?es\<rparr>)"
    by (simp add: machine_Reconcile_def machine_reconcileLoaded_def machine_reconcileDelete_def removeMachineFinalizer_def
        machine_terminated_def machine_samples sample_defs prim_defs run_defs timeIsZero_def isOrderTerminal_def)
  have "takes_off (KubeEv (UpdateWaldurMachine ?m (Inr ?m)))" by simp
  with machine_released_only_when_terminated [OF lib_sample_ok(3) wired_sample run, of ?es "KubeEv (UpdateWaldurMachine ?m (Inr ?m))"]
  have "\<exists>m. KubeEv (GetWaldurMachine ?req (Inr m)) \<in> set ?es \<and> \<not> timeIsZero (om_DeletionTimestamp (wm_Meta m))"
    by (auto simp: world_sample_def)
  moreover have "hist (world_sample\<lparr>hist := ?es\<rparr>) = hist world_sample @ ?es" by (simp add: world_sample_def)
  moreover have "KubeEv (UpdateWaldurMachine ?m (Inr ?m)) \<in> set ?es" by simp
  ultimately show ?thesis using run by blast
qed

text \<open>While a termination order is in flight a deletion pass only polls: it makes no change in Waldur,
  writes a status that still names the same resource and the same order, and asks to come back in
  15 seconds; an order that was already terminal keeps its state.\<close>

lemma machine_deletion_polls:
  assumes run: "machine_reconcileDelete L E m w = (Ret (Inr res), w')"
    and phase: "deletePhase (machineResource m) (machineOrder m) = InFlight"
  shows "res = requeueAfter 15 \<and> (\<exists>es m' a. hist w' = hist w @ es @ [KubeEv (PatchWaldurMachineStatus m' m (Inr a))] \<and>
    list_all waldur_read es \<and> same_machine m m' \<and> order_step (machineOrder m) (machineOrder m') \<and>
    deletePhase (machineResource m') (machineOrder m') \<noteq> NeverProvisioned)"
proof -
  from run phase obtain m' err u a where refresh: "refreshVM L E m w = (Ret (m', err), u)"
    and patch: "k_PatchWaldurMachineStatus E m' m u = (Ret (Inr a), w')" and res: "res = requeueAfter 15"
    by (auto simp: machine_reconcileDelete_phase go_inv)
  from mt.refresh_no_write [OF refresh] obtain es where es: "hist u = hist w @ es" "list_all waldur_read es" by blast
  from patch have "hist w' = hist u @ [KubeEv (PatchWaldurMachineStatus m' m (Inr a))]"
    by (auto simp: k_PatchWaldurMachineStatus_def go_inv)
  with es refreshVM_keeps [OF refresh] mt.refresh_in_flight [OF refresh phase] res show ?thesis
    by (intro conjI exI [of _ es] exI [of _ m'] exI [of _ a]) auto
qed

text \<open>A terminate request names the resource that was to be terminated.\<close>

definition own_termination :: "lib \<Rightarrow> string \<Rightarrow> event \<Rightarrow> bool" where
  "own_termination L mp e \<longleftrightarrow> (\<forall>u a. e = WaldurEv (MarketplaceResourcesTerminate u a) \<longrightarrow> uuid_Parse L mp = Inr u)"

lemma emits_submit_own: "emits (own_termination L mp) (submitTerminationOrder L E mp)"
proof (cases "uuid_Parse L mp")
  case (Inl e)
  then show ?thesis by (simp add: submitTerminationOrder_def andThenWrap_def ext.fail)
next
  case (Inr u)
  then have "emits (own_termination L mp) (w_MarketplaceResourcesTerminate E u)"
    unfolding prim_defs by (intro emits_perform) (simp add: own_termination_def)
  with Inr show ?thesis
    by (auto simp: submitTerminationOrder_def andThenWrap_def intro!: ext.frame_rules)
qed

lemma emits_terminateVM_own: "emits (own_termination L (machineResource m)) (terminateVM L E m)"
  unfolding terminateVM_def prim_defs
  by (intro ext.frame_rules emits_submit_own emits_prims) (simp add: own_termination_def)

lemma stopVM_events:
  assumes "stopVM L E m v w = (res, w')"
  obtains (quiet) "\<exists>es. hist w' = hist w @ es \<and> list_all (\<lambda>e. \<not> terminates e) es"
  | (stopped) vu resp es where "uuid_Parse L v = Inr vu"
      and "hist w' = hist w @ WaldurEv (OpenstackInstancesRetrieve vu [InstanceFieldRuntimeState] (Inr resp)) # es"
      and "Option.bind (JSON resp) ins_RuntimeState \<in> {None, Some ''SHUTOFF'', Some ''ERROR''}"
      and "list_all (own_termination L (machineResource m)) es"
proof (cases "uuid_Parse L v")
  case (Inl e)
  with assms quiet show ?thesis by (simp add: stopVM_def run_defs)
next
  case (Inr vu)
  define a where "a = on_OpenstackInstancesRetrieve (env_waldur E) (hist w) vu [InstanceFieldRuntimeState]"
  define w1 where "w1 = w\<lparr>hist := hist w @ [WaldurEv (OpenstackInstancesRetrieve vu [InstanceFieldRuntimeState] a)]\<rparr>"
  show ?thesis
  proof (cases "\<exists>resp. a = Inr resp \<and> Option.bind (JSON resp) ins_RuntimeState \<in> {None, Some ''SHUTOFF'', Some ''ERROR''}")
    case True
    then obtain resp where resp: "a = Inr resp"
      "Option.bind (JSON resp) ins_RuntimeState \<in> {None, Some ''SHUTOFF'', Some ''ERROR''}" by blast
    with assms Inr have "terminateVM L E m w1 = (res, w')"
      by (auto simp: stopVM_def w_OpenstackInstancesRetrieve_def a_def w1_def andThenWrap_def bind_def perform_def ret_def Let_def)
    with emitsD [OF emits_terminateVM_own] obtain es where "hist w' = hist w1 @ es" "list_all (own_termination L (machineResource m)) es"
      by blast
    with resp Inr stopped show ?thesis by (simp add: w1_def)
  next
    case False
    with assms Inr have "\<exists>es. hist w' = hist w @ es \<and> list_all (\<lambda>e. \<not> terminates e) es"
      by (auto simp: stopVM_def prim_defs a_def run_defs event_class_defs split: sum.splits option.splits if_splits)
    with quiet show ?thesis .
  qed
qed

text \<open>C19: a running VM is not terminated. A terminate request is sent only for the machine's own resource,
  when a new termination is due, and, if the machine has a VM, only after Waldur was asked in the
  same pass for the VM's runtime state and did not name one other than SHUTOFF and ERROR.\<close>

theorem vm_stopped_before_termination:
  assumes run: "machine_reconcileDelete L E m w = (res, w')" and es: "hist w' = hist w @ es"
    and sent: "WaldurEv (MarketplaceResourcesTerminate u a) \<in> set es"
  shows "deletePhase (machineResource m) (machineOrder m) = SubmitDue \<and> uuid_Parse L (machineResource m) = Inr u \<and>
    (\<forall>v. mst_VmUuid (wm_Status m) = Some v \<longrightarrow> (\<exists>vu resp. uuid_Parse L v = Inr vu \<and>
       WaldurEv (OpenstackInstancesRetrieve vu [InstanceFieldRuntimeState] (Inr resp)) \<in> set es \<and>
       Option.bind (JSON resp) ins_RuntimeState \<in> {None, Some ''SHUTOFF'', Some ''ERROR''}))"
proof -
  have quiet: "\<not> emits (\<lambda>e. \<not> terminates e) (machine_reconcileDelete L E m)"
    using emits_event [of "\<lambda>e. \<not> terminates e" "machine_reconcileDelete L E m", OF _ run es sent] by (auto simp: terminates_def)
  have refresh: "emits (\<lambda>e. \<not> terminates e) (refreshVM L E m)"
    by (rule emits_mono [OF emits_refreshVM]) (rule waldur_read_classes)
  have writes: "emits (\<lambda>e. \<not> terminates e) (k_PatchWaldurMachineStatus E b d)"
    "emits (\<lambda>e. \<not> terminates e) (removeMachineFinalizer L E m)" for b d
    unfolding removeMachineFinalizer_def prim_defs
    by (intro ext.frame_rules emits_prims; simp add: terminates_def)+
  have due: "deletePhase (machineResource m) (machineOrder m) = SubmitDue"
  proof (rule ccontr)
    assume "deletePhase (machineResource m) (machineOrder m) \<noteq> SubmitDue"
    then have "emits (\<lambda>e. \<not> terminates e) (machine_reconcileDelete L E m)"
      unfolding machine_reconcileDelete_phase
      by (auto split: delete_phase.split intro!: ext.frame_rules refresh writes)
    with quiet show False by simp
  qed
  show ?thesis
  proof (cases "mst_VmUuid (wm_Status m)")
    case None
    with run due have "terminateVM L E m w = (res, w')" by (simp add: machine_reconcileDelete_phase)
    from emits_event [OF emits_terminateVM_own this es sent] None due show ?thesis
      by (simp add: own_termination_def)
  next
    case (Some v)
    with run due have "stopVM L E m v w = (res, w')" by (simp add: machine_reconcileDelete_phase)
    then show ?thesis
    proof (cases rule: stopVM_events)
      case quiet
      with es sent show ?thesis by (auto simp: list_all_iff terminates_def)
    next
      case (stopped vu resp fs)
      with es sent have "uuid_Parse L (machineResource m) = Inr u" by (auto simp: list_all_iff own_termination_def)
      with stopped es Some due show ?thesis by auto
    qed
  qed
qed

definition machine_stopped :: WaldurMachine where
  "machine_stopped = machine_sample (Some 1) ''000'' None (Some ''0000'') CoreStatesOK"

definition env_stopped :: env where
  "env_stopped = (env_machine machine_stopped)\<lparr>env_waldur := waldur_down\<lparr>
     on_OpenstackInstancesRetrieve := (\<lambda>_ _ _. Inr \<lparr>StatusCode = 200, Body = [], JSON = Some
       \<lparr>ins_State = None, ins_Uuid = None, ins_RuntimeState = Some ''SHUTOFF'', ins_InternalIps = None\<rparr>\<rparr>),
     on_MarketplaceResourcesTerminate := (\<lambda>_ _. Inr \<lparr>StatusCode = 200, Body = [], JSON = Some \<lparr>ou_OrderUuid = Some 5\<rparr>\<rparr>)\<rparr>\<rparr>"

theorem vm_stopped_before_termination_witness:
  "\<exists>res w' es. machine_reconcileDelete lib_sample env_stopped machine_stopped world_sample = (res, w') \<and>
     hist w' = hist world_sample @ es \<and>
     (\<exists>resp. WaldurEv (OpenstackInstancesRetrieve 3 [InstanceFieldRuntimeState] (Inr resp)) \<in> set es)"
proof -
  let ?run = "machine_reconcileDelete lib_sample env_stopped machine_stopped world_sample"
  have sent: "WaldurEv (MarketplaceResourcesTerminate 2 (Inr \<lparr>StatusCode = 200, Body = [], JSON = Some \<lparr>ou_OrderUuid = Some 5\<rparr>\<rparr>))
      \<in> set (hist (snd ?run))"
    by (simp add: machine_reconcileDelete_def stopVM_def terminateVM_def submitTerminationOrder_def env_stopped_def
        machine_stopped_def machine_samples sample_defs prim_defs run_defs)
  have "hist (snd ?run) = hist world_sample @ hist (snd ?run)" by (simp add: world_sample_def)
  from vm_stopped_before_termination [OF prod.collapse [symmetric] this sent]
  obtain resp where "WaldurEv (OpenstackInstancesRetrieve 3 [InstanceFieldRuntimeState] (Inr resp)) \<in> set (hist (snd ?run))"
    by (auto simp: machine_stopped_def machine_sample_def lib_sample_def)
  with \<open>hist (snd ?run) = _\<close> show ?thesis by (metis prod.collapse)
qed

section \<open>What is ordered\<close>

lemma findVMOffering_Ret:
  assumes "findVMOffering offs w = (Ret found, w')"
  shows "w' = w \<and> found = find (\<lambda>x. so_Type x = Some ''OpenStack.Instance'') offs"
  using assms by (induction offs) (auto simp: go_inv)

lemma defaultSecurityGroups_Ret:
  assumes "defaultSecurityGroups sgs w = (Ret urls, w')"
  shows "w' = w \<and> urls = List.map_filter sg_Url (filter (\<lambda>sg. sg_Name sg = Some ''default'') sgs)"
  using assms
proof (induction sgs arbitrary: urls)
  case Nil
  then show ?case by (simp add: go_inv List.map_filter_def)
next
  case (Cons sg sgs)
  show ?case
  proof (cases "sg_Url sg")
    case None
    with Cons show ?thesis by (simp add: List.map_filter_def)
  next
    case (Some url)
    with Cons.prems obtain name rest where "sg_Name sg = Some name"
      "defaultSecurityGroups sgs w = (Ret rest, w')" "urls = (if name = ''default'' then url # rest else rest)"
      by (auto simp: go_inv)
    with Cons.IH [of rest] Some show ?thesis by (simp add: List.map_filter_def)
  qed
qed

lemma readyTenant_Inr:
  "readyTenant m c = Inr (t, ps, tu) \<longleftrightarrow>
     map_of (cst_Tenants (wc_Status c)) (ms_OfferingSlug (wm_Spec m)) = Some t \<and>
     t_MarketplaceResourceState t = ResourceStateOK \<and> t_ProjectSlug t = Some ps \<and> t_Uuid t = Some tu"
  by (auto simp: readyTenant_def Let_def split: option.splits if_splits)

text \<open>What a lookup returned is what Waldur answered.\<close>

lemma getVMOffering_Inr:
  assumes "getVMOffering L E mp w = (Ret (Inr x), w')"
  shows "\<exists>u resp xs. uuid_Parse L mp = Inr u \<and> JSON resp = Some xs \<and>
     find (\<lambda>x. so_Type x = Some ''OpenStack.Instance'') xs = Some x \<and>
     hist w' = hist w @ [WaldurEv (MarketplaceResourcesOfferingForSubresourcesList u (Inr resp))]"
  using assms unfolding getVMOffering_def prim_defs
  by (auto simp: go_inv dest!: findVMOffering_Ret)

text \<open>The answers the payload is built from: \<open>payload_reads\<close> lists the nine calls in their order.\<close>

lemma buildOrderPayload_Inr:
  assumes "buildOrderPayload L E m c ud w = (Ret (Inr p), w')"
  obtains t ps tu mp u projects parent sub off fl im sgs sns vts r1 r2 r3 r4 r5 r6 r7 r8 r9 attrs where
    "readyTenant m c = Inr (t, ps, tu)" "uuid_Parse L (t_MarketplaceResourceUuid t) = Inr mp" "uuid_Parse L tu = Inr u"
    "hist w' = hist w @ map WaldurEv
       [ProjectsList \<lparr>pl_NameExact = None, pl_Customer = None, pl_Slug = Some ps\<rparr> (Inr r1),
        MarketplacePublicOfferingsList (ms_OfferingSlug (wm_Spec m)) (Inr r2),
        MarketplaceResourcesOfferingForSubresourcesList mp (Inr r3),
        MarketplacePublicOfferingsRetrieve off (Inr r4),
        OpenstackFlavorsList (off_Uuid parent) (ms_Flavor (wm_Spec m)) (Inr r5),
        OpenstackImagesList (off_Uuid parent) (ms_Image (wm_Spec m)) (Inr r6),
        OpenstackSecurityGroupsList u (Inr r7), OpenstackSubnetsList u (Inr r8), OpenstackVolumeTypesList u (Inr r9)]"
    "JSON r1 = Some projects" "projects \<noteq> []" "prj_Url (hd projects) = Some (oc_Project p)" "\<exists>xs. JSON r2 = Some (parent # xs)"
    "\<exists>xs. JSON r3 = Some xs \<and> find (\<lambda>x. so_Type x = Some ''OpenStack.Instance'') xs = Some sub"
    "so_Uuid sub = Some off"
    "\<exists>x. JSON r4 = Some x \<and> off_Url x = Some (oc_Offering p)"
    "\<exists>xs. JSON r5 = Some (fl # xs)" "\<exists>xs. JSON r6 = Some (im # xs)"
    "JSON r7 = Some sgs" "JSON r8 = Some sns" "JSON r9 = Some vts"
    "attrs = instanceAttributes m fl im
       (List.map_filter sg_Url (filter (\<lambda>sg. sg_Name sg = Some ''default'') sgs)) sns vts ud"
    "p = \<lparr>oc_Type = Create, oc_Offering = oc_Offering p, oc_Project = oc_Project p, oc_Plan = None,
       oc_Attributes = InstanceAttributes attrs, oc_Limits = None, oc_AcceptingTermsOfService = True\<rparr>"
proof -
  show ?thesis
    by (insert assms, simp add: buildOrderPayload_def w_ProjectsList_def go_inv Let_def, elim exE conjE,
        (drule lookup_Inr getVMOffering_Inr defaultSecurityGroups_Ret)+, elim exE conjE, rule that) auto
qed

lemma map_filter_set: "x \<in> set (List.map_filter f xs) \<longleftrightarrow> (\<exists>y\<in>set xs. f y = Some x)"
  by (auto simp: List.map_filter_def) force

text \<open>C18: a VM is ordered only in a tenant that is ready, and the order says what the machine asks for:
  the project is the first one Waldur has for the tenant's project slug, the offering is that of
  the first \<^verbatim>\<open>OpenStack.Instance\<close> subresource of the tenant, the name, the user data and the disk
  sizes (in MiB, 64-bit) are the machine's, every subnet of the tenant with a URL is a port, there
  is no floating IP, and the security groups are exactly those of the tenant named default.\<close>

theorem vm_order_payload:
  assumes run: "buildOrderPayload L E m c ud w = (Ret (Inr p), w')" and es: "hist w' = hist w @ es"
  shows "\<exists>t ps tu u attrs sgs sns.
    map_of (cst_Tenants (wc_Status c)) (ms_OfferingSlug (wm_Spec m)) = Some t \<and>
    t_MarketplaceResourceState t = ResourceStateOK \<and> t_ProjectSlug t = Some ps \<and> t_Uuid t = Some tu \<and> uuid_Parse L tu = Inr u \<and>
    oc_Type p = Create \<and> oc_AcceptingTermsOfService p \<and> oc_Attributes p = InstanceAttributes attrs \<and>
    (\<exists>resp prj rest. WaldurEv (ProjectsList \<lparr>pl_NameExact = None, pl_Customer = None, pl_Slug = Some ps\<rparr> (Inr resp)) \<in> set es \<and>
       JSON resp = Some (prj # rest) \<and> prj_Url prj = Some (oc_Project p)) \<and>
    (\<exists>mp resp subs sub v resp' off. uuid_Parse L (t_MarketplaceResourceUuid t) = Inr mp \<and>
       WaldurEv (MarketplaceResourcesOfferingForSubresourcesList mp (Inr resp)) \<in> set es \<and> JSON resp = Some subs \<and>
       find (\<lambda>x. so_Type x = Some ''OpenStack.Instance'') subs = Some sub \<and> so_Uuid sub = Some v \<and>
       WaldurEv (MarketplacePublicOfferingsRetrieve v (Inr resp')) \<in> set es \<and>
       JSON resp' = Some off \<and> off_Url off = Some (oc_Offering p)) \<and>
    ia_Name attrs = om_Name (wm_Meta m) \<and> ia_UserData attrs = ud \<and> ia_FloatingIps attrs = [] \<and>
    ia_SystemVolumeSize attrs = map_option (\<lambda>gb. gb * 1024) (ms_SystemDiskSize (wm_Spec m)) \<and>
    ia_DataVolumeSize attrs = map_option (\<lambda>gb. gb * 1024) (ms_DataDiskSize (wm_Spec m)) \<and>
    (\<exists>resp. WaldurEv (OpenstackSubnetsList u (Inr resp)) \<in> set es \<and> JSON resp = Some sns) \<and>
    (\<forall>url. url \<in> set (ia_Ports attrs) \<longleftrightarrow> (\<exists>sn\<in>set sns. sn_Url sn = Some url)) \<and>
    (\<exists>resp. WaldurEv (OpenstackSecurityGroupsList u (Inr resp)) \<in> set es \<and> JSON resp = Some sgs) \<and>
    (\<forall>url. url \<in> set (ia_SecurityGroups attrs) \<longleftrightarrow>
       (\<exists>sg\<in>set sgs. sg_Name sg = Some ''default'' \<and> sg_Url sg = Some url))"
  using run
proof (cases rule: buildOrderPayload_Inr)
  case (1 t ps tu mp u projects parent sub off fl im sgs sns vts r1 r2 r3 r4 r5 r6 r7 r8 r9 attrs)
  from 1(1) have tenant: "map_of (cst_Tenants (wc_Status c)) (ms_OfferingSlug (wm_Spec m)) = Some t"
    "t_MarketplaceResourceState t = ResourceStateOK" "t_ProjectSlug t = Some ps" "t_Uuid t = Some tu"
    by (simp_all add: readyTenant_Inr)
  from 1(4) es have set_es: "set es = WaldurEv ` {
        ProjectsList \<lparr>pl_NameExact = None, pl_Customer = None, pl_Slug = Some ps\<rparr> (Inr r1),
        MarketplacePublicOfferingsList (ms_OfferingSlug (wm_Spec m)) (Inr r2),
        MarketplaceResourcesOfferingForSubresourcesList mp (Inr r3),
        MarketplacePublicOfferingsRetrieve off (Inr r4),
        OpenstackFlavorsList (off_Uuid parent) (ms_Flavor (wm_Spec m)) (Inr r5),
        OpenstackImagesList (off_Uuid parent) (ms_Image (wm_Spec m)) (Inr r6),
        OpenstackSecurityGroupsList u (Inr r7), OpenstackSubnetsList u (Inr r8), OpenstackVolumeTypesList u (Inr r9)}"
    by simp
  from 1(5-7) have project: "JSON r1 = Some (hd projects # tl projects)" "prj_Url (hd projects) = Some (oc_Project p)"
    by simp_all
  have p: "oc_Type p = Create" "oc_AcceptingTermsOfService p" "oc_Attributes p = InstanceAttributes attrs"
    by (subst 1(18), simp)+
  have attrs: "ia_Name attrs = om_Name (wm_Meta m)" "ia_UserData attrs = ud" "ia_FloatingIps attrs = []"
    "ia_SystemVolumeSize attrs = map_option (\<lambda>gb. gb * 1024) (ms_SystemDiskSize (wm_Spec m))"
    "ia_DataVolumeSize attrs = map_option (\<lambda>gb. gb * 1024) (ms_DataDiskSize (wm_Spec m))"
    "url \<in> set (ia_Ports attrs) \<longleftrightarrow> (\<exists>sn\<in>set sns. sn_Url sn = Some url)"
    "url \<in> set (ia_SecurityGroups attrs) \<longleftrightarrow> (\<exists>sg\<in>set sgs. sg_Name sg = Some ''default'' \<and> sg_Url sg = Some url)" for url
    by (auto simp: 1(17) instanceAttributes_def Let_def map_filter_set)
  show ?thesis
    by (rule exI [of _ t], rule exI [of _ ps], rule exI [of _ tu], rule exI [of _ u], rule exI [of _ attrs],
        rule exI [of _ sgs], rule exI [of _ sns])
      (use tenant 1(2,3,9-16) project p attrs in \<open>auto simp: set_es\<close>)
qed

text \<open>A Waldur with one ready tenant, which accepts the order.\<close>

abbreviation answer :: "nat \<Rightarrow> 'a \<Rightarrow> error + 'a response" where
  "answer code x \<equiv> Inr \<lparr>StatusCode = code, Body = [], JSON = Some x\<rparr>"

definition tenant_sample :: OpenStackTenant where
  "tenant_sample = \<lparr>t_State = CoreStatesOK, t_Uuid = Some ''00'', t_Name = ''t'', t_MarketplaceResourceUuid = ''000'',
     t_MarketplaceResourceState = ResourceStateOK, t_ProjectSlug = Some ''ps'', t_Order = None\<rparr>"

definition cluster_sample :: WaldurCluster where
  "cluster_sample = \<lparr>wc_Meta = meta_sample None,
     wc_Spec = \<lparr>cs_KubernetesVersion = [], cs_Topology = SingleDatacenter, cs_Datacenters = [], cs_SecurityRules = [],
       cs_ControlPlaneEndpoint = \<lparr>ep_Host = [], ep_Port = 0\<rparr>\<rparr>,
     wc_Status = \<lparr>cst_Conditions = [], cst_Initialization = None, cst_Tenants = [(''o'', tenant_sample)]\<rparr>\<rparr>"

definition offering_sample :: PublicOfferingDetails where
  "offering_sample = \<lparr>off_Uuid = Some 1, off_Slug = Some ''o'', off_Url = Some ''U'', off_PlanUrls = Some [Some ''plan'']\<rparr>"

definition orderdetails_sample :: OrderDetails where
  "orderdetails_sample = \<lparr>od_Uuid = Some 7, od_Type = Some Create, od_State = Some OrderStatePendingProvider,
     od_MarketplaceResourceUuid = Some 2, od_ResourceUuid = None, od_ResourceName = Some ''n''\<rparr>"

definition waldur_sample :: "nat \<Rightarrow> waldur_api" where
  "waldur_sample code = waldur_down\<lparr>
     on_ProjectsList := (\<lambda>_ _. answer 200 [\<lparr>prj_Slug = Some ''ps'', prj_Uuid = Some 1, prj_Name = Some ''p'', prj_Url = Some ''P''\<rparr>]),
     on_MarketplacePublicOfferingsList := (\<lambda>_ _. answer 200 [offering_sample]),
     on_MarketplaceResourcesOfferingForSubresourcesList := (\<lambda>_ _. answer 200
       [\<lparr>so_Uuid = Some 4, so_Type = Some ''OpenStack.Volume''\<rparr>, \<lparr>so_Uuid = Some 5, so_Type = Some ''OpenStack.Instance''\<rparr>]),
     on_MarketplacePublicOfferingsRetrieve := (\<lambda>_ _. answer 200 offering_sample),
     on_OpenstackFlavorsList := (\<lambda>_ _ _. answer 200 [\<lparr>fl_Url = Some ''F'', fl_Cores = Some 2, fl_Ram = Some 4096\<rparr>]),
     on_OpenstackImagesList := (\<lambda>_ _ _. answer 200 [\<lparr>img_Url = Some ''I''\<rparr>]),
     on_OpenstackSecurityGroupsList := (\<lambda>_ _. answer 200 [\<lparr>sg_Name = Some ''web'', sg_Url = Some ''W''\<rparr>,
       \<lparr>sg_Name = Some ''default'', sg_Url = Some ''D''\<rparr>]),
     on_OpenstackSubnetsList := (\<lambda>_ _. answer 200 [\<lparr>sn_Url = Some ''N''\<rparr>]),
     on_OpenstackVolumeTypesList := (\<lambda>_ _. answer 200 [\<lparr>vt_Url = Some ''V''\<rparr>]),
     on_MarketplaceOrdersCreate := (\<lambda>_ _. answer code orderdetails_sample)\<rparr>"

definition machine_new :: WaldurMachine where
  "machine_new = machine_sample None [] None None (CoreStatesOther [])"

definition capi_machine :: Machine where
  "capi_machine = \<lparr>ma_Meta = meta_sample None, ma_ClusterName = ''c'', ma_DataSecretName = Some ''boot''\<rparr>"

definition kube_vm :: "WaldurMachine \<Rightarrow> kube_api" where
  "kube_vm m = (kube_sample m)\<lparr>
     on_GetMachine := (\<lambda>_ _. Inr capi_machine),
     on_GetCluster := (\<lambda>_ _. Inr \<lparr>cl_Meta = meta_sample None, cl_InfrastructureRefName = Some ''c''\<rparr>),
     on_GetWaldurCluster := (\<lambda>_ _. Inr cluster_sample),
     on_GetSecret := (\<lambda>_ _. Inr \<lparr>sec_Data = [(''value'', ''ud'')]\<rparr>)\<rparr>"

definition env_vm :: "nat \<Rightarrow> env" where
  "env_vm code = env_down\<lparr>env_kube := kube_vm machine_new, env_waldur := waldur_sample code\<rparr>"

lemmas vm_samples = tenant_sample_def cluster_sample_def offering_sample_def orderdetails_sample_def waldur_sample_def
  machine_new_def capi_machine_def kube_vm_def env_vm_def machine_samples

lemmas payload_defs = buildOrderPayload_def readyTenant_def getVMOffering_def instanceAttributes_def helper_defs

lemma payload_run:
  "\<exists>p w'. buildOrderPayload lib_sample (env_vm code) machine_new cluster_sample (Some ud) world_sample = (Ret (Inr p), w') \<and>
     oc_Project p = ''P'' \<and> (\<exists>a. oc_Attributes p = InstanceAttributes a \<and> ia_SecurityGroups a = [''D''] \<and>
       ia_SystemVolumeSize a = Some 20480)"
  by (simp add: payload_defs vm_samples sample_defs prim_defs run_defs List.map_filter_def)

theorem vm_order_payload_witness:
  "\<exists>p w' (t :: OpenStackTenant) attrs. buildOrderPayload lib_sample (env_vm 201) machine_new cluster_sample (Some ''ud'') world_sample
       = (Ret (Inr p), w') \<and> t_MarketplaceResourceState t = ResourceStateOK \<and>
     oc_Attributes p = InstanceAttributes attrs \<and> ia_UserData attrs = Some ''ud''"
proof -
  obtain p w' where run: "buildOrderPayload lib_sample (env_vm 201) machine_new cluster_sample (Some ''ud'') world_sample
      = (Ret (Inr p), w')"
    using payload_run by blast
  have "hist w' = hist world_sample @ hist w'" by (simp add: world_sample_def)
  from vm_order_payload [OF run this] obtain t :: OpenStackTenant and attrs
    where "t_MarketplaceResourceState t = ResourceStateOK"
      "oc_Attributes p = InstanceAttributes attrs" "ia_UserData attrs = Some ''ud''" by - (elim exE conjE, rule that)
  with run show ?thesis by blast
qed

text \<open>Of a storage node's VSAN disk nothing reaches the order: machines that differ in their
  \<^verbatim>\<open>vsanDiskSize\<close> only are ordered with the same payload.\<close>

lemma payload_ignores_vsan_disk:
  "buildOrderPayload L E (m\<lparr>wm_Spec := (wm_Spec m)\<lparr>ms_VsanDiskSize := v\<rparr>\<rparr>) c ud = buildOrderPayload L E m c ud"
proof -
  let ?m = "m\<lparr>wm_Spec := (wm_Spec m)\<lparr>ms_VsanDiskSize := v\<rparr>\<rparr>"
  have tenant: "readyTenant ?m c = readyTenant m c"
    by (simp add: readyTenant_def)
  have attrs: "instanceAttributes ?m = instanceAttributes m"
    by (intro ext) (simp add: instanceAttributes_def)
  have spec: "ms_OfferingSlug (wm_Spec ?m) = ms_OfferingSlug (wm_Spec m)" "ms_Flavor (wm_Spec ?m) = ms_Flavor (wm_Spec m)"
    "ms_Image (wm_Spec ?m) = ms_Image (wm_Spec m)" by simp_all
  show ?thesis unfolding buildOrderPayload_def tenant attrs spec by (rule refl)
qed

section \<open>Ordering a VM\<close>

lemma recordVMOrder_Inr:
  assumes "recordVMOrder L m od w = (Ret (Inr m'), w')"
  shows "w' = w \<and> (\<exists>ou ty st mp. od_Uuid od = Some ou \<and> od_Type od = Some ty \<and> od_State od = Some st \<and>
    od_MarketplaceResourceUuid od = Some mp \<and>
    m' = m\<lparr>wm_Status := (wm_Status m)\<lparr>
      mst_Order := Some \<lparr>wo_Uuid = uuid_String L ou, wo_Type = ty, wo_State = st,
        wo_MarketplaceResourceUuid = uuid_String L mp, wo_ResourceUuid = None\<rparr>,
      mst_MarketplaceResourceUuid := uuid_String L mp, mst_State := CoreStatesCREATING\<rparr>\<rparr>)"
  using assms by (auto simp: recordVMOrder_def go_inv)

lemma submitVMOrder_Inr:
  assumes "submitVMOrder L E r m c ud sid role w = (Ret (Inr m'), w')"
  obtains p u resp od where "buildOrderPayload L E m c (Some ud) w = (Ret (Inr p), u)"
    and "hist w' = hist u @ [WaldurEv (MarketplaceOrdersCreate p (Inr resp))]"
    and "StatusCode resp = 201" and "JSON resp = Some od" and "recordVMOrder L m od w' = (Ret (Inr m'), w')"
proof -
  from assms obtain p u resp od where "buildOrderPayload L E m c (Some ud) w = (Ret (Inr p), u)"
    and resp: "StatusCode resp = 201" "JSON resp = Some od"
    and rec: "recordVMOrder L m od (u\<lparr>hist := hist u @ [WaldurEv (MarketplaceOrdersCreate p (Inr resp))]\<rparr>) = (Ret (Inr m'), w')"
    by (auto simp: submitVMOrder_def handleOrderResponse_def w_MarketplaceOrdersCreate_def go_inv)
  moreover from recordVMOrder_Inr [OF rec] have "w' = u\<lparr>hist := hist u @ [WaldurEv (MarketplaceOrdersCreate p (Inr resp))]\<rparr>"
    by simp
  ultimately show ?thesis using that by auto
qed

text \<open>C24: a machine is marked as ordered only if Waldur created the order. When \<^verbatim>\<open>createVM\<close> succeeds,
  its last action was one create order, answered 201; before it there were only reads and traffic
  with Vault; and the machine then carries the order's and the resource's identifiers from that
  answer and is in state CREATING, with nothing else changed.\<close>

theorem created_vm_recorded:
  assumes "wired r" and run: "createVM L E r ma m c w = (Ret (Inr m'), w')"
  shows "\<exists>es p resp od ou ty st mp. hist w' = hist w @ es @ [WaldurEv (MarketplaceOrdersCreate p (Inr resp))] \<and>
    list_all before_order es \<and> oc_Type p = Create \<and> StatusCode resp = 201 \<and> JSON resp = Some od \<and>
    od_Uuid od = Some ou \<and> od_Type od = Some ty \<and> od_State od = Some st \<and> od_MarketplaceResourceUuid od = Some mp \<and>
    m' = m\<lparr>wm_Status := (wm_Status m)\<lparr>
      mst_Order := Some \<lparr>wo_Uuid = uuid_String L ou, wo_Type = ty, wo_State = st,
        wo_MarketplaceResourceUuid = uuid_String L mp, wo_ResourceUuid = None\<rparr>,
      mst_MarketplaceResourceUuid := uuid_String L mp, mst_State := CoreStatesCREATING\<rparr>\<rparr>"
proof -
  from run obtain ud sid role w1 where user: "vmUserData L E r ma w = (Ret (Inr (ud, sid, role)), w1)"
    and submit: "submitVMOrder L E r m c ud sid role w1 = (Ret (Inr m'), w')"
    by (auto simp: createVM_def go_inv)
  from submit obtain p u resp od where payload: "buildOrderPayload L E m c (Some ud) w1 = (Ret (Inr p), u)"
    and order: "hist w' = hist u @ [WaldurEv (MarketplaceOrdersCreate p (Inr resp))]"
      "StatusCode resp = 201" "JSON resp = Some od" and rec: "recordVMOrder L m od w' = (Ret (Inr m'), w')"
    by (rule submitVMOrder_Inr)
  from emitsD [OF emits_vmUserData [OF assms(1)] user] obtain es1
    where es1: "hist w1 = hist w @ es1" "list_all before_order es1" .
  from emitsD [OF emits_buildOrderPayload payload] obtain es2 where es2: "hist u = hist w1 @ es2" "list_all waldur_read es2" .
  from es2(2) have "list_all before_order es2" by (auto simp: list_all_iff before_order_def)
  moreover have "oc_Type p = Create" using payload by (cases rule: buildOrderPayload_Inr) (metis OrderCreateRequest.select_convs(1))
  ultimately show ?thesis using recordVMOrder_Inr [OF rec] order es1 es2(1)
    by (intro exI [of _ "es1 @ es2"] exI [of _ p] exI [of _ resp] exI [of _ od]) auto
qed

lemma create_run:
  "\<exists>m' w'. createVM lib_sample (env_vm 201) reconciler_sample capi_machine machine_new cluster_sample world_sample
     = (Ret (Inr m'), w')"
  by (simp add: createVM_def vmUserData_def submitVMOrder_def handleOrderResponse_def recordVMOrder_def payload_defs
      vm_samples sample_defs prim_defs run_defs List.map_filter_def)

theorem created_vm_recorded_witness:
  "\<exists>m' w'. createVM lib_sample (env_vm 201) reconciler_sample capi_machine machine_new cluster_sample world_sample
       = (Ret (Inr m'), w') \<and> mst_State (wm_Status m') = CoreStatesCREATING \<and>
     (\<exists>es p resp. hist w' = hist world_sample @ es @ [WaldurEv (MarketplaceOrdersCreate p (Inr resp))] \<and> StatusCode resp = 201)"
proof -
  obtain m' w' where run: "createVM lib_sample (env_vm 201) reconciler_sample capi_machine machine_new cluster_sample
      world_sample = (Ret (Inr m'), w')" using create_run by blast
  from created_vm_recorded [OF wired_sample run] obtain es p resp where
    "hist w' = hist world_sample @ es @ [WaldurEv (MarketplaceOrdersCreate p (Inr resp))]" "StatusCode resp = 201"
    "mst_State (wm_Status m') = CoreStatesCREATING" by fastforce
  with run show ?thesis by blast
qed

definition order_guard :: "WaldurMachine \<Rightarrow> event \<Rightarrow> bool" where
  "order_guard m e \<longleftrightarrow> (creates_order e \<longrightarrow>
     timeIsZero (om_DeletionTimestamp (wm_Meta m)) \<and> machineResource m = [])"

lemma emits_order_guard:
  assumes "wired r"
  shows "emits (order_guard m) (machine_reconcileLoaded L E r m)"
proof -
  have "emits (order_guard m) (machine_reconcileDelete L E m)"
    by (rule emits_mono [OF emits_machine_reconcileDelete]) (auto simp: order_guard_def dest: deletion_event_no_order)
  moreover have "emits (order_guard m) (refreshVM L E m)"
    by (rule emits_mono [OF emits_refreshVM]) (auto simp: order_guard_def dest: before_order_not)
  moreover have "emits (order_guard m) (setProviderID L E b n)" for b n
    by (rule emits_mono [OF emits_setProviderID]) (auto simp: order_guard_def creates_order_def)
  moreover have "emits (order_guard m) (createVM L E r ma m c)"
    if "machineResource m = []" "timeIsZero (om_DeletionTimestamp (wm_Meta m))" for ma c
    by (rule emits_mono [OF emits_createVM [OF assms]]) (use that in \<open>auto simp: order_guard_def\<close>)
  ultimately show ?thesis
    unfolding machine_reconcileLoaded_def reconcileVM_def prim_defs
    by (intro ext.frame_rules emits_prims) (auto simp: order_guard_def creates_order_def)
qed

text \<open>C12: a pass submits at most one create order, and only for a machine that it read as not being
  deleted and without a marketplace resource; so a machine whose resource is recorded is never
  ordered again.\<close>

theorem one_vm_order_per_pass:
  assumes "wired r" and run: "machine_Reconcile L E r req w = (res, w')" and es: "hist w' = hist w @ es"
  shows "length (filter creates_order es) \<le> 1 \<and>
    (filter creates_order es \<noteq> [] \<longrightarrow> (\<exists>m fs. es = KubeEv (GetWaldurMachine req (Inr m)) # fs \<and>
       timeIsZero (om_DeletionTimestamp (wm_Meta m)) \<and> machineResource m = []))"
  using run
proof (cases rule: machine_Reconcile_cases)
  case (unread e)
  with es show ?thesis by (auto simp: creates_order_def)
next
  case (loaded m)
  from at_mostD [OF at_most_reconcileLoaded [OF assms(1)] loaded(2)] obtain fs where
    fs: "hist w' = hist w @ KubeEv (GetWaldurMachine req (Inr m)) # fs" "length (filter creates_order fs) \<le> 1" by auto
  then have eq: "es = KubeEv (GetWaldurMachine req (Inr m)) # fs" using es by simp
  have "order_guard m e" if "e \<in> set fs" for e
    using emits_event [OF emits_order_guard [OF assms(1)] loaded(2)] fs(1) that by auto
  then show ?thesis using fs(2) eq by (auto simp: creates_order_def order_guard_def filter_empty_conv)
qed

theorem one_vm_order_per_pass_witness:
  "\<exists>res w'. machine_Reconcile lib_sample (env_vm 201) reconciler_sample (namespacedName ''ns'' ''m'') world_sample = (res, w') \<and>
     length (filter creates_order (hist w')) \<le> 1"
proof -
  obtain res w' where run: "machine_Reconcile lib_sample (env_vm 201) reconciler_sample (namespacedName ''ns'' ''m'')
    world_sample = (res, w')" by fastforce
  have "hist w' = hist world_sample @ hist w'" by (simp add: world_sample_def)
  from one_vm_order_per_pass [OF wired_sample run this] run show ?thesis by blast
qed

text \<open>The bootstrap gate. Without Vault, a machine whose bootstrap data secret is not set yet is not
  ordered and its status is not touched: the pass ends at once and comes back in ten seconds.\<close>

lemma bootstrap_gate:
  assumes "mr_VaultClient r = None" and "ma_DataSecretName ma = None" and "machineResource m = []"
  shows "reconcileVM L E r ma m c w = (Ret (Inr (requeueAfter 10)), w)"
  using assms by (simp add: reconcileVM_def createVM_def vmUserData_def run_defs)

section \<open>Credentials\<close>

lemma vmUserData_Vault:
  assumes "mr_VaultClient r = Some V" and "vmUserData L E r ma w = (Ret (Inr (ud, sid, role)), w')"
  obtains (rancher) inp where "BuildRancherAgentUserData L inp = Inr ud" and "ra_StaticCloudInit inp = mr_BaseTemplate r"
  | (rke2) h x sec san tok p where "on_GetSecret (env_kube E) h x = Inr sec"
      and "stripRKE2Token L (getStr (sec_Data sec) ''value'') = Inr (san, tok)"
      and "mergeCloudInit L \<lparr>mg_BootstrapCloudInit = san, mg_StaticCloudInit = mr_BaseTemplate r, mg_VaultParams = p\<rparr> = Inr ud"
proof -
  from assms obtain cfg u where
    cases: "hasRancherFields cfg \<and> buildUserDataWithRancherAgent L V r ma cfg u = (Ret (Inr (ud, sid, role)), w') \<or>
      (\<exists>x sec v. on_GetSecret (env_kube E) (hist u) x = Inr sec \<and>
         buildUserDataWithVault L V r (getStr (sec_Data sec) ''value'') cfg v = (Ret (Inr (ud, sid, role)), w'))"
    by (auto simp: vmUserData_def k_GetSecret_def go_inv) blast
  then show ?thesis
  proof (elim disjE conjE exE)
    assume "buildUserDataWithRancherAgent L V r ma cfg u = (Ret (Inr (ud, sid, role)), w')"
    then show ?thesis
      by (auto simp: buildUserDataWithRancherAgent_def Let_def go_inv intro: rancher)
  next
    fix x sec v
    assume get: "on_GetSecret (env_kube E) (hist u) x = Inr sec"
      and build: "buildUserDataWithVault L V r (getStr (sec_Data sec) ''value'') cfg v = (Ret (Inr (ud, sid, role)), w')"
    from build show ?thesis
      by (auto simp: buildUserDataWithVault_def Let_def go_inv intro: rke2 [OF get])
  qed
qed

lemma createVM_order:
  assumes "wired r" and run: "createVM L E r ma m c w = (res, w')" and es: "hist w' = hist w @ es"
    and ev: "WaldurEv (MarketplaceOrdersCreate p a) \<in> set es"
  obtains ud sid role u v gs where "vmUserData L E r ma w = (Ret (Inr (ud, sid, role)), u)"
    and "buildOrderPayload L E m c (Some ud) u = (Ret (Inr p), v)"
    and "andThenWrap ''unable to submit order'' (w_MarketplaceOrdersCreate E p) (handleOrderResponse L r m sid role) v = (res, w')"
    and "hist w' = hist v @ gs" and "WaldurEv (MarketplaceOrdersCreate p a) \<in> set gs"
proof -
  let ?e = "WaldurEv (MarketplaceOrdersCreate p a)"
  have not: "\<not> before_order ?e" "\<not> waldur_read ?e"
    using before_order_not by (auto simp: creates_order_iff)
  have sub: "emits (\<lambda>e. before_order e \<or> creates_order e) (case b of (x, y, z) \<Rightarrow> submitVMOrder L E r m c x y z)" for b
    using emits_submitVMOrder [OF assms(1)] by (simp split: prod.split)
  obtain b u fs where b: "vmUserData L E r ma w = (Ret (Inr b), u)"
    "(case b of (x, y, z) \<Rightarrow> submitVMOrder L E r m c x y z) u = (res, w')" and fs: "hist w' = hist u @ fs" "?e \<in> set fs"
    by (rule later_event [OF emits_vmUserData [OF assms(1)] not(1) sub run [unfolded createVM_def] es ev])
  obtain ud sid role where "b = (ud, sid, role)" by (cases b)
  with b have user: "vmUserData L E r ma w = (Ret (Inr (ud, sid, role)), u)"
    and run2: "submitVMOrder L E r m c ud sid role u = (res, w')" by simp_all
  have order: "emits (\<lambda>e. \<forall>p' a'. e = WaldurEv (MarketplaceOrdersCreate p' a') \<longrightarrow> p' = q)
    (andThenWrap ''unable to submit order'' (w_MarketplaceOrdersCreate E q) (handleOrderResponse L r m sid role))" for q
    unfolding prim_defs
    by (intro ext.frame_rules emits_perform emits_mono [OF emits_handleOrderResponse] assms(1)) auto
  have any: "emits (\<lambda>_. True)
    (andThenWrap ''unable to submit order'' (w_MarketplaceOrdersCreate E q) (handleOrderResponse L r m sid role))" for q
    by (rule emits_mono [OF order]) simp
  obtain q v gs where pay: "buildOrderPayload L E m c (Some ud) u = (Ret (Inr q), v)"
    and run3: "andThenWrap ''unable to submit order'' (w_MarketplaceOrdersCreate E q) (handleOrderResponse L r m sid role) v = (res, w')"
    and gs: "hist w' = hist v @ gs" "?e \<in> set gs"
    by (rule later_event [OF emits_buildOrderPayload not(2) any run2 [unfolded submitVMOrder_def] fs])
  from emits_event [OF order run3 gs] have "p = q" by simp
  with user pay run3 gs that show ?thesis by blast
qed

text \<open>The answer that was recorded is the one the code acted on.\<close>

lemma createVM_answered:
  assumes "wired r" and run: "createVM L E r ma m c w = (res, w')" and es: "hist w' = hist w @ es"
    and ev: "WaldurEv (MarketplaceOrdersCreate p (Inr resp)) \<in> set es"
  obtains ud sid role u v where "vmUserData L E r ma w = (Ret (Inr (ud, sid, role)), u)"
    and "buildOrderPayload L E m c (Some ud) u = (Ret (Inr p), v)"
    and "on_MarketplaceOrdersCreate (env_waldur E) (hist v) p = Inr resp"
    and "handleOrderResponse L r m sid role resp (v\<lparr>hist := hist v @ [WaldurEv (MarketplaceOrdersCreate p (Inr resp))]\<rparr>) = (res, w')"
proof -
  let ?e = "WaldurEv (MarketplaceOrdersCreate p (Inr resp))"
  obtain ud sid role u v gs where user: "vmUserData L E r ma w = (Ret (Inr (ud, sid, role)), u)"
    and pay: "buildOrderPayload L E m c (Some ud) u = (Ret (Inr p), v)"
    and submit: "andThenWrap ''unable to submit order'' (w_MarketplaceOrdersCreate E p)
      (handleOrderResponse L r m sid role) v = (res, w')" and gs: "hist w' = hist v @ gs" "?e \<in> set gs"
    by (rule createVM_order [OF assms(1) run es ev])
  let ?a = "on_MarketplaceOrdersCreate (env_waldur E) (hist v) p"
  let ?v = "v\<lparr>hist := hist v @ [WaldurEv (MarketplaceOrdersCreate p ?a)]\<rparr>"
  have first: "w_MarketplaceOrdersCreate E p v = (Ret ?a, ?v)"
    by (simp add: w_MarketplaceOrdersCreate_def perform_def Let_def)
  have answer: "?a = Inr resp"
  proof (cases ?a)
    case (Inl x)
    with submit first gs show ?thesis by (auto simp: andThenWrap_def bind_def fail_def ret_def)
  next
    case (Inr y)
    with submit first have h: "handleOrderResponse L r m sid role y ?v = (res, w')" by (simp add: andThenWrap_def bind_def)
    from emitsD [OF emits_handleOrderResponse [OF assms(1)] h] obtain fs where
      "hist w' = hist ?v @ fs" "list_all net_event fs" .
    with gs Inr show ?thesis by (auto simp: list_all_iff)
  qed
  with submit first have "handleOrderResponse L r m sid role resp (v\<lparr>hist := hist v @ [?e]\<rparr>) = (res, w')"
    by (simp add: andThenWrap_def bind_def)
  with user pay answer that show ?thesis by blast
qed

context vault_contract
begin

lemma builders_generate:
  "buildUserDataWithRancherAgent L V r ma sec w = (Ret (Inr (ud, sid, role)), u) \<Longrightarrow>
     GenerateSecretID V role w = (Ret (Inr sid), u)"
  "buildUserDataWithVault L V r raw sec w = (Ret (Inr (ud, sid, role)), u) \<Longrightarrow>
     \<exists>g fs. GenerateSecretID V role g = (Ret (Inr sid), u) \<and> hist g = hist w @ fs"
proof -
  show "buildUserDataWithRancherAgent L V r ma sec w = (Ret (Inr (ud, sid, role)), u) \<Longrightarrow>
     GenerateSecretID V role w = (Ret (Inr sid), u)"
    by (auto simp: buildUserDataWithRancherAgent_def Let_def go_inv)
  assume "buildUserDataWithVault L V r raw sec w = (Ret (Inr (ud, sid, role)), u)"
  then obtain p ex v b d werr g where "SecretExists V p w = (Ret (Inr ex), v)"
    and "(if b then WriteSecret V p d else ret None) v = (Ret werr, g)"
    and gen: "GenerateSecretID V role g = (Ret (Inr sid), u)"
    by (auto simp: buildUserDataWithVault_def Let_def bind_eq_Ret andThenWrap_eq_Inr ret_eq fail_eq ok_eq case_prod_eq
        case_option_eq case_sum_eq)
  then obtain fs gs where "hist v = hist w @ fs" "hist g = hist v @ gs"
    using emitsD [OF net_only(1)] emitsD [OF ext.ite [OF net_only(2) ext.ret]] by metis
  with gen show "\<exists>g fs. GenerateSecretID V role g = (Ret (Inr sid), u) \<and> hist g = hist w @ fs" by auto
qed

end

text \<open>With Vault, making the user data ends with the generation of its secret identifier.\<close>

lemma vmUserData_generates:
  assumes "wired r" and vault: "mr_VaultClient r = Some V" and user: "vmUserData L E r ma w = (Ret (Inr (ud, sid, role)), u)"
  obtains g fs where "GenerateSecretID V role g = (Ret (Inr sid), u)" and "hist g = hist w @ fs" and "sid \<noteq> []"
proof -
  from assms(1,2) have V: "vault_contract V" by (simp add: wired_def)
  from user vault obtain cfg v where cfg: "readVaultConfigSecret E r (ma_ClusterName ma) w = (Ret (Inr cfg), v)"
    and build: "buildUserDataWithRancherAgent L V r ma cfg v = (Ret (Inr (ud, sid, role)), u) \<or>
      (\<exists>raw n sec x. k_GetSecret E n v = (Ret (Inr sec), x) \<and> buildUserDataWithVault L V r raw cfg x = (Ret (Inr (ud, sid, role)), u))"
    by (auto simp: vmUserData_def bind_eq_Ret andThenWrap_eq_Inr andThen_eq_Inr if_eq case_option_eq fail_eq)
      blast
  have get: "\<exists>fs. hist x = hist v @ fs" if "k_GetSecret E n v = (Ret (Inr sec), x)" for n sec x
    using that by (auto simp: k_GetSecret_def go_inv)
  from emitsD [OF emits_readVaultConfigSecret cfg] obtain es where "hist v = hist w @ es" .
  with build get vault_contract.builders_generate [OF V]
  have "\<exists>g fs. GenerateSecretID V role g = (Ret (Inr sid), u) \<and> hist g = hist w @ fs"
    by (elim disjE exE conjE) (metis append.assoc)+
  with that vault_contract.generated_nonempty [OF V] show ?thesis by blast
qed

text \<open>\<open>hides_token L e\<close>: if \<open>e\<close> is a create order, its user data is a document without a join token.\<close>

definition hides_token :: "lib \<Rightarrow> event \<Rightarrow> bool" where
  "hides_token L e \<longleftrightarrow> (\<forall>p a. e = WaldurEv (MarketplaceOrdersCreate p a) \<longrightarrow>
     (\<exists>attrs doc out. oc_Attributes p = InstanceAttributes attrs \<and> ia_UserData attrs = Some (cloudConfigHeader @ out) \<and>
        yaml_UnmarshalCloudInit L out = Inr doc \<and> list_all (token_free L) (ci_WriteFiles doc)))"

text \<open>The bootstrap documents have at most one RKE2 configuration each.\<close>

definition single_config :: "lib \<Rightarrow> env \<Rightarrow> bool" where
  "single_config L E \<longleftrightarrow> (\<forall>h x sec ci. on_GetSecret (env_kube E) h x = Inr sec \<longrightarrow>
     yaml_UnmarshalCloudInit L (getStr (sec_Data sec) ''value'') = Inr ci \<longrightarrow>
     length (filter is_rke2_config (ci_WriteFiles ci)) \<le> 1)"

text \<open>The static base parses and has no RKE2 configuration.\<close>

definition plain_base :: "lib \<Rightarrow> string \<Rightarrow> bool" where
  "plain_base L s \<longleftrightarrow> (\<exists>static. parseStatic L s = Inr static \<and> list_all (\<lambda>f. \<not> is_rke2_config f) (ci_WriteFiles static))"

lemma hides_token_other: "\<not> creates_order e \<Longrightarrow> hides_token L e"
  by (auto simp: hides_token_def creates_order_def)

lemma vmUserData_token_free:
  assumes codec: "yaml_roundtrip L" and vault: "mr_VaultClient r = Some V" and base: "plain_base L (mr_BaseTemplate r)"
    and single: "single_config L E" and user: "vmUserData L E r ma w = (Ret (Inr (ud, sid, role)), u)"
  shows "\<exists>doc out. ud = cloudConfigHeader @ out \<and> yaml_UnmarshalCloudInit L out = Inr doc \<and>
    list_all (token_free L) (ci_WriteFiles doc)"
proof -
  from base obtain static where static: "parseStatic L (mr_BaseTemplate r) = Inr static"
    "list_all (\<lambda>f. \<not> is_rke2_config f) (ci_WriteFiles static)" by (auto simp: plain_base_def)
  from vault user show ?thesis
  proof (cases rule: vmUserData_Vault)
    case (rancher inp)
    with static rancher_token_free [OF codec rancher(1)] show ?thesis by auto
  next
    case (rke2 h x sec san tok q)
    then obtain ci where ci: "yaml_UnmarshalCloudInit L (getStr (sec_Data sec) ''value'') = Inr ci"
      by (auto simp: stripRKE2Token_def go_inv)
    with single rke2(1) have "length (filter is_rke2_config (ci_WriteFiles ci)) \<le> 1"
      unfolding single_config_def by blast
    from merge_token_free [OF codec rke2(2,3) ci this static] show ?thesis by blast
  qed
qed

lemma emits_hides_token:
  assumes "yaml_roundtrip L" and "mr_VaultClient r = Some V" and wired: "wired r"
    and "plain_base L (mr_BaseTemplate r)" and "single_config L E"
  shows "emits (hides_token L) (createVM L E r ma m c)"
proof (rule preservesI)
  fix w res w'
  assume run: "createVM L E r ma m c w = (res, w')"
  from emitsD [OF emits_createVM [OF wired] run] obtain es where es: "hist w' = hist w @ es" by blast
  have "hides_token L e" if "e \<in> set es" for e
    unfolding hides_token_def
  proof (intro allI impI)
    fix p a
    assume "e = WaldurEv (MarketplaceOrdersCreate p a)"
    with that have ev: "WaldurEv (MarketplaceOrdersCreate p a) \<in> set es" by simp
    obtain ud sid role u v where user: "vmUserData L E r ma w = (Ret (Inr (ud, sid, role)), u)"
      and pay: "buildOrderPayload L E m c (Some ud) u = (Ret (Inr p), v)"
      by (rule createVM_order [OF wired run es ev]) blast
    from pay obtain attrs where "oc_Attributes p = InstanceAttributes attrs" "ia_UserData attrs = Some ud"
      by (cases rule: buildOrderPayload_Inr)
        (metis OrderCreateRequest.select_convs(5) OpenStackInstanceCreateOrderAttributes.select_convs(7) instanceAttributes_def)
    with vmUserData_token_free [OF assms(1,2,4,5) user]
    show "\<exists>attrs doc out. oc_Attributes p = InstanceAttributes attrs \<and> ia_UserData attrs = Some (cloudConfigHeader @ out) \<and>
        yaml_UnmarshalCloudInit L out = Inr doc \<and> list_all (token_free L) (ci_WriteFiles doc)" by auto
  qed
  with es show "extends (hides_token L) w w'" by (auto simp: extends_def list_all_iff)
qed

lemma emits_hides_token_pass:
  assumes "yaml_roundtrip L" and "mr_VaultClient r = Some V" and wired: "wired r"
    and "plain_base L (mr_BaseTemplate r)" and "single_config L E"
  shows "emits (hides_token L) (machine_Reconcile L E r req)"
proof -
  have "emits (hides_token L) (machine_reconcileDelete L E m)" for m
    by (rule emits_mono [OF emits_machine_reconcileDelete]) (auto intro: hides_token_other dest: deletion_event_no_order)
  moreover have "emits (hides_token L) (refreshVM L E m)" for m
    by (rule emits_mono [OF emits_refreshVM]) (auto intro: hides_token_other dest: before_order_not)
  moreover have "emits (hides_token L) (setProviderID L E b n)" for b n
    by (rule emits_mono [OF emits_setProviderID]) (auto simp: hides_token_def)
  ultimately show ?thesis
    unfolding machine_Reconcile_def machine_reconcileLoaded_def reconcileVM_def prim_defs
    by (intro ext.frame_rules emits_prims emits_hides_token [OF assms]) (auto simp: hides_token_def)
qed

text \<open>C4: with a Vault client configured, no join token is handed to Waldur: whatever the services answer,
  every create order a machine pass submits carries user data whose document has no RKE2
  configuration with a token, provided that the bootstrap documents have at most one RKE2
  configuration each and the static base has none.\<close>

theorem ordered_user_data_hides_token:
  assumes "yaml_roundtrip L" and "mr_VaultClient r = Some V" and "wired r"
    and "plain_base L (mr_BaseTemplate r)" and "single_config L E"
    and run: "machine_Reconcile L E r req w = (res, w')" and es: "hist w' = hist w @ es"
    and ev: "WaldurEv (MarketplaceOrdersCreate p a) \<in> set es"
  shows "\<exists>attrs doc out. oc_Attributes p = InstanceAttributes attrs \<and> ia_UserData attrs = Some (cloudConfigHeader @ out) \<and>
    yaml_UnmarshalCloudInit L out = Inr doc \<and> list_all (token_free L) (ci_WriteFiles doc)"
  using emits_event [OF emits_hides_token_pass [OF assms(1-5)] run es ev] by (simp add: hides_token_def)

text \<open>A run of the RKE2 path: Vault hands out the identifier \<open>s\<close>.\<close>

definition env_rke2 :: env where
  "env_rke2 = (env_vm 201)\<lparr>env_kube := (kube_vm machine_new)\<lparr>on_GetSecret := (\<lambda>_ _. Inr \<lparr>sec_Data =
       [(''value'', ''raw''), (''vault_addr'', ''v''), (''vault_secret_path'', ''p''), (''role_id'', ''r''), (''role_name'', ''n'')]\<rparr>)\<rparr>,
     env_net := net_down\<lparr>on_HttpSend := (\<lambda>_ _. Inr \<lparr>rs_StatusCode = 200, rs_Body = [],
       rs_Json = Some (token_json ''data'' ''secret_id'' ''s'')\<rparr>)\<rparr>\<rparr>"

definition reconciler_vault :: WaldurMachineReconciler where
  "reconciler_vault = reconciler_sample\<lparr>mr_VaultClient := Some (clientOf env_rke2)\<rparr>"

lemma wired_vault: "wired reconciler_vault"
  by (rule wired_clientOf [of _ env_rke2]) (simp add: reconciler_vault_def)

lemma rke2_user_data:
  "\<exists>w1. vmUserData lib_yaml (env_rke2\<lparr>env_waldur := W\<rparr>) reconciler_vault capi_machine (world_sample\<lparr>hist := h\<rparr>)
     = (Ret (Inr (cloudConfigHeader @ ''merged'', ''s'', ''n'')), w1)"
  using lib_yaml_strip lib_yaml_merge
  by (simp add: vmUserData_def reconciler_vault_def readVaultConfigSecret_def buildUserDataWithVault_def hasRancherFields_def
      clientOf_def withClient_def client_SecretExists_def client_GenerateSecretID_def doReq_def doOnce_def n_HttpSend_def
      env_rke2_def vm_samples sample_defs k_GetSecret_def run_defs getStr_def token_json_def decodeNested_def equalFold_def
      toLower_def trimPrefix_def params_sample_def)

lemma lib_yaml_uuid: "uuid_Parse lib_yaml = uuid_Parse lib_sample" "uuid_String lib_yaml = uuid_String lib_sample"
  "FromInstanceAttributes lib_yaml = FromInstanceAttributes lib_sample"
  by (simp_all add: lib_yaml_def Let_def)

lemma rke2_order_run:
  "\<exists>p a. WaldurEv (MarketplaceOrdersCreate p a) \<in>
     set (hist (snd (submitVMOrder lib_yaml env_rke2 r machine_new cluster_sample ud sid role w)))"
  by (simp add: submitVMOrder_def handleOrderResponse_def recordVMOrder_def payload_defs lib_yaml_uuid env_rke2_def
      vm_samples sample_defs prim_defs run_defs List.map_filter_def) blast

lemma rke2_create_run:
  "\<exists>res w' p a. createVM lib_yaml env_rke2 reconciler_vault capi_machine machine_new cluster_sample (world_sample\<lparr>hist := h\<rparr>) = (res, w') \<and>
     WaldurEv (MarketplaceOrdersCreate p a) \<in> set (hist w')"
proof -
  have "env_rke2\<lparr>env_waldur := env_waldur env_rke2\<rparr> = env_rke2" by simp
  then obtain w1 where "vmUserData lib_yaml env_rke2 reconciler_vault capi_machine (world_sample\<lparr>hist := h\<rparr>)
     = (Ret (Inr (cloudConfigHeader @ ''merged'', ''s'', ''n'')), w1)" using rke2_user_data by metis
  then have "createVM lib_yaml env_rke2 reconciler_vault capi_machine machine_new cluster_sample (world_sample\<lparr>hist := h\<rparr>)
    = submitVMOrder lib_yaml env_rke2 reconciler_vault machine_new cluster_sample (cloudConfigHeader @ ''merged'') ''s'' ''n'' w1"
    by (simp add: createVM_def andThen_def bind_def)
  with rke2_order_run show ?thesis by (metis prod.collapse)
qed

text \<open>A pass over a new machine whose owners are found comes to \<open>createVM\<close>.\<close>

lemma rke2_pass_creates:
  "\<exists>h. machine_Reconcile lib_yaml env_rke2 reconciler_vault (namespacedName ''ns'' ''m'') world_sample
     = reconcileVM lib_yaml env_rke2 reconciler_vault capi_machine machine_new cluster_sample (world_sample\<lparr>hist := h\<rparr>)"
  by (simp add: machine_Reconcile_def machine_reconcileLoaded_def env_rke2_def vm_samples sample_defs prim_defs run_defs
      timeIsZero_def ownerName_def getStr_def ClusterNameLabel_def lib_yaml_def) (rule exI, rule refl)

lemma rke2_pass_run:
  "\<exists>p a. WaldurEv (MarketplaceOrdersCreate p a) \<in>
     set (hist (snd (machine_Reconcile lib_yaml env_rke2 reconciler_vault (namespacedName ''ns'' ''m'') world_sample)))"
proof -
  let ?F = "\<lambda>c. case c of Inl e \<Rightarrow> if isBootstrapNotReady e then ok (requeueAfter 10)
      else setProviderID lib_yaml env_rke2 machine_new machine_new | Inr m' \<Rightarrow> setProviderID lib_yaml env_rke2 machine_new m'"
  have new: "machineResource machine_new = []" by (simp add: machine_new_def machine_sample_def)
  obtain h where h: "machine_Reconcile lib_yaml env_rke2 reconciler_vault (namespacedName ''ns'' ''m'') world_sample
     = bind (createVM lib_yaml env_rke2 reconciler_vault capi_machine machine_new cluster_sample) ?F (world_sample\<lparr>hist := h\<rparr>)"
    using rke2_pass_creates by (auto simp: reconcileVM_def new)
  obtain res w' p a where create: "createVM lib_yaml env_rke2 reconciler_vault capi_machine machine_new cluster_sample
      (world_sample\<lparr>hist := h\<rparr>) = (res, w')" and ev: "WaldurEv (MarketplaceOrdersCreate p a) \<in> set (hist w')"
    using rke2_create_run by blast
  have "emits (\<lambda>_. True) (?F c)" for c
    by (auto intro!: ext.frame_rules emits_mono [OF emits_setProviderID] split: sum.split)
  then have kept: "set (hist w') \<subseteq> set (hist (snd (?F c w')))" for c
    by (auto simp: preserves_def extends_def) (metis UnI1 set_append)
  show ?thesis
  proof (cases res)
    case Panic
    with h create ev show ?thesis by (auto simp: bind_def)
  next
    case (Ret c)
    have "machine_Reconcile lib_yaml env_rke2 reconciler_vault (namespacedName ''ns'' ''m'') world_sample = ?F c w'"
      unfolding h bind_def create Ret by (simp only: prod.case go.case)
    then show ?thesis using kept [of c] ev by (metis subsetD)
  qed
qed

theorem ordered_user_data_hides_token_witness:
  "\<exists>res w' p attrs doc out a. machine_Reconcile lib_yaml env_rke2 reconciler_vault (namespacedName ''ns'' ''m'') world_sample = (res, w') \<and>
     WaldurEv (MarketplaceOrdersCreate p a) \<in> set (hist w') \<and> oc_Attributes p = InstanceAttributes attrs \<and>
     ia_UserData attrs = Some (cloudConfigHeader @ out) \<and> yaml_UnmarshalCloudInit lib_yaml out = Inr doc \<and>
     list_all (token_free lib_yaml) (ci_WriteFiles doc)"
proof -
  obtain res w' where run: "machine_Reconcile lib_yaml env_rke2 reconciler_vault (namespacedName ''ns'' ''m'') world_sample = (res, w')"
    by fastforce
  have h: "hist w' = hist world_sample @ hist w'" by (simp add: world_sample_def)
  have "\<exists>p a. WaldurEv (MarketplaceOrdersCreate p a) \<in> set (hist w')"
    using rke2_pass_run run by simp
  then obtain p a where ev: "WaldurEv (MarketplaceOrdersCreate p a) \<in> set (hist w')" by blast
  have "plain_base lib_yaml (mr_BaseTemplate reconciler_vault)"
    by (simp add: plain_base_def parseStatic_def reconciler_vault_def reconciler_sample_def emptyCloudInit_def)
  moreover have "single_config lib_yaml env_rke2"
    by (auto simp: single_config_def env_rke2_def getStr_def lib_yaml_def Let_def ci_of_def)
  moreover have "mr_VaultClient reconciler_vault = Some (clientOf env_rke2)" by (simp add: reconciler_vault_def)
  ultimately obtain attrs doc out where "oc_Attributes p = InstanceAttributes attrs" "ia_UserData attrs = Some (cloudConfigHeader @ out)"
    "yaml_UnmarshalCloudInit lib_yaml out = Inr doc" "list_all (token_free lib_yaml) (ci_WriteFiles doc)"
    using ordered_user_data_hides_token [OF lib_yaml_roundtrip _ wired_vault _ _ run h ev] by blast
  with run ev show ?thesis by blast
qed

text \<open>C31: a rejected order takes its credential back. When, with Vault, Waldur answers the create order of
  \<^verbatim>\<open>createVM\<close> with a status other than 201, then the secret identifier that was generated for this VM
  earlier in the same run is revoked under its role right after that answer and as the last action,
  \<^verbatim>\<open>createVM\<close> ends with an error, and the pass goes on with the machine as it was read: without a
  resource.\<close>

theorem rejected_order_revokes_secret_id:
  assumes "wired r" and vault: "mr_VaultClient r = Some V"
    and run: "createVM L E r ma m c w = (res, w')" and es: "hist w' = hist w @ es"
    and ev: "WaldurEv (MarketplaceOrdersCreate p (Inr resp)) \<in> set es" and code: "StatusCode resp \<noteq> 201"
  shows "\<exists>role sid g u v err e fs gs. GenerateSecretID V role g = (Ret (Inr sid), u) \<and> hist g = hist w @ fs \<and>
    hist v = hist u @ gs @ [WaldurEv (MarketplaceOrdersCreate p (Inr resp))] \<and> list_all waldur_read gs \<and>
    RevokeSecretID V role sid v = (Ret err, w') \<and> res = Ret (Inl e) \<and>
    (machineResource m = [] \<longrightarrow> reconcileVM L E r ma m c w = setProviderID L E m m w')"
proof -
  let ?e = "WaldurEv (MarketplaceOrdersCreate p (Inr resp))"
  obtain ud sid role u v where user: "vmUserData L E r ma w = (Ret (Inr (ud, sid, role)), u)"
    and pay: "buildOrderPayload L E m c (Some ud) u = (Ret (Inr p), v)"
    and handle: "handleOrderResponse L r m sid role resp (v\<lparr>hist := hist v @ [?e]\<rparr>) = (res, w')"
    by (rule createVM_answered [OF assms(1) run es ev])
  obtain g fs where gen: "GenerateSecretID V role g = (Ret (Inr sid), u)" "hist g = hist w @ fs" "sid \<noteq> []"
    by (rule vmUserData_generates [OF assms(1) vault user])
  from emitsD [OF emits_buildOrderPayload pay] obtain gs where gs: "hist v = hist u @ gs" "list_all waldur_read gs" .
  let ?v = "v\<lparr>hist := hist v @ [?e]\<rparr>"
  from assms(1) vault have "vault_contract V" by (simp add: wired_def)
  then obtain err x where rev: "RevokeSecretID V role sid ?v = (Ret err, x)"
    using no_panicD [OF vault_contract.no_panic_ops(4)] by blast
  with handle code vault gen(3) obtain e where "x = w'" and e: "res = Ret (Inl e)" "\<not> isBootstrapNotReady e"
    by (auto simp: handleOrderResponse_def revokeRejected_def bind_def fail_def ret_def)
  from run e have "machineResource m = [] \<longrightarrow> reconcileVM L E r ma m c w = setProviderID L E m m w'"
    by (simp add: reconcileVM_def bind_def)
  with gen gs rev \<open>x = w'\<close> e(1) show ?thesis
    by (intro exI [of _ role] exI [of _ sid] exI [of _ g] exI [of _ u] exI [of _ ?v] exI [of _ err] exI [of _ e]
        exI [of _ fs] exI [of _ gs]) simp
qed

definition env_rejecting :: env where
  "env_rejecting = env_rke2\<lparr>env_waldur := waldur_sample 400\<rparr>"

lemma rejecting_run:
  "\<exists>p. WaldurEv (MarketplaceOrdersCreate p (answer 400 orderdetails_sample)) \<in>
     set (hist (snd (createVM lib_yaml env_rejecting reconciler_vault capi_machine machine_new cluster_sample world_sample)))"
proof -
  obtain w1 where user: "vmUserData lib_yaml env_rejecting reconciler_vault capi_machine world_sample
     = (Ret (Inr (cloudConfigHeader @ ''merged'', ''s'', ''n'')), w1)"
    using rke2_user_data [of "waldur_sample 400" "[]"] by (auto simp: world_sample_def env_rejecting_def)
  have "\<exists>p u. buildOrderPayload lib_yaml env_rejecting machine_new cluster_sample (Some ud) w1 = (Ret (Inr p), u)" for ud
    by (simp add: payload_defs lib_yaml_uuid env_rejecting_def vm_samples sample_defs prim_defs run_defs List.map_filter_def)
  then obtain p u where pay: "buildOrderPayload lib_yaml env_rejecting machine_new cluster_sample
    (Some (cloudConfigHeader @ ''merged'')) w1 = (Ret (Inr p), u)" by blast
  let ?u = "u\<lparr>hist := hist u @ [WaldurEv (MarketplaceOrdersCreate p (answer 400 orderdetails_sample))]\<rparr>"
  have "w_MarketplaceOrdersCreate env_rejecting p u = (Ret (answer 400 orderdetails_sample), ?u)"
    by (simp add: w_MarketplaceOrdersCreate_def perform_def env_rejecting_def waldur_sample_def Let_def)
  with user pay have "createVM lib_yaml env_rejecting reconciler_vault capi_machine machine_new cluster_sample world_sample
    = handleOrderResponse lib_yaml reconciler_vault machine_new ''s'' ''n'' \<lparr>StatusCode = 400, Body = [], JSON = Some orderdetails_sample\<rparr> ?u"
    by (simp add: createVM_def submitVMOrder_def andThen_def andThenWrap_def bind_def)
  moreover obtain res w' where h: "handleOrderResponse lib_yaml reconciler_vault machine_new ''s'' ''n''
    \<lparr>StatusCode = 400, Body = [], JSON = Some orderdetails_sample\<rparr> ?u = (res, w')" by fastforce
  moreover from emitsD [OF emits_handleOrderResponse [OF wired_vault] h] obtain fs where "hist w' = hist ?u @ fs" .
  ultimately show ?thesis by auto
qed

theorem rejected_order_revokes_secret_id_witness:
  "\<exists>role sid g u v err w' e p gs.
     createVM lib_yaml env_rejecting reconciler_vault capi_machine machine_new cluster_sample world_sample = (Ret (Inl e), w') \<and>
     GenerateSecretID (clientOf env_rke2) role g = (Ret (Inr sid), u) \<and>
     hist v = hist u @ gs @ [WaldurEv (MarketplaceOrdersCreate p (answer 400 orderdetails_sample))] \<and>
     RevokeSecretID (clientOf env_rke2) role sid v = (Ret err, w')"
proof -
  obtain res w' where run: "createVM lib_yaml env_rejecting reconciler_vault capi_machine machine_new cluster_sample world_sample = (res, w')"
    by fastforce
  with rejecting_run obtain p where ev: "WaldurEv (MarketplaceOrdersCreate p (answer 400 orderdetails_sample)) \<in> set (hist w')" by auto
  have h: "hist w' = hist world_sample @ hist w'" by (simp add: world_sample_def)
  have V: "mr_VaultClient reconciler_vault = Some (clientOf env_rke2)" by (simp add: reconciler_vault_def)
  from rejected_order_revokes_secret_id [OF wired_vault V run h ev] run show ?thesis by fastforce
qed

text \<open>C33: a credential whose order could not even be built is not taken back: once the user data with its
  secret identifier exists, a failing lookup of the payload ends \<^verbatim>\<open>createVM\<close> with that error and without
  any further request to Vault.\<close>

theorem failed_payload_keeps_secret_id:
  assumes "vmUserData L E r ma w = (Ret (Inr (ud, sid, role)), u)"
    and "buildOrderPayload L E m c (Some ud) u = (Ret (Inl e), w')"
  shows "createVM L E r ma m c w = (Ret (Inl e), w') \<and> (\<exists>es. hist w' = hist u @ es \<and> list_all waldur_read es)"
  using emitsD [OF emits_buildOrderPayload assms(2)] assms
  by (auto simp: createVM_def submitVMOrder_def run_defs)

theorem failed_payload_keeps_secret_id_witness:
  "\<exists>u e. vmUserData lib_yaml env_rke2 reconciler_vault capi_machine world_sample
       = (Ret (Inr (cloudConfigHeader @ ''merged'', ''s'', ''n'')), u) \<and>
     createVM lib_yaml env_rke2 reconciler_vault capi_machine machine_new
       (cluster_sample\<lparr>wc_Status := (wc_Status cluster_sample)\<lparr>cst_Tenants := []\<rparr>\<rparr>) world_sample = (Ret (Inl e), u)"
proof -
  let ?c = "cluster_sample\<lparr>wc_Status := (wc_Status cluster_sample)\<lparr>cst_Tenants := []\<rparr>\<rparr>"
  obtain u where user: "vmUserData lib_yaml env_rke2 reconciler_vault capi_machine world_sample
     = (Ret (Inr (cloudConfigHeader @ ''merged'', ''s'', ''n'')), u)"
    using rke2_user_data [of "env_waldur env_rke2" "[]"] by (auto simp: world_sample_def)
  have "\<exists>e. buildOrderPayload lib_yaml env_rke2 machine_new ?c (Some (cloudConfigHeader @ ''merged'')) u = (Ret (Inl e), u)"
    by (simp add: buildOrderPayload_def readyTenant_def vm_samples run_defs)
  with failed_payload_keeps_secret_id [OF user] user show ?thesis by blast
qed

section \<open>Publishing the state\<close>

text \<open>C34: a VM that becomes ready is published one pass late. A patch of the object itself leaves the
  stored status alone and its answer overwrites the caller's object, so the pass that first sees
  the VM in state OK, and therefore sets the provider identifier, goes on with the old status: it
  publishes the old state with a Ready condition that is not true and comes back in 15 seconds.\<close>

theorem ready_published_one_pass_late:
  assumes setter: "condition_setter L"
    and server: "\<And>h n b a. on_PatchWaldurMachine (env_kube E) h n b = Inr a \<Longrightarrow> wm_Status a = wm_Status b"
      "\<And>h n b a. on_PatchWaldurMachineStatus (env_kube E) h n b = Inr a \<Longrightarrow> wm_Status a = wm_Status n"
    and ordered: "machineResource m \<noteq> []" and old: "mst_State (wm_Status m) \<noteq> CoreStatesOK"
    and refresh: "refreshVM L E m w = (Ret (m', err), u)"
    and ready: "mst_State (wm_Status m') = CoreStatesOK" "mst_VmUuid (wm_Status m') = Some vm" "ms_ProviderID (wm_Spec m') = None"
    and run: "reconcileVM L E r ma m c w = (Ret (Inr res), w')"
  shows "res = requeueAfter 15 \<and>
    (\<exists>n p a. hist w' = hist u @ [KubeEv (PatchWaldurMachine
         (m'\<lparr>wm_Spec := (wm_Spec m')\<lparr>ms_ProviderID := Some (''waldur://'' @ vm)\<rparr>\<rparr>) m (Inr p)),
       KubeEv (PatchWaldurMachineStatus n p (Inr a))] \<and>
     mst_State (wm_Status n) = mst_State (wm_Status m) \<and> mst_Initialization (wm_Status n) = mst_Initialization (wm_Status m) \<and>
     (\<exists>cond. lookupCondition (mst_Conditions (wm_Status n)) ''Ready'' = Some cond \<and> cond_Status cond = ConditionFalse))"
proof -
  let ?new = "m'\<lparr>wm_Spec := (wm_Spec m')\<lparr>ms_ProviderID := Some (''waldur://'' @ vm)\<rparr>\<rparr>"
  have look: "lookupCondition (SetStatusCondition L cs cond) ''Ready'' = Some cond" if "cond_Type cond = ''Ready''" for cs cond
    using setter that by (metis condition_setter_def)
  from run ordered refresh have "setProviderID L E m m' u = (Ret (Inr res), w')"
    by (simp add: reconcileVM_def bind_def)
  with ready obtain p a h where patch: "on_PatchWaldurMachine (env_kube E) (hist u) ?new m = Inr p"
    and status: "hist w' = hist u @ [KubeEv (PatchWaldurMachine ?new m (Inr p)),
        KubeEv (PatchWaldurMachineStatus (setMachineReadyCondition L p) p (Inr a))]"
      "on_PatchWaldurMachineStatus (env_kube E) h (setMachineReadyCondition L p) p = Inr a"
    and res: "res = requeueAfter (if mst_State (wm_Status a) = CoreStatesOK then 300 else 15)"
    by (auto simp: setProviderID_def patchMachineStatus_def prim_defs go_inv)
  from server(1) [OF patch] have p: "wm_Status p = wm_Status m" .
  have st: "mst_State (wm_Status (setMachineReadyCondition L p)) = mst_State (wm_Status m)"
    "mst_Initialization (wm_Status (setMachineReadyCondition L p)) = mst_Initialization (wm_Status m)"
    by (simp_all add: setMachineReadyCondition_def p)
  moreover have "\<exists>cond. lookupCondition (mst_Conditions (wm_Status (setMachineReadyCondition L p))) ''Ready'' = Some cond \<and>
      cond_Status cond = ConditionFalse"
    using old by (cases "mst_State (wm_Status m)") (simp_all add: setMachineReadyCondition_def p look)
  ultimately show ?thesis using res status(1) server(2) [OF status(2)] old
    by (intro conjI exI [of _ "setMachineReadyCondition L p"] exI [of _ p] exI [of _ a]) simp_all
qed

definition machine_creating :: WaldurMachine where
  "machine_creating = machine_sample None ''000'' None None CoreStatesCREATING"

definition env_ready :: env where
  "env_ready = env_down\<lparr>
     env_kube := kube_down\<lparr>on_PatchWaldurMachine := (\<lambda>_ n b. Inr (n\<lparr>wm_Status := wm_Status b\<rparr>)),
       on_PatchWaldurMachineStatus := (\<lambda>_ n b. Inr n)\<rparr>,
     env_waldur := waldur_down\<lparr>
       on_MarketplaceResourcesRetrieve := (\<lambda>_ _. answer 200 \<lparr>res_State = Some ResourceStateOK, res_Scope = Some ''S'', res_ResourceUuid = Some 3\<rparr>),
       on_OpenstackInstancesRetrieve := (\<lambda>_ _ _. answer 200
         \<lparr>ins_State = Some CoreStatesOK, ins_Uuid = Some 3, ins_RuntimeState = None, ins_InternalIps = None\<rparr>)\<rparr>\<rparr>"

theorem ready_published_one_pass_late_witness:
  "\<exists>w' n b a. reconcileVM lib_sample env_ready reconciler_sample capi_machine machine_creating cluster_sample world_sample
       = (Ret (Inr (requeueAfter 15)), w') \<and> KubeEv (PatchWaldurMachineStatus n b (Inr a)) \<in> set (hist w') \<and>
     mst_State (wm_Status n) = CoreStatesCREATING"
proof -
  have "\<exists>m' err u. refreshVM lib_sample env_ready machine_creating world_sample = (Ret (m', err), u) \<and>
      mst_State (wm_Status m') = CoreStatesOK \<and> mst_VmUuid (wm_Status m') = Some (uuid_String lib_sample 3) \<and>
      ms_ProviderID (wm_Spec m') = None"
    by (simp add: refreshVM_def refreshVMResource_def getMarketplaceResource_def applyInstance_def env_ready_def
        machine_creating_def machine_samples sample_defs prim_defs run_defs)
  then obtain m' err u where refresh: "refreshVM lib_sample env_ready machine_creating world_sample = (Ret (m', err), u)"
    and ready: "mst_State (wm_Status m') = CoreStatesOK" "mst_VmUuid (wm_Status m') = Some (uuid_String lib_sample 3)"
      "ms_ProviderID (wm_Spec m') = None" by blast
  have "\<exists>res w'. reconcileVM lib_sample env_ready reconciler_sample capi_machine machine_creating cluster_sample world_sample
      = (Ret (Inr res), w')"
    by (simp add: reconcileVM_def setProviderID_def patchMachineStatus_def refreshVM_def refreshVMResource_def
        getMarketplaceResource_def applyInstance_def env_ready_def machine_creating_def machine_samples sample_defs prim_defs run_defs)
  then obtain res w' where run: "reconcileVM lib_sample env_ready reconciler_sample capi_machine machine_creating
      cluster_sample world_sample = (Ret (Inr res), w')" by blast
  have "res = requeueAfter 15 \<and> (\<exists>n p a. hist w' = hist u @ [KubeEv (PatchWaldurMachine
         (m'\<lparr>wm_Spec := (wm_Spec m')\<lparr>ms_ProviderID := Some (''waldur://'' @ uuid_String lib_sample 3)\<rparr>\<rparr>) machine_creating (Inr p)),
       KubeEv (PatchWaldurMachineStatus n p (Inr a))] \<and>
     mst_State (wm_Status n) = mst_State (wm_Status machine_creating) \<and>
     mst_Initialization (wm_Status n) = mst_Initialization (wm_Status machine_creating) \<and>
     (\<exists>cond. lookupCondition (mst_Conditions (wm_Status n)) ''Ready'' = Some cond \<and> cond_Status cond = ConditionFalse))"
    by (rule ready_published_one_pass_late [OF lib_sample_ok(2) _ _ _ _ refresh ready run])
      (auto simp: env_ready_def machine_creating_def machine_sample_def)
  then obtain n p a where "res = requeueAfter 15" and st: "mst_State (wm_Status n) = mst_State (wm_Status machine_creating)"
    and "hist w' = hist u @ [KubeEv (PatchWaldurMachine
         (m'\<lparr>wm_Spec := (wm_Spec m')\<lparr>ms_ProviderID := Some (''waldur://'' @ uuid_String lib_sample 3)\<rparr>\<rparr>) machine_creating (Inr p)),
       KubeEv (PatchWaldurMachineStatus n p (Inr a))]" by blast
  then have "KubeEv (PatchWaldurMachineStatus n p (Inr a)) \<in> set (hist w')" by simp
  moreover from st have "mst_State (wm_Status n) = CoreStatesCREATING" by (simp add: machine_creating_def machine_sample_def)
  ultimately show ?thesis using run \<open>res = _\<close> by blast
qed

end
