(* ===== verification/Machine_Lifecycle.thy ===== *)
theory Machine_Lifecycle
  imports Machine_Properties
begin

text \<open>
  The life of one \<^verbatim>\<open>WaldurMachine\<close> over any number of reconciliation passes. \<open>life\<close> is the step
  relation of the system: a pass of the reconciler over this machine, or anything else that happens
  in between and is not an order for this machine or a write of its status. The invariant
  \<open>order_recorded\<close> (at most one VM was ordered, and then the resource of that order is recorded in the status)
  holds in every reachable state when reads are up to date and status patches succeed.
\<close>

section \<open>The system\<close>

abbreviation isMachine :: "NamespacedName \<Rightarrow> WaldurMachine \<Rightarrow> bool" where
  "isMachine req m \<equiv> om_Namespace (wm_Meta m) = nn_Namespace req \<and> om_Name (wm_Meta m) = nn_Name req"

text \<open>An order for a VM with this name that Waldur accepted.\<close>

definition accepted_order :: "string \<Rightarrow> event \<Rightarrow> bool" where
  "accepted_order n e \<longleftrightarrow> (\<exists>p resp attrs. e = WaldurEv (MarketplaceOrdersCreate p (Inr resp)) \<and> StatusCode resp = 201 \<and>
     oc_Attributes p = InstanceAttributes attrs \<and> ia_Name attrs = n)"

text \<open>The marketplace resource that Waldur created for an order, as its answer names it.\<close>

fun orderedResource :: "event \<Rightarrow> uuid option" where
  "orderedResource (WaldurEv (MarketplaceOrdersCreate p (Inr resp))) = Option.bind (JSON resp) od_MarketplaceResourceUuid"
| "orderedResource _ = None"

definition status_write :: "NamespacedName \<Rightarrow> event \<Rightarrow> bool" where
  "status_write req e \<longleftrightarrow> (\<exists>m b a. e = KubeEv (PatchWaldurMachineStatus m b a) \<and> isMachine req m)"

text \<open>
  The marketplace resource the API server has stored for the machine: a successful merge patch
  changes it when the new object differs from the base in this field.
\<close>

fun stored :: "NamespacedName \<Rightarrow> event list \<Rightarrow> string \<Rightarrow> string" where
  "stored req [] s = s"
| "stored req (KubeEv (PatchWaldurMachineStatus m b (Inr a)) # es) s =
     stored req es (if isMachine req m \<and> machineResource m \<noteq> machineResource b then machineResource m else s)"
| "stored req (_ # es) s = stored req es s"

abbreviation recorded :: "NamespacedName \<Rightarrow> event list \<Rightarrow> string" where
  "recorded req h \<equiv> stored req h []"

text \<open>
  Reads are up to date (the reconciler sees the status it wrote), status patches succeed, and an
  accepted order is answered with a complete body.
\<close>

definition fresh_reads :: "env \<Rightarrow> NamespacedName \<Rightarrow> bool" where
  "fresh_reads E req \<longleftrightarrow> (\<forall>h m. on_GetWaldurMachine (env_kube E) h req = Inr m \<longrightarrow>
     isMachine req m \<and> machineResource m = recorded req h)"

definition status_patches_succeed :: "env \<Rightarrow> bool" where
  "status_patches_succeed E \<longleftrightarrow> (\<forall>h m b. \<exists>a. on_PatchWaldurMachineStatus (env_kube E) h m b = Inr a)"

definition complete_orders :: "env \<Rightarrow> bool" where
  "complete_orders E \<longleftrightarrow> (\<forall>h p resp. on_MarketplaceOrdersCreate (env_waldur E) h p = Inr resp \<longrightarrow> StatusCode resp = 201 \<longrightarrow>
     (\<exists>od. JSON resp = Some od \<and> od_Uuid od \<noteq> None \<and> od_Type od \<noteq> None \<and> od_State od \<noteq> None \<and>
        od_MarketplaceResourceUuid od \<noteq> None))"

inductive life :: "lib \<Rightarrow> env \<Rightarrow> WaldurMachineReconciler \<Rightarrow> NamespacedName \<Rightarrow> world \<Rightarrow> bool"
  for L E r req where
  start: "list_all (\<lambda>e. \<not> accepted_order (nn_Name req) e \<and> \<not> status_write req e) (hist w) \<Longrightarrow> life L E r req w"
| pass: "life L E r req w \<Longrightarrow> machine_Reconcile L E r req w = (res, w') \<Longrightarrow> life L E r req w'"
| other: "life L E r req w \<Longrightarrow> \<not> accepted_order (nn_Name req) e \<Longrightarrow> \<not> status_write req e \<Longrightarrow>
    life L E r req \<lparr>hist = hist w @ [e], vault = c\<rparr>"

definition order_recorded :: "lib \<Rightarrow> NamespacedName \<Rightarrow> event list \<Rightarrow> bool" where
  "order_recorded L req h \<longleftrightarrow> length (filter (accepted_order (nn_Name req)) h) \<le> 1 \<and>
     (\<forall>e\<in>set h. accepted_order (nn_Name req) e \<longrightarrow>
        (\<exists>u. orderedResource e = Some u \<and> recorded req h = uuid_String L u \<and> recorded req h \<noteq> []))"

section \<open>What is stored\<close>

lemma stored_append: "stored req (xs @ ys) s = stored req ys (stored req xs s)"
  by (induction req xs s rule: stored.induct) auto

lemma stored_other:
  assumes "\<not> status_write req e"
  shows "stored req [e] s = s"
proof (cases "(req, [e], s)" rule: stored.cases)
  case (2 req' m b a es s')
  with assms show ?thesis by (auto simp: status_write_def)
qed auto

lemma stored_none: "list_all (\<lambda>e. \<not> status_write req e) es \<Longrightarrow> stored req es s = s"
proof (induction es arbitrary: s)
  case (Cons e es)
  then show ?case using stored_append [of req "[e]" es s] by (simp add: stored_other)
qed simp

text \<open>Once a resource is recorded, the patches of a pass leave it as it is.\<close>

definition keeps_resource :: "event \<Rightarrow> bool" where
  "keeps_resource e \<longleftrightarrow> (\<forall>m b a. e = KubeEv (PatchWaldurMachineStatus m b a) \<longrightarrow> machineResource m = machineResource b)"

lemma stored_keeps: "list_all keeps_resource es \<Longrightarrow> stored req es s = s"
  by (induction req es s rule: stored.induct) (auto simp: keeps_resource_def)

lemma setMachineReadyCondition_keeps [simp]:
  "machineResource (setMachineReadyCondition L m) = machineResource m" "wm_Meta (setMachineReadyCondition L m) = wm_Meta m"
  by (simp_all add: setMachineReadyCondition_def Let_def)

lemma emits_keeps_setProviderID:
  assumes "machineResource m = machineResource b"
  shows "emits keeps_resource (setProviderID L E b m)"
  unfolding setProviderID_def patchMachineStatus_def prim_defs
  by (intro ext.frame_rules emits_perform) (use assms in \<open>auto simp: keeps_resource_def\<close>)

lemma emits_keeps_delete: "emits keeps_resource (machine_reconcileDelete L E m)"
proof -
  have read: "keeps_resource e" if "waldur_read e \<or> terminates e" for e
    using that by (auto simp: keeps_resource_def terminates_iff dest: waldur_read_classes(3))
  have terminate: "emits keeps_resource (terminateVM L E m)"
    unfolding terminateVM_def prim_defs
    by (intro ext.frame_rules emits_perform emits_mono [OF emits_submitTerminationOrder read]) (auto simp: keeps_resource_def)
  have poll: "emits keeps_resource (bind (refreshVM L E m) (\<lambda>(m', _).
       andThenWrap msg (k_PatchWaldurMachineStatus E m' m) (\<lambda>_. ok (requeueAfter 15))))" for msg
  proof (rule ext.bind_run)
    show "emits keeps_resource (refreshVM L E m)" by (rule emits_mono [OF emits_refreshVM]) (simp add: read)
  next
    fix s a t
    assume "refreshVM L E m s = (Ret a, t)"
    then have "machineResource (fst a) = machineResource m" by (cases a) (auto dest: refreshVM_keeps simp: same_machine_def)
    then show "emits keeps_resource (case a of (m', _) \<Rightarrow>
       andThenWrap msg (k_PatchWaldurMachineStatus E m' m) (\<lambda>_. ok (requeueAfter 15)))"
      unfolding prim_defs by (intro ext.frame_rules emits_perform) (auto simp: keeps_resource_def)
  qed
  show ?thesis
    unfolding machine_reconcileDelete_def removeMachineFinalizer_def stopVM_def
    by (intro ext.frame_rules poll terminate; (unfold prim_defs)?; (intro emits_perform)?; (simp add: keeps_resource_def)?)
qed

lemma emits_keeps_loaded:
  assumes "machineResource m \<noteq> []"
  shows "emits keeps_resource (machine_reconcileLoaded L E r m)"
proof -
  have "emits keeps_resource (refreshVM L E m)"
    by (rule emits_mono [OF emits_refreshVM]) (auto simp: keeps_resource_def dest: waldur_read_classes(3))
  then have "emits keeps_resource (bind (refreshVM L E m) (\<lambda>(m', _). setProviderID L E m m'))"
    by (rule ext.bind_run) (auto intro!: emits_keeps_setProviderID dest: refreshVM_keeps simp: same_machine_def)
  with assms have "emits keeps_resource (reconcileVM L E r ma m c)" for ma c by (simp add: reconcileVM_def)
  then show ?thesis
    unfolding machine_reconcileLoaded_def prim_defs
    by (intro ext.frame_rules emits_perform emits_keeps_delete) (simp_all add: keeps_resource_def)
qed

section \<open>A pass that orders a VM\<close>

text \<open>An accepted order is recorded: creating the VM succeeds.\<close>

lemma createVM_accepted:
  assumes "wired r" and codec: "uuid_codec L" and "complete_orders E" and run: "createVM L E r ma m c w = (res, w')"
    and es: "hist w' = hist w @ es" and ev: "e \<in> set es" and acc: "accepted_order n e"
  shows "\<exists>m' u. res = Ret (Inr m') \<and> orderedResource e = Some u \<and> machineResource m' = uuid_String L u \<and>
    machineResource m' \<noteq> [] \<and> wm_Meta m' = wm_Meta m \<and> mst_State (wm_Status m') = CoreStatesCREATING"
proof -
  from acc obtain p resp where e: "e = WaldurEv (MarketplaceOrdersCreate p (Inr resp))" and code: "StatusCode resp = 201"
    by (auto simp: accepted_order_def)
  obtain sid role v where answer: "on_MarketplaceOrdersCreate (env_waldur E) (hist v) p = Inr resp"
    and handle: "handleOrderResponse L r m sid role resp (v\<lparr>hist := hist v @ [e]\<rparr>) = (res, w')"
    by (rule createVM_answered [OF assms(1) run es ev [unfolded e]]) (simp add: e)
  from assms(3) answer code obtain od where "JSON resp = Some od" "od_Uuid od \<noteq> None" "od_Type od \<noteq> None" "od_State od \<noteq> None"
    "od_MarketplaceResourceUuid od \<noteq> None" unfolding complete_orders_def by blast
  with handle code codec e show ?thesis
    by (auto simp: handleOrderResponse_def recordVMOrder_def ok_def ret_def uuid_codec_def)
qed

text \<open>Where a create order of a pass comes from.\<close>

lemma reconcileLoaded_order:
  assumes "wired r" and run: "machine_reconcileLoaded L E r m w = (res, w')" and es: "hist w' = hist w @ es"
    and ev: "e \<in> set es" and ord: "creates_order e"
  obtains ma c u fs where "reconcileVM L E r ma m c u = (res, w')" and "hist w' = hist u @ fs" and "e \<in> set fs"
proof -
  have vm: "emits (\<lambda>_. True) (reconcileVM L E r ma m c)" for ma c
  proof -
    have "emits (\<lambda>_. True) (createVM L E r ma m c)" by (rule emits_mono [OF emits_createVM [OF assms(1)]]) simp
    moreover have "emits (\<lambda>_. True) (refreshVM L E m)" by (rule emits_mono [OF emits_refreshVM]) simp
    moreover have "emits (\<lambda>_. True) (setProviderID L E b n)" for b n by (rule emits_mono [OF emits_setProviderID]) simp
    ultimately show ?thesis unfolding reconcileVM_def by (intro ext.frame_rules)
  qed
  have get: "emits (\<lambda>e. \<not> creates_order e) (k_GetMachine E x)" "emits (\<lambda>e. \<not> creates_order e) (k_GetCluster E x)"
    "emits (\<lambda>e. \<not> creates_order e) (k_GetWaldurCluster E x)" for x
    unfolding prim_defs by (auto intro!: emits_perform simp: creates_order_def)
  let ?wc = "\<lambda>ma (cl :: Cluster) refName. andThenWrap ''unable to get WaldurCluster''
      (k_GetWaldurCluster E (namespacedName (om_Namespace (cl_Meta cl)) refName)) (\<lambda>c. reconcileVM L E r ma m c)"
  let ?cl = "\<lambda>ma. let clusterName = getStr (om_Labels (ma_Meta ma)) ClusterNameLabel in
      if clusterName = [] then ok (requeueAfter 0)
      else andThenWrap ''unable to get Cluster'' (k_GetCluster E (namespacedName (om_Namespace (ma_Meta ma)) clusterName)) (\<lambda>cl.
        deref (cl_InfrastructureRefName cl) (?wc ma cl))"
  let ?ma = "let machineName = ownerName ''Machine'' (om_OwnerReferences (wm_Meta m)) in
      if machineName = [] then ok (requeueAfter 0)
      else andThenWrap ''unable to get owner Machine'' (k_GetMachine E (namespacedName (om_Namespace (wm_Meta m)) machineName)) ?cl"
  have wc: "emits (\<lambda>_. True) (?wc ma cl n)" and dr: "emits (\<lambda>_. True) (deref (cl_InfrastructureRefName cl) (?wc ma cl))"
    and cl: "emits (\<lambda>_. True) (?cl ma)" for ma cl n
    by (intro ext.frame_rules vm emits_mono [OF get(1)] emits_mono [OF get(2)] emits_mono [OF get(3)]; simp)+
  have "emits (\<lambda>e. \<not> creates_order e) (machine_reconcileDelete L E m)"
    by (rule emits_mono [OF emits_machine_reconcileDelete deletion_event_no_order])
  moreover have "emits (\<lambda>e. \<not> creates_order e) (andThenWrap msg (k_UpdateWaldurMachine E n) (\<lambda>_. ok (requeueAfter 0)))" for msg n
    unfolding prim_defs by (intro ext.frame_rules emits_perform) (simp add: creates_order_def)
  ultimately have no: "?ma w = (res, w')"
    using run es ev ord by (auto simp: machine_reconcileLoaded_def Let_def split: if_splits dest: emits_event)
  let ?n = "ownerName ''Machine'' (om_OwnerReferences (wm_Meta m))"
  have "?n \<noteq> []" using no es ev by (auto simp: ok_eq)
  with no have 1: "andThenWrap ''unable to get owner Machine'' (k_GetMachine E (namespacedName (om_Namespace (wm_Meta m)) ?n)) ?cl w = (res, w')"
    by (simp add: Let_def)
  obtain ma u1 f1 where ma: "?cl ma u1 = (res, w')" "hist w' = hist u1 @ f1" "e \<in> set f1"
    by (rule later_event_wrap [OF get(1) _ cl 1 es ev], simp add: ord, blast)
  let ?k = "getStr (om_Labels (ma_Meta ma)) ClusterNameLabel"
  have "?k \<noteq> []" using ma by (auto simp: ok_eq)
  with ma(1) have 2: "andThenWrap ''unable to get Cluster'' (k_GetCluster E (namespacedName (om_Namespace (ma_Meta ma)) ?k)) (\<lambda>cl.
        deref (cl_InfrastructureRefName cl) (?wc ma cl)) u1 = (res, w')" by (simp add: Let_def)
  obtain cl :: Cluster and u2 f2 where cl2: "deref (cl_InfrastructureRefName cl) (?wc ma cl) u2 = (res, w')" "hist w' = hist u2 @ f2" "e \<in> set f2"
    by (rule later_event_wrap [OF get(2) _ dr 2 ma(2,3)], simp add: ord, blast)
  then obtain refName where "cl_InfrastructureRefName cl = Some refName"
    by (cases "cl_InfrastructureRefName cl") (auto simp: panic_eq)
  with cl2 have 3: "?wc ma cl refName u2 = (res, w')" by simp
  obtain c u3 f3 where "reconcileVM L E r ma m c u3 = (res, w')" "hist w' = hist u3 @ f3" "e \<in> set f3"
    by (rule later_event_wrap [OF get(3) _ vm 3 cl2(2,3)], simp add: ord, blast)
  then show ?thesis by (rule that)
qed

lemma accepted_order_creates: "accepted_order n e \<Longrightarrow> creates_order e"
  by (auto simp: accepted_order_def creates_order_def)

lemma setProviderID_no_order:
  assumes "setProviderID L E b m w = (res, w')"
  obtains fs where "hist w' = hist w @ fs" and "list_all (\<lambda>e. \<not> accepted_order n e) fs"
proof -
  from emitsD [OF emits_setProviderID assms] obtain fs where "hist w' = hist w @ fs" "list_all (\<lambda>e. \<exists>k. e = KubeEv k) fs" .
  then show ?thesis using that [of fs] by (auto simp: list_all_iff accepted_order_def)
qed

text \<open>A pass in which an order was accepted ends with the status patch that records it.\<close>

lemma reconcileVM_accepted:
  assumes "wired r" and "uuid_codec L" and "complete_orders E" and patches: "status_patches_succeed E"
    and run: "reconcileVM L E r ma m c w = (res, w')" and es: "hist w' = hist w @ es" and ev: "e \<in> set es" "accepted_order n e"
  shows "machineResource m = [] \<and> (\<exists>fs m' a. es = fs @ [KubeEv (PatchWaldurMachineStatus m' m (Inr a))] \<and>
    wm_Meta m' = wm_Meta m \<and> machineResource m' \<noteq> [] \<and> (\<exists>u. orderedResource e = Some u \<and> machineResource m' = uuid_String L u))"
proof -
  have new: "machineResource m = []"
  proof (rule ccontr)
    assume "machineResource m \<noteq> []"
    then have "reconcileVM L E r ma m c = bind (refreshVM L E m) (\<lambda>(m', _). setProviderID L E m m')"
      by (simp add: reconcileVM_def)
    moreover have "emits (\<lambda>e. \<not> creates_order e) \<dots>"
      by (intro ext.frame_rules emits_mono [OF emits_refreshVM] emits_mono [OF emits_setProviderID])
        (auto simp: creates_order_iff dest: waldur_read_classes)
    ultimately show False using emits_event run es ev accepted_order_creates by metis
  qed
  obtain x u where create: "createVM L E r ma m c w = (x, u)" by fastforce
  from emitsD [OF emits_createVM [OF assms(1)] create] obtain es1 where es1: "hist u = hist w @ es1" by blast
  let ?F = "\<lambda>y. case y of Inl e \<Rightarrow> if isBootstrapNotReady e then ok (requeueAfter 10) else setProviderID L E m m
           | Inr m' \<Rightarrow> setProviderID L E m m'"
  have bind: "bind (createVM L E r ma m c) ?F w = (res, w')" using run new by (simp add: reconcileVM_def)
  have F: "\<exists>fs. hist v' = hist v @ fs \<and> list_all (\<lambda>e. \<not> accepted_order n e) fs" if "?F y v = (q, v')" for y v q v'
    using that by (auto simp: ok_eq split: sum.splits if_splits elim!: setProviderID_no_order [where n = n])
  have "e \<in> set es1"
  proof (cases x)
    case Panic
    with bind create es es1 ev(1) show ?thesis by (simp add: bind_def)
  next
    case (Ret y)
    with bind create have "?F y u = (res, w')" by (simp add: bind_def)
    with F obtain fs where "hist w' = hist u @ fs" "list_all (\<lambda>e. \<not> accepted_order n e) fs" by blast
    with es es1 ev show ?thesis by (auto simp: list_all_iff)
  qed
  from createVM_accepted [OF assms(1-3) create es1 this ev(2)] obtain m' k where m': "x = Ret (Inr m')"
    and ord: "orderedResource e = Some k" "machineResource m' = uuid_String L k"
    and keep: "machineResource m' \<noteq> []" "wm_Meta m' = wm_Meta m" "mst_State (wm_Status m') = CoreStatesCREATING" by blast
  let ?n = "setMachineReadyCondition L m'"
  from patches obtain a where a: "on_PatchWaldurMachineStatus (env_kube E) (hist u) ?n m = Inr a"
    unfolding status_patches_succeed_def by blast
  have "setProviderID L E m m' u = (res, w')" using bind create m' by (simp add: bind_def)
  then have "hist w' = hist u @ [KubeEv (PatchWaldurMachineStatus ?n m (Inr a))]"
    using keep(3) a by (auto simp: setProviderID_def patchMachineStatus_def k_PatchWaldurMachineStatus_def andThenWrap_def bind_def
        perform_def ok_def ret_def Let_def split: option.splits)
  with es es1 have "es = es1 @ [KubeEv (PatchWaldurMachineStatus ?n m (Inr a))]" by simp
  with new keep ord show ?thesis by auto
qed

lemma at_most_pass:
  assumes "wired r" and "machine_Reconcile L E r req w = (res, w')"
  obtains es where "hist w' = hist w @ es" and "length (filter creates_order es) \<le> 1"
  using assms(2)
proof (cases rule: machine_Reconcile_cases)
  case (unread e)
  with that show ?thesis by (auto simp: creates_order_def)
next
  case (loaded m)
  from at_mostD [OF at_most_reconcileLoaded [OF assms(1)] loaded(2)] obtain fs where
    "hist w' = hist w @ KubeEv (GetWaldurMachine req (Inr m)) # fs" "length (filter creates_order fs) \<le> 1" by auto
  then show ?thesis using that [of "KubeEv (GetWaldurMachine req (Inr m)) # fs"] by (simp add: creates_order_def)
qed

section \<open>The invariant\<close>

text \<open>The status after a pass in which an order was accepted.\<close>

lemma accepted_in_pass:
  assumes "wired r" and "uuid_codec L" and fresh: "fresh_reads E req" and "status_patches_succeed E" and "complete_orders E"
    and run: "machine_Reconcile L E r req w = (res, w')" and es: "hist w' = hist w @ es"
    and e: "e \<in> set es" "accepted_order (nn_Name req) e"
  shows "recorded req (hist w) = [] \<and>
    (\<exists>k. orderedResource e = Some k \<and> recorded req (hist w') = uuid_String L k \<and> recorded req (hist w') \<noteq> [])"
  using run
proof (cases rule: machine_Reconcile_cases)
  case (unread x)
  with es e show ?thesis by (auto simp: accepted_order_def)
next
  case (loaded m)
  let ?w = "w\<lparr>hist := hist w @ [KubeEv (GetWaldurMachine req (Inr m))]\<rparr>"
  obtain ma c u fs where vm: "reconcileVM L E r ma m c u = (res, w')" "hist w' = hist u @ fs" "e \<in> set fs"
  proof -
    from at_mostD [OF at_most_reconcileLoaded [OF assms(1)] loaded(2)] obtain fs where fs: "hist w' = hist ?w @ fs" by blast
    then have "e \<in> set fs" using es e by (auto simp: accepted_order_def)
    from reconcileLoaded_order [OF assms(1) loaded(2) fs this accepted_order_creates [OF e(2)]] that show ?thesis by metis
  qed
  from reconcileVM_accepted [OF assms(1,2,5,4) vm e(2)] obtain gs m' a k where new: "machineResource m = []"
    and patch: "hist w' = (hist u @ gs) @ [KubeEv (PatchWaldurMachineStatus m' m (Inr a))]" "wm_Meta m' = wm_Meta m" "machineResource m' \<noteq> []"
    and ord: "orderedResource e = Some k" "machineResource m' = uuid_String L k"
    using vm(2) by auto
  from fresh loaded(1) new have m: "isMachine req m" "recorded req (hist w) = []" by (auto simp: fresh_reads_def)
  moreover have "recorded req (hist w') = machineResource m'"
    unfolding patch(1) stored_append using m(1) patch(2,3) new by simp
  ultimately show ?thesis using ord patch(3) by simp
qed

text \<open>A pass over a machine with a recorded resource leaves it recorded.\<close>

lemma recorded_pass:
  assumes fresh: "fresh_reads E req" and run: "machine_Reconcile L E r req w = (res, w')" and "recorded req (hist w) \<noteq> []"
  shows "recorded req (hist w') = recorded req (hist w)"
  using run
proof (cases rule: machine_Reconcile_cases)
  case (unread x)
  then show ?thesis by (simp add: stored_append)
next
  case (loaded m)
  with fresh assms(3) have "machineResource m \<noteq> []" by (auto simp: fresh_reads_def)
  from emitsD [OF emits_keeps_loaded [OF this] loaded(2)] obtain fs where
    "hist w' = hist w @ KubeEv (GetWaldurMachine req (Inr m)) # fs" "list_all keeps_resource fs" by auto
  then show ?thesis by (simp add: stored_append stored_keeps)
qed

lemma order_recorded_pass:
  assumes "wired r" and codec: "uuid_codec L" and fresh: "fresh_reads E req" and "status_patches_succeed E" and "complete_orders E"
    and IH: "order_recorded L req (hist w)" and run: "machine_Reconcile L E r req w = (res, w')"
  shows "order_recorded L req (hist w')"
proof -
  let ?acc = "accepted_order (nn_Name req)"
  obtain es where es: "hist w' = hist w @ es" and "length (filter creates_order es) \<le> 1"
    by (rule at_most_pass [OF assms(1) run])
  then have one: "length (filter ?acc es) \<le> 1"
    using length_filter_le [of ?acc "filter creates_order es"]
    by simp (metis (no_types, lifting) accepted_order_creates filter_cong order_trans)
  show ?thesis
  proof (cases "filter ?acc (hist w) = []")
    case True
    with one es accepted_in_pass [OF assms(1-5) run es] show ?thesis by (auto simp: order_recorded_def filter_empty_conv)
  next
    case False
    with IH have rec: "recorded req (hist w) \<noteq> []" by (auto simp: order_recorded_def filter_empty_conv)
    with accepted_in_pass [OF assms(1-5) run es] have "filter ?acc es = []" by (auto simp: filter_empty_conv)
    with IH es recorded_pass [OF fresh run rec] show ?thesis by (auto simp: order_recorded_def filter_empty_conv)
  qed
qed

text \<open>C1: one machine, one VM, over its whole life: however many passes the reconciler makes over a machine and whatever
  happens in between, at most one of its create orders is ever accepted, and once one was, the
  resource that Waldur's answer to it names is the one recorded in the status, and stays so, provided that reads show the status the reconciler
  wrote, that status patches succeed and that Waldur answers an accepted order with a complete body.\<close>

theorem at_most_one_vm_per_machine:
  assumes "life L E r req w" and "wired r" and "uuid_codec L" and "fresh_reads E req"
    and "status_patches_succeed E" and "complete_orders E"
  shows "length (filter (accepted_order (nn_Name req)) (hist w)) \<le> 1 \<and>
    (\<forall>e\<in>set (hist w). accepted_order (nn_Name req) e \<longrightarrow>
       (\<exists>u. orderedResource e = Some u \<and> recorded req (hist w) = uuid_String L u \<and> recorded req (hist w) \<noteq> []))"
proof -
  from assms(1) have "order_recorded L req (hist w)"
  proof (induction rule: life.induct)
    case (start w)
    then show ?case by (auto simp: order_recorded_def list_all_iff filter_empty_conv)
  next
    case (pass w res w')
    with assms show ?case by (blast intro: order_recorded_pass)
  next
    case (other w e c)
    then show ?case by (auto simp: order_recorded_def stored_append stored_other)
  qed
  then show ?thesis by (simp add: order_recorded_def)
qed

definition req_sample :: NamespacedName where
  "req_sample = namespacedName ''ns'' ''m''"

definition env_life :: env where
  "env_life = (env_vm 201)\<lparr>env_kube := (kube_vm machine_new)\<lparr>
     on_GetWaldurMachine := (\<lambda>h x. Inr (machine_sample None (recorded req_sample h) None None (CoreStatesOther [])))\<rparr>\<rparr>"

lemma env_life_ok: "fresh_reads env_life req_sample" "status_patches_succeed env_life" "complete_orders env_life"
  by (auto simp: fresh_reads_def status_patches_succeed_def complete_orders_def env_life_def req_sample_def vm_samples sample_defs)

lemma life_run:
  "\<exists>res w'. machine_Reconcile lib_sample env_life reconciler_sample req_sample world_sample = (res, w') \<and>
     filter (accepted_order ''m'') (hist w') \<noteq> []"
  by (simp add: machine_Reconcile_def machine_reconcileLoaded_def reconcileVM_def createVM_def vmUserData_def submitVMOrder_def
      handleOrderResponse_def recordVMOrder_def payload_defs setProviderID_def patchMachineStatus_def setMachineReadyCondition_def
      env_life_def req_sample_def vm_samples sample_defs prim_defs run_defs timeIsZero_def ownerName_def getStr_def ClusterNameLabel_def
      List.map_filter_def accepted_order_def filter_empty_conv)

theorem at_most_one_vm_per_machine_witness:
  "\<exists>res w1 res' w2. machine_Reconcile lib_sample env_life reconciler_sample req_sample world_sample = (res, w1) \<and>
     machine_Reconcile lib_sample env_life reconciler_sample req_sample w1 = (res', w2) \<and>
     length (filter (accepted_order ''m'') (hist w2)) \<le> 1 \<and>
     (\<exists>e u. e \<in> set (hist w1) \<and> orderedResource e = Some u \<and> recorded req_sample (hist w1) = uuid_String lib_sample u)"
proof -
  let ?life = "life lib_sample env_life reconciler_sample req_sample"
  have "?life world_sample" by (rule life.start) (simp add: world_sample_def)
  obtain res w1 where one: "machine_Reconcile lib_sample env_life reconciler_sample req_sample world_sample = (res, w1)"
    "filter (accepted_order ''m'') (hist w1) \<noteq> []" using life_run by blast
  with \<open>?life world_sample\<close> have 1: "?life w1" by (blast intro: life.pass)
  obtain res' w2 where two: "machine_Reconcile lib_sample env_life reconciler_sample req_sample w1 = (res', w2)" by fastforce
  with 1 have 2: "?life w2" by (rule life.pass)
  note ok = wired_sample lib_sample_ok(1) env_life_ok
  from one(2) obtain e where "e \<in> set (hist w1)" "accepted_order (nn_Name req_sample) e"
    by (auto simp: filter_empty_conv req_sample_def)
  with at_most_one_vm_per_machine [OF 1 ok] have "\<exists>e u. e \<in> set (hist w1) \<and> orderedResource e = Some u \<and>
    recorded req_sample (hist w1) = uuid_String lib_sample u" by blast
  moreover from at_most_one_vm_per_machine [OF 2 ok] have "length (filter (accepted_order ''m'') (hist w2)) \<le> 1"
    by (simp add: req_sample_def)
  ultimately show ?thesis using one(1) two by blast
qed

end
