(* ===== verification/Cluster_Controller.thy ===== *)
theory Cluster_Controller
  imports Waldur_Helpers "HOL-Library.Multiset"
begin

text \<open>
  The reconciler of \<^verbatim>\<open>WaldurCluster\<close> objects, \<^verbatim>\<open>internal/controller/waldurcluster_controller.go\<close>: one
  definition per method; the loops of \<^verbatim>\<open>calculateLimits\<close>, \<^verbatim>\<open>Reconcile\<close> and \<^verbatim>\<open>reconcileDelete\<close> are the
  recursive functions \<open>sumNodeGroups\<close>, \<open>reconcileDatacenters\<close>, \<open>terminateTenants\<close> and
  \<open>deleteProjects\<close>. A nil pointer that is returned without an error is \<open>Inr None\<close>. Go visits the
  entries of a map in an unspecified order: \<open>rangeOver\<close> takes it from the parameter \<open>R\<close>, which may
  choose a new order for every loop.
\<close>

section \<open>Map iteration\<close>

type_synonym range_order = "event list \<Rightarrow> string list \<Rightarrow> string list"

text \<open>Every entry is visited once.\<close>

definition go_range :: "range_order \<Rightarrow> bool" where
  "go_range R \<longleftrightarrow> (\<forall>h ks. mset (R h ks) = mset ks)"

definition rangeOver :: "range_order \<Rightarrow> (string, 'v) gomap \<Rightarrow> (string list \<Rightarrow> 'a io) \<Rightarrow> 'a io" where
  "rangeOver R m f = (\<lambda>w. f (R (hist w) (map fst m)) w)"

section \<open>Projects\<close>

definition clusterFinalizer :: string where
  "clusterFinalizer = ''waldurcluster.infrastructure.cluster.waldur.com/finalizer''"

definition getOrCreateProject :: "env \<Rightarrow> Customer \<Rightarrow> string \<Rightarrow> (error + Project) io" where
  "getOrCreateProject E org dcName =
     deref (cus_Slug org) (\<lambda>orgSlug.
     let projectName = orgSlug @ ''_'' @ dcName in
     deref (cus_Uuid org) (\<lambda>orgUuid.
     andThen (w_ProjectsList E \<lparr>pl_NameExact = Some projectName, pl_Customer = Some [orgUuid], pl_Slug = None\<rparr>) (\<lambda>projectResponse.
     deref (JSON projectResponse) (\<lambda>projects.
     if projects = []
     then deref (cus_Url org) (\<lambda>orgUrl.
          andThen (w_ProjectsCreate E \<lparr>pc_Name = projectName, pc_Customer = orgUrl\<rparr>) (\<lambda>projectCreateResponse.
          deref (JSON projectCreateResponse) ok))
     else ok (hd projects)))))"

definition deleteProject :: "env \<Rightarrow> string \<Rightarrow> (error + unit) io" where
  "deleteProject E projectSlug =
     andThen (w_ProjectsList E \<lparr>pl_NameExact = None, pl_Customer = None, pl_Slug = Some projectSlug\<rparr>) (\<lambda>projectResponse.
     deref (JSON projectResponse) (\<lambda>projects.
     if projects = [] then ok ()
     else (case prj_Uuid (hd projects) of
         None \<Rightarrow> fail (Errorf ''project %q has no UUID'' [projectSlug])
       | Some projectUuid \<Rightarrow>
           andThen (w_ProjectsDestroy E projectUuid) (\<lambda>resp.
           if StatusCode resp \<noteq> 200 \<and> StatusCode resp \<noteq> 204
           then fail (Errorf ''unable to delete project %q, status %d: %s'' [projectSlug, itoa (StatusCode resp), Body resp])
           else ok ()))))"

section \<open>Limits\<close>

definition controllerNodeCores :: goint where "controllerNodeCores = 4"

definition controllerNodeRamMB :: goint where "controllerNodeRamMB = 8 * 1024"

definition lbNodeCores :: goint where "lbNodeCores = 2"

definition lbNodeRamMB :: goint where "lbNodeRamMB = 4 * 1024"

definition systemDiskMB :: goint where "systemDiskMB = 20 * 1024"

text \<open>The loop over the node groups, with the running sums.\<close>

fun sumNodeGroups ::
    "env \<Rightarrow> PublicOfferingDetails \<Rightarrow> NodeGroupSpec list \<Rightarrow> goint \<Rightarrow> goint \<Rightarrow> goint \<Rightarrow> (error + goint \<times> goint \<times> goint) io" where
  "sumNodeGroups E offering [] cores ram storage = ok (cores, ram, storage)"
| "sumNodeGroups E offering (ng # ngs) cores ram storage =
     andThenWrap ''unable to get flavor %q'' (getFlavor E offering (ng_Flavor ng)) (\<lambda>flavor.
     deref (fl_Cores flavor) (\<lambda>flCores.
     deref (fl_Ram flavor) (\<lambda>flRam.
     let cores = cores + ng_Count ng * flCores;
         ram = ram + ng_Count ng * flRam;
         storage = storage + ng_Count ng * systemDiskMB;
         storage = (case ng_DataDiskSize ng of Some gb \<Rightarrow> storage + ng_Count ng * gb * 1024 | None \<Rightarrow> storage);
         storage = (case ng_VsanDiskSize ng of Some gb \<Rightarrow> storage + ng_Count ng * gb * 1024 | None \<Rightarrow> storage)
     in sumNodeGroups E offering ngs cores ram storage)))"

definition calculateLimits :: "env \<Rightarrow> PublicOfferingDetails \<Rightarrow> DatacenterSpec \<Rightarrow> (error + (string, goint) gomap) io" where
  "calculateLimits E offering dc =
     andThen (sumNodeGroups E offering (dc_NodeGroups dc) (3 * controllerNodeCores + lbNodeCores)
                (3 * controllerNodeRamMB + lbNodeRamMB) ((3 + 1) * systemDiskMB)) (\<lambda>(cores, ram, storage).
     ok [(''cores'', cores), (''ram'', ram), (''storage'', storage)])"

section \<open>Tenants\<close>

definition submitTenantCreationOrder ::
    "lib \<Rightarrow> env \<Rightarrow> PublicOfferingDetails \<Rightarrow> Project \<Rightarrow> DatacenterSpec \<Rightarrow> (error + OrderDetails option) io" where
  "submitTenantCreationOrder L E offering project dc =
     deref (off_Slug offering) (\<lambda>offeringSlug.
     deref (prj_Name project) (\<lambda>projectName.
     let rawAttrs = \<lparr>ta_Name = offeringSlug @ ''-'' @ projectName, ta_SubnetCidr = Some ''192.168.42.0/24''\<rparr> in
     (case FromTenantAttributes L rawAttrs of
        Some e \<Rightarrow> fail e
      | None \<Rightarrow>
     andThenWrap ''unable to calculate tenant resource limits'' (calculateLimits E offering dc) (\<lambda>limits.
     deref (off_PlanUrls offering) (\<lambda>plans.
     index0 plans (\<lambda>planUrl.
     deref (off_Url offering) (\<lambda>offeringUrl.
     deref (prj_Url project) (\<lambda>projectUrl.
     andThen (w_MarketplaceOrdersCreate E \<lparr>oc_Type = Create, oc_Offering = offeringUrl, oc_Project = projectUrl,
         oc_Plan = planUrl, oc_Attributes = TenantAttributes rawAttrs, oc_Limits = Some limits,
         oc_AcceptingTermsOfService = True\<rparr>) (\<lambda>orderResponse.
     if StatusCode orderResponse \<noteq> 201
     then fail (Errorf ''unable to submit an order, details: %s'' [Body orderResponse])
     else ok (JSON orderResponse))))))))))"

definition getOpenStackTenant :: "env \<Rightarrow> uuid \<Rightarrow> (error + OpenStackTenantDetails option) io" where
  "getOpenStackTenant E tenantUuid = andThen (w_OpenstackTenantsRetrieve E tenantUuid) (\<lambda>tenantResponse. ok (JSON tenantResponse))"

definition getCustomer :: "env \<Rightarrow> string \<Rightarrow> (error + Customer) io" where
  "getCustomer E orgName =
     andThen (w_CustomersList E orgName [CustomerFieldUrl, CustomerFieldSlug, CustomerFieldUuid]) (\<lambda>orgResponse.
     if StatusCode orgResponse \<noteq> 200
     then fail (Errorf ''unable to get customer %q, reason: %s'' [orgName, Body orgResponse])
     else deref (JSON orgResponse) (\<lambda>orgs.
          if orgs = [] then fail (Errorf ''unable to find a customer with name %q'' [orgName])
          else ok (hd orgs)))"

text \<open>
  \<^verbatim>\<open>refreshTenant\<close> changes the tenant in place, also when it returns an error: the tenant is returned
  beside the error. \<open>applyTenant\<close> is its end, after the OpenStack tenant was retrieved.
\<close>

definition applyTenant :: "lib \<Rightarrow> OpenStackTenantDetails \<Rightarrow> uuid \<Rightarrow> OpenStackTenant \<Rightarrow> OpenStackTenant" where
  "applyTenant L refreshed tenantUuid existing =
     (let existing = (case ot_State refreshed of Some s \<Rightarrow> existing\<lparr>t_State := s\<rparr> | None \<Rightarrow> existing);
          existing = (case ot_Name refreshed of Some n \<Rightarrow> existing\<lparr>t_Name := n\<rparr> | None \<Rightarrow> existing)
      in existing\<lparr>t_Uuid := Some (uuid_String L tenantUuid)\<rparr>)"

definition refreshTenantResource :: "lib \<Rightarrow> env \<Rightarrow> OpenStackTenant \<Rightarrow> (OpenStackTenant \<times> error option) io" where
  "refreshTenantResource L E existing =
     bind (getMarketplaceResource L E (t_MarketplaceResourceUuid existing)) (\<lambda>res. case res of
       Inl e \<Rightarrow> ret (existing, Some e)
     | Inr resourcePtr \<Rightarrow>
         deref resourcePtr (\<lambda>resource.
         let t1 = (case res_State resource of Some s \<Rightarrow> existing\<lparr>t_MarketplaceResourceState := s\<rparr> | None \<Rightarrow> existing)
         in case res_Scope resource of
              None \<Rightarrow> ret (t1, None)
            | Some _ \<Rightarrow> (case res_ResourceUuid resource of
                None \<Rightarrow> ret (t1, None)
              | Some tenantUuid \<Rightarrow>
                  bind (getOpenStackTenant E tenantUuid) (\<lambda>r. case r of
                    Inl e \<Rightarrow> ret (t1, Some e)
                  | Inr refreshedPtr \<Rightarrow> deref refreshedPtr (\<lambda>refreshed. ret (applyTenant L refreshed tenantUuid t1, None))))))"

text \<open>The marketplace resource UUID is taken over from the order when it is not set yet.\<close>

definition adoptResource :: "OpenStackTenant \<Rightarrow> OpenStackTenant" where
  "adoptResource existing =
     (case t_Order existing of
        Some ord \<Rightarrow> if t_MarketplaceResourceUuid existing = []
          then existing\<lparr>t_MarketplaceResourceUuid := wo_MarketplaceResourceUuid ord\<rparr> else existing
      | None \<Rightarrow> existing)"

definition refreshTenantRest :: "lib \<Rightarrow> env \<Rightarrow> OpenStackTenant \<Rightarrow> (OpenStackTenant \<times> error option) io" where
  "refreshTenantRest L E existing =
     (let existing = adoptResource existing in
      if t_MarketplaceResourceUuid existing = [] then ret (existing, None)
      else refreshTenantResource L E existing)"

definition refreshTenant :: "lib \<Rightarrow> env \<Rightarrow> OpenStackTenant \<Rightarrow> (OpenStackTenant \<times> error option) io" where
  "refreshTenant L E existing =
     (case t_Order existing of
        Some ord \<Rightarrow>
          if \<not> isOrderTerminal (wo_State ord)
          then bind (refreshOrder L E ord) (\<lambda>r. case r of
                 Inl e \<Rightarrow> ret (existing, Some (Wrap ''unable to refresh order'' e))
               | Inr ord' \<Rightarrow> refreshTenantRest L E (existing\<lparr>t_Order := Some ord'\<rparr>))
          else refreshTenantRest L E existing
      | None \<Rightarrow> refreshTenantRest L E existing)"

text \<open>The end of \<^verbatim>\<open>createTenant\<close>: the tenant of an accepted order.\<close>

definition recordTenantOrder :: "lib \<Rightarrow> env \<Rightarrow> Project \<Rightarrow> OrderDetails \<Rightarrow> (error + OpenStackTenant option) io" where
  "recordTenantOrder L E project order =
     deref (od_Uuid order) (\<lambda>orderUuid.
     deref (od_Type order) (\<lambda>ty.
     deref (od_State order) (\<lambda>state.
     deref (od_MarketplaceResourceUuid order) (\<lambda>mpUuid.
     deref (od_ResourceName order) (\<lambda>resourceName.
     let waldurOrder = \<lparr>wo_Uuid = uuid_String L orderUuid, wo_Type = ty, wo_State = state,
           wo_MarketplaceResourceUuid = uuid_String L mpUuid, wo_ResourceUuid = None\<rparr>;
         openStackTenant = \<lparr>t_State = CoreStatesOther [], t_Uuid = None, t_Name = resourceName,
           t_MarketplaceResourceUuid = uuid_String L mpUuid, t_MarketplaceResourceState = ResourceStateOther [],
           t_ProjectSlug = prj_Slug project, t_Order = Some waldurOrder\<rparr>
     in case od_ResourceUuid order of
          None \<Rightarrow> ok (Some (openStackTenant\<lparr>t_State := CoreStatesCREATING\<rparr>))
        | Some tenantUuid \<Rightarrow>
            andThenWrap ''unable to get tenant'' (getOpenStackTenant E tenantUuid) (\<lambda>tenantPtr.
            deref tenantPtr (\<lambda>tenant.
            deref (ot_State tenant) (\<lambda>tenantState.
            ok (Some (openStackTenant\<lparr>t_Uuid := Some (uuid_String L tenantUuid), t_State := tenantState,
              t_Order := Some (waldurOrder\<lparr>wo_ResourceUuid := Some (uuid_String L tenantUuid)\<rparr>)\<rparr>))))))))))"

text \<open>\<^verbatim>\<open>errors.Wrap(nil, ...)\<close> is nil: an accepted order without a body gives no tenant and no error.\<close>

definition createTenant :: "lib \<Rightarrow> env \<Rightarrow> DatacenterSpec \<Rightarrow> (error + OpenStackTenant option) io" where
  "createTenant L E dc =
     andThenWrap ''unable to get customer'' (getCustomer E (oi_CustomerName (dc_OpenstackInfrastructure dc))) (\<lambda>org.
     andThenWrap ''unable to get or create project'' (getOrCreateProject E org (dc_Name dc)) (\<lambda>project.
     andThenWrap ''unable to get offering details'' (getOffering E (dc_OfferingSlug dc)) (\<lambda>offering.
     andThenWrap ''unable to submit order'' (submitTenantCreationOrder L E offering project dc) (\<lambda>order.
     (case order of None \<Rightarrow> ok None | Some od \<Rightarrow> recordTenantOrder L E project od)))))"

section \<open>Deletion\<close>

text \<open>One round of the loop over the tenants: the tenant to store (if it is stored) and whether it is done.\<close>

definition terminateTenant :: "lib \<Rightarrow> env \<Rightarrow> OpenStackTenant \<Rightarrow> (OpenStackTenant option \<times> bool) io" where
  "terminateTenant L E tenant =
     (if t_MarketplaceResourceUuid tenant = [] then ret (None, True)
      else if (case t_Order tenant of
             Some ord \<Rightarrow> wo_Type ord = Terminate \<and> \<not> isOrderTerminal (wo_State ord) | None \<Rightarrow> False)
      then bind (refreshTenant L E tenant) (\<lambda>(tenant', _). ret (Some tenant', False))
      else if (case t_Order tenant of
             Some ord \<Rightarrow> wo_Type ord = Terminate \<and> wo_State ord = OrderStateDone | None \<Rightarrow> False)
      then ret (None, True)
      else bind (submitTerminationOrder L E (t_MarketplaceResourceUuid tenant)) (\<lambda>r. case r of
             Inl e \<Rightarrow> ret (Some tenant, False)
           | Inr order \<Rightarrow> ret (Some (tenant\<lparr>t_Order := Some order\<rparr>), False)))"

fun terminateTenants ::
    "lib \<Rightarrow> env \<Rightarrow> string list \<Rightarrow> (string, OpenStackTenant) gomap \<Rightarrow> bool \<Rightarrow> ((string, OpenStackTenant) gomap \<times> bool) io" where
  "terminateTenants L E [] tenants allDone = ret (tenants, allDone)"
| "terminateTenants L E (offeringSlug # slugs) tenants allDone =
     (case map_of tenants offeringSlug of
        None \<Rightarrow> terminateTenants L E slugs tenants allDone
      | Some tenant \<Rightarrow>
          bind (terminateTenant L E tenant) (\<lambda>(stored, isDone).
          terminateTenants L E slugs
            (case stored of None \<Rightarrow> tenants | Some tenant' \<Rightarrow> AList.update offeringSlug tenant' tenants)
            (allDone \<and> isDone)))"

fun deleteProjects :: "env \<Rightarrow> (string, OpenStackTenant) gomap \<Rightarrow> string list \<Rightarrow> (error + unit) io" where
  "deleteProjects E tenants [] = ok ()"
| "deleteProjects E tenants (k # ks) =
     (case Option.bind (map_of tenants k) t_ProjectSlug of
        None \<Rightarrow> deleteProjects E tenants ks
      | Some projectSlug \<Rightarrow>
          andThenWrap ''unable to delete project %q'' (deleteProject E projectSlug) (\<lambda>_. deleteProjects E tenants ks))"

definition setTenants :: "(string, OpenStackTenant) gomap \<Rightarrow> WaldurCluster \<Rightarrow> WaldurCluster" where
  "setTenants tenants waldurCluster = waldurCluster\<lparr>wc_Status := (wc_Status waldurCluster)\<lparr>cst_Tenants := tenants\<rparr>\<rparr>"

definition cluster_reconcileDelete :: "lib \<Rightarrow> env \<Rightarrow> range_order \<Rightarrow> WaldurCluster \<Rightarrow> (error + Result) io" where
  "cluster_reconcileDelete L E R waldurCluster =
     rangeOver R (cst_Tenants (wc_Status waldurCluster)) (\<lambda>slugs.
     bind (terminateTenants L E slugs (cst_Tenants (wc_Status waldurCluster)) True) (\<lambda>(tenants, allDone).
     andThenWrap ''couldn't patch status for cluster %q''
       (k_PatchWaldurClusterStatus E (setTenants tenants waldurCluster) waldurCluster) (\<lambda>patched.
     if \<not> allDone then ok (requeueAfter 15)
     else
     rangeOver R tenants (\<lambda>slugs'.
     andThen (deleteProjects E tenants slugs') (\<lambda>_.
     andThenWrap ''unable to remove finalizer''
       (k_UpdateWaldurCluster E (patched\<lparr>wc_Meta := (wc_Meta patched)\<lparr>
          om_Finalizers := RemoveFinalizer L (om_Finalizers (wc_Meta patched)) clusterFinalizer\<rparr>\<rparr>)) (\<lambda>_.
     ok (requeueAfter 0)))))))"

section \<open>The Ready condition\<close>

definition anyTenantErred :: "(string, OpenStackTenant) gomap \<Rightarrow> bool" where
  "anyTenantErred tenants = list_ex (\<lambda>(_, t). t_State t = CoreStatesERRED) tenants"

definition anyTenantPending :: "(string, OpenStackTenant) gomap \<Rightarrow> bool" where
  "anyTenantPending tenants = list_ex (\<lambda>(_, t). t_State t \<noteq> CoreStatesOK \<and> t_State t \<noteq> CoreStatesERRED) tenants"

definition clusterCondition :: "lib \<Rightarrow> WaldurCluster \<Rightarrow> ConditionStatus \<Rightarrow> string \<Rightarrow> string \<Rightarrow> bool \<Rightarrow> WaldurCluster" where
  "clusterCondition L waldurCluster status reason message provisioned =
     waldurCluster\<lparr>wc_Status := (wc_Status waldurCluster)\<lparr>
       cst_Conditions := SetStatusCondition L (cst_Conditions (wc_Status waldurCluster))
         \<lparr>cond_Type = ''Ready'', cond_Status = status, cond_Reason = reason, cond_Message = message\<rparr>,
       cst_Initialization := Some \<lparr>ci_Provisioned = Some provisioned\<rparr>\<rparr>\<rparr>"

definition setReadyCondition :: "lib \<Rightarrow> WaldurCluster \<Rightarrow> WaldurCluster" where
  "setReadyCondition L waldurCluster =
     (let tenants = cst_Tenants (wc_Status waldurCluster) in
      if length tenants < length (cs_Datacenters (wc_Spec waldurCluster))
      then clusterCondition L waldurCluster ConditionFalse ''Provisioning'' ''Waiting for tenants to be created'' False
      else if anyTenantPending tenants
      then clusterCondition L waldurCluster ConditionFalse ''Provisioning'' ''Waiting for tenants to be provisioned'' False
      else if anyTenantErred tenants
      then clusterCondition L waldurCluster ConditionFalse ''ProvisioningFailed'' ''One or more tenants failed to provision'' False
      else clusterCondition L waldurCluster ConditionTrue ''Provisioned'' ''All tenants are ready'' True)"

section \<open>The control plane endpoint\<close>

text \<open>The requests a watched object maps to; \<open>None\<close> is an object that is no \<^verbatim>\<open>WaldurMachine\<close>.\<close>

definition waldurMachineToCluster :: "WaldurMachine option \<Rightarrow> NamespacedName list" where
  "waldurMachineToCluster obj =
     (case obj of
        None \<Rightarrow> []
      | Some wm \<Rightarrow>
          let clusterName = getStr (om_Labels (wm_Meta wm)) ClusterNameLabel
          in if clusterName = [] then [] else [namespacedName (om_Namespace (wm_Meta wm)) clusterName])"

definition isReadyControlPlane :: "WaldurMachine \<Rightarrow> bool" where
  "isReadyControlPlane m \<longleftrightarrow> ms_NodeType (wm_Spec m) = ControlPlaneNode \<and> mst_State (wm_Status m) = CoreStatesOK \<and>
     mst_MarketplaceResourceUuid (wm_Status m) \<noteq> []"

definition setEndpoint :: "string \<Rightarrow> WaldurCluster \<Rightarrow> WaldurCluster" where
  "setEndpoint ip waldurCluster =
     waldurCluster\<lparr>wc_Spec := (wc_Spec waldurCluster)\<lparr>cs_ControlPlaneEndpoint := \<lparr>ep_Host = ip, ep_Port = 6443\<rparr>\<rparr>\<rparr>"

definition reconcileControlPlaneEndpoint :: "lib \<Rightarrow> env \<Rightarrow> WaldurCluster \<Rightarrow> (error + unit) io" where
  "reconcileControlPlaneEndpoint L E waldurCluster =
     (if ep_Host (cs_ControlPlaneEndpoint (wc_Spec waldurCluster)) \<noteq> [] then ok ()
      else
      andThenWrap ''unable to list WaldurMachines''
        (k_ListWaldurMachines E (om_Namespace (wc_Meta waldurCluster)) (om_Name (wc_Meta waldurCluster))) (\<lambda>items.
      (case find isReadyControlPlane items of
         None \<Rightarrow> ok ()
       | Some firstCP \<Rightarrow>
      andThenWrap ''unable to get marketplace resource for control plane VM''
        (getMarketplaceResource L E (mst_MarketplaceResourceUuid (wm_Status firstCP))) (\<lambda>resourcePtr.
      deref resourcePtr (\<lambda>resource.
      (case res_ResourceUuid resource of
         None \<Rightarrow> ok ()
       | Some vmUuid \<Rightarrow>
      andThenWrap ''unable to retrieve control plane VM''
        (w_OpenstackInstancesRetrieve E vmUuid [InstanceFieldInternalIps]) (\<lambda>instanceResp.
      (case JSON instanceResp of
         None \<Rightarrow> fail (Errorf ''unexpected nil instance response (status %d)'' [itoa (StatusCode instanceResp)])
       | Some inst \<Rightarrow> (case ins_InternalIps inst of
            None \<Rightarrow> ok ()
          | Some [] \<Rightarrow> ok ()
          | Some (ip # _) \<Rightarrow>
              andThenWrap ''unable to patch controlPlaneEndpoint''
                (k_UpdateWaldurCluster E (setEndpoint ip waldurCluster)) (\<lambda>_. ok ()))))))))))"

section \<open>Reconciliation\<close>

fun reconcileDatacenters ::
    "lib \<Rightarrow> env \<Rightarrow> DatacenterSpec list \<Rightarrow> (string, OpenStackTenant) gomap \<Rightarrow> (string, OpenStackTenant) gomap io" where
  "reconcileDatacenters L E [] tenants = ret tenants"
| "reconcileDatacenters L E (dc # dcs) tenants =
     (case map_of tenants (dc_OfferingSlug dc) of
        Some existing \<Rightarrow>
          bind (refreshTenant L E existing) (\<lambda>(existing', _).
          reconcileDatacenters L E dcs (AList.update (dc_OfferingSlug dc) existing' tenants))
      | None \<Rightarrow>
          bind (createTenant L E dc) (\<lambda>r. case r of
            Inl e \<Rightarrow> reconcileDatacenters L E dcs tenants
          | Inr tenantPtr \<Rightarrow> deref tenantPtr (\<lambda>tenant.
              reconcileDatacenters L E dcs (AList.update (dc_OfferingSlug dc) tenant tenants))))"

text \<open>\<^verbatim>\<open>Reconcile\<close> after the owner reference was found.\<close>

definition reconcileTenants :: "lib \<Rightarrow> env \<Rightarrow> WaldurCluster \<Rightarrow> (error + Result) io" where
  "reconcileTenants L E waldurCluster =
     bind (reconcileDatacenters L E (cs_Datacenters (wc_Spec waldurCluster)) (cst_Tenants (wc_Status waldurCluster))) (\<lambda>tenants.
     andThenWrap ''couldn't patch status for cluster %q''
       (k_PatchWaldurClusterStatus E (setReadyCondition L (setTenants tenants waldurCluster)) waldurCluster) (\<lambda>patched.
     bind (reconcileControlPlaneEndpoint L E patched) (\<lambda>_.
     ok (requeueAfter (if anyTenantPending tenants then 15 else 300)))))"

definition cluster_reconcileLoaded :: "lib \<Rightarrow> env \<Rightarrow> range_order \<Rightarrow> WaldurCluster \<Rightarrow> (error + Result) io" where
  "cluster_reconcileLoaded L E R waldurCluster =
     (let meta = wc_Meta waldurCluster in
      if \<not> timeIsZero (om_DeletionTimestamp meta) then cluster_reconcileDelete L E R waldurCluster
      else if \<not> ContainsFinalizer L (om_Finalizers meta) clusterFinalizer
      then andThenWrap ''unable to add finalizer''
             (k_UpdateWaldurCluster E (waldurCluster\<lparr>wc_Meta := meta\<lparr>
                om_Finalizers := AddFinalizer L (om_Finalizers meta) clusterFinalizer\<rparr>\<rparr>)) (\<lambda>_. ok (requeueAfter 0))
      else if \<not> list_ex (\<lambda>ref. or_Kind ref = ''Cluster'') (om_OwnerReferences meta) then ok (requeueAfter 0)
      else reconcileTenants L E waldurCluster)"

definition cluster_Reconcile :: "lib \<Rightarrow> env \<Rightarrow> range_order \<Rightarrow> NamespacedName \<Rightarrow> (error + Result) io" where
  "cluster_Reconcile L E R req =
     bind (k_GetWaldurCluster E req) (\<lambda>g. case g of
       Inl e \<Rightarrow> if e = ErrNotFound then ok (requeueAfter 0) else fail e
     | Inr waldurCluster \<Rightarrow> cluster_reconcileLoaded L E R waldurCluster)"

section \<open>Which events the steps emit\<close>

text \<open>What ordering a tenant may do in Waldur, besides reads.\<close>

definition tenant_event :: "event \<Rightarrow> bool" where
  "tenant_event e \<longleftrightarrow> waldur_read e \<or> creates_order e \<or> (\<exists>p a. e = WaldurEv (ProjectsCreate p a))"

lemma emits_rangeOver: "(\<And>h. emits P (f (R h (map fst m)))) \<Longrightarrow> emits P (rangeOver R m f)"
  by (simp add: preserves_def rangeOver_def)

lemma rangeOver_eq [go_inv]: "rangeOver R m f w = f (R (hist w) (map fst m)) w"
  by (simp add: rangeOver_def)

lemma go_range_set: "go_range R \<Longrightarrow> set (R h ks) = set ks"
  unfolding go_range_def by (metis set_mset_mset)

lemma emits_getOpenStackTenant: "emits waldur_read (getOpenStackTenant E u)"
  unfolding getOpenStackTenant_def prim_defs
  by (intro ext.frame_rules emits_prims) (simp add: event_class_defs)

lemma emits_refreshTenantResource: "emits waldur_read (refreshTenantResource L E t)"
  unfolding refreshTenantResource_def
  by (intro ext.frame_rules emits_helpers emits_getOpenStackTenant)

lemma emits_refreshTenant: "emits waldur_read (refreshTenant L E t)"
  unfolding refreshTenant_def refreshTenantRest_def
  by (intro ext.frame_rules emits_helpers emits_refreshTenantResource)

lemma emits_sumNodeGroups: "emits waldur_read (sumNodeGroups E off ngs c r s)"
  by (induction ngs arbitrary: c r s) (auto intro!: ext.frame_rules emits_helpers simp: Let_def)

lemma emits_calculateLimits: "emits waldur_read (calculateLimits E off dc)"
  unfolding calculateLimits_def by (intro ext.frame_rules emits_sumNodeGroups)

lemma emits_getCustomer: "emits waldur_read (getCustomer E n)"
  unfolding getCustomer_def prim_defs
  by (intro ext.frame_rules emits_prims) (simp add: event_class_defs)

lemma emits_getOrCreateProject: "emits (\<lambda>e. tenant_event e \<and> \<not> creates_order e) (getOrCreateProject E org n)"
  unfolding getOrCreateProject_def prim_defs
  by (intro ext.frame_rules emits_prims) (auto simp: tenant_event_def event_class_defs)

lemma emits_recordTenantOrder: "emits waldur_read (recordTenantOrder L E prj od)"
  unfolding recordTenantOrder_def
  by (intro ext.frame_rules emits_getOpenStackTenant)

lemma emits_createTenant: "emits tenant_event (createTenant L E dc)"
  unfolding createTenant_def submitTenantCreationOrder_def prim_defs
  by (intro ext.frame_rules emits_prims emits_mono [OF emits_getCustomer] emits_mono [OF emits_getOrCreateProject]
      emits_mono [OF emits_helpers(6)] emits_mono [OF emits_calculateLimits] emits_mono [OF emits_recordTenantOrder])
    (auto simp: tenant_event_def creates_order_iff)

lemma at_most_submitTenantCreationOrder: "at_most creates_order 1 (submitTenantCreationOrder L E off prj dc)"
proof -
  have "at_most creates_order (1 + 0) (andThen (w_MarketplaceOrdersCreate E p) (\<lambda>resp. if StatusCode resp \<noteq> 201
      then fail (Errorf ''unable to submit an order, details: %s'' [Body resp]) else ok (JSON resp)))" for p
    unfolding w_MarketplaceOrdersCreate_def
    by (intro at_most_andThen at_most_perform at_most_steps at_most_branches)
  then have order: "at_most creates_order 1 (andThen (w_MarketplaceOrdersCreate E p) (\<lambda>resp. if StatusCode resp \<noteq> 201
      then fail (Errorf ''unable to submit an order, details: %s'' [Body resp]) else ok (JSON resp)))" for p
    by simp
  have limits: "at_most creates_order 0 (calculateLimits E off dc)"
    by (rule at_most_emits [OF emits_calculateLimits waldur_read_classes(1)])
  show ?thesis
    unfolding submitTenantCreationOrder_def
    by (intro order limits at_most_steps(1,4-6) at_most_branches)
qed

lemma at_most_createTenant: "at_most creates_order 1 (createTenant L E dc)"
proof -
  have reads: "at_most creates_order 0 (getCustomer E n)" "at_most creates_order 0 (getOffering E n)"
    "at_most creates_order 0 (recordTenantOrder L E prj od)" "at_most creates_order 0 (getOrCreateProject E org n)" for n prj od org
    by (auto intro!: at_most_emits [OF emits_getCustomer] at_most_emits [OF emits_helpers(6)]
        at_most_emits [OF emits_recordTenantOrder] at_most_emits [OF emits_getOrCreateProject] dest: waldur_read_classes)
  have "at_most creates_order (1 + 0) (andThenWrap ''unable to submit order'' (submitTenantCreationOrder L E off prj dc)
      (\<lambda>order. case order of None \<Rightarrow> ok None | Some od \<Rightarrow> recordTenantOrder L E prj od))" for off prj
    by (intro at_most_andThenWrap at_most_submitTenantCreationOrder at_most_branches reads)
  then have order: "at_most creates_order 1 (andThenWrap ''unable to submit order'' (submitTenantCreationOrder L E off prj dc)
      (\<lambda>order. case order of None \<Rightarrow> ok None | Some od \<Rightarrow> recordTenantOrder L E prj od))" for off prj by simp
  show ?thesis
    unfolding createTenant_def by (intro order at_most_steps(1) reads)
qed

section \<open>The deletion protocol of tenants\<close>

lemma refreshTenantResource_keeps:
  assumes "refreshTenantResource L E t w = (Ret (t', err), w')"
  shows "t_MarketplaceResourceUuid t' = t_MarketplaceResourceUuid t \<and> t_Order t' = t_Order t \<and> t_ProjectSlug t' = t_ProjectSlug t"
  using assms
  by (auto simp: refreshTenantResource_def applyTenant_def Let_def go_inv split: option.splits)

lemma refreshTenantRest_keeps:
  assumes "refreshTenantRest L E t w = (Ret (t', err), w')"
  shows "t_MarketplaceResourceUuid t' = t_MarketplaceResourceUuid (adoptResource t) \<and> t_Order t' = t_Order t \<and>
    t_ProjectSlug t' = t_ProjectSlug t"
  using assms
  by (auto simp: refreshTenantRest_def adoptResource_def Let_def go_inv split: option.splits if_splits
      dest!: refreshTenantResource_keeps)

lemma adoptResource_id: "t_MarketplaceResourceUuid t \<noteq> [] \<Longrightarrow> adoptResource t = t"
  by (simp add: adoptResource_def split: option.split)

lemma refreshTenant_keeps:
  assumes "refreshTenant L E t w = (Ret (t', err), w')"
  shows "(t_MarketplaceResourceUuid t \<noteq> [] \<longrightarrow> t_MarketplaceResourceUuid t' = t_MarketplaceResourceUuid t) \<and>
    order_step (t_Order t) (t_Order t') \<and> t_ProjectSlug t' = t_ProjectSlug t"
  using assms
  by (auto simp: refreshTenant_def go_inv order_step_refl adoptResource_id
      dest!: refreshTenantRest_keeps dest: order_step_refreshed)

interpretation tt: terminable t_MarketplaceResourceUuid t_Order "\<lambda>x t. t\<lparr>t_Order := Some x\<rparr>" "refreshTenant L E" for L E
  by unfold_locales (auto dest: refreshTenant_keeps intro: emits_refreshTenant)

abbreviation tenantPhase :: "OpenStackTenant \<Rightarrow> delete_phase" where
  "tenantPhase t \<equiv> deletePhase (t_MarketplaceResourceUuid t) (t_Order t)"

text \<open>A round of the deletion loop does what the protocol says is due.\<close>

lemma terminateTenant_phase:
  "terminateTenant L E t =
     (case tenantPhase t of
        NeverProvisioned \<Rightarrow> ret (None, True)
      | Terminated \<Rightarrow> ret (None, True)
      | InFlight \<Rightarrow> bind (refreshTenant L E t) (\<lambda>(t', _). ret (Some t', False))
      | SubmitDue \<Rightarrow> bind (submitTerminationOrder L E (t_MarketplaceResourceUuid t)) (\<lambda>r. case r of
           Inl e \<Rightarrow> ret (Some t, False)
         | Inr order \<Rightarrow> ret (Some (t\<lparr>t_Order := Some order\<rparr>), False)))"
  by (simp add: terminateTenant_def deletePhase_def split: option.split)

lemma terminateTenant_done:
  assumes "terminateTenant L E t w = (Ret (stored, True), w')"
  shows "stored = None \<and> w' = w \<and> tenantPhase t \<in> {NeverProvisioned, Terminated}"
  using assms unfolding terminateTenant_phase
  by (cases "tenantPhase t") (auto simp: go_inv)

lemma terminateTenants_not_done:
  "terminateTenants L E ks ts False w = (Ret (ts', d), w') \<Longrightarrow> \<not> d"
  by (induction ks arbitrary: ts w) (auto simp: go_inv split: option.splits)

lemma terminateTenants_done:
  assumes "terminateTenants L E ks ts True w = (Ret (ts', True), w')"
  shows "ts' = ts \<and> w' = w \<and> (\<forall>k\<in>set ks. \<forall>t. map_of ts k = Some t \<longrightarrow> tenantPhase t \<in> {NeverProvisioned, Terminated})"
  using assms
proof (induction ks)
  case Nil
  then show ?case by (simp add: go_inv)
next
  case (Cons k ks)
  show ?case
  proof (cases "map_of ts k")
    case None
    with Cons show ?thesis by auto
  next
    case (Some t)
    with Cons.prems obtain stored d u where one: "terminateTenant L E t w = (Ret (stored, d), u)"
      and rest: "terminateTenants L E ks (case stored of None \<Rightarrow> ts | Some t' \<Rightarrow> AList.update k t' ts) d u = (Ret (ts', True), w')"
      by (auto simp: go_inv)
    from rest have "d" by (cases d) (auto dest: terminateTenants_not_done)
    with one have "stored = None" "u = w" "tenantPhase t \<in> {NeverProvisioned, Terminated}"
      using terminateTenant_done by auto
    with rest \<open>d\<close> Cons.IH Some show ?thesis by auto
  qed
qed

lemma emits_terminateTenants: "emits (\<lambda>e. waldur_read e \<or> terminates e) (terminateTenants L E ks ts d)"
proof (induction ks arbitrary: ts d)
  case Nil
  then show ?case by (simp add: ext.ret)
next
  case (Cons k ks)
  have "emits (\<lambda>e. waldur_read e \<or> terminates e) (terminateTenant L E t)" for t
    unfolding terminateTenant_def
    by (intro ext.frame_rules emits_submitTerminationOrder emits_mono [OF emits_refreshTenant]) simp
  with Cons show ?case by (auto intro!: ext.frame_rules)
qed

end
