(* ===== verification/Cluster_Properties.thy ===== *)
theory Cluster_Properties
  imports Cluster_Controller "HOL-Library.Sublist"
begin

text \<open>
  What the cluster reconciler guarantees, for every behaviour of the Kubernetes API server and of
  Waldur: which tenants it orders and with which limits, what it records and publishes, and in
  which order it terminates tenants, deletes projects and lets go of the cluster.
\<close>

section \<open>Deletion\<close>

lemma cluster_Reconcile_cases [consumes 1, case_names unread loaded]:
  assumes "cluster_Reconcile L E R req w = (res, w')"
  obtains (unread) e where "on_GetWaldurCluster (env_kube E) (hist w) req = Inl e"
      and "w' = w\<lparr>hist := hist w @ [KubeEv (GetWaldurCluster req (Inl e))]\<rparr>"
  | (loaded) c where "on_GetWaldurCluster (env_kube E) (hist w) req = Inr c"
      and "cluster_reconcileLoaded L E R c (w\<lparr>hist := hist w @ [KubeEv (GetWaldurCluster req (Inr c))]\<rparr>) = (res, w')"
proof (cases "on_GetWaldurCluster (env_kube E) (hist w) req")
  case (Inl e)
  with assms unread show ?thesis
    by (auto simp: cluster_Reconcile_def k_GetWaldurCluster_def bind_def perform_def ok_def fail_def ret_def Let_def
        split: if_splits)
next
  case (Inr c)
  with assms loaded show ?thesis
    by (auto simp: cluster_Reconcile_def k_GetWaldurCluster_def bind_def perform_def Let_def)
qed

abbreviation clusterTenants :: "WaldurCluster \<Rightarrow> (string, OpenStackTenant) gomap" where
  "clusterTenants c \<equiv> cst_Tenants (wc_Status c)"

definition all_terminated :: "(string, OpenStackTenant) gomap \<Rightarrow> bool" where
  "all_terminated ts = list_all (\<lambda>(_, t). tenantPhase t \<in> {NeverProvisioned, Terminated}) ts"

lemma all_terminated_range:
  assumes "go_range R" and "wf_map ts"
    and "\<forall>k\<in>set (R h (map fst ts)). \<forall>t. map_of ts k = Some t \<longrightarrow> tenantPhase t \<in> {NeverProvisioned, Terminated}"
  shows "all_terminated ts"
  using assms by (auto simp: all_terminated_def list_all_iff go_range_set wf_map_def) force+

text \<open>As long as a tenant is left, a deletion pass reads, terminates tenants and writes the status.\<close>

lemma emits_delete_waiting:
  assumes "go_range R" and "wf_map (clusterTenants c)" and "\<not> all_terminated (clusterTenants c)"
  shows "emits (\<lambda>e. waldur_read e \<or> terminates e \<or> (\<exists>n b a. e = KubeEv (PatchWaldurClusterStatus n b a)))
    (cluster_reconcileDelete L E R c)"
  unfolding cluster_reconcileDelete_def
proof (intro emits_rangeOver ext.bind_run emits_mono [OF emits_terminateTenants])
  fix h s a t
  assume run: "terminateTenants L E (R h (map fst (clusterTenants c))) (clusterTenants c) True s = (Ret a, t)"
  have "\<not> snd a"
  proof
    assume "snd a"
    with run have "terminateTenants L E (R h (map fst (clusterTenants c))) (clusterTenants c) True s = (Ret (fst a, True), t)"
      by (cases a) simp
    with terminateTenants_done all_terminated_range [OF assms(1,2)] assms(3) show False by blast
  qed
  then show "emits (\<lambda>e. waldur_read e \<or> terminates e \<or> (\<exists>n b a. e = KubeEv (PatchWaldurClusterStatus n b a)))
    (case a of (tenants, allDone) \<Rightarrow> andThenWrap ''couldn't patch status for cluster %q''
       (k_PatchWaldurClusterStatus E (setTenants tenants c) c) (\<lambda>patched.
     if \<not> allDone then ok (requeueAfter 15)
     else rangeOver R tenants (\<lambda>slugs'. andThen (deleteProjects E tenants slugs') (\<lambda>_.
     andThenWrap ''unable to remove finalizer''
       (k_UpdateWaldurCluster E (patched\<lparr>wc_Meta := (wc_Meta patched)\<lparr>
          om_Finalizers := RemoveFinalizer L (om_Finalizers (wc_Meta patched)) clusterFinalizer\<rparr>\<rparr>)) (\<lambda>_.
     ok (requeueAfter 0))))))"
    unfolding k_PatchWaldurClusterStatus_def
    by (intro ext.frame_rules emits_perform) auto
qed auto

text \<open>\<open>project_gone ps es\<close>: Waldur has no project with this slug, or it confirmed its deletion.\<close>

definition project_gone :: "string \<Rightarrow> event list \<Rightarrow> bool" where
  "project_gone ps es \<longleftrightarrow> (\<exists>resp.
     WaldurEv (ProjectsList \<lparr>pl_NameExact = None, pl_Customer = None, pl_Slug = Some ps\<rparr> (Inr resp)) \<in> set es \<and>
     (JSON resp = Some [] \<or>
      (\<exists>p rest u r. JSON resp = Some (p # rest) \<and> prj_Uuid p = Some u \<and>
         WaldurEv (ProjectsDestroy u (Inr r)) \<in> set es \<and> StatusCode r \<in> {200, 204})))"

lemma project_gone_mono: "project_gone ps es \<Longrightarrow> set es \<subseteq> set fs \<Longrightarrow> project_gone ps fs"
  unfolding project_gone_def by blast

lemma project_gone_Cons: "project_gone ps es \<Longrightarrow> project_gone ps (e # es)"
  by (erule project_gone_mono) auto

abbreviation by_slug :: "string \<Rightarrow> ProjectsListParams" where
  "by_slug ps \<equiv> \<lparr>pl_NameExact = None, pl_Customer = None, pl_Slug = Some ps\<rparr>"

lemma project_goneI:
  "JSON resp = Some [] \<Longrightarrow> project_gone ps [WaldurEv (ProjectsList (by_slug ps) (Inr resp))]"
  "JSON resp = Some (p # rest) \<Longrightarrow> prj_Uuid p = Some u \<Longrightarrow> StatusCode r \<in> {200, 204} \<Longrightarrow>
     project_gone ps [WaldurEv (ProjectsList (by_slug ps) (Inr resp)), WaldurEv (ProjectsDestroy u (Inr r))]"
  by (auto simp: project_gone_def)

lemma deleteProject_Inr:
  assumes "deleteProject E ps w = (Ret (Inr x), w')"
  obtains es where "hist w' = hist w @ es" and "project_gone ps es"
proof -
  from assms consider resp where "JSON resp = Some []" "hist w' = hist w @ [WaldurEv (ProjectsList (by_slug ps) (Inr resp))]"
    | resp p rest u r where "JSON resp = Some (p # rest)" "prj_Uuid p = Some u" "StatusCode r \<in> {200, 204}"
        "hist w' = hist w @ [WaldurEv (ProjectsList (by_slug ps) (Inr resp)), WaldurEv (ProjectsDestroy u (Inr r))]"
    unfolding deleteProject_def prim_defs by (fastforce simp: go_inv neq_Nil_conv)
  then show ?thesis
    by cases (auto intro!: that project_goneI)
qed

lemma deleteProjects_Inr:
  assumes "deleteProjects E ts ks w = (Ret (Inr u), w')"
  shows "\<exists>es. hist w' = hist w @ es \<and>
    (\<forall>k\<in>set ks. \<forall>t ps. map_of ts k = Some t \<longrightarrow> t_ProjectSlug t = Some ps \<longrightarrow> project_gone ps es)"
  using assms
proof (induction ks arbitrary: w)
  case Nil
  then show ?case by (simp add: go_inv)
next
  case (Cons k ks)
  show ?case
  proof (cases "Option.bind (map_of ts k) t_ProjectSlug")
    case None
    with Cons.prems Cons.IH [of w] show ?thesis by (auto split: bind_splits)
  next
    case (Some ps)
    with Cons.prems obtain v x where one: "deleteProject E ps w = (Ret (Inr x), v)"
      and rest: "deleteProjects E ts ks v = (Ret (Inr u), w')" by (auto simp: go_inv)
    from one obtain es where es: "hist v = hist w @ es" "project_gone ps es" by (rule deleteProject_Inr)
    from Cons.IH [OF rest] obtain fs where fs: "hist w' = hist v @ fs"
      "\<forall>k\<in>set ks. \<forall>t ps. map_of ts k = Some t \<longrightarrow> t_ProjectSlug t = Some ps \<longrightarrow> project_gone ps fs" by blast
    have "\<forall>k\<in>set (k # ks). \<forall>t ps. map_of ts k = Some t \<longrightarrow> t_ProjectSlug t = Some ps \<longrightarrow> project_gone ps (es @ fs)"
      using project_gone_mono [OF es(2), of "es @ fs"] project_gone_mono [of _ fs "es @ fs"] fs(2) Some
      by (auto split: bind_splits)
    with es(1) fs(1) show ?thesis by (intro exI [of _ "es @ fs"]) simp
  qed
qed

lemma emits_deleteProjects: "emits (\<lambda>e. \<exists>x. e = WaldurEv x) (deleteProjects E ts ks)"
  by (induction ks)
    (auto intro!: ext.frame_rules emits_perform simp: deleteProject_def prim_defs)

lemma emits_delete_rest:
  "emits (\<lambda>_. True) (rangeOver R ts (\<lambda>ks. andThen (deleteProjects E ts ks) (\<lambda>_.
     andThenWrap msg (k_UpdateWaldurCluster E n) (\<lambda>_. ok x))))"
  unfolding prim_defs
  by (intro emits_rangeOver ext.frame_rules emits_perform emits_mono [OF emits_deleteProjects]) simp_all

text \<open>The finalizer is written only at the very end of a deletion pass that went through.\<close>

lemma cluster_reconcileDelete_update:
  assumes run: "cluster_reconcileDelete L E R c w = (res, w')" and es: "hist w' = hist w @ es"
    and ev: "KubeEv (UpdateWaldurCluster n a) \<in> set es"
  obtains ts u v p x y where
    "terminateTenants L E (R (hist w) (map fst (clusterTenants c))) (clusterTenants c) True w = (Ret (ts, True), u)"
    "k_PatchWaldurClusterStatus E (setTenants ts c) c u = (Ret (Inr p), v)"
    "deleteProjects E ts (R (hist v) (map fst ts)) v = (Ret (Inr x), y)"
    "hist w' = hist y @ [KubeEv (UpdateWaldurCluster n a)]"
proof -
  let ?e = "KubeEv (UpdateWaldurCluster n a)"
  let ?upd = "\<lambda>p. andThenWrap ''unable to remove finalizer'' (k_UpdateWaldurCluster E (p\<lparr>wc_Meta := (wc_Meta p)\<lparr>
          om_Finalizers := RemoveFinalizer L (om_Finalizers (wc_Meta p)) clusterFinalizer\<rparr>\<rparr>)) (\<lambda>_. ok (requeueAfter 0))"
  let ?rest = "\<lambda>ts p. rangeOver R ts (\<lambda>ks. andThen (deleteProjects E ts ks) (\<lambda>_. ?upd p))"
  let ?patch = "\<lambda>ts d. andThenWrap ''couldn't patch status for cluster %q'' (k_PatchWaldurClusterStatus E (setTenants ts c) c)
      (\<lambda>p. if \<not> d then ok (requeueAfter 15) else ?rest ts p)"
  have patch: "emits (\<lambda>e. \<exists>n b a. e = KubeEv (PatchWaldurClusterStatus n b a)) (k_PatchWaldurClusterStatus E n b)" for n b
    unfolding prim_defs by (rule emits_perform) blast
  have tail: "emits (\<lambda>_. True) (if \<not> d then ok (requeueAfter 15) else ?rest ts p)" for d ts p
    by (intro ext.ite ext.ok emits_delete_rest)
  have any: "emits (\<lambda>_. True) (case td of (ts, d) \<Rightarrow> ?patch ts d)" for td
    by (intro ext.case_prod ext.andThenWrap tail emits_mono [OF patch]) simp
  have bind: "bind (terminateTenants L E (R (hist w) (map fst (clusterTenants c))) (clusterTenants c) True)
      (\<lambda>(ts, d). ?patch ts d) w = (res, w')"
    using run by (simp add: cluster_reconcileDelete_def rangeOver_def)
  obtain td u fs where td: "terminateTenants L E (R (hist w) (map fst (clusterTenants c))) (clusterTenants c) True w = (Ret td, u)"
    "(case td of (ts, d) \<Rightarrow> ?patch ts d) u = (res, w')" "hist w' = hist u @ fs" "?e \<in> set fs"
    by (rule later_event_bind [OF emits_terminateTenants _ any bind es ev]) (auto simp: terminates_iff dest: waldur_read_classes)
  obtain ts d where [simp]: "td = (ts, d)" by (cases td)
  obtain p v gs where p: "k_PatchWaldurClusterStatus E (setTenants ts c) c u = (Ret (Inr p), v)"
    "(if \<not> d then ok (requeueAfter 15) else ?rest ts p) v = (res, w')" "hist w' = hist v @ gs" "?e \<in> set gs"
    by (rule later_event_wrap [OF patch _ tail td(2) [simplified] td(3,4)]) auto
  have d: "d" using p(2-4) by (cases d) (auto simp: ok_eq)
  then have last: "andThen (deleteProjects E ts (R (hist v) (map fst ts))) (\<lambda>_. ?upd p) v = (res, w')"
    using p(2) by (simp add: rangeOver_def)
  have upd: "emits (\<lambda>_. True) (?upd p)"
    unfolding prim_defs by (intro ext.frame_rules emits_perform) simp
  obtain x y hs where y: "deleteProjects E ts (R (hist v) (map fst ts)) v = (Ret (Inr x), y)" "?upd p y = (res, w')"
    "hist w' = hist y @ hs" "?e \<in> set hs"
    by (rule later_event [OF emits_deleteProjects _ upd last p(3,4)]) auto
  from y(2-4) have "hist w' = hist y @ [?e]"
    by (auto simp: andThenWrap_def bind_def k_UpdateWaldurCluster_def perform_def ok_def fail_def ret_def Let_def split: sum.splits)
  with td(1) d p(1) y(1) that show ?thesis by simp
qed

text \<open>
  What the properties use of the API server: the status subresource does not change the metadata, so
  the object that a status patch returns has the metadata of the object that was patched.
\<close>

definition status_patch_keeps_meta :: "env \<Rightarrow> bool" where
  "status_patch_keeps_meta E \<longleftrightarrow>
     (\<forall>h n b a. on_PatchWaldurClusterStatus (env_kube E) h n b = Inr a \<longrightarrow> wc_Meta a = wc_Meta n)"

text \<open>The tenants of a cluster are a Go map.\<close>

definition wf_clusters :: "env \<Rightarrow> bool" where
  "wf_clusters E \<longleftrightarrow> (\<forall>h x c. on_GetWaldurCluster (env_kube E) h x = Inr c \<longrightarrow> wf_map (clusterTenants c))"

lemma wf_clustersD: "wf_clusters E \<Longrightarrow> on_GetWaldurCluster (env_kube E) h x = Inr c \<Longrightarrow> wf_map (clusterTenants c)"
  by (simp add: wf_clusters_def)

definition keeps_finalizer :: "event \<Rightarrow> bool" where
  "keeps_finalizer e \<longleftrightarrow> (\<forall>n a. e = KubeEv (UpdateWaldurCluster n a) \<longrightarrow> clusterFinalizer \<in> set (om_Finalizers (wc_Meta n)))"

lemma emits_reconcileDatacenters: "emits tenant_event (reconcileDatacenters L E dcs ts)"
proof (induction dcs arbitrary: ts)
  case Nil
  then show ?case by (simp add: ext.ret)
next
  case (Cons dc dcs)
  have "emits tenant_event (refreshTenant L E t)" for t
    by (rule emits_mono [OF emits_refreshTenant]) (simp add: tenant_event_def)
  with Cons show ?case by (auto intro!: ext.frame_rules emits_createTenant)
qed

text \<open>Setting the endpoint reads, and writes the cluster with a new endpoint and nothing else.\<close>

definition endpoint_event :: "WaldurCluster \<Rightarrow> event \<Rightarrow> bool" where
  "endpoint_event c e \<longleftrightarrow> waldur_read e \<or> (\<exists>x y a. e = KubeEv (ListWaldurMachines x y a)) \<or>
     (\<exists>ip a. e = KubeEv (UpdateWaldurCluster (setEndpoint ip c) a))"

lemma emits_endpoint: "emits (endpoint_event c) (reconcileControlPlaneEndpoint L E c)"
proof -
  have list: "emits (endpoint_event c) (k_ListWaldurMachines E x y)" for x y
    unfolding prim_defs by (rule emits_perform) (simp add: endpoint_event_def)
  have inst: "emits (endpoint_event c) (w_OpenstackInstancesRetrieve E u fs)" for u fs
    unfolding prim_defs by (rule emits_perform) (simp add: endpoint_event_def event_class_defs)
  have upd: "emits (endpoint_event c) (k_UpdateWaldurCluster E (setEndpoint ip c))" for ip
    unfolding prim_defs by (rule emits_perform) (auto simp: endpoint_event_def)
  have res: "emits (endpoint_event c) (getMarketplaceResource L E n)" for n
    by (rule emits_mono [OF emits_helpers(8)]) (simp add: endpoint_event_def)
  have ips: "emits (endpoint_event c) (case ips of [] \<Rightarrow> ok ()
      | ip # _ \<Rightarrow> andThenWrap msg (k_UpdateWaldurCluster E (setEndpoint ip c)) (\<lambda>_. ok ()))" for ips msg
    by (cases ips) (auto intro!: ext.frame_rules upd)
  show ?thesis
    unfolding reconcileControlPlaneEndpoint_def
    by (intro ext.frame_rules list inst res ips)
qed

lemma setEndpoint_meta [simp]: "wc_Meta (setEndpoint ip c) = wc_Meta c"
  by (simp add: setEndpoint_def)

lemma setReadyCondition_keeps [simp]:
  "wc_Meta (setReadyCondition L c) = wc_Meta c" "wc_Spec (setReadyCondition L c) = wc_Spec c"
  "clusterTenants (setReadyCondition L c) = clusterTenants c"
  by (simp_all add: setReadyCondition_def clusterCondition_def Let_def)

lemma setTenants_simps [simp]:
  "wc_Meta (setTenants ts c) = wc_Meta c" "wc_Spec (setTenants ts c) = wc_Spec c" "clusterTenants (setTenants ts c) = ts"
  by (simp_all add: setTenants_def)

lemma emits_reconcileTenants_keeps:
  assumes "status_patch_keeps_meta E" and "clusterFinalizer \<in> set (om_Finalizers (wc_Meta c))"
  shows "emits keeps_finalizer (reconcileTenants L E c)"
  unfolding reconcileTenants_def
proof (intro ext.bind ext.andThenWrap_run ext.ok)
  show "emits keeps_finalizer (reconcileDatacenters L E (cs_Datacenters (wc_Spec c)) (clusterTenants c))"
    by (rule emits_mono [OF emits_reconcileDatacenters])
      (auto simp: keeps_finalizer_def tenant_event_def creates_order_iff dest: waldur_read_classes)
  show "emits keeps_finalizer (k_PatchWaldurClusterStatus E n b)" for n b
    unfolding prim_defs by (rule emits_perform) (simp add: keeps_finalizer_def)
  fix ts s a t
  assume "k_PatchWaldurClusterStatus E (setReadyCondition L (setTenants ts c)) c s = (Ret (Inr a), t)"
  with assms have "clusterFinalizer \<in> set (om_Finalizers (wc_Meta a))"
    by (auto simp: k_PatchWaldurClusterStatus_def perform_eq status_patch_keeps_meta_def)
  then show "emits keeps_finalizer (reconcileControlPlaneEndpoint L E a)"
    by (intro emits_mono [OF emits_endpoint]) (auto simp: keeps_finalizer_def endpoint_event_def dest: waldur_read_classes)
qed

lemma emits_live_keeps:
  assumes fin: "finalizer_ops L" and "status_patch_keeps_meta E" and live: "timeIsZero (om_DeletionTimestamp (wc_Meta c))"
  shows "emits keeps_finalizer (cluster_reconcileLoaded L E R c)"
proof -
  have add: "emits keeps_finalizer (k_UpdateWaldurCluster E (c\<lparr>wc_Meta := (wc_Meta c)\<lparr>
      om_Finalizers := AddFinalizer L (om_Finalizers (wc_Meta c)) clusterFinalizer\<rparr>\<rparr>))"
    unfolding prim_defs by (rule emits_perform) (use fin in \<open>simp add: keeps_finalizer_def finalizer_ops_def\<close>)
  show ?thesis
    unfolding cluster_reconcileLoaded_def Let_def
    by (intro ext.frame_rules add emits_reconcileTenants_keeps [OF assms(2)])
      (use live fin in \<open>auto simp: finalizer_ops_def\<close>)
qed

text \<open>A pass over a cluster that is not being deleted orders tenants, and otherwise only reads and talks to
  the API server.\<close>

lemma emits_live:
  assumes "timeIsZero (om_DeletionTimestamp (wc_Meta c))"
  shows "emits (\<lambda>e. tenant_event e \<or> (\<exists>k. e = KubeEv k)) (cluster_reconcileLoaded L E R c)"
proof -
  have kube: "emits (\<lambda>e. tenant_event e \<or> (\<exists>k. e = KubeEv k)) (k_UpdateWaldurCluster E n)"
    "emits (\<lambda>e. tenant_event e \<or> (\<exists>k. e = KubeEv k)) (k_PatchWaldurClusterStatus E n b)" for n b
    unfolding prim_defs by (rule emits_perform, simp)+
  have dcs: "emits (\<lambda>e. tenant_event e \<or> (\<exists>k. e = KubeEv k)) (reconcileDatacenters L E dcs ts)" for dcs ts
    by (rule emits_mono [OF emits_reconcileDatacenters]) simp
  have endpoint: "emits (\<lambda>e. tenant_event e \<or> (\<exists>k. e = KubeEv k)) (reconcileControlPlaneEndpoint L E d)" for d
    by (rule emits_mono [OF emits_endpoint]) (auto simp: endpoint_event_def tenant_event_def)
  show ?thesis
    unfolding cluster_reconcileLoaded_def reconcileTenants_def
    by (intro ext.frame_rules kube dcs endpoint) (use assms in simp)
qed

lemma emits_cluster_reconcileDelete: "emits (\<lambda>_. True) (cluster_reconcileDelete L E R c)"
proof -
  have patch: "emits (\<lambda>_. True) (k_PatchWaldurClusterStatus E n b)" for n b
    unfolding prim_defs by (rule emits_perform) simp
  have loop: "emits (\<lambda>_. True) (terminateTenants L E ks ts d)" for ks ts d
    by (rule emits_mono [OF emits_terminateTenants]) simp
  show ?thesis
    unfolding cluster_reconcileDelete_def
    by (rule emits_rangeOver, intro ext.bind loop ext.case_prod ext.andThenWrap patch ext.ite ext.ok emits_delete_rest)
qed

text \<open>A deletion pass that writes the finalizer found every tenant terminated and every project gone.\<close>

lemma cluster_delete_finished:
  assumes "go_range R" and wf: "wf_map (clusterTenants c)"
    and run: "cluster_reconcileDelete L E R c w = (res, w')" and es: "hist w' = hist w @ es"
    and ev: "KubeEv (UpdateWaldurCluster n a) \<in> set es"
  shows "all_terminated (clusterTenants c) \<and>
    (\<forall>k t ps. (k, t) \<in> set (clusterTenants c) \<longrightarrow> t_ProjectSlug t = Some ps \<longrightarrow> project_gone ps es)"
proof -
  let ?ts = "clusterTenants c"
  obtain ts u v p x y where
    all: "terminateTenants L E (R (hist w) (map fst ?ts)) ?ts True w = (Ret (ts, True), u)"
    and patch: "k_PatchWaldurClusterStatus E (setTenants ts c) c u = (Ret (Inr p), v)"
    and projects: "deleteProjects E ts (R (hist v) (map fst ts)) v = (Ret (Inr x), y)"
    and last: "hist w' = hist y @ [KubeEv (UpdateWaldurCluster n a)]"
    by (rule cluster_reconcileDelete_update [OF run es ev])
  from terminateTenants_done [OF all] all_terminated_range [OF assms(1) wf] have [simp]: "ts = ?ts" "u = w"
    and fin: "all_terminated ?ts" by auto
  from deleteProjects_Inr [OF projects] obtain fs where fs: "hist y = hist v @ fs"
    "\<forall>k\<in>set (R (hist v) (map fst ?ts)). \<forall>t ps. map_of ?ts k = Some t \<longrightarrow> t_ProjectSlug t = Some ps \<longrightarrow> project_gone ps fs"
    by auto
  from patch obtain q where "hist v = hist w @ [q]" by (auto simp: k_PatchWaldurClusterStatus_def perform_eq)
  with fs(1) last es have sub: "set fs \<subseteq> set es" by auto
  have "project_gone ps es" if "(k, t) \<in> set ?ts" "t_ProjectSlug t = Some ps" for k t ps
  proof -
    from that(1) wf have "map_of ?ts k = Some t" "k \<in> set (R (hist v) (map fst ?ts))"
      by (auto simp: wf_map_def go_range_set [OF assms(1)] image_iff intro: bexI [of _ "(k, t)"])
    with fs(2) that(2) sub show ?thesis by (blast intro: project_gone_mono)
  qed
  with fin show ?thesis by blast
qed

text \<open>C3: a cluster is let go (its finalizer removed) only when its deletion was requested, every tenant it
  had recorded was never provisioned or has a termination order that is done, and each of their
  projects is gone: Waldur no longer lists it, or confirmed its deletion in the same pass. This
  holds for every order in which the maps are visited and for all answers of the services in which a
  patch of the status leaves the metadata alone, as the status subresource documents.\<close>

theorem cluster_released_only_when_terminated:
  assumes fin: "finalizer_ops L" and range: "go_range R" and server: "status_patch_keeps_meta E"
    and wf: "wf_clusters E"
    and run: "cluster_Reconcile L E R req w = (res, w')" and es: "hist w' = hist w @ es"
    and ev: "KubeEv (UpdateWaldurCluster n a) \<in> set es" "clusterFinalizer \<notin> set (om_Finalizers (wc_Meta n))"
  shows "\<exists>c. KubeEv (GetWaldurCluster req (Inr c)) \<in> set es \<and> \<not> timeIsZero (om_DeletionTimestamp (wc_Meta c)) \<and>
    (\<forall>k t. (k, t) \<in> set (clusterTenants c) \<longrightarrow>
       (t_MarketplaceResourceUuid t = [] \<or>
        (\<exists>ord. t_Order t = Some ord \<and> wo_Type ord = Terminate \<and> wo_State ord = OrderStateDone)) \<and>
       (\<forall>ps. t_ProjectSlug t = Some ps \<longrightarrow> project_gone ps es))"
  using run
proof (cases rule: cluster_Reconcile_cases)
  case (unread e)
  with es ev show ?thesis by auto
next
  case (loaded c)
  let ?w1 = "w\<lparr>hist := hist w @ [KubeEv (GetWaldurCluster req (Inr c))]\<rparr>"
  have deleting: "\<not> timeIsZero (om_DeletionTimestamp (wc_Meta c))"
  proof
    assume "timeIsZero (om_DeletionTimestamp (wc_Meta c))"
    from emitsD [OF emits_live_keeps [OF fin server this] loaded(2)] obtain fs where
      "hist w' = hist w @ KubeEv (GetWaldurCluster req (Inr c)) # fs" "list_all keeps_finalizer fs" by auto
    with es ev show False by (auto simp: list_all_iff keeps_finalizer_def)
  qed
  with loaded(2) have del: "cluster_reconcileDelete L E R c ?w1 = (res, w')"
    by (simp add: cluster_reconcileLoaded_def)
  from emitsD [OF emits_cluster_reconcileDelete del] obtain fs where fs: "hist w' = hist ?w1 @ fs" by blast
  with es have eq: "es = KubeEv (GetWaldurCluster req (Inr c)) # fs" by simp
  with ev(1) have "KubeEv (UpdateWaldurCluster n a) \<in> set fs" by simp
  from cluster_delete_finished [OF range wf_clustersD [OF wf loaded(1)] del fs this]
  have "\<And>k t. (k, t) \<in> set (clusterTenants c) \<Longrightarrow> tenantPhase t \<in> {NeverProvisioned, Terminated}"
    "\<And>k t ps. (k, t) \<in> set (clusterTenants c) \<Longrightarrow> t_ProjectSlug t = Some ps \<Longrightarrow> project_gone ps es"
    by (auto simp: eq all_terminated_def list_all_iff intro: project_gone_Cons)
  then show ?thesis using deleting eq unfolding deletePhase_finished
    by (intro exI [of _ c]) auto
qed

text \<open>Samples: a cluster \<open>cluster_of del dcs ts\<close> and a Waldur with one project.\<close>

definition cluster_of :: "int option \<Rightarrow> DatacenterSpec list \<Rightarrow> (string, OpenStackTenant) gomap \<Rightarrow> WaldurCluster" where
  "cluster_of del dcs ts = \<lparr>
     wc_Meta = \<lparr>om_Name = ''c'', om_Namespace = ''ns'', om_Labels = [], om_Finalizers = [clusterFinalizer],
       om_OwnerReferences = [\<lparr>or_Kind = ''Cluster'', or_Name = ''c''\<rparr>], om_DeletionTimestamp = del\<rparr>,
     wc_Spec = \<lparr>cs_KubernetesVersion = [], cs_Topology = SingleDatacenter, cs_Datacenters = dcs, cs_SecurityRules = [],
       cs_ControlPlaneEndpoint = \<lparr>ep_Host = [], ep_Port = 0\<rparr>\<rparr>,
     wc_Status = \<lparr>cst_Conditions = [], cst_Initialization = None, cst_Tenants = ts\<rparr>\<rparr>"

definition tenant_of :: "CoreStates \<Rightarrow> WaldurOrder option \<Rightarrow> OpenStackTenant" where
  "tenant_of st ord = \<lparr>t_State = st, t_Uuid = None, t_Name = ''t'', t_MarketplaceResourceUuid = ''000'',
     t_MarketplaceResourceState = ResourceStateOK, t_ProjectSlug = Some ''ps'', t_Order = ord\<rparr>"

definition tenant_order :: "RequestTypes \<Rightarrow> OrderState \<Rightarrow> WaldurOrder" where
  "tenant_order ty st = \<lparr>wo_Uuid = ''00'', wo_Type = ty, wo_State = st, wo_MarketplaceResourceUuid = ''000'', wo_ResourceUuid = None\<rparr>"

abbreviation reply :: "nat \<Rightarrow> 'a \<Rightarrow> error + 'a response" where
  "reply code x \<equiv> Inr \<lparr>StatusCode = code, Body = [], JSON = Some x\<rparr>"

definition project_sample :: Project where
  "project_sample = \<lparr>prj_Slug = Some ''ps'', prj_Uuid = Some 1, prj_Name = Some ''p'', prj_Url = Some ''P''\<rparr>"

definition dc_sample :: "string \<Rightarrow> DatacenterSpec" where
  "dc_sample slug = \<lparr>dc_OfferingSlug = slug, dc_Name = ''d'',
     dc_OpenstackInfrastructure = \<lparr>oi_Name = ''i'', oi_CustomerName = ''org'', oi_Uuid = None\<rparr>,
     dc_NodeGroups = [\<lparr>ng_Type = WorkerNode, ng_Flavor = ''f'', ng_Count = 2, ng_DataDiskSize = Some 10, ng_VsanDiskSize = None\<rparr>]\<rparr>"

definition offering_of :: "string option list \<Rightarrow> PublicOfferingDetails" where
  "offering_of plans = \<lparr>off_Uuid = Some 1, off_Slug = Some ''o'', off_Url = Some ''U'', off_PlanUrls = Some plans\<rparr>"

definition order_reply :: OrderDetails where
  "order_reply = \<lparr>od_Uuid = Some 7, od_Type = Some Create, od_State = Some OrderStatePendingProvider,
     od_MarketplaceResourceUuid = Some 2, od_ResourceUuid = None, od_ResourceName = Some ''n''\<rparr>"

definition waldur_cluster :: waldur_api where
  "waldur_cluster = waldur_down\<lparr>
     on_CustomersList := (\<lambda>_ _ _. reply 200 [\<lparr>cus_Slug = Some ''s'', cus_Uuid = Some 3, cus_Url = Some ''C''\<rparr>]),
     on_ProjectsList := (\<lambda>_ _. reply 200 [project_sample]),
     on_ProjectsDestroy := (\<lambda>_ _. reply 204 ()),
     on_MarketplacePublicOfferingsList := (\<lambda>_ _. reply 200 [offering_of [Some ''plan'']]),
     on_OpenstackFlavorsList := (\<lambda>_ _ _. reply 200 [\<lparr>fl_Url = Some ''F'', fl_Cores = Some 2, fl_Ram = Some 4096\<rparr>]),
     on_MarketplaceOrdersCreate := (\<lambda>_ _. reply 201 order_reply)\<rparr>"

definition env_cluster :: "WaldurCluster \<Rightarrow> env" where
  "env_cluster c = env_down\<lparr>
     env_kube := kube_down\<lparr>on_GetWaldurCluster := (\<lambda>_ _. Inr c), on_UpdateWaldurCluster := (\<lambda>_ n. Inr n),
       on_PatchWaldurClusterStatus := (\<lambda>_ n b. Inr n), on_ListWaldurMachines := (\<lambda>_ _ _. Inr [])\<rparr>,
     env_waldur := waldur_cluster\<rparr>"

definition in_order :: range_order where
  "in_order h ks = ks"

lemma in_order_range: "go_range in_order"
  by (simp add: go_range_def in_order_def)

lemma env_cluster_meta: "status_patch_keeps_meta (env_cluster c)"
  by (simp add: status_patch_keeps_meta_def env_cluster_def)

lemmas cluster_samples = cluster_of_def tenant_of_def tenant_order_def project_sample_def dc_sample_def offering_of_def
  order_reply_def waldur_cluster_def env_cluster_def in_order_def sample_defs

lemmas cluster_run_defs = andThen_def andThenWrap_def perform_def ok_def fail_def bind_def ret_def Let_def

definition cluster_done :: WaldurCluster where
  "cluster_done = cluster_of (Some 1) [] [(''o'', tenant_of CoreStatesOK (Some (tenant_order Terminate OrderStateDone)))]"

lemma cluster_done_run:
  "\<exists>n a. KubeEv (UpdateWaldurCluster n a) \<in>
       set (hist (snd (cluster_Reconcile lib_sample (env_cluster cluster_done) in_order (namespacedName ''ns'' ''c'') world_sample))) \<and>
     clusterFinalizer \<notin> set (om_Finalizers (wc_Meta n))"
proof -
  let ?n = "cluster_done\<lparr>wc_Meta := (wc_Meta cluster_done)\<lparr>om_Finalizers := []\<rparr>\<rparr>"
  have "KubeEv (UpdateWaldurCluster ?n (Inr ?n)) \<in>
       set (hist (snd (cluster_Reconcile lib_sample (env_cluster cluster_done) in_order (namespacedName ''ns'' ''c'') world_sample)))"
    by (simp add: cluster_Reconcile_def cluster_reconcileLoaded_def cluster_reconcileDelete_def rangeOver_def terminateTenant_def
        deleteProject_def setTenants_def cluster_done_def cluster_samples prim_defs cluster_run_defs timeIsZero_def isOrderTerminal_def)
  moreover have "clusterFinalizer \<notin> set (om_Finalizers (wc_Meta ?n))" by simp
  ultimately show ?thesis by blast
qed

lemma env_cluster_get: "on_GetWaldurCluster (env_kube (env_cluster c)) h x = Inr c"
  by (simp add: env_cluster_def)

lemma wf_done: "wf_clusters (env_cluster cluster_done)"
  by (auto simp: wf_clusters_def env_cluster_get cluster_done_def cluster_of_def wf_map_def)

theorem cluster_released_only_when_terminated_witness:
  "\<exists>c. KubeEv (GetWaldurCluster (namespacedName ''ns'' ''c'') (Inr c)) \<in>
       set (hist (snd (cluster_Reconcile lib_sample (env_cluster cluster_done) in_order (namespacedName ''ns'' ''c'') world_sample))) \<and>
     \<not> timeIsZero (om_DeletionTimestamp (wc_Meta c))"
proof -
  let ?run = "cluster_Reconcile lib_sample (env_cluster cluster_done) in_order (namespacedName ''ns'' ''c'') world_sample"
  obtain n a where ev: "KubeEv (UpdateWaldurCluster n a) \<in> set (hist (snd ?run))"
    "clusterFinalizer \<notin> set (om_Finalizers (wc_Meta n))" using cluster_done_run by blast
  have h: "hist (snd ?run) = hist world_sample @ hist (snd ?run)" by (simp add: world_sample_def)
  from cluster_released_only_when_terminated [OF lib_sample_ok(3) in_order_range env_cluster_meta wf_done prod.collapse [symmetric] h ev]
  show ?thesis by blast
qed

text \<open>C20: a project is deleted only after every tenant of the cluster is terminated: no pass asks Waldur to
  delete a project unless it read the cluster as being deleted, with every recorded tenant either
  never provisioned or with a termination order that is done.\<close>

theorem projects_deleted_after_tenants:
  assumes range: "go_range R"
    and wf: "wf_clusters E"
    and run: "cluster_Reconcile L E R req w = (res, w')" and es: "hist w' = hist w @ es"
    and ev: "WaldurEv (ProjectsDestroy u a) \<in> set es"
  shows "\<exists>c. KubeEv (GetWaldurCluster req (Inr c)) \<in> set es \<and> \<not> timeIsZero (om_DeletionTimestamp (wc_Meta c)) \<and>
    list_all (\<lambda>(_, t). tenantPhase t \<in> {NeverProvisioned, Terminated}) (clusterTenants c)"
  using run
proof (cases rule: cluster_Reconcile_cases)
  case (unread e)
  with es ev show ?thesis by auto
next
  case (loaded c)
  let ?P = "\<lambda>e. e \<noteq> WaldurEv (ProjectsDestroy u a)"
  let ?w1 = "w\<lparr>hist := hist w @ [KubeEv (GetWaldurCluster req (Inr c))]\<rparr>"
  have sent: "\<not> emits ?P (cluster_reconcileLoaded L E R c)"
  proof
    assume "emits ?P (cluster_reconcileLoaded L E R c)"
    from emitsD [OF this loaded(2)] obtain fs where
      "hist w' = hist w @ KubeEv (GetWaldurCluster req (Inr c)) # fs" "list_all ?P fs" by auto
    with es ev show False by (auto simp: list_all_iff)
  qed
  have deleting: "\<not> timeIsZero (om_DeletionTimestamp (wc_Meta c))"
  proof
    assume "timeIsZero (om_DeletionTimestamp (wc_Meta c))"
    have "emits ?P (cluster_reconcileLoaded L E R c)"
      by (rule emits_mono [OF emits_live [OF \<open>timeIsZero _\<close>]]) (auto simp: tenant_event_def event_class_defs)
    with sent show False by simp
  qed
  moreover have "all_terminated (clusterTenants c)"
  proof (rule ccontr)
    assume "\<not> all_terminated (clusterTenants c)"
    have "emits ?P (cluster_reconcileDelete L E R c)"
      by (rule emits_mono [OF emits_delete_waiting [OF range wf_clustersD [OF wf loaded(1)] \<open>\<not> all_terminated _\<close>]])
        (auto simp: event_class_defs)
    with sent deleting show False by (simp add: cluster_reconcileLoaded_def)
  qed
  moreover have "KubeEv (GetWaldurCluster req (Inr c)) \<in> set es"
  proof -
    from loaded(2) deleting have "cluster_reconcileDelete L E R c ?w1 = (res, w')" by (simp add: cluster_reconcileLoaded_def)
    from emitsD [OF emits_cluster_reconcileDelete this] obtain fs where "hist w' = hist ?w1 @ fs" by blast
    with es show ?thesis by auto
  qed
  ultimately show ?thesis unfolding all_terminated_def by blast
qed

theorem projects_deleted_after_tenants_witness:
  "\<exists>c. KubeEv (GetWaldurCluster (namespacedName ''ns'' ''c'') (Inr c)) \<in>
       set (hist (snd (cluster_Reconcile lib_sample (env_cluster cluster_done) in_order (namespacedName ''ns'' ''c'') world_sample))) \<and>
     list_all (\<lambda>(_, t). tenantPhase t \<in> {NeverProvisioned, Terminated}) (clusterTenants c)"
proof -
  let ?run = "cluster_Reconcile lib_sample (env_cluster cluster_done) in_order (namespacedName ''ns'' ''c'') world_sample"
  have ev: "WaldurEv (ProjectsDestroy 1 (reply 204 ())) \<in> set (hist (snd ?run))"
    by (simp add: cluster_Reconcile_def cluster_reconcileLoaded_def cluster_reconcileDelete_def rangeOver_def terminateTenant_def
        deleteProject_def setTenants_def cluster_done_def cluster_samples prim_defs cluster_run_defs timeIsZero_def isOrderTerminal_def)
  have h: "hist (snd ?run) = hist world_sample @ hist (snd ?run)" by (simp add: world_sample_def)
  from projects_deleted_after_tenants [OF in_order_range wf_done prod.collapse [symmetric] h ev] show ?thesis by blast
qed

section \<open>Tenants\<close>

lemma emits_deleteProjects_no_order: "emits (\<lambda>e. \<not> creates_order e) (deleteProjects E ts ks)"
proof (induction ks)
  case Nil
  then show ?case by (simp add: ext.ok)
next
  case (Cons k ks)
  have "emits (\<lambda>e. \<not> creates_order e) (deleteProject E ps)" for ps
    unfolding deleteProject_def prim_defs
    by (intro ext.frame_rules emits_perform) (simp_all add: creates_order_def)
  with Cons show ?case by (auto intro!: ext.frame_rules)
qed

lemma emits_delete_no_order: "emits (\<lambda>e. \<not> creates_order e) (cluster_reconcileDelete L E R c)"
proof -
  have kube: "emits (\<lambda>e. \<not> creates_order e) (k_PatchWaldurClusterStatus E n b)"
    "emits (\<lambda>e. \<not> creates_order e) (k_UpdateWaldurCluster E n)" for n b
    unfolding prim_defs by (rule emits_perform, simp add: creates_order_def)+
  have loop: "emits (\<lambda>e. \<not> creates_order e) (terminateTenants L E ks ts d)" for ks ts d
    by (rule emits_mono [OF emits_terminateTenants]) (auto simp: terminates_iff creates_order_iff dest: waldur_read_classes)
  have rest: "emits (\<lambda>e. \<not> creates_order e) (rangeOver R ts (\<lambda>ks. andThen (deleteProjects E ts ks) (\<lambda>_.
     andThenWrap msg (k_UpdateWaldurCluster E n) (\<lambda>_. ok x))))" for ts msg n and x :: Result
    by (rule emits_rangeOver) (intro ext.frame_rules kube emits_deleteProjects_no_order)
  show ?thesis
    unfolding cluster_reconcileDelete_def
    by (rule emits_rangeOver, intro ext.bind loop ext.case_prod ext.andThenWrap kube ext.ite ext.ok rest)
qed

text \<open>
  \<open>ordered_for es e dc\<close>: the order \<open>e\<close> is for the datacenter \<open>dc\<close>. It names the first offering that Waldur
  answered, among the events \<open>es\<close>, to the lookup of the slug of \<open>dc\<close>.
\<close>

definition ordered_for :: "event list \<Rightarrow> event \<Rightarrow> DatacenterSpec \<Rightarrow> bool" where
  "ordered_for es e dc \<longleftrightarrow> (\<exists>p a resp off offs. e = WaldurEv (MarketplaceOrdersCreate p a) \<and>
     WaldurEv (MarketplacePublicOfferingsList (dc_OfferingSlug dc) (Inr resp)) \<in> set es \<and>
     JSON resp = Some (off # offs) \<and> off_Url off = Some (oc_Offering p))"

text \<open>\<open>attributed ds m\<close>: the orders of a run of \<open>m\<close> are, in order, for different members of the list \<open>ds\<close>.\<close>

definition attributed_events :: "DatacenterSpec list \<Rightarrow> event list \<Rightarrow> bool" where
  "attributed_events ds es \<longleftrightarrow> (\<exists>xs. subseq xs ds \<and> list_all2 (ordered_for es) (filter creates_order es) xs)"

definition attributed :: "DatacenterSpec list \<Rightarrow> 'a io \<Rightarrow> bool" where
  "attributed ds m \<longleftrightarrow> (\<forall>w res w'. m w = (res, w') \<longrightarrow> (\<exists>es. hist w' = hist w @ es \<and> attributed_events ds es))"

lemma attributedD:
  assumes "attributed ds m" and "m w = (res, w')"
  obtains es where "hist w' = hist w @ es" and "attributed_events ds es"
  using assms unfolding attributed_def by blast

lemma attributed_events_mono: "attributed_events ds es \<Longrightarrow> subseq ds ds' \<Longrightarrow> attributed_events ds' es"
  unfolding attributed_events_def by (meson subseq_order.order_trans)

lemma attributed_mono: "attributed ds m \<Longrightarrow> subseq ds ds' \<Longrightarrow> attributed ds' m"
  unfolding attributed_def by (meson attributed_events_mono)

lemma ordered_for_append: "ordered_for es e dc \<Longrightarrow> ordered_for (es @ fs) e dc" "ordered_for fs e dc \<Longrightarrow> ordered_for (es @ fs) e dc"
  unfolding ordered_for_def by fastforce+

lemma attributed_events_append:
  assumes "attributed_events ds es" and "attributed_events ds' fs"
  shows "attributed_events (ds @ ds') (es @ fs)"
proof -
  from assms obtain xs ys where "subseq xs ds" "list_all2 (ordered_for es) (filter creates_order es) xs"
    "subseq ys ds'" "list_all2 (ordered_for fs) (filter creates_order fs) ys" unfolding attributed_events_def by blast
  then have "subseq (xs @ ys) (ds @ ds')" "list_all2 (ordered_for (es @ fs)) (filter creates_order (es @ fs)) (xs @ ys)"
    by (auto intro: list_emb_append_mono list_all2_appendI elim!: list_all2_mono dest: ordered_for_append)
  then show ?thesis unfolding attributed_events_def by blast
qed

lemma attributed_none: "filter creates_order es = [] \<Longrightarrow> attributed_events ds es"
  by (auto simp: attributed_events_def)

lemma attributed_emits:
  assumes "emits P m" and "\<And>e. P e \<Longrightarrow> \<not> creates_order e"
  shows "attributed ds m"
  unfolding attributed_def
proof (intro allI impI)
  fix w res w'
  assume "m w = (res, w')"
  with emitsD [OF assms(1)] obtain es where "hist w' = hist w @ es" "list_all P es" by blast
  with assms(2) show "\<exists>es. hist w' = hist w @ es \<and> attributed_events ds es"
    by (auto simp: list_all_iff filter_empty_conv intro!: attributed_none)
qed

lemma attributed_bind:
  assumes "attributed ds m" and "\<And>a. attributed ds' (f a)"
  shows "attributed (ds @ ds') (bind m f)"
  unfolding attributed_def
proof (intro allI impI)
  fix w res w'
  assume run: "bind m f w = (res, w')"
  obtain x u where m: "m w = (x, u)" by fastforce
  from attributedD [OF assms(1) m] obtain es where es: "hist u = hist w @ es" "attributed_events ds es" .
  show "\<exists>es. hist w' = hist w @ es \<and> attributed_events (ds @ ds') es"
  proof (cases x)
    case Panic
    have "subseq ds (ds @ ds')" by (rule list_emb_prefix) simp
    with Panic run m es attributed_events_mono show ?thesis by (auto simp: bind_def)
  next
    case (Ret a)
    with run m have "f a u = (res, w')" by (simp add: bind_def)
    from attributedD [OF assms(2) this] obtain fs where "hist w' = hist u @ fs" "attributed_events ds' fs" .
    with es attributed_events_append show ?thesis by fastforce
  qed
qed

lemma attributed_quiet:
  assumes "emits P m" and "\<And>e. P e \<Longrightarrow> \<not> creates_order e" and "\<And>a. attributed ds (f a)"
  shows "attributed ds (bind m f)"
  using attributed_bind [OF attributed_emits [OF assms(1,2), where ds = "[]"] assms(3)] by simp

lemma attributed_steps:
  "attributed ds (ret x)" "attributed ds (fail e)" "attributed ds (ok y)" "attributed ds panic"
  by (auto simp: attributed_def go_inv attributed_none)

text \<open>Creating a tenant orders it for the datacenter it was called with.\<close>

lemma attributed_createTenant: "attributed [dc] (createTenant L E dc)"
  unfolding attributed_def
proof (intro allI impI)
  fix w res w'
  assume run: "createTenant L E dc w = (res, w')"
  from at_mostD [OF at_most_createTenant run] obtain es where es: "hist w' = hist w @ es" "length (filter creates_order es) \<le> 1" by blast
  show "\<exists>es. hist w' = hist w @ es \<and> attributed_events [dc] es"
  proof (cases "filter creates_order es")
    case Nil
    with es show ?thesis by (blast intro: attributed_none)
  next
    case (Cons e xs)
    with es(2) have one: "filter creates_order es = [e]" by simp
    then have "e \<in> set (filter creates_order es)" by simp
    then have e: "e \<in> set es" "creates_order e" by simp_all
    let ?K = "\<lambda>prj off. andThenWrap ''unable to submit order'' (submitTenantCreationOrder L E off prj dc)
      (\<lambda>order. case order of None \<Rightarrow> ok None | Some od \<Rightarrow> recordTenantOrder L E prj od)"
    have K: "emits (\<lambda>e. creates_order e \<longrightarrow> (\<exists>p a. e = WaldurEv (MarketplaceOrdersCreate p a) \<and> off_Url off = Some (oc_Offering p))) (?K prj off)"
      for prj off
      unfolding submitTenantCreationOrder_def prim_defs
      by (intro ext.frame_rules emits_prims emits_mono [OF emits_calculateLimits] emits_mono [OF emits_recordTenantOrder])
        (auto dest: waldur_read_classes)
    have any: "emits (\<lambda>_. True) (?K prj off)" for prj off by (rule emits_mono [OF K]) simp
    have any': "emits (\<lambda>_. True) (andThenWrap ''unable to get offering details'' (getOffering E (dc_OfferingSlug dc)) (?K prj))" for prj
      by (intro ext.andThenWrap any emits_mono [OF emits_helpers(6)]) simp
    have any'': "emits (\<lambda>_. True) (andThenWrap ''unable to get or create project'' (getOrCreateProject E org (dc_Name dc))
      (\<lambda>prj. andThenWrap ''unable to get offering details'' (getOffering E (dc_OfferingSlug dc)) (?K prj)))" for org
      by (intro ext.andThenWrap any' emits_mono [OF emits_getOrCreateProject]) simp
    obtain org u1 f1 where customer: "getCustomer E (oi_CustomerName (dc_OpenstackInfrastructure dc)) w = (Ret (Inr org), u1)"
      and 1: "andThenWrap ''unable to get or create project'' (getOrCreateProject E org (dc_Name dc))
      (\<lambda>prj. andThenWrap ''unable to get offering details'' (getOffering E (dc_OfferingSlug dc)) (?K prj)) u1 = (res, w')"
      "hist w' = hist u1 @ f1" "e \<in> set f1"
      by (rule later_event_wrap [OF emits_getCustomer _ any'' run [unfolded createTenant_def] es(1) e(1)])
        (use e(2) in \<open>auto dest: waldur_read_classes\<close>)
    obtain prj u2 f2 where project: "getOrCreateProject E org (dc_Name dc) u1 = (Ret (Inr prj), u2)"
      and 2: "andThenWrap ''unable to get offering details'' (getOffering E (dc_OfferingSlug dc)) (?K prj) u2 = (res, w')"
      "hist w' = hist u2 @ f2" "e \<in> set f2"
      by (rule later_event_wrap [OF emits_getOrCreateProject _ any' 1]) (use e(2) in auto)
    obtain off u3 f3 where 3: "getOffering E (dc_OfferingSlug dc) u2 = (Ret (Inr off), u3)" "?K prj off u3 = (res, w')"
      "hist w' = hist u3 @ f3" "e \<in> set f3"
      by (rule later_event_wrap [OF emits_helpers(6) _ any 2]) (use e(2) in \<open>auto dest: waldur_read_classes\<close>)
    from lookup_Inr(1) [OF 3(1)] obtain resp offs where "JSON resp = Some (off # offs)"
      "hist u3 = hist u2 @ [WaldurEv (MarketplacePublicOfferingsList (dc_OfferingSlug dc) (Inr resp))]" by blast
    moreover from emits_event [OF K 3(2-4)] e(2) obtain p a where "e = WaldurEv (MarketplaceOrdersCreate p a)"
      "off_Url off = Some (oc_Offering p)" by blast
    moreover from emitsD [OF emits_getCustomer customer] emitsD [OF emits_getOrCreateProject project] obtain g1 g2 where
      "hist u1 = hist w @ g1" "hist u2 = hist u1 @ g2" by metis
    ultimately have "ordered_for es e dc" using 3(3) es(1) unfolding ordered_for_def by auto
    with one es(1) show ?thesis by (auto simp: attributed_events_def intro!: exI [of _ "[dc]"])
  qed
qed

lemma subseq_filter_mono: "(\<And>x. P x \<Longrightarrow> Q x) \<Longrightarrow> subseq (filter P xs) (filter Q xs)"
  by (induction xs) auto

lemma attributed_reconcileDatacenters:
  "attributed (filter (\<lambda>dc. map_of ts (dc_OfferingSlug dc) = None) dcs) (reconcileDatacenters L E dcs ts)"
proof (induction dcs arbitrary: ts)
  case Nil
  then show ?case by (simp add: attributed_steps)
next
  case (Cons dc dcs)
  have fewer: "subseq (filter (\<lambda>dc. map_of (AList.update k t ts) (dc_OfferingSlug dc) = None) xs)
      (filter (\<lambda>dc. map_of ts (dc_OfferingSlug dc) = None) xs)" for k t and xs :: "DatacenterSpec list"
    by (rule subseq_filter_mono) (auto simp: update_conv' split: if_splits)
  note mono = attributed_mono [OF Cons.IH fewer]
  show ?case
  proof (cases "map_of ts (dc_OfferingSlug dc)")
    case (Some t)
    then show ?thesis
      by (auto intro!: attributed_quiet [OF emits_refreshTenant waldur_read_classes(1)] mono split: prod.split)
  next
    case None
    have "attributed ([dc] @ filter (\<lambda>dc. map_of ts (dc_OfferingSlug dc) = None) dcs)
      (bind (createTenant L E dc) (\<lambda>r. case r of Inl e \<Rightarrow> reconcileDatacenters L E dcs ts
        | Inr tenantPtr \<Rightarrow> deref tenantPtr (\<lambda>tenant.
            reconcileDatacenters L E dcs (AList.update (dc_OfferingSlug dc) tenant ts))))"
      by (rule attributed_bind [OF attributed_createTenant])
        (auto simp: deref_def split: sum.split option.split intro!: Cons.IH mono attributed_steps)
    with None show ?thesis by simp
  qed
qed

lemma attributed_cluster_loaded:
  "attributed (filter (\<lambda>dc. map_of (clusterTenants c) (dc_OfferingSlug dc) = None) (cs_Datacenters (wc_Spec c)))
     (cluster_reconcileLoaded L E R c)"
proof -
  let ?ds = "filter (\<lambda>dc. map_of (clusterTenants c) (dc_OfferingSlug dc) = None) (cs_Datacenters (wc_Spec c))"
  let ?no = "\<lambda>e. \<not> creates_order e"
  have kube: "emits ?no (k_UpdateWaldurCluster E n)" "emits ?no (k_PatchWaldurClusterStatus E n b)" for n b
    unfolding prim_defs by (rule emits_perform, simp add: creates_order_def)+
  have endpoint: "emits ?no (reconcileControlPlaneEndpoint L E d)" for d
    by (rule emits_mono [OF emits_endpoint]) (auto simp: endpoint_event_def creates_order_iff dest: waldur_read_classes)
  have publish: "emits ?no (andThenWrap msg (k_PatchWaldurClusterStatus E n b) (\<lambda>patched.
      bind (reconcileControlPlaneEndpoint L E patched) (\<lambda>_. ok x)))" for msg n b and x :: Result
    by (intro ext.frame_rules kube endpoint)
  have "attributed (?ds @ []) (reconcileTenants L E c)"
    unfolding reconcileTenants_def by (rule attributed_bind [OF attributed_reconcileDatacenters attributed_emits [OF publish]])
  then have tenants: "attributed ?ds (reconcileTenants L E c)" by simp
  have "emits ?no (andThenWrap msg (k_UpdateWaldurCluster E n) (\<lambda>_. ok x))" for msg n and x :: Result
    by (intro ext.frame_rules kube)
  then show ?thesis
    unfolding cluster_reconcileLoaded_def Let_def
    by (auto intro!: attributed_emits [OF emits_delete_no_order] attributed_emits [where P = ?no] attributed_steps tenants)
qed

text \<open>C17: a pass orders tenants only for datacenters that have none recorded, and at most one for each: its create
  orders, in the order they were sent, belong to different datacenters among those of the cluster it
  read that have no tenant recorded, in the order of the specification. An order belongs to a datacenter
  when it names the offering that Waldur answered in this pass to the lookup of that datacenter's slug.\<close>

theorem tenant_orders_bounded:
  assumes "on_GetWaldurCluster (env_kube E) (hist w) req = Inr c"
    and "cluster_Reconcile L E R req w = (res, w')" and "hist w' = hist w @ es"
  shows "\<exists>ds. subseq ds (filter (\<lambda>dc. map_of (clusterTenants c) (dc_OfferingSlug dc) = None) (cs_Datacenters (wc_Spec c))) \<and>
      list_all2 (ordered_for es) (filter creates_order es) ds \<and>
      length (filter creates_order es) \<le>
        length (filter (\<lambda>dc. map_of (clusterTenants c) (dc_OfferingSlug dc) = None) (cs_Datacenters (wc_Spec c)))"
  using assms(2)
proof (cases rule: cluster_Reconcile_cases)
  case (loaded d)
  let ?g = "KubeEv (GetWaldurCluster req (Inr c))"
  let ?ds = "filter (\<lambda>dc. map_of (clusterTenants c) (dc_OfferingSlug dc) = None) (cs_Datacenters (wc_Spec c))"
  from loaded assms(1) have "cluster_reconcileLoaded L E R c (w\<lparr>hist := hist w @ [?g]\<rparr>) = (res, w')" by simp
  from attributedD [OF attributed_cluster_loaded this] obtain fs where
    fs: "hist w' = hist w @ ?g # fs" "attributed_events ?ds fs" by auto
  then have "es = [?g] @ fs" using assms(3) by simp
  with fs(2) attributed_events_append [OF attributed_none fs(2), of "[?g]" "[]"] have "attributed_events ?ds es"
    by (simp add: creates_order_def)
  then show ?thesis unfolding attributed_events_def by (metis list_all2_lengthD list_emb_length)
qed (use assms(1) in simp)

definition cluster_one :: WaldurCluster where
  "cluster_one = cluster_of None [dc_sample ''o'', dc_sample ''b''] [(''o'', tenant_of CoreStatesOK None)]"

theorem tenant_orders_bounded_witness:
  "\<exists>es ds. es = hist (snd (cluster_Reconcile lib_sample (env_cluster cluster_one) in_order (namespacedName ''ns'' ''c'') world_sample)) \<and>
     subseq ds [dc_sample ''b''] \<and> list_all2 (ordered_for es) (filter creates_order es) ds"
proof -
  let ?run = "cluster_Reconcile lib_sample (env_cluster cluster_one) in_order (namespacedName ''ns'' ''c'') world_sample"
  have "hist (snd ?run) = hist world_sample @ hist (snd ?run)" by (simp add: world_sample_def)
  from tenant_orders_bounded [OF env_cluster_get prod.collapse [symmetric] this] obtain ds where
    "subseq ds (filter (\<lambda>dc. map_of (clusterTenants cluster_one) (dc_OfferingSlug dc) = None) (cs_Datacenters (wc_Spec cluster_one)))"
    "list_all2 (ordered_for (hist (snd ?run))) (filter creates_order (hist (snd ?run))) ds" by blast
  moreover have "filter (\<lambda>dc. map_of (clusterTenants cluster_one) (dc_OfferingSlug dc) = None) (cs_Datacenters (wc_Spec cluster_one))
    = [dc_sample ''b'']" by (simp add: cluster_one_def cluster_of_def dc_sample_def)
  ultimately show ?thesis by auto
qed

definition tenant_kept :: "OpenStackTenant \<Rightarrow> OpenStackTenant \<Rightarrow> bool" where
  "tenant_kept t t' \<longleftrightarrow> t_ProjectSlug t' = t_ProjectSlug t \<and>
     (t_MarketplaceResourceUuid t \<noteq> [] \<longrightarrow> t_MarketplaceResourceUuid t' = t_MarketplaceResourceUuid t)"

definition tenants_kept :: "(string, OpenStackTenant) gomap \<Rightarrow> (string, OpenStackTenant) gomap \<Rightarrow> bool" where
  "tenants_kept ts ts' \<longleftrightarrow> (\<forall>k t. map_of ts k = Some t \<longrightarrow> (\<exists>t'. map_of ts' k = Some t' \<and> tenant_kept t t'))"

lemma tenants_kept_refl: "tenants_kept ts ts"
  by (auto simp: tenants_kept_def tenant_kept_def)

lemma tenants_kept_trans: "tenants_kept a b \<Longrightarrow> tenants_kept b c \<Longrightarrow> tenants_kept a c"
  unfolding tenants_kept_def tenant_kept_def by metis

lemma tenants_kept_update:
  "(\<And>t. map_of ts k = Some t \<Longrightarrow> tenant_kept t t') \<Longrightarrow> tenants_kept ts (AList.update k t' ts)"
  by (auto simp: tenants_kept_def update_conv' tenant_kept_def)

lemma wf_map_update: "wf_map ts \<Longrightarrow> wf_map (AList.update k v ts)"
  by (simp add: wf_map_def distinct_update)

lemma reconcileDatacenters_cases:
  assumes "reconcileDatacenters L E (dc # dcs) ts w = (Ret ts', w')"
  obtains (skipped) u where "reconcileDatacenters L E dcs ts u = (Ret ts', w')"
  | (stored) t u where "reconcileDatacenters L E dcs (AList.update (dc_OfferingSlug dc) t ts) u = (Ret ts', w')"
      and "\<And>t0. map_of ts (dc_OfferingSlug dc) = Some t0 \<Longrightarrow> tenant_kept t0 t"
proof (cases "map_of ts (dc_OfferingSlug dc)")
  case None
  with assms consider u where "reconcileDatacenters L E dcs ts u = (Ret ts', w')"
    | t u where "reconcileDatacenters L E dcs (AList.update (dc_OfferingSlug dc) t ts) u = (Ret ts', w')"
    by (auto simp: go_inv)
  with None that show ?thesis by cases auto
next
  case (Some t0)
  with assms obtain t err u where "refreshTenant L E t0 w = (Ret (t, err), u)"
    "reconcileDatacenters L E dcs (AList.update (dc_OfferingSlug dc) t ts) u = (Ret ts', w')"
    by (auto simp: go_inv)
  with refreshTenant_keeps Some stored show ?thesis by (fastforce simp: tenant_kept_def)
qed

lemma reconcileDatacenters_kept:
  assumes "reconcileDatacenters L E dcs ts w = (Ret ts', w')"
  shows "tenants_kept ts ts' \<and> (wf_map ts \<longrightarrow> wf_map ts') \<and> fst ` set ts' \<subseteq> fst ` set ts \<union> dc_OfferingSlug ` set dcs"
  using assms
proof (induction dcs arbitrary: ts w)
  case Nil
  then show ?case by (auto simp: go_inv tenants_kept_refl)
next
  case (Cons dc dcs)
  from Cons.prems show ?case
  proof (cases rule: reconcileDatacenters_cases)
    case (skipped u)
    from Cons.IH [OF skipped] show ?thesis by auto
  next
    case (stored t u)
    have "tenants_kept ts (AList.update (dc_OfferingSlug dc) t ts)" by (rule tenants_kept_update) (rule stored(2))
    with Cons.IH [OF stored(1)] show ?thesis
      by (auto simp: dom_update intro: tenants_kept_trans wf_map_update)
  qed
qed

text \<open>C13: no recorded tenant is lost or redirected: after a round over the datacenters the tenants are still
  a map, every tenant that was recorded is still recorded, with its project and (once it has one)
  the same marketplace resource, and a new entry belongs to a datacenter of the specification.\<close>

theorem tenants_never_lost:
  assumes "reconcileDatacenters L E dcs ts w = (Ret ts', w')" and "wf_map ts"
  shows "wf_map ts' \<and>
    (\<forall>k t. map_of ts k = Some t \<longrightarrow> (\<exists>t'. map_of ts' k = Some t' \<and> t_ProjectSlug t' = t_ProjectSlug t \<and>
       (t_MarketplaceResourceUuid t \<noteq> [] \<longrightarrow> t_MarketplaceResourceUuid t' = t_MarketplaceResourceUuid t))) \<and>
    fst ` set ts' \<subseteq> fst ` set ts \<union> dc_OfferingSlug ` set dcs"
  using reconcileDatacenters_kept [OF assms(1)] assms(2)
  unfolding tenants_kept_def tenant_kept_def by blast

lemma datacenters_run:
  "\<exists>ts' w'. reconcileDatacenters lib_sample (env_cluster cluster_one) [dc_sample ''o'', dc_sample ''b'']
     [(''o'', tenant_of CoreStatesOK None)] world_sample = (Ret ts', w')"
  by (simp add: refreshTenant_def refreshTenantRest_def refreshTenantResource_def adoptResource_def createTenant_def getCustomer_def
      getOrCreateProject_def submitTenantCreationOrder_def calculateLimits_def recordTenantOrder_def helper_defs
      cluster_samples prim_defs cluster_run_defs)

theorem tenants_never_lost_witness:
  "\<exists>ts' w' t'. reconcileDatacenters lib_sample (env_cluster cluster_one) [dc_sample ''o'', dc_sample ''b'']
     [(''o'', tenant_of CoreStatesOK None)] world_sample = (Ret ts', w') \<and> wf_map ts' \<and>
     map_of ts' ''o'' = Some t' \<and> t_MarketplaceResourceUuid t' = ''000''"
proof -
  obtain ts' w' where run: "reconcileDatacenters lib_sample (env_cluster cluster_one) [dc_sample ''o'', dc_sample ''b'']
     [(''o'', tenant_of CoreStatesOK None)] world_sample = (Ret ts', w')" using datacenters_run by blast
  have "wf_map [(''o'', tenant_of CoreStatesOK None)]" by (simp add: wf_map_def)
  note kept = tenants_never_lost [OF run this]
  from kept [THEN conjunct2, THEN conjunct1, rule_format, of "''o''" "tenant_of CoreStatesOK None"]
  obtain t' where "map_of ts' ''o'' = Some t'" "t_MarketplaceResourceUuid t' = ''000''" by (auto simp: tenant_of_def)
  with run kept [THEN conjunct1] show ?thesis by blast
qed

section \<open>Limits\<close>

text \<open>
  The demand of a datacenter as mathematical integers, from the flavors of its node groups: what
  the limits are meant to be. \<open>platform\<close> is the share of the three controllers and the load balancer.
\<close>

definition diskDemand :: "goint option \<Rightarrow> int" where
  "diskDemand d = (case d of None \<Rightarrow> 0 | Some gb \<Rightarrow> sint gb * 1024)"

definition groupDemand :: "NodeGroupSpec \<Rightarrow> OpenStackFlavor \<Rightarrow> int \<times> int \<times> int" where
  "groupDemand ng fl =
     (sint (ng_Count ng) * sint (the (fl_Cores fl)),
      sint (ng_Count ng) * sint (the (fl_Ram fl)),
      sint (ng_Count ng) * (20480 + diskDemand (ng_DataDiskSize ng) + diskDemand (ng_VsanDiskSize ng)))"

fun totalDemand :: "NodeGroupSpec list \<Rightarrow> OpenStackFlavor list \<Rightarrow> int \<times> int \<times> int \<Rightarrow> int \<times> int \<times> int" where
  "totalDemand (ng # ngs) (fl # fls) (c, r, s) =
     (case groupDemand ng fl of (c', r', s') \<Rightarrow> totalDemand ngs fls (c + c', r + r', s + s'))"
| "totalDemand _ _ acc = acc"

text \<open>Which flavors Waldur answered for the node groups, in order.\<close>

fun flavorsAnswered :: "PublicOfferingDetails \<Rightarrow> NodeGroupSpec list \<Rightarrow> OpenStackFlavor list \<Rightarrow> event list \<Rightarrow> bool" where
  "flavorsAnswered off [] [] es \<longleftrightarrow> es = []"
| "flavorsAnswered off (ng # ngs) (fl # fls) (e # es) \<longleftrightarrow>
     (\<exists>resp rest. e = WaldurEv (OpenstackFlavorsList (off_Uuid off) (ng_Flavor ng) (Inr resp)) \<and> JSON resp = Some (fl # rest)) \<and>
     flavorsAnswered off ngs fls es"
| "flavorsAnswered off _ _ _ \<longleftrightarrow> False"

abbreviation as_word :: "int \<times> int \<times> int \<Rightarrow> goint \<times> goint \<times> goint" where
  "as_word x \<equiv> (case x of (c, r, s) \<Rightarrow> (word_of_int c, word_of_int r, word_of_int s))"

lemma word_of_sint: "word_of_int (sint x) = x"
  by simp

text \<open>The arithmetic of the loop is the demand modulo the word size.\<close>

lemma sumNodeGroups_Inr:
  assumes "sumNodeGroups E off ngs (word_of_int c) (word_of_int r) (word_of_int s) w = (Ret (Inr x), w')"
  shows "\<exists>fls es. hist w' = hist w @ es \<and> flavorsAnswered off ngs fls es \<and> x = as_word (totalDemand ngs fls (c, r, s))"
  using assms
proof (induction ngs arbitrary: c r s w)
  case Nil
  then show ?case by (intro exI [of _ "[]"]) (simp add: go_inv)
next
  case (Cons ng ngs)
  from Cons.prems obtain fl u fc fr where flavor: "getFlavor E off (ng_Flavor ng) w = (Ret (Inr fl), u)"
    "fl_Cores fl = Some fc" "fl_Ram fl = Some fr"
    and rest: "sumNodeGroups E off ngs (word_of_int c + ng_Count ng * fc) (word_of_int r + ng_Count ng * fr)
       (let st = word_of_int s + ng_Count ng * systemDiskMB;
            st = (case ng_DataDiskSize ng of Some gb \<Rightarrow> st + ng_Count ng * gb * 1024 | None \<Rightarrow> st)
        in case ng_VsanDiskSize ng of Some gb \<Rightarrow> st + ng_Count ng * gb * 1024 | None \<Rightarrow> st) u = (Ret (Inr x), w')"
    by (auto simp: go_inv Let_def)
  obtain c' r' s' where demand: "groupDemand ng fl = (c', r', s')" by (cases "groupDemand ng fl")
  have "word_of_int c + ng_Count ng * fc = word_of_int (c + c')" "word_of_int r + ng_Count ng * fr = word_of_int (r + r')"
    using demand flavor(2,3) by (auto simp: groupDemand_def)
  moreover have "(let st = word_of_int s + ng_Count ng * systemDiskMB;
            st = (case ng_DataDiskSize ng of Some gb \<Rightarrow> st + ng_Count ng * gb * 1024 | None \<Rightarrow> st)
        in case ng_VsanDiskSize ng of Some gb \<Rightarrow> st + ng_Count ng * gb * 1024 | None \<Rightarrow> st) = word_of_int (s + s')"
    using demand by (auto simp: groupDemand_def diskDemand_def systemDiskMB_def Let_def algebra_simps split: option.splits)
  ultimately have "sumNodeGroups E off ngs (word_of_int (c + c')) (word_of_int (r + r')) (word_of_int (s + s')) u = (Ret (Inr x), w')"
    using rest by simp
  from Cons.IH [OF this] obtain fls es where *: "hist w' = hist u @ es" "flavorsAnswered off ngs fls es"
    "x = as_word (totalDemand ngs fls (c + c', r + r', s + s'))" by blast
  from lookup_Inr(3) [OF flavor(1)] obtain resp rest where
    "JSON resp = Some (fl # rest)" "hist u = hist w @ [WaldurEv (OpenstackFlavorsList (off_Uuid off) (ng_Flavor ng) (Inr resp))]"
    by blast
  with * demand show ?case
    by (intro exI [of _ "fl # fls"]
        exI [of _ "WaldurEv (OpenstackFlavorsList (off_Uuid off) (ng_Flavor ng) (Inr resp)) # es"]) auto
qed

lemma calculateLimits_Inr:
  assumes "calculateLimits E off dc w = (Ret (Inr lim), w')"
  shows "\<exists>fls es c r s. hist w' = hist w @ es \<and> flavorsAnswered off (dc_NodeGroups dc) fls es \<and>
    totalDemand (dc_NodeGroups dc) fls (3 * 4 + 2, 3 * 8192 + 4096, 4 * 20480) = (c, r, s) \<and>
    lim = [(''cores'', word_of_int c), (''ram'', word_of_int r), (''storage'', word_of_int s)]"
proof -
  have start: "3 * controllerNodeCores + lbNodeCores = word_of_int (3 * 4 + 2)"
    "3 * controllerNodeRamMB + lbNodeRamMB = word_of_int (3 * 8192 + 4096)" "(3 + 1) * systemDiskMB = word_of_int (4 * 20480)"
    by (simp_all add: controllerNodeCores_def lbNodeCores_def controllerNodeRamMB_def lbNodeRamMB_def systemDiskMB_def)
  from assms obtain x where sum: "sumNodeGroups E off (dc_NodeGroups dc) (word_of_int (3 * 4 + 2)) (word_of_int (3 * 8192 + 4096))
      (word_of_int (4 * 20480)) w = (Ret (Inr x), w')"
    and lim: "lim = (case x of (c, r, s) \<Rightarrow> [(''cores'', c), (''ram'', r), (''storage'', s)])"
    unfolding calculateLimits_def start by (auto simp: go_inv)
  from sumNodeGroups_Inr [OF sum] obtain fls es where *: "hist w' = hist w @ es" "flavorsAnswered off (dc_NodeGroups dc) fls es"
    "x = as_word (totalDemand (dc_NodeGroups dc) fls (3 * 4 + 2, 3 * 8192 + 4096, 4 * 20480))" by blast
  obtain c r s where "totalDemand (dc_NodeGroups dc) fls (3 * 4 + 2, 3 * 8192 + 4096, 4 * 20480) = (c, r, s)"
    by (metis prod_cases3)
  with * lim show ?thesis by auto
qed

text \<open>C5: the limits of a tenant order are the demand of the datacenter: cores, memory and storage of the
  three controllers and the load balancer plus, for each node group, its count times the flavor
  Waldur answered for it, its system disk and its data and VSAN disks. The sums are computed in 64
  bits; each limit is the mathematical total modulo the word size, and exactly that total whenever
  the total is a 64-bit integer.\<close>

theorem limits_cover_node_groups:
  assumes "calculateLimits E off dc w = (Ret (Inr lim), w')"
  shows "\<exists>fls es c r s. hist w' = hist w @ es \<and> flavorsAnswered off (dc_NodeGroups dc) fls es \<and>
    totalDemand (dc_NodeGroups dc) fls (3 * 4 + 2, 3 * 8192 + 4096, 4 * 20480) = (c, r, s) \<and>
    lim = [(''cores'', word_of_int c), (''ram'', word_of_int r), (''storage'', word_of_int s)] \<and>
    (\<forall>t\<in>{c, r, s}. t \<in> {- (2 ^ 63)..<2 ^ 63} \<longrightarrow> sint (word_of_int t :: goint) = t)"
proof -
  from calculateLimits_Inr [OF assms] obtain fls es c r s where *: "hist w' = hist w @ es" "flavorsAnswered off (dc_NodeGroups dc) fls es"
    "totalDemand (dc_NodeGroups dc) fls (3 * 4 + 2, 3 * 8192 + 4096, 4 * 20480) = (c, r, s)"
    "lim = [(''cores'', word_of_int c), (''ram'', word_of_int r), (''storage'', word_of_int s)]" by blast
  moreover have "sint (word_of_int t :: goint) = t" if "t \<in> {- (2 ^ 63)..<2 ^ 63}" for t :: int
    using that by (simp add: signed_take_bit_int_eq_self sint_sbintrunc')
  ultimately show ?thesis by auto
qed

lemma limits_run:
  "\<exists>w'. calculateLimits (env_cluster cluster_one) (offering_of []) (dc_sample ''o'') world_sample
     = (Ret (Inr [(''cores'', 18), (''ram'', 36864), (''storage'', 143360)]), w')"
  by (simp add: calculateLimits_def helper_defs cluster_samples prim_defs cluster_run_defs controllerNodeCores_def lbNodeCores_def
      controllerNodeRamMB_def lbNodeRamMB_def systemDiskMB_def)

theorem limits_cover_node_groups_witness:
  "\<exists>w' fls es c r s. calculateLimits (env_cluster cluster_one) (offering_of []) (dc_sample ''o'') world_sample
       = (Ret (Inr [(''cores'', 18), (''ram'', 36864), (''storage'', 143360)]), w') \<and>
     hist w' = hist world_sample @ es \<and> flavorsAnswered (offering_of []) (dc_NodeGroups (dc_sample ''o'')) fls es \<and>
     totalDemand (dc_NodeGroups (dc_sample ''o'')) fls (3 * 4 + 2, 3 * 8192 + 4096, 4 * 20480) = (c, r, s) \<and> (18 :: goint) = word_of_int c"
proof -
  obtain w' where run: "calculateLimits (env_cluster cluster_one) (offering_of []) (dc_sample ''o'') world_sample
     = (Ret (Inr [(''cores'', 18), (''ram'', 36864), (''storage'', 143360)]), w')" using limits_run by blast
  from limits_cover_node_groups [OF run] obtain fls es c r s where "hist w' = hist world_sample @ es"
    "flavorsAnswered (offering_of []) (dc_NodeGroups (dc_sample ''o'')) fls es"
    "totalDemand (dc_NodeGroups (dc_sample ''o'')) fls (3 * 4 + 2, 3 * 8192 + 4096, 4 * 20480) = (c, r, s)"
    and lim: "[(''cores'', 18), (''ram'', 36864), (''storage'', 143360)] =
      [(''cores'', word_of_int c :: goint), (''ram'', word_of_int r), (''storage'', word_of_int s)]" by blast
  moreover from lim have "(18 :: goint) = word_of_int c" by simp
  ultimately show ?thesis using run by blast
qed

section \<open>Creating a tenant\<close>

lemma recordTenantOrder_Inr:
  assumes "recordTenantOrder L E prj od w = (Ret (Inr tp), w')"
  obtains t o1 ou ty st mp es where "tp = Some t" and "hist w' = hist w @ es" and "list_all waldur_read es"
    and "od_Uuid od = Some ou" and "od_Type od = Some ty" and "od_State od = Some st" and "od_MarketplaceResourceUuid od = Some mp"
    and "t_Order t = Some o1" and "wo_Uuid o1 = uuid_String L ou" and "wo_Type o1 = ty" and "wo_State o1 = st"
    and "t_MarketplaceResourceUuid t = uuid_String L mp" and "t_ProjectSlug t = prj_Slug prj"
proof -
  from emitsD [OF emits_recordTenantOrder assms] obtain es where es: "hist w' = hist w @ es" "list_all waldur_read es" .
  from assms have "\<exists>t o1 ou ty st mp. tp = Some t \<and> od_Uuid od = Some ou \<and> od_Type od = Some ty \<and> od_State od = Some st \<and>
    od_MarketplaceResourceUuid od = Some mp \<and> t_Order t = Some o1 \<and> wo_Uuid o1 = uuid_String L ou \<and> wo_Type o1 = ty \<and>
    wo_State o1 = st \<and> t_MarketplaceResourceUuid t = uuid_String L mp \<and> t_ProjectSlug t = prj_Slug prj"
    by (auto simp: recordTenantOrder_def Let_def go_inv split: option.splits)
  with es that show ?thesis by blast
qed

lemma submitTenantCreationOrder_Inr:
  assumes "submitTenantCreationOrder L E off prj dc w = (Ret (Inr odp), w')"
  obtains lim u p resp where "calculateLimits E off dc w = (Ret (Inr lim), u)"
    and "hist w' = hist u @ [WaldurEv (MarketplaceOrdersCreate p (Inr resp))]" and "StatusCode resp = 201" and "JSON resp = odp"
    and "oc_Type p = Create" and "oc_Limits p = Some lim" and "prj_Url prj = Some (oc_Project p)" and "off_Url off = Some (oc_Offering p)"
proof -
  from assms have "\<exists>lim u p resp. calculateLimits E off dc w = (Ret (Inr lim), u) \<and>
    hist w' = hist u @ [WaldurEv (MarketplaceOrdersCreate p (Inr resp))] \<and> StatusCode resp = 201 \<and> JSON resp = odp \<and>
    oc_Type p = Create \<and> oc_Limits p = Some lim \<and> prj_Url prj = Some (oc_Project p) \<and> off_Url off = Some (oc_Offering p)"
    unfolding submitTenantCreationOrder_def w_MarketplaceOrdersCreate_def Let_def by (auto simp: go_inv)
  with that show ?thesis by blast
qed

lemma emits_filter_empty: "list_all P es \<Longrightarrow> (\<And>e. P e \<Longrightarrow> \<not> Q e) \<Longrightarrow> filter Q es = []"
  by (auto simp: list_all_iff filter_empty_conv)

text \<open>
  \<open>projectAnswered org n prj es\<close>: the events \<open>es\<close> are the lookup of the project of the datacenter \<open>n\<close> in the
  organisation, by its exact name, and, if there was none, its creation; \<open>prj\<close> is the project Waldur answered.
\<close>

definition projectAnswered :: "Customer \<Rightarrow> string \<Rightarrow> Project \<Rightarrow> event list \<Rightarrow> bool" where
  "projectAnswered org n prj es \<longleftrightarrow> (\<exists>slug u e resp projects.
     cus_Slug org = Some slug \<and> cus_Uuid org = Some u \<and> JSON resp = Some projects \<and>
     e = WaldurEv (ProjectsList \<lparr>pl_NameExact = Some (slug @ ''_'' @ n), pl_Customer = Some [u], pl_Slug = None\<rparr> (Inr resp)) \<and>
     (es = [e] \<and> (\<exists>rest. projects = prj # rest) \<or>
      projects = [] \<and> (\<exists>url resp'. cus_Url org = Some url \<and> JSON resp' = Some prj \<and>
        es = [e, WaldurEv (ProjectsCreate \<lparr>pc_Name = slug @ ''_'' @ n, pc_Customer = url\<rparr> (Inr resp'))])))"

text \<open>
  \<open>tenantRequest dc prj p es\<close>: \<open>p\<close> is the order for the datacenter, made from the answers in \<open>es\<close>: the customer, its
  project, the offering of the slug and the flavors of the node groups.
\<close>

definition tenantRequest :: "DatacenterSpec \<Rightarrow> Project \<Rightarrow> OrderCreateRequest \<Rightarrow> event list \<Rightarrow> bool" where
  "tenantRequest dc prj p es \<longleftrightarrow> (\<exists>fields cresp org orgs pes oresp off offs fes fls c r s.
     es = WaldurEv (CustomersList (oi_CustomerName (dc_OpenstackInfrastructure dc)) fields (Inr cresp)) # pes @
       WaldurEv (MarketplacePublicOfferingsList (dc_OfferingSlug dc) (Inr oresp)) # fes \<and>
     JSON cresp = Some (org # orgs) \<and> projectAnswered org (dc_Name dc) prj pes \<and> JSON oresp = Some (off # offs) \<and>
     flavorsAnswered off (dc_NodeGroups dc) fls fes \<and>
     totalDemand (dc_NodeGroups dc) fls (3 * 4 + 2, 3 * 8192 + 4096, 4 * 20480) = (c, r, s) \<and>
     oc_Type p = Create \<and> off_Url off = Some (oc_Offering p) \<and> prj_Url prj = Some (oc_Project p) \<and>
     oc_Limits p = Some [(''cores'', word_of_int c), (''ram'', word_of_int r), (''storage'', word_of_int s)])"

lemma getCustomer_Inr:
  assumes "getCustomer E n w = (Ret (Inr org), w')"
  shows "\<exists>fields resp orgs. hist w' = hist w @ [WaldurEv (CustomersList n fields (Inr resp))] \<and> JSON resp = Some (org # orgs)"
  using assms unfolding getCustomer_def prim_defs by (fastforce simp: go_inv neq_Nil_conv)

lemma getOrCreateProject_Inr:
  assumes "getOrCreateProject E org n w = (Ret (Inr prj), w')"
  shows "\<exists>es. hist w' = hist w @ es \<and> projectAnswered org n prj es"
  using assms unfolding getOrCreateProject_def prim_defs projectAnswered_def
  by (fastforce simp: go_inv Let_def neq_Nil_conv)

lemma tenantRequest_no_order: "tenantRequest dc prj p es \<Longrightarrow> filter creates_order es = []"
proof -
  have fl: "flavorsAnswered off ngs fls es \<Longrightarrow> filter creates_order es = []" for off ngs fls es
    by (induction off ngs fls es rule: flavorsAnswered.induct) (auto simp: creates_order_def)
  have "projectAnswered org n prj es \<Longrightarrow> filter creates_order es = []" for org n es
    by (auto simp: projectAnswered_def creates_order_def)
  with fl show "tenantRequest dc prj p es \<Longrightarrow> filter creates_order es = []"
    by (auto simp: tenantRequest_def creates_order_iff)
qed

text \<open>C25: a tenant is recorded only if Waldur created its order. Creating the tenant of a datacenter looks up the
  customer, its project of the datacenter (creating it when there is none), the offering of the
  datacenter's slug and the flavors of its node groups; it then sends exactly one create order, for
  that offering and project as Waldur answered them and with the demand of the node groups as limits;
  it was answered 201, and the tenant carries the order's and the resource's identifiers from that
  answer and the slug of that project.\<close>

theorem created_tenant_recorded:
  assumes "createTenant L E dc w = (Ret (Inr (Some t)), w')"
  shows "\<exists>prj p es resp od ou ty st mp fs o1.
    hist w' = hist w @ es @ WaldurEv (MarketplaceOrdersCreate p (Inr resp)) # fs \<and> tenantRequest dc prj p es \<and>
    filter creates_order es = [] \<and> list_all waldur_read fs \<and> StatusCode resp = 201 \<and> JSON resp = Some od \<and>
    od_Uuid od = Some ou \<and> od_Type od = Some ty \<and> od_State od = Some st \<and> od_MarketplaceResourceUuid od = Some mp \<and>
    t_Order t = Some o1 \<and> wo_Uuid o1 = uuid_String L ou \<and> wo_Type o1 = ty \<and> wo_State o1 = st \<and>
    t_MarketplaceResourceUuid t = uuid_String L mp \<and> t_ProjectSlug t = prj_Slug prj"
proof -
  from assms obtain org prj off odp w1 w2 w3 w4 where
    runs: "getCustomer E (oi_CustomerName (dc_OpenstackInfrastructure dc)) w = (Ret (Inr org), w1)"
      "getOrCreateProject E org (dc_Name dc) w1 = (Ret (Inr prj), w2)"
      "getOffering E (dc_OfferingSlug dc) w2 = (Ret (Inr off), w3)"
    and submit: "submitTenantCreationOrder L E off prj dc w3 = (Ret (Inr odp), w4)"
    and rec: "(case odp of None \<Rightarrow> ok None | Some od \<Rightarrow> recordTenantOrder L E prj od) w4 = (Ret (Inr (Some t)), w')"
    by (auto simp: createTenant_def go_inv)
  from submit obtain lim u p resp where lim: "calculateLimits E off dc w3 = (Ret (Inr lim), u)"
    and order: "hist w4 = hist u @ [WaldurEv (MarketplaceOrdersCreate p (Inr resp))]" "StatusCode resp = 201" "JSON resp = odp"
    and payload: "oc_Type p = Create" "oc_Limits p = Some lim" "prj_Url prj = Some (oc_Project p)" "off_Url off = Some (oc_Offering p)"
    by (rule submitTenantCreationOrder_Inr)
  have "\<exists>es. hist u = hist w @ es \<and> tenantRequest dc prj p es"
    using getCustomer_Inr [OF runs(1)] getOrCreateProject_Inr [OF runs(2)] lookup_Inr(1) [OF runs(3)] calculateLimits_Inr [OF lim] payload
    unfolding tenantRequest_def by fastforce
  then obtain es where es: "hist u = hist w @ es" "tenantRequest dc prj p es" by blast
  from rec obtain od where od: "odp = Some od" and rec': "recordTenantOrder L E prj od w4 = (Ret (Inr (Some t)), w')"
    by (auto simp: go_inv split: option.splits)
  from rec' show ?thesis
  proof (rule recordTenantOrder_Inr)
    fix t0 o1 ou ty st mp fs
    assume *: "Some t = Some t0" "hist w' = hist w4 @ fs" "list_all waldur_read fs"
      "od_Uuid od = Some ou" "od_Type od = Some ty" "od_State od = Some st" "od_MarketplaceResourceUuid od = Some mp"
      "t_Order t0 = Some o1" "wo_Uuid o1 = uuid_String L ou" "wo_Type o1 = ty" "wo_State o1 = st"
      "t_MarketplaceResourceUuid t0 = uuid_String L mp" "t_ProjectSlug t0 = prj_Slug prj"
    with es order od tenantRequest_no_order [OF es(2)] show ?thesis
      by (intro exI [of _ prj] exI [of _ p] exI [of _ es] exI [of _ resp] exI [of _ od] exI [of _ ou] exI [of _ ty] exI [of _ st]
          exI [of _ mp] exI [of _ fs] exI [of _ o1]) simp
  qed
qed

lemma create_tenant_run:
  "\<exists>t w'. createTenant lib_sample (env_cluster cluster_one) (dc_sample ''b'') world_sample = (Ret (Inr (Some t)), w')"
  by (simp add: createTenant_def getCustomer_def getOrCreateProject_def submitTenantCreationOrder_def calculateLimits_def
      recordTenantOrder_def helper_defs cluster_samples prim_defs cluster_run_defs)

theorem created_tenant_recorded_witness:
  "\<exists>t w' prj p es resp fs. createTenant lib_sample (env_cluster cluster_one) (dc_sample ''b'') world_sample = (Ret (Inr (Some t)), w') \<and>
     hist w' = es @ WaldurEv (MarketplaceOrdersCreate p (Inr resp)) # fs \<and> tenantRequest (dc_sample ''b'') prj p es \<and>
     StatusCode resp = 201 \<and> t_ProjectSlug t = prj_Slug prj"
proof -
  obtain t w' where run: "createTenant lib_sample (env_cluster cluster_one) (dc_sample ''b'') world_sample = (Ret (Inr (Some t)), w')"
    using create_tenant_run by blast
  have "hist world_sample = []" by (simp add: world_sample_def)
  with created_tenant_recorded [OF run] run show ?thesis by fastforce
qed

section \<open>Publishing the state\<close>

definition clusterReady :: "WaldurCluster \<Rightarrow> bool" where
  "clusterReady c \<longleftrightarrow> (\<exists>cond. lookupCondition (cst_Conditions (wc_Status c)) ''Ready'' = Some cond \<and> cond_Status cond = ConditionTrue)"

text \<open>The condition as the code decides it.\<close>

lemma all_tenants_ok: "\<not> anyTenantPending ts \<and> \<not> anyTenantErred ts \<longleftrightarrow> (\<forall>(k, t)\<in>set ts. t_State t = CoreStatesOK)"
  by (force simp: anyTenantPending_def anyTenantErred_def list_ex_iff)

lemma setReadyCondition_Ready:
  assumes "condition_setter L"
  shows "clusterReady (setReadyCondition L c) \<longleftrightarrow>
    length (cs_Datacenters (wc_Spec c)) \<le> length (clusterTenants c) \<and> (\<forall>(k, t)\<in>set (clusterTenants c). t_State t = CoreStatesOK)"
proof -
  have look: "lookupCondition (SetStatusCondition L cs cond) ''Ready'' = Some cond" if "cond_Type cond = ''Ready''" for cs cond
    using assms that by (metis condition_setter_def)
  show ?thesis
    unfolding all_tenants_ok [symmetric]
    by (auto simp: setReadyCondition_def clusterCondition_def clusterReady_def look Let_def)
qed

lemma setReadyCondition_Provisioned:
  assumes "condition_setter L"
  shows "cst_Initialization (wc_Status (setReadyCondition L c)) = Some \<lparr>ci_Provisioned = Some (clusterReady (setReadyCondition L c))\<rparr>"
proof -
  have look: "lookupCondition (SetStatusCondition L cs cond) ''Ready'' = Some cond" if "cond_Type cond = ''Ready''" for cs cond
    using assms that by (metis condition_setter_def)
  show ?thesis
    by (simp add: setReadyCondition_def clusterCondition_def clusterReady_def look Let_def)
qed

text \<open>C22: a cluster is published as ready and as provisioned exactly when every datacenter of its
  specification has a tenant in state OK, provided that the datacenters have different offering
  slugs and no tenant is left over from a datacenter that was removed.\<close>

theorem cluster_ready_iff_all_tenants_ok:
  assumes setter: "condition_setter L" and wf: "wf_map (clusterTenants c)"
    and distinct: "distinct (map dc_OfferingSlug (cs_Datacenters (wc_Spec c)))"
    and known: "fst ` set (clusterTenants c) \<subseteq> dc_OfferingSlug ` set (cs_Datacenters (wc_Spec c))"
  shows "(clusterReady (setReadyCondition L c) \<longleftrightarrow>
      (\<forall>dc\<in>set (cs_Datacenters (wc_Spec c)). \<exists>t. map_of (clusterTenants c) (dc_OfferingSlug dc) = Some t \<and> t_State t = CoreStatesOK)) \<and>
    cst_Initialization (wc_Status (setReadyCondition L c)) = Some \<lparr>ci_Provisioned = Some (clusterReady (setReadyCondition L c))\<rparr>"
proof -
  let ?ts = "clusterTenants c" and ?dcs = "cs_Datacenters (wc_Spec c)"
  let ?keys = "fst ` set ?ts" and ?slugs = "dc_OfferingSlug ` set ?dcs"
  have card: "card ?keys = length ?ts" "card ?slugs = length ?dcs"
    using wf distinct distinct_card [of "map fst ?ts"] distinct_card [of "map dc_OfferingSlug ?dcs"] by (auto simp: wf_map_def)
  have full: "length ?dcs \<le> length ?ts \<longleftrightarrow> ?keys = ?slugs"
    using card card_seteq [OF _ known] by auto
  have dom: "(\<exists>t. map_of ?ts k = Some t) \<longleftrightarrow> k \<in> ?keys" for k
    by (metis domIff dom_map_of_conv_image_fst not_None_eq)
  have mem: "(k, t) \<in> set ?ts \<longleftrightarrow> map_of ?ts k = Some t" for k t
    using wf by (auto simp: wf_map_def dest: map_of_SomeD)
  have "(?keys = ?slugs \<and> (\<forall>(k, t)\<in>set ?ts. t_State t = CoreStatesOK)) \<longleftrightarrow>
    (\<forall>dc\<in>set ?dcs. \<exists>t. map_of ?ts (dc_OfferingSlug dc) = Some t \<and> t_State t = CoreStatesOK)" (is "?l \<longleftrightarrow> ?r")
  proof
    assume ?l
    then show ?r using dom mem by fastforce
  next
    assume r: ?r
    then have "?slugs \<subseteq> ?keys" using dom by blast
    with known have keys: "?keys = ?slugs" by blast
    moreover have "t_State t = CoreStatesOK" if "(k, t) \<in> set ?ts" for k t
    proof -
      from that keys obtain dc where "dc \<in> set ?dcs" "dc_OfferingSlug dc = k" by force
      with r that mem show ?thesis by fastforce
    qed
    ultimately show ?l by auto
  qed
  with full have "clusterReady (setReadyCondition L c) \<longleftrightarrow>
      (\<forall>dc\<in>set ?dcs. \<exists>t. map_of ?ts (dc_OfferingSlug dc) = Some t \<and> t_State t = CoreStatesOK)"
    by (simp add: setReadyCondition_Ready [OF setter])
  with setReadyCondition_Provisioned [OF setter] show ?thesis by blast
qed

theorem cluster_ready_iff_all_tenants_ok_witness:
  "clusterReady (setReadyCondition lib_sample (cluster_of None [dc_sample ''o''] [(''o'', tenant_of CoreStatesOK None)])) \<and>
   \<not> clusterReady (setReadyCondition lib_sample (cluster_of None [dc_sample ''o''] []))"
proof -
  let ?c = "\<lambda>ts. cluster_of None [dc_sample ''o''] ts"
  have "clusterReady (setReadyCondition lib_sample (?c [(''o'', tenant_of CoreStatesOK None)])) \<longleftrightarrow>
    (\<forall>dc\<in>set (cs_Datacenters (wc_Spec (?c [(''o'', tenant_of CoreStatesOK None)]))).
       \<exists>t. map_of (clusterTenants (?c [(''o'', tenant_of CoreStatesOK None)])) (dc_OfferingSlug dc) = Some t \<and> t_State t = CoreStatesOK)"
    by (rule cluster_ready_iff_all_tenants_ok [OF lib_sample_ok(2), THEN conjunct1]) (simp_all add: cluster_of_def dc_sample_def wf_map_def)
  moreover have "clusterReady (setReadyCondition lib_sample (?c [])) \<longleftrightarrow>
    (\<forall>dc\<in>set (cs_Datacenters (wc_Spec (?c []))).
       \<exists>t. map_of (clusterTenants (?c [])) (dc_OfferingSlug dc) = Some t \<and> t_State t = CoreStatesOK)"
    by (rule cluster_ready_iff_all_tenants_ok [OF lib_sample_ok(2), THEN conjunct1]) (simp_all add: cluster_of_def dc_sample_def wf_map_def)
  ultimately show ?thesis by (simp add: cluster_of_def dc_sample_def tenant_of_def)
qed

text \<open>The statuses that a live pass writes are those of \<^verbatim>\<open>setReadyCondition\<close>.\<close>

definition publishes :: "lib \<Rightarrow> WaldurCluster \<Rightarrow> event \<Rightarrow> bool" where
  "publishes L c e \<longleftrightarrow> (\<forall>n b a. e = KubeEv (PatchWaldurClusterStatus n b a) \<longrightarrow> (\<exists>ts. n = setReadyCondition L (setTenants ts c)))"

lemma emits_publishes:
  assumes "timeIsZero (om_DeletionTimestamp (wc_Meta c))"
  shows "emits (publishes L c) (cluster_reconcileLoaded L E R c)"
proof -
  have dcs: "emits (publishes L c) (reconcileDatacenters L E dcs ts)" for dcs ts
    by (rule emits_mono [OF emits_reconcileDatacenters])
      (auto simp: publishes_def tenant_event_def creates_order_iff dest: waldur_read_classes)
  have endpoint: "emits (publishes L c) (reconcileControlPlaneEndpoint L E d)" for d
    by (rule emits_mono [OF emits_endpoint]) (auto simp: publishes_def endpoint_event_def dest: waldur_read_classes)
  have patch: "emits (publishes L c) (k_PatchWaldurClusterStatus E (setReadyCondition L (setTenants ts c)) c)" for ts
    unfolding prim_defs by (rule emits_perform) (auto simp: publishes_def)
  have upd: "emits (publishes L c) (k_UpdateWaldurCluster E n)" for n
    unfolding prim_defs by (rule emits_perform) (simp add: publishes_def)
  show ?thesis
    unfolding cluster_reconcileLoaded_def reconcileTenants_def
    by (intro ext.frame_rules upd patch dcs endpoint) (use assms in simp)
qed

text \<open>C36: readiness compares numbers, not datacenters. Whatever Waldur answers, a pass over a cluster that is
  not being deleted publishes it as ready, and as provisioned, exactly when there are at least as many
  recorded tenants as datacenters in the specification and all recorded tenants are in state OK: that
  the tenants belong to the datacenters is not checked, so a tenant that is left over from a removed
  datacenter hides one that is missing.\<close>

theorem readiness_compares_numbers:
  assumes "condition_setter L" and got: "on_GetWaldurCluster (env_kube E) (hist w) req = Inr c"
    and live: "timeIsZero (om_DeletionTimestamp (wc_Meta c))"
    and run: "cluster_Reconcile L E R req w = (res, w')" and es: "hist w' = hist w @ es"
    and ev: "KubeEv (PatchWaldurClusterStatus n b a) \<in> set es"
  shows "(clusterReady n \<longleftrightarrow> length (cs_Datacenters (wc_Spec c)) \<le> length (clusterTenants n) \<and>
      (\<forall>(k, t)\<in>set (clusterTenants n). t_State t = CoreStatesOK)) \<and>
    cst_Initialization (wc_Status n) = Some \<lparr>ci_Provisioned = Some (clusterReady n)\<rparr>"
  using run
proof (cases rule: cluster_Reconcile_cases)
  case (unread e)
  with got show ?thesis by simp
next
  case (loaded d)
  with got have d: "cluster_reconcileLoaded L E R c (w\<lparr>hist := hist w @ [KubeEv (GetWaldurCluster req (Inr c))]\<rparr>) = (res, w')" by simp
  from emitsD [OF emits_publishes [OF live] d] obtain fs where
    "hist w' = hist w @ KubeEv (GetWaldurCluster req (Inr c)) # fs" "list_all (publishes L c) fs" by auto
  with es ev have "publishes L c (KubeEv (PatchWaldurClusterStatus n b a))" by (auto simp: list_all_iff)
  then obtain ts where n: "n = setReadyCondition L (setTenants ts c)" by (auto simp: publishes_def)
  show ?thesis
    unfolding n using setReadyCondition_Ready [OF assms(1), of "setTenants ts c"]
      setReadyCondition_Provisioned [OF assms(1), of "setTenants ts c"] by simp
qed

text \<open>The datacenter \<open>new\<close> has no tenant, and Waldur refuses to tell anything; the tenant of \<open>old\<close> is OK.\<close>

definition cluster_stale :: WaldurCluster where
  "cluster_stale = cluster_of None [dc_sample ''new''] [(''old'', tenant_of CoreStatesOK None)]"

definition env_stale :: env where
  "env_stale = (env_cluster cluster_stale)\<lparr>env_waldur := waldur_down\<rparr>"

lemma stale_run:
  "\<exists>n b a. KubeEv (PatchWaldurClusterStatus n b a) \<in>
       set (hist (snd (cluster_Reconcile lib_sample env_stale in_order (namespacedName ''ns'' ''c'') world_sample))) \<and>
     clusterTenants n = [(''old'', tenant_of CoreStatesOK None)]"
  by (simp add: cluster_Reconcile_def cluster_reconcileLoaded_def reconcileTenants_def createTenant_def getCustomer_def
      reconcileControlPlaneEndpoint_def setTenants_def setReadyCondition_def clusterCondition_def anyTenantPending_def anyTenantErred_def
      env_stale_def cluster_stale_def cluster_samples prim_defs cluster_run_defs timeIsZero_def)

theorem readiness_compares_numbers_witness:
  "\<exists>n b a. KubeEv (PatchWaldurClusterStatus n b a) \<in>
       set (hist (snd (cluster_Reconcile lib_sample env_stale in_order (namespacedName ''ns'' ''c'') world_sample))) \<and>
     clusterReady n \<and> cs_Datacenters (wc_Spec cluster_stale) = [dc_sample ''new''] \<and>
     map_of (clusterTenants n) (dc_OfferingSlug (dc_sample ''new'')) = None"
proof -
  let ?run = "cluster_Reconcile lib_sample env_stale in_order (namespacedName ''ns'' ''c'') world_sample"
  obtain n b a where ev: "KubeEv (PatchWaldurClusterStatus n b a) \<in> set (hist (snd ?run))"
    and n: "clusterTenants n = [(''old'', tenant_of CoreStatesOK None)]"
    using stale_run by blast
  have h: "hist (snd ?run) = hist world_sample @ hist (snd ?run)" by (simp add: world_sample_def)
  have got: "on_GetWaldurCluster (env_kube env_stale) (hist world_sample) (namespacedName ''ns'' ''c'') = Inr cluster_stale"
    by (simp add: env_stale_def env_cluster_get)
  have "timeIsZero (om_DeletionTimestamp (wc_Meta cluster_stale))" by (simp add: cluster_stale_def cluster_of_def timeIsZero_def)
  from readiness_compares_numbers [OF lib_sample_ok(2) got this prod.collapse [symmetric] h ev] n
  have "clusterReady n" by (simp add: tenant_of_def cluster_stale_def cluster_of_def)
  moreover have "map_of (clusterTenants n) (dc_OfferingSlug (dc_sample ''new'')) = None" by (simp add: n dc_sample_def)
  moreover have "cs_Datacenters (wc_Spec cluster_stale) = [dc_sample ''new'']" by (simp add: cluster_stale_def cluster_of_def)
  ultimately show ?thesis using ev by blast
qed

section \<open>The control plane endpoint\<close>








end
