(* ===== verification/Deletion_Protocol.thy ===== *)
theory Deletion_Protocol
  imports Machine_Properties Cluster_Properties
begin

text \<open>
  The deletion protocol as an abstract state machine over \<open>delete_phase\<close>, where \<open>None\<close> is an object
  that was let go. Its steps are labelled with the requests that change something in Waldur. Both reconcilers refine it: a pass over a machine, and a round of the loop over the
  tenants of a cluster, each make one step of the protocol on the object as it is stored. Under a
  Waldur that carries out the termination, the protocol ends: the machine is let go after a bounded
  number of passes.
\<close>

section \<open>The protocol\<close>

text \<open>The requests of a run that change something in Waldur.\<close>

definition changes :: "event list \<Rightarrow> event list" where
  "changes es = filter waldur_write es"

text \<open>A request to terminate this resource, and one that Waldur accepted with the identifier of an order.\<close>

definition terminate_request :: "lib \<Rightarrow> string \<Rightarrow> event \<Rightarrow> bool" where
  "terminate_request L mp e \<longleftrightarrow> (\<exists>u a. e = WaldurEv (MarketplaceResourcesTerminate u a) \<and> uuid_Parse L mp = Inr u)"

definition accepted_request :: "event \<Rightarrow> bool" where
  "accepted_request e \<longleftrightarrow> (\<exists>u resp body v. e = WaldurEv (MarketplaceResourcesTerminate u (Inr resp)) \<and>
     StatusCode resp \<in> {200, 202} \<and> JSON resp = Some body \<and> ou_OrderUuid body = Some v)"

text \<open>
  The steps for an object with the marketplace resource \<open>mp\<close>: only where a termination is due may it
  be requested (once in a step) or a VM be stopped; an order in flight changes nothing in Waldur.
\<close>

inductive delete_step :: "lib \<Rightarrow> string \<Rightarrow> delete_phase option \<Rightarrow> event list \<Rightarrow> delete_phase option \<Rightarrow> bool"
  for L mp where
  stay: "delete_step L mp p [] p"
| stop: "delete_step L mp (Some SubmitDue) [WaldurEv (OpenstackInstancesStop u a)] (Some SubmitDue)"
| unrecorded: "terminate_request L mp e \<Longrightarrow> delete_step L mp (Some SubmitDue) [e] (Some SubmitDue)"
| submit: "terminate_request L mp e \<Longrightarrow> accepted_request e \<Longrightarrow> delete_step L mp (Some SubmitDue) [e] (Some InFlight)"
| finished: "delete_step L mp (Some InFlight) [] (Some Terminated)"
| failed: "delete_step L mp (Some InFlight) [] (Some SubmitDue)"
| release: "p \<in> {NeverProvisioned, Terminated} \<Longrightarrow> delete_step L mp (Some p) [] None"

lemma changes_simps [simp]:
  "changes [] = []" "changes (es @ fs) = changes es @ changes fs"
  "changes (KubeEv k # es) = changes es"
  by (simp_all add: changes_def waldur_write_def)

lemma changes_none: "list_all (\<lambda>e. waldur_read e \<or> (\<exists>k. e = KubeEv k)) es \<Longrightarrow> changes es = []"
  by (auto simp: changes_def list_all_iff filter_empty_conv event_class_defs)

lemma terminate_requestD: "terminate_request L mp e \<Longrightarrow> changes [e] = [e]"
  by (auto simp: changes_def terminate_request_def waldur_write_def)

lemma submitTerminationOrder_run:
  assumes "submitTerminationOrder L E mp w = (x, w')"
  obtains (unsent) e where "x = Ret (Inl e)" and "w' = w"
  | (sent) e where "hist w' = hist w @ [e]" and "terminate_request L mp e" and "\<And>ord. x = Ret (Inr ord) \<Longrightarrow> accepted_request e"
proof (cases "uuid_Parse L mp")
  case (Inl e)
  with assms unsent show ?thesis by (auto simp: submitTerminationOrder_def andThenWrap_def bind_def ret_def fail_def)
next
  case (Inr u)
  let ?a = "on_MarketplaceResourcesTerminate (env_waldur E) (hist w) u"
  let ?e = "WaldurEv (MarketplaceResourcesTerminate u ?a)"
  from assms Inr have "w' = w\<lparr>hist := hist w @ [?e]\<rparr>" "\<And>ord. x = Ret (Inr ord) \<Longrightarrow> accepted_request ?e"
    by (auto simp: submitTerminationOrder_def w_MarketplaceResourcesTerminate_def andThenWrap_def andThen_def bind_def perform_def
        ret_def fail_def ok_def Let_def accepted_request_def split: sum.splits if_splits option.splits)
  with Inr sent [of ?e] show ?thesis by (auto simp: terminate_request_def)
qed

abbreviation machinePhase :: "WaldurMachine \<Rightarrow> delete_phase" where
  "machinePhase m \<equiv> deletePhase (machineResource m) (machineOrder m)"

text \<open>
  The machine in the API server after the writes of a pass: a successful status patch stores the
  status that was sent, and a successful update that takes the finalizer off lets the object go.
\<close>

fun afterWrite :: "event \<Rightarrow> WaldurMachine option \<Rightarrow> WaldurMachine option" where
  "afterWrite (KubeEv (PatchWaldurMachineStatus m b (Inr a))) (Some s) = Some (s\<lparr>wm_Status := wm_Status m\<rparr>)"
| "afterWrite (KubeEv (UpdateWaldurMachine m (Inr a))) (Some s) =
     (if machineFinalizer \<in> set (om_Finalizers (wm_Meta m)) then Some s else None)"
| "afterWrite _ s = s"

definition afterWrites :: "event list \<Rightarrow> WaldurMachine option \<Rightarrow> WaldurMachine option" where
  "afterWrites es s = fold afterWrite es s"

lemma afterWrites_waldur: "list_all (\<lambda>e. \<exists>x. e = WaldurEv x) es \<Longrightarrow> afterWrites es s = s"
  by (induction es arbitrary: s) (auto simp: afterWrites_def)

lemma afterWrites_append: "afterWrites (es @ fs) s = afterWrites fs (afterWrites es s)"
  by (simp add: afterWrites_def)

lemma emits_refreshVM_waldur: "emits (\<lambda>e. \<exists>x. e = WaldurEv x) (refreshVM L E m)"
  by (rule emits_mono [OF emits_refreshVM]) (simp add: waldur_read_def)

lemma emits_submit_waldur: "emits (\<lambda>e. \<exists>x. e = WaldurEv x) (submitTerminationOrder L E n)"
  by (rule emits_mono [OF emits_submitTerminationOrder]) (auto simp: waldur_read_def terminates_iff)

section \<open>Machines\<close>

lemma removeMachineFinalizer_writes:
  assumes "removeMachineFinalizer L E m w = (res, w')" and "hist w' = hist w @ es"
  shows "afterWrites es (Some m) \<in> {Some m, None}"
  using assms
  by (auto simp: removeMachineFinalizer_def k_UpdateWaldurMachine_def andThenWrap_def bind_def perform_def ok_def fail_def ret_def
      Let_def afterWrites_def split: sum.splits if_splits)

lemma patch_writes:
  assumes "andThenWrap msg (k_PatchWaldurMachineStatus E n b) (\<lambda>_. ok x) w = (res, w')" and "hist w' = hist w @ es"
  shows "afterWrites es (Some s) \<in> {Some s, Some (s\<lparr>wm_Status := wm_Status n\<rparr>)}"
  using assms
  by (auto simp: k_PatchWaldurMachineStatus_def andThenWrap_def bind_def perform_def ok_def fail_def ret_def
      Let_def afterWrites_def split: sum.splits)

text \<open>Terminating a VM and stopping it make a step of the protocol from the phase where they are due.\<close>

lemma terminateVM_writes:
  assumes run: "terminateVM L E m w = (res, w')" and es: "hist w' = hist w @ es" and phase: "machinePhase m = SubmitDue"
  shows "delete_step L (machineResource m) (Some SubmitDue) (changes es) (map_option machinePhase (afterWrites es (Some m)))"
proof -
  from phase have mp: "machineResource m \<noteq> []" by (auto simp: deletePhase_def)
  obtain x u where sub: "submitTerminationOrder L E (machineResource m) w = (x, u)" by fastforce
  have rejected: "w' = u" if "\<nexists>ord. x = Ret (Inr ord)"
    using run sub that by (cases x) (auto simp: terminateVM_def bind_def ok_def ret_def split: sum.splits)
  from sub show ?thesis
  proof (cases rule: submitTerminationOrder_run)
    case (unsent e)
    with rejected es phase show ?thesis by (auto simp: afterWrites_def intro: delete_step.stay)
  next
    case (sent e)
    have e: "afterWrites [e] (Some m) = Some m" "changes [e] = [e]"
      using sent(2) terminate_requestD by (auto simp: afterWrites_def terminate_request_def)
    show ?thesis
    proof (cases "\<exists>ord. x = Ret (Inr ord)")
      case False
      with rejected es sent e phase show ?thesis by (auto intro: delete_step.unrecorded)
    next
      case True
      then obtain ord where ord: "x = Ret (Inr ord)" ..
      let ?m = "setMachineOrder ord m"
      from run sub ord have rest: "andThenWrap ''unable to patch status'' (k_PatchWaldurMachineStatus E ?m m) (\<lambda>_. ok (requeueAfter 15)) u = (res, w')"
        by (simp add: terminateVM_def bind_def)
      then obtain k where k: "hist w' = hist u @ [KubeEv k]"
        by (auto simp: k_PatchWaldurMachineStatus_def andThenWrap_def bind_def perform_def ok_def fail_def ret_def Let_def split: sum.splits)
      then have eq: "es = [e] @ [KubeEv k]" using es sent(1) by simp
      have "machinePhase ?m = InFlight" by (rule mt.submitted_in_flight [OF sub [unfolded ord] mp])
      moreover have "afterWrites es (Some m) \<in> {Some m, Some ?m}"
        unfolding eq afterWrites_append e(1) using patch_writes [OF rest k, of m] by simp
      moreover have "changes es = [e]" unfolding eq using e(2) by (simp del: append.simps)
      ultimately show ?thesis using sent(2) sent(3) [OF ord] phase by (auto intro: delete_step.intros)
    qed
  qed
qed

lemma stopVM_writes:
  assumes run: "stopVM L E m vm w = (res, w')" and es: "hist w' = hist w @ es" and phase: "machinePhase m = SubmitDue"
  shows "delete_step L (machineResource m) (Some SubmitDue) (changes es) (map_option machinePhase (afterWrites es (Some m)))"
proof -
  let ?read = "\<lambda>u a. WaldurEv (OpenstackInstancesRetrieve u [InstanceFieldRuntimeState] a)"
  from run consider "hist w' = hist w" | u a where "hist w' = hist w @ [?read u a]"
    | u a b where "hist w' = hist w @ [?read u a, WaldurEv (OpenstackInstancesStop u b)]"
    | u a v where "terminateVM L E m v = (res, w')" "hist v = hist w @ [?read u a]"
    by (auto simp: stopVM_def prim_defs andThenWrap_def bind_def perform_def ok_def fail_def ret_def Let_def
        split: sum.splits option.splits if_splits)
  then show ?thesis
  proof cases
    case 1
    with es phase show ?thesis by (auto simp: afterWrites_def intro: delete_step.stay)
  next
    case (2 u a)
    with es phase show ?thesis by (auto simp: afterWrites_def changes_def waldur_write_def intro: delete_step.stay)
  next
    case (3 u a b)
    with es phase show ?thesis by (auto simp: afterWrites_def changes_def waldur_write_def intro: delete_step.stop)
  next
    case (4 u a v)
    from emitsD [OF emits_terminateVM 4(1)] obtain gs where gs: "hist w' = hist v @ gs" by blast
    then have eq: "es = [?read u a] @ gs" using es 4(2) by simp
    from terminateVM_writes [OF 4(1) gs phase] show ?thesis
      unfolding eq by (simp add: afterWrites_def changes_def waldur_write_def)
  qed
qed

lemma refresh_patch_writes:
  assumes run: "bind (refreshVM L E m) (\<lambda>(m', _). andThenWrap msg (k_PatchWaldurMachineStatus E m' m) (\<lambda>_. ok x)) w = (res, w')"
    and es: "hist w' = hist w @ es" and phase: "machinePhase m = InFlight"
  shows "\<exists>s. afterWrites es (Some m) = Some s \<and> machinePhase s \<in> {InFlight, Terminated, SubmitDue}"
proof -
  obtain y u where refresh: "refreshVM L E m w = (y, u)" by fastforce
  from emitsD [OF emits_refreshVM_waldur refresh] obtain es1 where es1: "hist u = hist w @ es1" "list_all (\<lambda>e. \<exists>x. e = WaldurEv x) es1" .
  show ?thesis
  proof (cases y)
    case Panic
    with run refresh es es1 phase show ?thesis by (simp add: bind_def afterWrites_waldur)
  next
    case (Ret z)
    obtain m' err where z: "z = (m', err)" by (cases z)
    with Ret run refresh have rest: "andThenWrap msg (k_PatchWaldurMachineStatus E m' m) (\<lambda>_. ok x) u = (res, w')"
      by (simp add: bind_def)
    then obtain es2 where es2: "hist w' = hist u @ es2"
      by (auto simp: k_PatchWaldurMachineStatus_def andThenWrap_def bind_def perform_def ok_def fail_def ret_def Let_def split: sum.splits)
    from mt.refresh_in_flight [OF refresh [unfolded Ret z] phase] patch_writes [OF rest es2, of m] phase
    show ?thesis using es es1 es2 by (auto simp: afterWrites_append afterWrites_waldur)
  qed
qed

section \<open>Refinement\<close>

text \<open>What a machine and a tenant do in the other phases changes nothing in Waldur.\<close>

lemma no_changes:
  assumes "emits (\<lambda>e. waldur_read e \<or> (\<exists>k. e = KubeEv k)) f" and "f w = (res, w')" and "hist w' = hist w @ es"
  shows "changes es = []"
proof -
  from emitsD [OF assms(1,2)] obtain fs where "hist w' = hist w @ fs" "list_all (\<lambda>e. waldur_read e \<or> (\<exists>k. e = KubeEv k)) fs" .
  with assms(3) changes_none show ?thesis by simp
qed

lemma machine_not_due:
  assumes "machine_reconcileDelete L E m w = (res, w')" and "hist w' = hist w @ es" and "machinePhase m \<noteq> SubmitDue"
  shows "changes es = []"
proof (rule no_changes [of "machine_reconcileDelete L E m", OF _ assms(1,2)])
  have "emits (\<lambda>e. waldur_read e \<or> (\<exists>k. e = KubeEv k)) (refreshVM L E m)" by (rule emits_mono [OF emits_refreshVM]) simp
  moreover have "emits (\<lambda>e. waldur_read e \<or> (\<exists>k. e = KubeEv k)) (k_PatchWaldurMachineStatus E n b)"
    "emits (\<lambda>e. waldur_read e \<or> (\<exists>k. e = KubeEv k)) (k_UpdateWaldurMachine E n)" for n b
    unfolding prim_defs by (rule emits_perform, simp)+
  ultimately show "emits (\<lambda>e. waldur_read e \<or> (\<exists>k. e = KubeEv k)) (machine_reconcileDelete L E m)"
    unfolding machine_reconcileDelete_phase removeMachineFinalizer_def using assms(3)
    by (auto split: delete_phase.split intro!: ext.frame_rules)
qed

text \<open>C6: both reconcilers implement the deletion protocol. Whatever Waldur and the API server answer, a deletion
  pass over a machine, and a round of the deletion loop over a tenant, take the stored object from its
  phase to its next phase by one step of the protocol that is labelled with exactly the requests of
  the pass that change something in Waldur: nothing is let go before its termination is done (or was
  never needed); a termination of the object's own resource is requested, at most once in a pass, only
  in the phase in which one is due, and is recorded only when Waldur accepted it; and an order in
  flight is only polled, without any request that changes something.\<close>

theorem deletion_refines_protocol:
  assumes m: "machine_reconcileDelete L E m w = (res, w')" and es: "hist w' = hist w @ es"
    and t: "terminateTenant L E t v = (Ret (kept, isDone), v')" and fs: "hist v' = hist v @ fs"
  shows "delete_step L (machineResource m) (Some (machinePhase m)) (changes es) (map_option machinePhase (afterWrites es (Some m))) \<and>
    delete_step L (t_MarketplaceResourceUuid t) (Some (tenantPhase t)) (changes fs) (if isDone then None else map_option tenantPhase kept)"
proof
  show "delete_step L (machineResource m) (Some (machinePhase m)) (changes es) (map_option machinePhase (afterWrites es (Some m)))"
  proof (cases "machinePhase m")
    case SubmitDue
    with m stopVM_writes [OF _ es SubmitDue] terminateVM_writes [OF _ es SubmitDue] show ?thesis
      by (auto simp: machine_reconcileDelete_phase split: option.splits)
  next
    case InFlight
    with m have "bind (refreshVM L E m) (\<lambda>(m', _).
        andThenWrap ''unable to patch status'' (k_PatchWaldurMachineStatus E m' m) (\<lambda>_. ok (requeueAfter 15))) w = (res, w')"
      by (simp add: machine_reconcileDelete_phase)
    from refresh_patch_writes [OF this es InFlight] InFlight machine_not_due [OF m es] show ?thesis by (auto intro: delete_step.intros)
  next
    case NeverProvisioned
    with m removeMachineFinalizer_writes [of L E m w res, OF _ es] machine_not_due [OF m es] show ?thesis
      by (auto simp: machine_reconcileDelete_phase intro: delete_step.intros)
  next
    case Terminated
    with m removeMachineFinalizer_writes [of L E m w res, OF _ es] machine_not_due [OF m es] show ?thesis
      by (auto simp: machine_reconcileDelete_phase intro: delete_step.intros)
  qed
  show "delete_step L (t_MarketplaceResourceUuid t) (Some (tenantPhase t)) (changes fs) (if isDone then None else map_option tenantPhase kept)"
  proof (cases "tenantPhase t")
    case SubmitDue
    then have mp: "t_MarketplaceResourceUuid t \<noteq> []" by (auto simp: deletePhase_def)
    from t SubmitDue obtain x where sub: "submitTerminationOrder L E (t_MarketplaceResourceUuid t) v = (Ret x, v')"
      and kept: "isDone = False" "kept = Some (case x of Inl e \<Rightarrow> t | Inr ord \<Rightarrow> t\<lparr>t_Order := Some ord\<rparr>)"
      by (auto simp: terminateTenant_phase go_inv)
    from sub show ?thesis
    proof (cases rule: submitTerminationOrder_run)
      case (unsent e)
      with kept fs SubmitDue show ?thesis by (auto intro: delete_step.stay)
    next
      case (sent e)
      with fs terminate_requestD have lab: "changes fs = [e]" by auto
      with sent kept SubmitDue tt.submitted_in_flight [OF _ mp] sub show ?thesis
        by (cases x) (auto intro: delete_step.intros)
    qed
  next
    case InFlight
    with t obtain t' err where poll: "refreshTenant L E t v = (Ret (t', err), v')" and kept: "kept = Some t'" "isDone = False"
      by (auto simp: terminateTenant_phase go_inv)
    have "emits (\<lambda>e. waldur_read e \<or> (\<exists>k. e = KubeEv k)) (refreshTenant L E t)" by (rule emits_mono [OF emits_refreshTenant]) simp
    from no_changes [OF this poll fs] tt.refresh_in_flight [OF poll InFlight] kept InFlight show ?thesis
      by (auto intro: delete_step.intros)
  qed (use t fs in \<open>auto simp: terminateTenant_phase go_inv intro: delete_step.intros\<close>)
qed

theorem deletion_refines_protocol_witness:
  "\<exists>res w' kept isDone v'.
     machine_reconcileDelete lib_sample (env_machine machine_terminated) machine_terminated world_sample = (res, w') \<and>
     terminateTenant lib_sample (env_machine machine_terminated) (tenant_of CoreStatesOK None) world_sample = (Ret (kept, isDone), v') \<and>
     delete_step lib_sample ''000'' (Some Terminated) (changes (hist w'))
       (map_option machinePhase (afterWrites (hist w') (Some machine_terminated))) \<and>
     delete_step lib_sample ''000'' (Some SubmitDue) (changes (hist v')) (if isDone then None else map_option tenantPhase kept)"
proof -
  let ?t = "tenant_of CoreStatesOK None"
  obtain res w' where m: "machine_reconcileDelete lib_sample (env_machine machine_terminated) machine_terminated world_sample = (res, w')"
    by fastforce
  have h: "hist x = hist world_sample @ hist x" for x :: world by (simp add: world_sample_def)
  have "\<exists>kept isDone v'. terminateTenant lib_sample (env_machine machine_terminated) ?t world_sample = (Ret (kept, isDone), v')"
    by (simp add: terminateTenant_def submitTerminationOrder_def tenant_of_def env_machine_def sample_defs prim_defs cluster_run_defs) blast
  then obtain kept isDone v' where t: "terminateTenant lib_sample (env_machine machine_terminated) ?t world_sample
    = (Ret (kept, isDone), v')" by blast
  have "machinePhase machine_terminated = Terminated" "machineResource machine_terminated = ''000''"
    "tenantPhase ?t = SubmitDue" "t_MarketplaceResourceUuid ?t = ''000''"
    by (simp_all add: machine_terminated_def machine_samples tenant_of_def deletePhase_def isOrderTerminal_def)
  with deletion_refines_protocol [OF m h t h] m t show ?thesis by auto
qed

section \<open>Termination of the protocol\<close>

text \<open>One deletion pass over the stored machine, and \<open>n\<close> of them; \<open>None\<close>: it was let go.\<close>

definition deletionPass :: "lib \<Rightarrow> env \<Rightarrow> WaldurMachine \<times> world \<Rightarrow> (WaldurMachine \<times> world) option" where
  "deletionPass L E s = (case s of (m, w) \<Rightarrow>
     let w' = snd (machine_reconcileDelete L E m w) in
     map_option (\<lambda>m'. (m', w')) (afterWrites (drop (length (hist w)) (hist w')) (Some m)))"

primrec deletionPasses :: "nat \<Rightarrow> lib \<Rightarrow> env \<Rightarrow> WaldurMachine \<times> world \<Rightarrow> (WaldurMachine \<times> world) option" where
  "deletionPasses 0 L E s = Some s"
| "deletionPasses (Suc n) L E s = Option.bind (deletionPass L E s) (deletionPasses n L E)"

definition polls :: "event list \<Rightarrow> nat" where
  "polls h = length (filter (\<lambda>e. \<exists>u a. e = WaldurEv (MarketplaceOrdersRetrieve u a)) h)"

text \<open>
  A Waldur that terminates: it accepts termination orders with a complete body, and reports an order
  as executing for the first \<open>k\<close> polls and as done afterwards. For machines it also knows the
  resource and reports the VM as shut off, and the API server accepts all writes.
\<close>

definition terminations_accepted :: "env \<Rightarrow> bool" where
  "terminations_accepted E \<longleftrightarrow> (\<forall>h u. \<exists>resp body v. on_MarketplaceResourcesTerminate (env_waldur E) h u = Inr resp \<and>
     StatusCode resp = 200 \<and> JSON resp = Some body \<and> ou_OrderUuid body = Some v)"

definition orders_land :: "env \<Rightarrow> nat \<Rightarrow> bool" where
  "orders_land E k \<longleftrightarrow> (\<forall>h u. \<exists>resp od. on_MarketplaceOrdersRetrieve (env_waldur E) h u = Inr resp \<and> JSON resp = Some od \<and>
     od_State od = Some (if polls h < k then OrderStateOther ''executing'' else OrderStateDone))"

definition terminating_env :: "env \<Rightarrow> nat \<Rightarrow> bool" where
  "terminating_env E k \<longleftrightarrow>
     (\<forall>h n b. \<exists>a. on_PatchWaldurMachineStatus (env_kube E) h n b = Inr a) \<and>
     (\<forall>h n. \<exists>a. on_UpdateWaldurMachine (env_kube E) h n = Inr a) \<and>
     terminations_accepted E \<and> orders_land E k \<and>
     (\<forall>h u. \<exists>resp r. on_MarketplaceResourcesRetrieve (env_waldur E) h u = Inr resp \<and> JSON resp = Some r) \<and>
     (\<forall>h u fs. \<exists>resp i. on_OpenstackInstancesRetrieve (env_waldur E) h u fs = Inr resp \<and> JSON resp = Some i \<and>
        ins_RuntimeState i = Some ''SHUTOFF'')"

text \<open>One poll of an open order, and one termination that is accepted.\<close>

lemma refreshOrder_lands:
  assumes "orders_land E k" and "uuid_Parse L (wo_Uuid x) = Inr u"
  obtains y resp where "refreshOrder L E x w = (Ret (Inr y), w\<lparr>hist := hist w @ [WaldurEv (MarketplaceOrdersRetrieve u (Inr resp))]\<rparr>)"
    and "wo_State y = (if polls (hist w) < k then OrderStateOther ''executing'' else OrderStateDone)"
    and "wo_Uuid y = wo_Uuid x" and "wo_Type y = wo_Type x"
proof -
  let ?st = "if polls (hist w) < k then OrderStateOther ''executing'' else OrderStateDone"
  from assms(1) obtain resp od where retr: "on_MarketplaceOrdersRetrieve (env_waldur E) (hist w) u = Inr resp" "JSON resp = Some od"
    "od_State od = Some ?st" unfolding orders_land_def by blast
  have "\<exists>y. refreshOrder L E x w = (Ret (Inr y), w\<lparr>hist := hist w @ [WaldurEv (MarketplaceOrdersRetrieve u (Inr resp))]\<rparr>) \<and> wo_State y = ?st"
    using assms(2) retr by (cases "od_ResourceUuid od")
      (simp_all add: refreshOrder_def w_MarketplaceOrdersRetrieve_def andThen_def bind_def perform_def ok_def ret_def Let_def)
  then obtain y where "refreshOrder L E x w = (Ret (Inr y), w\<lparr>hist := hist w @ [WaldurEv (MarketplaceOrdersRetrieve u (Inr resp))]\<rparr>)"
    "wo_State y = ?st" by blast
  with refreshOrder_Inr(1,2) that show ?thesis by blast
qed

lemma submitTermination_accepted:
  assumes "terminations_accepted E" and "uuid_codec L" and "uuid_Parse L mp = Inr u"
  obtains x resp where "submitTerminationOrder L E mp w = (Ret (Inr x), w\<lparr>hist := hist w @ [WaldurEv (MarketplaceResourcesTerminate u (Inr resp))]\<rparr>)"
    and "\<exists>v. uuid_Parse L (wo_Uuid x) = Inr v" and "wo_Type x = Terminate" and "wo_State x = OrderStatePendingProvider"
proof -
  from assms(1) obtain resp body v where t: "on_MarketplaceResourcesTerminate (env_waldur E) (hist w) u = Inr resp" "StatusCode resp = 200"
    "JSON resp = Some body" "ou_OrderUuid body = Some v" unfolding terminations_accepted_def by blast
  let ?x = "\<lparr>wo_Uuid = uuid_String L v, wo_Type = Terminate, wo_State = OrderStatePendingProvider,
    wo_MarketplaceResourceUuid = mp, wo_ResourceUuid = None\<rparr>"
  have "submitTerminationOrder L E mp w = (Ret (Inr ?x), w\<lparr>hist := hist w @ [WaldurEv (MarketplaceResourcesTerminate u (Inr resp))]\<rparr>)"
    using t assms(3)
    by (simp add: submitTerminationOrder_def w_MarketplaceResourcesTerminate_def andThenWrap_def andThen_def bind_def perform_def ok_def
        ret_def Let_def)
  moreover have "uuid_Parse L (uuid_String L v) = Inr v" using assms(2) by (simp add: uuid_codec_def)
  ultimately show ?thesis using that [of ?x resp] by simp
qed

abbreviation poll_event :: "event \<Rightarrow> bool" where
  "poll_event e \<equiv> \<exists>u a. e = WaldurEv (MarketplaceOrdersRetrieve u a)"

lemma polls_append: "polls (h @ es) = polls h + length (filter poll_event es)"
  by (simp add: polls_def)

lemma polls_none: "list_all (\<lambda>e. \<not> poll_event e) es \<Longrightarrow> polls (h @ es) = polls h"
  by (auto simp: polls_append list_all_iff filter_empty_conv)

lemma emits_no_poll: "emits (\<lambda>e. \<not> poll_event e) (refreshVMResource L E m)"
  unfolding refreshVMResource_def getMarketplaceResource_def prim_defs
  by (intro ext.frame_rules emits_perform) simp_all

text \<open>The pass, from the run of the reconciler.\<close>

lemma deletionPass_run:
  assumes "machine_reconcileDelete L E m w = (res, w')" and "hist w' = hist w @ es"
  shows "deletionPass L E (m, w) = map_option (\<lambda>m'. (m', w')) (afterWrites es (Some m))"
  using assms by (simp add: deletionPass_def Let_def)

lemma release_pass:
  assumes "terminating_env E k" and "finalizer_ops L" and "machinePhase m \<in> {NeverProvisioned, Terminated}"
  shows "deletionPass L E (m, w) = None"
proof -
  let ?n = "m\<lparr>wm_Meta := (wm_Meta m)\<lparr>om_Finalizers := RemoveFinalizer L (om_Finalizers (wm_Meta m)) machineFinalizer\<rparr>\<rparr>"
  from assms(1) obtain a where a: "on_UpdateWaldurMachine (env_kube E) (hist w) ?n = Inr a"
    unfolding terminating_env_def by blast
  have gone: "machineFinalizer \<notin> set (RemoveFinalizer L (om_Finalizers (wm_Meta m)) machineFinalizer)"
    using assms(2) by (simp add: finalizer_ops_def)
  have "\<exists>res. machine_reconcileDelete L E m w = (res, w\<lparr>hist := hist w @ [KubeEv (UpdateWaldurMachine ?n (Inr a))]\<rparr>)"
    using assms(3) a
    by (auto simp: machine_reconcileDelete_phase removeMachineFinalizer_def k_UpdateWaldurMachine_def andThenWrap_def bind_def perform_def
        ok_def ret_def Let_def)
  with gone show ?thesis by (auto simp: deletionPass_run afterWrites_def)
qed

text \<open>A termination that Waldur can be asked about.\<close>

definition flying :: "lib \<Rightarrow> WaldurMachine \<Rightarrow> bool" where
  "flying L m \<longleftrightarrow> machinePhase m = InFlight \<and> (\<exists>x u. machineOrder m = Some x \<and> uuid_Parse L (wo_Uuid x) = Inr u)"

lemma refreshVMResource_returns:
  assumes "terminating_env E k"
  shows "\<exists>m' err u. refreshVMResource L E m w = (Ret (m', err), u)"
proof (cases "uuid_Parse L (machineResource m)")
  case (Inl e)
  then show ?thesis
    by (simp add: refreshVMResource_def getMarketplaceResource_def andThenWrap_def bind_def ret_def fail_def)
next
  case (Inr u)
  from assms obtain resp r where "on_MarketplaceResourcesRetrieve (env_waldur E) (hist w) u = Inr resp" "JSON resp = Some r"
    unfolding terminating_env_def by blast
  moreover have "\<exists>iresp i. on_OpenstackInstancesRetrieve (env_waldur E) h v fs = Inr iresp \<and> JSON iresp = Some i" for h v fs
    using assms unfolding terminating_env_def by blast
  then obtain iresp i where "\<And>h v fs. on_OpenstackInstancesRetrieve (env_waldur E) h v fs = Inr (iresp h v fs)"
    "\<And>h v fs. JSON (iresp h v fs) = Some (i h v fs)" by metis
  ultimately show ?thesis using Inr
    by (auto simp: refreshVMResource_def getMarketplaceResource_def prim_defs andThenWrap_def bind_def perform_def ok_def ret_def Let_def
        split: option.split)
qed

lemma poll_pass:
  assumes env: "terminating_env E k" and fly: "flying L m"
  shows "\<exists>m' w'. deletionPass L E (m, w) = Some (m', w') \<and> polls (hist w') = Suc (polls (hist w)) \<and>
    (if polls (hist w) < k then flying L m' else machinePhase m' = Terminated)"
proof -
  from fly obtain x u where x: "machineOrder m = Some x" "uuid_Parse L (wo_Uuid x) = Inr u"
    and phase: "machinePhase m = InFlight" by (auto simp: flying_def)
  then have open_order: "\<not> isOrderTerminal (wo_State x)" "wo_Type x = Terminate" "machineResource m \<noteq> []"
    by (auto simp: deletePhase_def split: if_splits)
  let ?st = "if polls (hist w) < k then OrderStateOther ''executing'' else OrderStateDone"
  from env have "orders_land E k" by (simp add: terminating_env_def)
  then obtain y resp where y: "refreshOrder L E x w = (Ret (Inr y), w\<lparr>hist := hist w @ [WaldurEv (MarketplaceOrdersRetrieve u (Inr resp))]\<rparr>)"
    "wo_State y = ?st" and "wo_Uuid y = wo_Uuid x" "wo_Type y = wo_Type x"
    by (rule refreshOrder_lands [OF _ x(2)])
  then have y': "wo_Uuid y = wo_Uuid x" "wo_Type y = Terminate" using open_order(2) by auto
  let ?w1 = "w\<lparr>hist := hist w @ [WaldurEv (MarketplaceOrdersRetrieve u (Inr resp))]\<rparr>"
  let ?m = "setMachineOrder y m"
  obtain m' err w2 where rest: "refreshVMResource L E ?m ?w1 = (Ret (m', err), w2)"
    using refreshVMResource_returns [OF env] by blast
  from emitsD [OF emits_no_poll rest] obtain es where es: "hist w2 = hist ?w1 @ es" "list_all (\<lambda>e. \<not> poll_event e) es" .
  from emitsD [OF emits_refreshVMResource rest] obtain fs where "hist w2 = hist ?w1 @ fs" "list_all waldur_read fs" .
  with es have reads: "list_all (\<lambda>e. \<exists>x. e = WaldurEv x) es" by (simp add: waldur_read_def list_all_iff)
  have refresh: "refreshVM L E m w = (Ret (m', err), w2)"
    using x(1) open_order(1) y(1) rest by (simp add: refreshVM_def bind_def)
  from env obtain a where a: "on_PatchWaldurMachineStatus (env_kube E) (hist w2) m' m = Inr a" unfolding terminating_env_def by blast
  let ?w3 = "w2\<lparr>hist := hist w2 @ [KubeEv (PatchWaldurMachineStatus m' m (Inr a))]\<rparr>"
  have "\<exists>res. machine_reconcileDelete L E m w = (res, ?w3)"
    using phase refresh a by (simp add: machine_reconcileDelete_phase bind_def k_PatchWaldurMachineStatus_def andThenWrap_def perform_def
        ok_def ret_def Let_def)
  moreover have hist: "hist ?w3 = hist w @ ([WaldurEv (MarketplaceOrdersRetrieve u (Inr resp))] @ es) @ [KubeEv (PatchWaldurMachineStatus m' m (Inr a))]"
    using es(1) by simp
  moreover have "afterWrites ([WaldurEv (MarketplaceOrdersRetrieve u (Inr resp))] @ es) (Some m) = Some m"
    using reads by (intro afterWrites_waldur) simp
  then have "afterWrites (([WaldurEv (MarketplaceOrdersRetrieve u (Inr resp))] @ es) @ [KubeEv (PatchWaldurMachineStatus m' m (Inr a))]) (Some m)
    = Some (m\<lparr>wm_Status := wm_Status m'\<rparr>)" by (simp only: afterWrites_append) (simp add: afterWrites_def)
  ultimately have pass: "deletionPass L E (m, w) = Some (m\<lparr>wm_Status := wm_Status m'\<rparr>, ?w3)"
    using deletionPass_run [OF _ hist] by auto
  have "polls (hist ?w3) = Suc (polls (hist w))"
    using es by (simp add: polls_def list_all_iff filter_empty_conv)
  moreover have "machineOrder m' = Some y" "machineResource m' = machineResource m"
    using refreshVMResource_keeps [OF rest] by (auto simp: same_machine_def)
  ultimately show ?thesis using pass y(2) y' x(2) open_order(3)
    by (auto simp: flying_def deletePhase_def isOrderTerminal_def)
qed

lemma terminateVM_flying:
  assumes env: "terminating_env E k" and "uuid_codec L" and "uuid_Parse L (machineResource m) = Inr u"
  shows "\<exists>res x es. terminateVM L E m w = (res, w\<lparr>hist := hist w @ es\<rparr>) \<and> afterWrites es (Some m) = Some (setMachineOrder x m) \<and>
    list_all (\<lambda>e. \<not> poll_event e) es \<and> wo_Type x = Terminate \<and> wo_State x = OrderStatePendingProvider \<and>
    (\<exists>v. uuid_Parse L (wo_Uuid x) = Inr v)"
proof -
  from env have "terminations_accepted E" by (simp add: terminating_env_def)
  then obtain x resp where x: "submitTerminationOrder L E (machineResource m) w =
      (Ret (Inr x), w\<lparr>hist := hist w @ [WaldurEv (MarketplaceResourcesTerminate u (Inr resp))]\<rparr>)"
    "\<exists>v. uuid_Parse L (wo_Uuid x) = Inr v" "wo_Type x = Terminate" "wo_State x = OrderStatePendingProvider"
    by (rule submitTermination_accepted [OF _ assms(2,3)])
  let ?e = "WaldurEv (MarketplaceResourcesTerminate u (Inr resp))"
  from env obtain a where a: "on_PatchWaldurMachineStatus (env_kube E) (hist w @ [?e]) (setMachineOrder x m) m = Inr a"
    unfolding terminating_env_def by blast
  let ?es = "[?e, KubeEv (PatchWaldurMachineStatus (setMachineOrder x m) m (Inr a))]"
  have "terminateVM L E m w = (Ret (Inr (requeueAfter 15)), w\<lparr>hist := hist w @ ?es\<rparr>)"
    using x(1) a by (simp add: terminateVM_def k_PatchWaldurMachineStatus_def andThenWrap_def bind_def perform_def ok_def ret_def Let_def)
  moreover have "afterWrites ?es (Some m) = Some (setMachineOrder x m)" by (simp add: afterWrites_def)
  ultimately show ?thesis
    using x(2-4) by (intro exI [of _ "Ret (Inr (requeueAfter 15))"] exI [of _ x] exI [of _ ?es]) simp
qed

text \<open>A machine whose identifiers can be parsed.\<close>

definition parsable :: "lib \<Rightarrow> WaldurMachine \<Rightarrow> bool" where
  "parsable L m \<longleftrightarrow> (machineResource m \<noteq> [] \<longrightarrow> (\<exists>u. uuid_Parse L (machineResource m) = Inr u)) \<and>
     (\<forall>vm. mst_VmUuid (wm_Status m) = Some vm \<longrightarrow> (\<exists>u. uuid_Parse L vm = Inr u)) \<and>
     (\<forall>x. machineOrder m = Some x \<longrightarrow> (\<exists>u. uuid_Parse L (wo_Uuid x) = Inr u))"

lemma submit_pass:
  assumes env: "terminating_env E k" and codec: "uuid_codec L" and "parsable L m" and phase: "machinePhase m = SubmitDue"
  shows "\<exists>m' w'. deletionPass L E (m, w) = Some (m', w') \<and> flying L m' \<and> polls (hist w') = polls (hist w)"
proof -
  have mp: "machineResource m \<noteq> []" using phase by (auto simp: deletePhase_def)
  with assms(3) obtain u where u: "uuid_Parse L (machineResource m) = Inr u" by (auto simp: parsable_def)
  obtain w1 fs where run: "machine_reconcileDelete L E m w = terminateVM L E m w1" and w1: "hist w1 = hist w @ fs"
    and fs: "list_all (\<lambda>e. \<exists>x. e = WaldurEv x) fs" "list_all (\<lambda>e. \<not> poll_event e) fs"
  proof (cases "mst_VmUuid (wm_Status m)")
    case None
    with phase that [of w "[]"] show ?thesis by (simp add: machine_reconcileDelete_phase)
  next
    case (Some vm)
    with assms(3) obtain v where v: "uuid_Parse L vm = Inr v" by (auto simp: parsable_def)
    from env obtain resp i where i: "on_OpenstackInstancesRetrieve (env_waldur E) (hist w) v [InstanceFieldRuntimeState] = Inr resp"
      "JSON resp = Some i" "ins_RuntimeState i = Some ''SHUTOFF''" unfolding terminating_env_def by blast
    let ?e = "WaldurEv (OpenstackInstancesRetrieve v [InstanceFieldRuntimeState] (Inr resp))"
    have "machine_reconcileDelete L E m w = terminateVM L E m (w\<lparr>hist := hist w @ [?e]\<rparr>)"
      using phase Some v i
      by (simp add: machine_reconcileDelete_phase stopVM_def w_OpenstackInstancesRetrieve_def andThenWrap_def bind_def perform_def ret_def Let_def)
    with that [of _ "[?e]"] show ?thesis by simp
  qed
  from terminateVM_flying [OF env codec u, of w1] obtain res x es where
    term_run: "terminateVM L E m w1 = (res, w1\<lparr>hist := hist w1 @ es\<rparr>)" and aw: "afterWrites es (Some m) = Some (setMachineOrder x m)"
    and es: "list_all (\<lambda>e. \<not> poll_event e) es" and x: "wo_Type x = Terminate" "wo_State x = OrderStatePendingProvider"
    "\<exists>v. uuid_Parse L (wo_Uuid x) = Inr v" by blast
  let ?w' = "w1\<lparr>hist := hist w1 @ es\<rparr>"
  have "deletionPass L E (m, w) = Some (setMachineOrder x m, ?w')"
    using deletionPass_run [of L E m w res ?w' "fs @ es"] run term_run w1 aw fs(1) by (simp add: afterWrites_append afterWrites_waldur)
  moreover have "flying L (setMachineOrder x m)" using x mp by (simp add: flying_def deletePhase_def isOrderTerminal_def)
  moreover have "polls (hist ?w') = polls (hist w)" using w1 fs(2) es polls_none [of "fs @ es" "hist w"] by simp
  ultimately show ?thesis by blast
qed

lemma flying_lands:
  assumes "terminating_env E k" and "finalizer_ops L" and "flying L m"
  shows "\<exists>n \<le> k - polls (hist w) + 2. deletionPasses n L E (m, w) = None"
  using assms(3)
proof (induction "k - polls (hist w)" arbitrary: m w)
  case 0
  with poll_pass [OF assms(1) 0(2)] obtain m' w' where "deletionPass L E (m, w) = Some (m', w')" "machinePhase m' = Terminated" by fastforce
  moreover from this have "deletionPass L E (m', w') = None" by (intro release_pass [OF assms(1,2)]) simp
  ultimately show ?case by (intro exI [of _ "Suc (Suc 0)"]) simp
next
  case (Suc d)
  then have "polls (hist w) < k" by simp
  with poll_pass [OF assms(1) Suc.prems, of w] obtain m' w' where pass: "deletionPass L E (m, w) = Some (m', w')"
    "polls (hist w') = Suc (polls (hist w))" "flying L m'" by auto
  then have "d = k - polls (hist w')" using Suc.hyps(2) by simp
  from Suc.hyps(1) [OF this pass(3)] obtain n where "n \<le> k - polls (hist w') + 2" "deletionPasses n L E (m', w') = None" by blast
  with pass Suc.hyps(2) show ?case by (intro exI [of _ "Suc n"]) simp
qed

text \<open>C7: deletion comes to an end. If Waldur accepts the termination, reports its order as executing for \<open>k\<close> polls and
  as done afterwards, answers the lookup of the resource with a body, reports the VM as shut off, and the API server accepts the writes, then the
  finalizer of a machine under deletion is gone after at most \<open>k + 3\<close> passes, from every state the
  machine can be in.\<close>

theorem machine_deletion_completes:
  assumes env: "terminating_env E k" and "uuid_codec L" and fin: "finalizer_ops L" and "parsable L m"
  shows "\<exists>n \<le> k + 3. deletionPasses n L E (m, w) = None"
proof (cases "machinePhase m")
  case SubmitDue
  from submit_pass [OF env assms(2,4) this] obtain m' w' where pass: "deletionPass L E (m, w) = Some (m', w')" "flying L m'" by blast
  from flying_lands [OF env fin pass(2)] obtain n where "n \<le> k - polls (hist w') + 2" "deletionPasses n L E (m', w') = None" by blast
  with pass show ?thesis by (intro exI [of _ "Suc n"]) auto
next
  case InFlight
  with assms(4) have "flying L m"
    by (auto simp: flying_def parsable_def deletePhase_def split: if_splits option.splits)
  from flying_lands [OF env fin this] obtain n where "n \<le> k - polls (hist w) + 2" "deletionPasses n L E (m, w) = None" by blast
  then show ?thesis by (intro exI [of _ n]) simp
qed (use release_pass [OF env fin] in \<open>auto intro!: exI [of _ "Suc 0"]\<close>)

definition env_terminating :: env where
  "env_terminating = env_down\<lparr>
     env_kube := kube_down\<lparr>on_PatchWaldurMachineStatus := (\<lambda>_ n b. Inr n), on_UpdateWaldurMachine := (\<lambda>_ n. Inr n)\<rparr>,
     env_waldur := waldur_down\<lparr>
       on_MarketplaceResourcesTerminate := (\<lambda>_ _. reply 200 \<lparr>ou_OrderUuid = Some 7\<rparr>),
       on_MarketplaceOrdersRetrieve := (\<lambda>h _. reply 200 (order_reply\<lparr>od_State := Some (if polls h < 1
         then OrderStateOther ''executing'' else OrderStateDone)\<rparr>)),
       on_MarketplaceResourcesRetrieve := (\<lambda>_ _. reply 200 \<lparr>res_State = None, res_Scope = None, res_ResourceUuid = None\<rparr>),
       on_OpenstackInstancesRetrieve := (\<lambda>_ _ _. reply 200 \<lparr>ins_State = None, ins_Uuid = None,
         ins_RuntimeState = Some ''SHUTOFF'', ins_InternalIps = None\<rparr>)\<rparr>\<rparr>"

lemma env_terminating_ok: "terminating_env env_terminating 1"
  by (simp add: terminating_env_def terminations_accepted_def orders_land_def env_terminating_def)

theorem machine_deletion_completes_witness:
  "\<exists>n \<le> 4. deletionPasses n lib_sample env_terminating
     (machine_sample (Some 1) ''000'' (Some (order_sample Create OrderStateDone)) (Some ''00'') CoreStatesOK, world_sample) = None"
proof -
  have "parsable lib_sample (machine_sample (Some 1) ''000'' (Some (order_sample Create OrderStateDone)) (Some ''00'') CoreStatesOK)"
    by (simp add: parsable_def machine_samples lib_sample_def)
  from machine_deletion_completes [OF env_terminating_ok lib_sample_ok(1,3) this, of world_sample] show ?thesis by simp
qed

end
