(* ===== verification/Panic_Freedom.thy ===== *)
theory Panic_Freedom
  imports Machine_Properties Cluster_Properties
begin

text \<open>
  When the reconcilers cannot panic. \<open>complete_answer\<close> lists, call by call, which parts of a Waldur
  answer the sources dereference without a check; when every answer of Waldur is complete in this
  sense (or a transport error), no pass of either reconciler dereferences a nil pointer or indexes
  an empty slice. The proofs use a small logic: \<open>returns P m\<close> says that \<open>m\<close> returns, with a result that
  satisfies \<open>P\<close>, and \<open>safe Q m\<close> that it returns an error or a value with \<open>Q\<close>.
\<close>

section \<open>Computations that return\<close>

definition returns :: "('a \<Rightarrow> bool) \<Rightarrow> ('s, 'a) comp \<Rightarrow> bool" where
  "returns P m \<longleftrightarrow> (\<forall>s. \<exists>a t. m s = (Ret a, t) \<and> P a)"

definition safe :: "('a \<Rightarrow> bool) \<Rightarrow> ('s, error + 'a) comp \<Rightarrow> bool" where
  "safe Q m \<longleftrightarrow> returns (\<lambda>r. \<forall>a. r = Inr a \<longrightarrow> Q a) m"

lemma returns_ret: "P a \<Longrightarrow> returns P (ret a)"
  by (simp add: returns_def ret_def)

lemma returns_bind:
  assumes "returns Q m" and "\<And>a. Q a \<Longrightarrow> returns P (f a)"
  shows "returns P (bind m f)"
  unfolding returns_def
proof
  fix s
  from assms(1) obtain a t where "m s = (Ret a, t)" "Q a" unfolding returns_def by blast
  moreover from assms(2) [OF this(2)] obtain b u where "f a t = (Ret b, u)" "P b" unfolding returns_def by blast
  ultimately show "\<exists>b u. bind m f s = (Ret b, u) \<and> P b" by (simp add: bind_def)
qed

lemma returns_weaken: "returns Q m \<Longrightarrow> (\<And>a. Q a \<Longrightarrow> P a) \<Longrightarrow> returns P m"
  unfolding returns_def by blast

lemma returns_no_panic: "no_panic m \<longleftrightarrow> returns (\<lambda>_. True) m"
  unfolding returns_def no_panic_def by (metis fst_conv go.distinct(1) go.exhaust prod.collapse)

lemma returns_deref: "p \<noteq> None \<Longrightarrow> (\<And>a. p = Some a \<Longrightarrow> returns P (f a)) \<Longrightarrow> returns P (deref p f)"
  by auto

lemma returns_branches:
  "(b \<Longrightarrow> returns P m) \<Longrightarrow> (\<not> b \<Longrightarrow> returns P n) \<Longrightarrow> returns P (if b then m else n)"
  "(q = None \<Longrightarrow> returns P m) \<Longrightarrow> (\<And>c. q = Some c \<Longrightarrow> returns P (g c)) \<Longrightarrow> returns P (case q of None \<Rightarrow> m | Some c \<Rightarrow> g c)"
  "(\<And>e. x = Inl e \<Longrightarrow> returns P (h e)) \<Longrightarrow> (\<And>d. x = Inr d \<Longrightarrow> returns P (i d)) \<Longrightarrow> returns P (case x of Inl e \<Rightarrow> h e | Inr d \<Rightarrow> i d)"
  "(\<And>c d. y = (c, d) \<Longrightarrow> returns P (j c d)) \<Longrightarrow> returns P (case y of (c, d) \<Rightarrow> j c d)"
  "(\<And>c. c = z \<Longrightarrow> returns P (k c)) \<Longrightarrow> returns P (let c = z in k c)"
  by (auto split: option.split sum.split prod.split)

lemma safe_ok: "Q a \<Longrightarrow> safe Q (ok a)"
  by (simp add: safe_def ok_def returns_ret)

lemma safe_fail: "safe Q (fail e)"
  by (simp add: safe_def fail_def returns_ret)

lemma safe_ret: "(\<And>a. x = Inr a \<Longrightarrow> Q a) \<Longrightarrow> safe Q (ret x)"
  by (simp add: safe_def returns_ret)

lemma safe_andThen: "safe R m \<Longrightarrow> (\<And>a. R a \<Longrightarrow> safe Q (f a)) \<Longrightarrow> safe Q (andThen m f)"
  unfolding andThen_def safe_def
  by (erule returns_bind) (auto split: sum.split simp: fail_def returns_ret)

lemma safe_andThenWrap: "safe R m \<Longrightarrow> (\<And>a. R a \<Longrightarrow> safe Q (f a)) \<Longrightarrow> safe Q (andThenWrap msg m f)"
  unfolding andThenWrap_def safe_def
  by (erule returns_bind) (auto split: sum.split simp: fail_def returns_ret)

lemma safe_bind: "returns R m \<Longrightarrow> (\<And>a. R a \<Longrightarrow> safe Q (f a)) \<Longrightarrow> safe Q (bind m f)"
  unfolding safe_def by (rule returns_bind)

lemma safe_deref: "p \<noteq> None \<Longrightarrow> (\<And>a. p = Some a \<Longrightarrow> safe Q (f a)) \<Longrightarrow> safe Q (deref p f)"
  unfolding safe_def by (rule returns_deref)

lemma safe_index0: "xs \<noteq> [] \<Longrightarrow> (\<And>x ys. xs = x # ys \<Longrightarrow> safe Q (f x)) \<Longrightarrow> safe Q (index0 xs f)"
  by (cases xs) auto

lemma safe_weaken: "safe R m \<Longrightarrow> (\<And>a. R a \<Longrightarrow> Q a) \<Longrightarrow> safe Q m"
  unfolding safe_def by (erule returns_weaken) blast

lemma returns_safe: "safe Q m \<Longrightarrow> returns (\<lambda>r. \<forall>a. r = Inr a \<longrightarrow> Q a) m"
  by (simp add: safe_def)

lemma safe_branches:
  "(b \<Longrightarrow> safe Q m) \<Longrightarrow> (\<not> b \<Longrightarrow> safe Q n) \<Longrightarrow> safe Q (if b then m else n)"
  "(q = None \<Longrightarrow> safe Q m) \<Longrightarrow> (\<And>c. q = Some c \<Longrightarrow> safe Q (g c)) \<Longrightarrow> safe Q (case q of None \<Rightarrow> m | Some c \<Rightarrow> g c)"
  "(\<And>e. x = Inl e \<Longrightarrow> safe Q (h e)) \<Longrightarrow> (\<And>d. x = Inr d \<Longrightarrow> safe Q (i d)) \<Longrightarrow> safe Q (case x of Inl e \<Rightarrow> h e | Inr d \<Rightarrow> i d)"
  "(\<And>c d. y = (c, d) \<Longrightarrow> safe Q (j c d)) \<Longrightarrow> safe Q (case y of (c, d) \<Rightarrow> j c d)"
  "(\<And>c. c = z \<Longrightarrow> safe Q (k c)) \<Longrightarrow> safe Q (let c = z in k c)"
  by (auto split: option.split sum.split prod.split)

lemmas safe_rules = safe_ok safe_fail safe_deref safe_index0 safe_branches

lemma returns_perform: "(\<And>h. P (f h)) \<Longrightarrow> returns P (perform f mk)"
  by (simp add: returns_def perform_def Let_def)

lemma safe_perform: "(\<And>h a. f h = Inr a \<Longrightarrow> Q a) \<Longrightarrow> safe Q (perform f mk)"
  unfolding safe_def by (rule returns_perform) simp

section \<open>Complete answers\<close>

definition completeProject :: "Project \<Rightarrow> bool" where
  "completeProject p \<longleftrightarrow> prj_Name p \<noteq> None \<and> prj_Url p \<noteq> None"

definition completeOffering :: "PublicOfferingDetails \<Rightarrow> bool" where
  "completeOffering p \<longleftrightarrow> off_Slug p \<noteq> None \<and> off_Url p \<noteq> None \<and> off_PlanUrls p \<notin> {None, Some []}"

definition completeOrder :: "OrderDetails \<Rightarrow> bool" where
  "completeOrder d \<longleftrightarrow> od_Uuid d \<noteq> None \<and> od_Type d \<noteq> None \<and> od_State d \<noteq> None \<and> od_MarketplaceResourceUuid d \<noteq> None \<and>
     od_ResourceName d \<noteq> None"

definition body :: "('a \<Rightarrow> bool) \<Rightarrow> 'a response \<Rightarrow> bool" where
  "body P r = (case JSON r of None \<Rightarrow> False | Some x \<Rightarrow> P x)"

fun complete_answer :: "waldur_event \<Rightarrow> bool" where
  "complete_answer (CustomersList n fs (Inr r)) \<longleftrightarrow> (StatusCode r = 200 \<longrightarrow>
     body (list_all (\<lambda>c. cus_Slug c \<noteq> None \<and> cus_Uuid c \<noteq> None \<and> cus_Url c \<noteq> None)) r)"
| "complete_answer (ProjectsList x (Inr r)) \<longleftrightarrow> body (list_all completeProject) r"
| "complete_answer (ProjectsCreate x (Inr r)) \<longleftrightarrow> body completeProject r"
| "complete_answer (OpenstackFlavorsList u n (Inr r)) \<longleftrightarrow> body (list_all (\<lambda>f. fl_Cores f \<noteq> None \<and> fl_Ram f \<noteq> None)) r"
| "complete_answer (OpenstackImagesList u n (Inr r)) \<longleftrightarrow> body (\<lambda>_. True) r"
| "complete_answer (OpenstackSecurityGroupsList u (Inr r)) \<longleftrightarrow> body (list_all (\<lambda>g. sg_Url g = None \<or> sg_Name g \<noteq> None)) r"
| "complete_answer (OpenstackSubnetsList u (Inr r)) \<longleftrightarrow> body (\<lambda>_. True) r"
| "complete_answer (OpenstackVolumeTypesList u (Inr r)) \<longleftrightarrow> body (\<lambda>_. True) r"
| "complete_answer (MarketplacePublicOfferingsList n (Inr r)) \<longleftrightarrow> body (list_all completeOffering) r"
| "complete_answer (MarketplacePublicOfferingsRetrieve u (Inr r)) \<longleftrightarrow> body (\<lambda>p. off_Url p \<noteq> None) r"
| "complete_answer (MarketplaceResourcesRetrieve u (Inr r)) \<longleftrightarrow> body (\<lambda>_. True) r"
| "complete_answer (MarketplaceResourcesOfferingForSubresourcesList u (Inr r)) \<longleftrightarrow> (StatusCode r = 200 \<longrightarrow>
     body (list_all (\<lambda>s. so_Type s \<noteq> None \<and> so_Uuid s \<noteq> None)) r)"
| "complete_answer (MarketplaceOrdersCreate p (Inr r)) \<longleftrightarrow> (StatusCode r = 201 \<longrightarrow> body completeOrder r)"
| "complete_answer (MarketplaceOrdersRetrieve u (Inr r)) \<longleftrightarrow> body (\<lambda>d. od_State d \<noteq> None) r"
| "complete_answer (OpenstackTenantsRetrieve u (Inr r)) \<longleftrightarrow> body (\<lambda>t. ot_State t \<noteq> None) r"
| "complete_answer _ \<longleftrightarrow> True"

text \<open>Every answer of this Waldur is complete.\<close>

definition complete_waldur :: "waldur_api \<Rightarrow> bool" where
  "complete_waldur A \<longleftrightarrow> (\<forall>h.
     (\<forall>x y. complete_answer (CustomersList x y (on_CustomersList A h x y))) \<and>
     (\<forall>x. complete_answer (ProjectsList x (on_ProjectsList A h x))) \<and>
     (\<forall>x. complete_answer (ProjectsCreate x (on_ProjectsCreate A h x))) \<and>
     (\<forall>x y. complete_answer (OpenstackFlavorsList x y (on_OpenstackFlavorsList A h x y))) \<and>
     (\<forall>x y. complete_answer (OpenstackImagesList x y (on_OpenstackImagesList A h x y))) \<and>
     (\<forall>x. complete_answer (OpenstackSecurityGroupsList x (on_OpenstackSecurityGroupsList A h x))) \<and>
     (\<forall>x. complete_answer (OpenstackSubnetsList x (on_OpenstackSubnetsList A h x))) \<and>
     (\<forall>x. complete_answer (OpenstackVolumeTypesList x (on_OpenstackVolumeTypesList A h x))) \<and>
     (\<forall>x. complete_answer (MarketplacePublicOfferingsList x (on_MarketplacePublicOfferingsList A h x))) \<and>
     (\<forall>x. complete_answer (MarketplacePublicOfferingsRetrieve x (on_MarketplacePublicOfferingsRetrieve A h x))) \<and>
     (\<forall>x. complete_answer (MarketplaceResourcesRetrieve x (on_MarketplaceResourcesRetrieve A h x))) \<and>
     (\<forall>x. complete_answer (MarketplaceResourcesOfferingForSubresourcesList x (on_MarketplaceResourcesOfferingForSubresourcesList A h x))) \<and>
     (\<forall>x. complete_answer (MarketplaceOrdersCreate x (on_MarketplaceOrdersCreate A h x))) \<and>
     (\<forall>x. complete_answer (MarketplaceOrdersRetrieve x (on_MarketplaceOrdersRetrieve A h x))) \<and>
     (\<forall>x. complete_answer (OpenstackTenantsRetrieve x (on_OpenstackTenantsRetrieve A h x))))"

abbreviation hasBody :: "('a \<Rightarrow> bool) \<Rightarrow> 'a response \<Rightarrow> bool" where
  "hasBody P r \<equiv> \<exists>x. JSON r = Some x \<and> P x"

lemma body_eq: "body P r \<longleftrightarrow> hasBody P r"
  by (auto simp: body_def split: option.split)

lemma complete_answers:
  assumes "complete_waldur A"
  shows "complete_answer (CustomersList x1 y1 (on_CustomersList A h x1 y1))"
    "complete_answer (ProjectsList x2 (on_ProjectsList A h x2))"
    "complete_answer (ProjectsCreate x3 (on_ProjectsCreate A h x3))"
    "complete_answer (OpenstackFlavorsList x4 y4 (on_OpenstackFlavorsList A h x4 y4))"
    "complete_answer (OpenstackImagesList x5 y5 (on_OpenstackImagesList A h x5 y5))"
    "complete_answer (OpenstackSecurityGroupsList x6 (on_OpenstackSecurityGroupsList A h x6))"
    "complete_answer (OpenstackSubnetsList x7 (on_OpenstackSubnetsList A h x7))"
    "complete_answer (OpenstackVolumeTypesList x8 (on_OpenstackVolumeTypesList A h x8))"
    "complete_answer (MarketplacePublicOfferingsList x9 (on_MarketplacePublicOfferingsList A h x9))"
    "complete_answer (MarketplacePublicOfferingsRetrieve x10 (on_MarketplacePublicOfferingsRetrieve A h x10))"
    "complete_answer (MarketplaceResourcesRetrieve x11 (on_MarketplaceResourcesRetrieve A h x11))"
    "complete_answer (MarketplaceResourcesOfferingForSubresourcesList x12 (on_MarketplaceResourcesOfferingForSubresourcesList A h x12))"
    "complete_answer (MarketplaceOrdersCreate x13 (on_MarketplaceOrdersCreate A h x13))"
    "complete_answer (MarketplaceOrdersRetrieve x14 (on_MarketplaceOrdersRetrieve A h x14))"
    "complete_answer (OpenstackTenantsRetrieve x15 (on_OpenstackTenantsRetrieve A h x15))"
  using assms unfolding complete_waldur_def by blast+

lemma safe_complete:
  assumes "\<And>h. complete_answer (mk (f h))" and "\<And>r. complete_answer (mk (Inr r)) \<Longrightarrow> Q r"
  shows "safe Q (perform f (\<lambda>r. WaldurEv (mk r)))"
  using assms by (metis safe_perform)

lemma safe_calls:
  assumes "complete_waldur (env_waldur E)"
  shows "safe (\<lambda>r. StatusCode r = 200 \<longrightarrow> hasBody (list_all (\<lambda>c. cus_Slug c \<noteq> None \<and> cus_Uuid c \<noteq> None \<and> cus_Url c \<noteq> None)) r) (w_CustomersList E n fs)"
    and "safe (hasBody (list_all completeProject)) (w_ProjectsList E x)"
    and "safe (hasBody completeProject) (w_ProjectsCreate E pc)"
    and "safe (hasBody (list_all (\<lambda>f. fl_Cores f \<noteq> None \<and> fl_Ram f \<noteq> None))) (w_OpenstackFlavorsList E ou n)"
    and "safe (hasBody (\<lambda>_. True)) (w_OpenstackImagesList E ou n)"
    and "safe (hasBody (list_all (\<lambda>g. sg_Url g = None \<or> sg_Name g \<noteq> None))) (w_OpenstackSecurityGroupsList E u)"
    and "safe (hasBody (\<lambda>_. True)) (w_OpenstackSubnetsList E u)"
    and "safe (hasBody (\<lambda>_. True)) (w_OpenstackVolumeTypesList E u)"
    and "safe (hasBody (list_all completeOffering)) (w_MarketplacePublicOfferingsList E n)"
    and "safe (hasBody (\<lambda>p. off_Url p \<noteq> None)) (w_MarketplacePublicOfferingsRetrieve E u)"
    and "safe (hasBody (\<lambda>_. True)) (w_MarketplaceResourcesRetrieve E u)"
    and "safe (\<lambda>r. StatusCode r = 200 \<longrightarrow> hasBody (list_all (\<lambda>s. so_Type s \<noteq> None \<and> so_Uuid s \<noteq> None)) r) (w_MarketplaceResourcesOfferingForSubresourcesList E u)"
    and "safe (\<lambda>r. StatusCode r = 201 \<longrightarrow> hasBody completeOrder r) (w_MarketplaceOrdersCreate E p)"
    and "safe (hasBody (\<lambda>d. od_State d \<noteq> None)) (w_MarketplaceOrdersRetrieve E u)"
    and "safe (hasBody (\<lambda>t. ot_State t \<noteq> None)) (w_OpenstackTenantsRetrieve E u)"
  unfolding prim_defs
  by (rule safe_complete, rule complete_answers [OF assms], simp add: body_eq)+

lemma safe_other_calls:
  "safe (\<lambda>_. True) (w_ProjectsDestroy E u)" "safe (\<lambda>_. True) (w_MarketplaceResourcesTerminate E u)"
  "safe (\<lambda>_. True) (w_OpenstackInstancesRetrieve E u fs)" "safe (\<lambda>_. True) (w_OpenstackInstancesStop E u)"
  unfolding prim_defs by (rule safe_perform; simp)+

lemma safe_kube:
  "safe (\<lambda>_. True) (k_GetMachine E x)" "safe (\<lambda>_. True) (k_GetWaldurCluster E x)" "safe (\<lambda>_. True) (k_GetSecret E x)"
  "safe (\<lambda>_. True) (k_GetWaldurMachine E x)"
  "safe (\<lambda>_. True) (k_ListWaldurMachines E ns l)" "safe (\<lambda>_. True) (k_UpdateWaldurMachine E m)" "safe (\<lambda>_. True) (k_PatchWaldurMachine E m b)"
  "safe (\<lambda>_. True) (k_PatchWaldurMachineStatus E m b)" "safe (\<lambda>_. True) (k_UpdateWaldurCluster E c)"
  "safe (\<lambda>_. True) (k_PatchWaldurClusterStatus E c d)"
  unfolding prim_defs by (rule safe_perform; simp)+

section \<open>The steps of the reconcilers\<close>

lemma safe_pure: "safe (\<lambda>_. True) (ret x)"
  by (simp add: safe_def returns_ret)

lemma returns_any: "safe Q m \<Longrightarrow> returns (\<lambda>_. True) m" "no_panic m' \<Longrightarrow> returns (\<lambda>_. True) m'"
  by (auto simp: safe_def returns_no_panic elim: returns_weaken)

lemma no_panic_safe: "no_panic m \<Longrightarrow> safe (\<lambda>_. True) m"
  by (simp add: safe_def returns_no_panic)

lemma safe_lookups:
  assumes "complete_waldur (env_waldur E)"
  shows "completeOffering off \<Longrightarrow> safe (\<lambda>f. fl_Cores f \<noteq> None \<and> fl_Ram f \<noteq> None) (getFlavor E off n)"
    and "completeOffering off \<Longrightarrow> safe (\<lambda>_. True) (getImage E off n)"
    and "safe (list_all (\<lambda>g. sg_Url g = None \<or> sg_Name g \<noteq> None)) (getTenantSecurityGroups E u)"
    and "safe (\<lambda>_. True) (getTenantSubnets E u)"
    and "safe (\<lambda>_. True) (getTenantVolumeTypes E u)"
    and "safe completeOffering (getOffering E n)"
    and "safe (\<lambda>p. off_Url p \<noteq> None) (getOfferingByUUID E u)"
    and "safe (\<lambda>p. p \<noteq> None) (getMarketplaceResource L E n)"
    and "safe (\<lambda>_. True) (refreshOrder L E ord)"
    and "safe (\<lambda>_. True) (submitTerminationOrder L E n)"
  unfolding helper_defs submitTerminationOrder_def
  by (intro safe_rules safe_calls [OF assms, THEN safe_andThen] safe_calls [OF assms, THEN safe_andThenWrap]
      safe_other_calls [THEN safe_andThen] safe_pure [THEN safe_andThen] safe_pure [THEN safe_andThenWrap];
      auto simp: completeOffering_def list_all_iff)+

text \<open>Sequencing after the calls and the lookups, in the forms the code uses.\<close>

lemmas after_calls = safe_calls [THEN safe_andThen] safe_calls [THEN safe_andThenWrap]
lemmas after_lookups = safe_lookups [THEN safe_andThen] safe_lookups [THEN safe_andThenWrap]
  safe_lookups [THEN returns_safe, THEN safe_bind] safe_lookups [THEN returns_safe, THEN returns_bind]
lemmas after_other = safe_other_calls [THEN safe_andThen] safe_other_calls [THEN safe_andThenWrap]
  safe_kube [THEN safe_andThen] safe_kube [THEN safe_andThenWrap] safe_kube [THEN returns_safe, THEN safe_bind]
  safe_other_calls [THEN returns_safe, THEN returns_bind]
  safe_pure [THEN safe_andThen] safe_pure [THEN safe_andThenWrap]
lemmas returns_rules = returns_ret returns_deref returns_branches

section \<open>Machines\<close>

lemma returns_findVMOffering:
  "list_all (\<lambda>s. so_Type s \<noteq> None \<and> so_Uuid s \<noteq> None) offs \<Longrightarrow>
   returns (\<lambda>found. \<forall>x. found = Some x \<longrightarrow> so_Uuid x \<noteq> None) (findVMOffering offs)"
  by (induction offs) (auto intro!: returns_rules)

lemma returns_defaultSecurityGroups:
  "list_all (\<lambda>g. sg_Url g = None \<or> sg_Name g \<noteq> None) sgs \<Longrightarrow> returns (\<lambda>_. True) (defaultSecurityGroups sgs)"
proof (induction sgs)
  case Nil
  then show ?case by (simp add: returns_ret)
next
  case (Cons sg sgs)
  then show ?case by (auto intro!: returns_rules returns_bind [OF Cons.IH])
qed

lemma safe_getVMOffering:
  assumes "complete_waldur (env_waldur E)"
  shows "safe (\<lambda>o1. so_Uuid o1 \<noteq> None) (getVMOffering L E u)"
  unfolding getVMOffering_def
  by (intro safe_rules after_calls [OF assms] after_other returns_findVMOffering [THEN safe_bind]) auto

lemma safe_buildOrderPayload:
  assumes "complete_waldur (env_waldur E)"
  shows "safe (\<lambda>_. True) (buildOrderPayload L E m c ud)"
  unfolding buildOrderPayload_def
  by (intro safe_rules after_calls [OF assms] after_lookups [OF assms] after_other
      safe_getVMOffering [OF assms, THEN safe_andThenWrap] returns_defaultSecurityGroups [THEN safe_bind])
    (auto simp: list_all_iff completeProject_def)

lemma safe_recordVMOrder: "completeOrder od \<Longrightarrow> safe (\<lambda>_. True) (recordVMOrder L m od)"
  unfolding recordVMOrder_def by (intro safe_rules) (auto simp: completeOrder_def)

context vault_contract
begin

lemmas safe_vault_ops = no_panic_ops(1,3) [THEN no_panic_safe, THEN safe_andThenWrap]
  no_panic_ops(4) [THEN returns_any(2), THEN safe_bind]

lemma safe_buildUserDataWithRancherAgent: "safe (\<lambda>_. True) (buildUserDataWithRancherAgent L V r ma sec)"
  unfolding buildUserDataWithRancherAgent_def
  by (intro safe_rules safe_vault_ops) auto

lemma safe_buildUserDataWithVault: "safe (\<lambda>_. True) (buildUserDataWithVault L V r raw sec)"
proof -
  have "returns (\<lambda>_. True) (if b then WriteSecret V p d else ret None)" for b p d
    by (simp add: returns_ret returns_any(2) [OF no_panic_ops(2)])
  then show ?thesis
    unfolding buildUserDataWithVault_def
    by (intro safe_rules safe_vault_ops safe_pure [THEN safe_andThenWrap] safe_bind [where R = "\<lambda>_. True"]) auto
qed

end

lemma safe_createVM:
  assumes "complete_waldur (env_waldur E)" and "wired r"
  shows "safe (\<lambda>_. True) (createVM L E r ma m c)"
proof -
  have "safe (\<lambda>_. True) (vmUserData L E r ma)"
    unfolding vmUserData_def readVaultConfigSecret_def
    using assms(2) by (auto simp: wired_def intro!: safe_rules after_other safe_andThen [where R = "\<lambda>_. True"]
        vault_contract.safe_buildUserDataWithRancherAgent vault_contract.safe_buildUserDataWithVault)
  moreover have "returns (\<lambda>_. True) (revokeRejected r role sid)" for role sid
    unfolding revokeRejected_def using assms(2)
    by (cases "mr_VaultClient r") (auto simp: wired_def returns_ret intro!: returns_any(2) vault_contract.no_panic_ops(4))
  then have "safe (\<lambda>_. True) (submitVMOrder L E r m c ud sid role)" for ud sid role
    unfolding submitVMOrder_def handleOrderResponse_def
    by (intro safe_rules after_calls [OF assms(1)] safe_buildOrderPayload [OF assms(1), THEN safe_andThen]
        safe_recordVMOrder safe_bind [where R = "\<lambda>_. True"]) auto
  ultimately show ?thesis
    unfolding createVM_def by (auto intro!: safe_rules safe_andThen [where R = "\<lambda>_. True"])
qed

lemma returns_refreshVM:
  assumes "complete_waldur (env_waldur E)"
  shows "returns (\<lambda>_. True) (refreshVM L E m)"
proof -
  have "returns (\<lambda>_. True) (refreshVMResource L E m)" for m
    unfolding refreshVMResource_def
    by (intro returns_rules after_lookups [OF assms] after_other) auto
  then show ?thesis
    unfolding refreshVM_def by (intro returns_rules after_lookups [OF assms]) auto
qed

lemma safe_terminateVM:
  assumes "complete_waldur (env_waldur E)"
  shows "safe (\<lambda>_. True) (terminateVM L E m)"
  unfolding terminateVM_def by (intro safe_rules after_lookups [OF assms] after_other) auto

lemma safe_machine_reconcileDelete:
  assumes "complete_waldur (env_waldur E)"
  shows "safe (\<lambda>_. True) (machine_reconcileDelete L E m)"
  unfolding machine_reconcileDelete_def removeMachineFinalizer_def stopVM_def
  by (intro safe_rules after_other safe_terminateVM [OF assms] returns_refreshVM [OF assms, THEN safe_bind]) auto

lemma safe_setProviderID: "safe (\<lambda>_. True) (setProviderID L E b m)"
  unfolding setProviderID_def patchMachineStatus_def by (intro safe_rules after_other) auto

text \<open>A Cluster object that refers to its infrastructure.\<close>

definition clusters_with_ref :: "env \<Rightarrow> bool" where
  "clusters_with_ref E \<longleftrightarrow> (\<forall>h x c. on_GetCluster (env_kube E) h x = Inr c \<longrightarrow> cl_InfrastructureRefName c \<noteq> None)"

lemma safe_GetCluster: "clusters_with_ref E \<Longrightarrow> safe (\<lambda>c. cl_InfrastructureRefName c \<noteq> None) (k_GetCluster E x)"
  unfolding prim_defs clusters_with_ref_def by (rule safe_perform) blast

lemma safe_machine_Reconcile:
  assumes "complete_waldur (env_waldur E)" and "wired r" and "clusters_with_ref E"
  shows "safe (\<lambda>_. True) (machine_Reconcile L E r req)"
proof -
  have "safe (\<lambda>_. True) (reconcileVM L E r ma m c)" for ma m c
    unfolding reconcileVM_def
    by (intro safe_rules safe_setProviderID returns_refreshVM [OF assms(1), THEN safe_bind]
        safe_createVM [OF assms(1,2), THEN returns_safe, THEN safe_bind]) auto
  then show ?thesis
    unfolding machine_Reconcile_def machine_reconcileLoaded_def
    by (intro safe_rules after_other safe_machine_reconcileDelete [OF assms(1)]
        safe_GetCluster [OF assms(3), THEN safe_andThenWrap]) auto
qed

section \<open>Clusters\<close>

lemma safe_getOpenStackTenant:
  assumes "complete_waldur (env_waldur E)"
  shows "safe (\<lambda>p. \<exists>t. p = Some t \<and> ot_State t \<noteq> None) (getOpenStackTenant E u)"
  unfolding getOpenStackTenant_def by (intro safe_rules after_calls [OF assms]) auto

lemma returns_refreshTenantRest:
  assumes "complete_waldur (env_waldur E)"
  shows "returns (\<lambda>_. True) (refreshTenantRest L E t)"
  unfolding refreshTenantRest_def refreshTenantResource_def
  by (intro returns_rules after_lookups [OF assms] safe_getOpenStackTenant [OF assms, THEN returns_safe, THEN returns_bind]) auto

lemma returns_refreshTenant:
  assumes "complete_waldur (env_waldur E)"
  shows "returns (\<lambda>_. True) (refreshTenant L E t)"
  unfolding refreshTenant_def by (intro returns_rules after_lookups [OF assms] returns_refreshTenantRest [OF assms]) auto

lemma safe_sumNodeGroups:
  assumes "complete_waldur (env_waldur E)" and "completeOffering off"
  shows "safe (\<lambda>_. True) (sumNodeGroups E off ngs c r s)"
proof (induction ngs arbitrary: c r s)
  case Nil
  then show ?case by (simp add: safe_ok)
next
  case (Cons ng ngs)
  show ?case
    unfolding sumNodeGroups.simps
    by (intro safe_rules after_lookups [OF assms(1)] assms(2) Cons.IH) auto
qed

lemma safe_submitTenantCreationOrder:
  assumes "complete_waldur (env_waldur E)" and "completeOffering off" and "completeProject prj"
  shows "safe (\<lambda>p. \<exists>od. p = Some od \<and> completeOrder od) (submitTenantCreationOrder L E off prj dc)"
  unfolding submitTenantCreationOrder_def calculateLimits_def
  using assms(2,3)
  by (intro safe_rules after_calls [OF assms(1)] safe_andThenWrap [where R = "\<lambda>_. True"]
      safe_sumNodeGroups [OF assms(1,2), THEN safe_andThen])
    (auto simp: completeOffering_def completeProject_def)

lemma safe_recordTenantOrder:
  assumes "complete_waldur (env_waldur E)" and "completeOrder od"
  shows "safe (\<lambda>p. p \<noteq> None) (recordTenantOrder L E prj od)"
  unfolding recordTenantOrder_def using assms(2)
  by (intro safe_rules safe_getOpenStackTenant [OF assms(1), THEN safe_andThenWrap])
    (auto simp: completeOrder_def)

lemma safe_createTenant:
  assumes "complete_waldur (env_waldur E)"
  shows "safe (\<lambda>p. p \<noteq> None) (createTenant L E dc)"
proof -
  have customer: "safe (\<lambda>c. cus_Slug c \<noteq> None \<and> cus_Uuid c \<noteq> None \<and> cus_Url c \<noteq> None) (getCustomer E n)" for n
    unfolding getCustomer_def by (intro safe_rules after_calls [OF assms]) (auto simp: list_all_iff)
  have project: "safe completeProject (getOrCreateProject E org n)"
    if "cus_Slug org \<noteq> None \<and> cus_Uuid org \<noteq> None \<and> cus_Url org \<noteq> None" for org n
    unfolding getOrCreateProject_def using that
    by (intro safe_rules after_calls [OF assms]) (auto simp: list_all_iff)
  show ?thesis
    unfolding createTenant_def
    by (intro safe_rules customer [THEN safe_andThenWrap] project [THEN safe_andThenWrap] after_lookups [OF assms]
        safe_submitTenantCreationOrder [OF assms, THEN safe_andThenWrap] safe_recordTenantOrder [OF assms]) auto
qed

lemma returns_reconcileDatacenters:
  assumes "complete_waldur (env_waldur E)"
  shows "returns (\<lambda>_. True) (reconcileDatacenters L E dcs ts)"
proof (induction dcs arbitrary: ts)
  case Nil
  then show ?case by (simp add: returns_ret)
next
  case (Cons dc dcs)
  show ?case
    unfolding reconcileDatacenters.simps
    by (intro returns_rules returns_refreshTenant [OF assms, THEN returns_bind]
        safe_createTenant [OF assms, THEN returns_safe, THEN returns_bind] Cons.IH) auto
qed

lemma returns_terminateTenants:
  assumes "complete_waldur (env_waldur E)"
  shows "returns (\<lambda>_. True) (terminateTenants L E ks ts d)"
proof (induction ks arbitrary: ts d)
  case Nil
  then show ?case by (simp add: returns_ret)
next
  case (Cons k ks)
  have "returns (\<lambda>_. True) (terminateTenant L E t)" for t
    unfolding terminateTenant_def
    by (intro returns_rules returns_refreshTenant [OF assms, THEN returns_bind] after_lookups [OF assms]) auto
  note step = this [THEN returns_bind]
  show ?case
    unfolding terminateTenants.simps by (intro returns_rules step Cons.IH)
qed

lemma safe_deleteProjects:
  assumes "complete_waldur (env_waldur E)"
  shows "safe (\<lambda>_. True) (deleteProjects E ts ks)"
proof (induction ks)
  case Nil
  then show ?case by (simp add: safe_ok)
next
  case (Cons k ks)
  have "safe (\<lambda>_. True) (deleteProject E n)" for n
    unfolding deleteProject_def by (intro safe_rules after_calls [OF assms] after_other) auto
  note step = this [THEN safe_andThenWrap]
  show ?case
    unfolding deleteProjects.simps by (intro safe_rules step Cons.IH)
qed

lemma safe_rangeOver: "(\<And>ks. safe Q (f ks)) \<Longrightarrow> safe Q (rangeOver R m f)"
  by (simp add: safe_def returns_def rangeOver_def)

lemma safe_cluster_Reconcile:
  assumes "complete_waldur (env_waldur E)"
  shows "safe (\<lambda>_. True) (cluster_Reconcile L E R req)"
proof -
  have delete: "safe (\<lambda>_. True) (cluster_reconcileDelete L E R c)" for c
    unfolding cluster_reconcileDelete_def
    by (intro safe_rules safe_rangeOver after_other returns_terminateTenants [OF assms, THEN safe_bind]
        safe_deleteProjects [OF assms, THEN safe_andThen]) auto
  have endpoint: "safe (\<lambda>_. True) (reconcileControlPlaneEndpoint L E c)" for c
    unfolding reconcileControlPlaneEndpoint_def
    by (intro safe_rules after_other after_lookups [OF assms]) (auto split: list.split intro!: safe_rules after_other)
  show ?thesis
    unfolding cluster_Reconcile_def cluster_reconcileLoaded_def reconcileTenants_def
    by (intro safe_rules after_other delete returns_reconcileDatacenters [OF assms, THEN safe_bind]
        endpoint [THEN returns_safe, THEN safe_bind]) auto
qed

section \<open>The property\<close>

text \<open>C10: panic freedom. Both controllers return from every pass, with a result or an error, whatever the
  Kubernetes API, Vault and Waldur answer (errors included), as long as the answers Waldur does give
  are complete where the code dereferences them, a Cluster object names its infrastructure object and
  the Vault client keeps its contract.\<close>

theorem complete_answers_never_panic:
  assumes "complete_waldur (env_waldur E)" and "clusters_with_ref E" and "wired r"
  shows "(\<exists>a w'. machine_Reconcile L E r req w = (Ret a, w')) \<and> (\<exists>a w'. cluster_Reconcile L E R req w = (Ret a, w'))"
  using safe_machine_Reconcile [OF assms(1,3,2), of L req] safe_cluster_Reconcile [OF assms(1), of L R req]
  unfolding safe_def returns_def by blast

lemma env_vm_complete: "complete_waldur (env_waldur (env_vm 201))" "clusters_with_ref (env_vm 201)"
  by (simp_all add: complete_waldur_def clusters_with_ref_def vm_samples sample_defs body_def completeProject_def
      completeOffering_def completeOrder_def)

theorem complete_answers_never_panic_witness:
  "(\<exists>a w'. machine_Reconcile lib_sample (env_vm 201) reconciler_sample (namespacedName ''ns'' ''m'') world_sample = (Ret a, w')) \<and>
   (\<exists>a w'. cluster_Reconcile lib_sample (env_vm 201) in_order (namespacedName ''ns'' ''c'') world_sample = (Ret a, w'))"
  using complete_answers_never_panic [OF env_vm_complete wired_sample] by blast

end
