(* ===== verification/Panic_Causes.thy ===== *)
theory Panic_Causes
  imports Panic_Freedom
begin

text \<open>
  The converse of panic freedom: which answers end a pass with a panic. \<open>fatal e\<close> is a call whose answer
  the code dereferences without a check where nothing is to be found. The proofs use a small logic over
  the result and the history of a run: \<open>stops B m\<close> says that after a fatal event \<open>m\<close> does nothing more,
  and either panics or returns a result with \<open>B\<close>, which stands for the nil pointer that was passed on.
\<close>

section \<open>Fatal answers\<close>

fun fatal_answer :: "waldur_event \<Rightarrow> bool" where
  "fatal_answer (CustomersList n fs (Inr r)) \<longleftrightarrow> StatusCode r = 200 \<and> JSON r = None"
| "fatal_answer (ProjectsList x (Inr r)) \<longleftrightarrow> JSON r = None"
| "fatal_answer (ProjectsCreate x (Inr r)) \<longleftrightarrow> JSON r = None"
| "fatal_answer (OpenstackFlavorsList u n (Inr r)) \<longleftrightarrow> JSON r = None"
| "fatal_answer (OpenstackImagesList u n (Inr r)) \<longleftrightarrow> JSON r = None"
| "fatal_answer (OpenstackSecurityGroupsList u (Inr r)) \<longleftrightarrow> JSON r = None"
| "fatal_answer (OpenstackSubnetsList u (Inr r)) \<longleftrightarrow> JSON r = None"
| "fatal_answer (OpenstackVolumeTypesList u (Inr r)) \<longleftrightarrow> JSON r = None"
| "fatal_answer (MarketplacePublicOfferingsList n (Inr r)) \<longleftrightarrow> JSON r = None"
| "fatal_answer (MarketplacePublicOfferingsRetrieve u (Inr r)) \<longleftrightarrow> JSON r = None"
| "fatal_answer (MarketplaceResourcesRetrieve u (Inr r)) \<longleftrightarrow> JSON r = None"
| "fatal_answer (MarketplaceResourcesOfferingForSubresourcesList u (Inr r)) \<longleftrightarrow> StatusCode r = 200 \<and> JSON r = None"
| "fatal_answer (MarketplaceOrdersCreate p (Inr r)) \<longleftrightarrow> StatusCode r = 201 \<and> JSON r = None"
| "fatal_answer (MarketplaceOrdersRetrieve u (Inr r)) \<longleftrightarrow> JSON r = None"
| "fatal_answer (OpenstackTenantsRetrieve u (Inr r)) \<longleftrightarrow> JSON r = None"
| "fatal_answer _ \<longleftrightarrow> False"

fun fatal :: "event \<Rightarrow> bool" where
  "fatal (WaldurEv x) \<longleftrightarrow> fatal_answer x"
| "fatal (KubeEv (GetCluster x (Inr c))) \<longleftrightarrow> cl_InfrastructureRefName c = None"
| "fatal _ \<longleftrightarrow> False"

section \<open>Runs that stop\<close>

text \<open>A history with at most one fatal event, which is then the last one and explains the result.\<close>

definition ends :: "('a \<Rightarrow> bool) \<Rightarrow> 'a go \<Rightarrow> event list \<Rightarrow> bool" where
  "ends B res es \<longleftrightarrow> list_all (\<lambda>e. \<not> fatal e) es \<or>
     (\<exists>fs e. es = fs @ [e] \<and> list_all (\<lambda>e. \<not> fatal e) fs \<and> fatal e \<and> (res = Panic \<or> (\<exists>b. res = Ret b \<and> B b)))"

definition stops :: "('a \<Rightarrow> bool) \<Rightarrow> 'a io \<Rightarrow> bool" where
  "stops B m \<longleftrightarrow> (\<forall>w res w'. m w = (res, w') \<longrightarrow> (\<exists>es. hist w' = hist w @ es \<and> ends B res es))"

text \<open>\<open>halts B m\<close>: \<open>m\<close> makes no call, and panics or returns a result with \<open>B\<close>.\<close>

definition halts :: "('a \<Rightarrow> bool) \<Rightarrow> 'a io \<Rightarrow> bool" where
  "halts B m \<longleftrightarrow> (\<forall>w. m w = (Panic, w) \<or> (\<exists>b. m w = (Ret b, w) \<and> B b))"

abbreviation never :: "'a \<Rightarrow> bool" where
  "never \<equiv> \<lambda>_. False"

abbreviation found :: "('a \<Rightarrow> bool) \<Rightarrow> error + 'a \<Rightarrow> bool" where
  "found P \<equiv> \<lambda>r. \<exists>a. r = Inr a \<and> P a"

lemma stopsD:
  assumes "stops B m" and "m w = (res, w')"
  obtains (quiet) es where "hist w' = hist w @ es" and "list_all (\<lambda>e. \<not> fatal e) es"
  | (fatal) fs e where "hist w' = hist w @ fs @ [e]" and "list_all (\<lambda>e. \<not> fatal e) fs" and "fatal e"
      and "res = Panic \<or> (\<exists>b. res = Ret b \<and> B b)"
  using assms unfolding stops_def ends_def by blast

lemma ends_quiet: "list_all (\<lambda>e. \<not> fatal e) es \<Longrightarrow> ends B res es"
  by (simp add: ends_def)

lemma ends_fatal: "list_all (\<lambda>e. \<not> fatal e) fs \<Longrightarrow> fatal e \<Longrightarrow> res = Panic \<or> (\<exists>b. res = Ret b \<and> B b) \<Longrightarrow> ends B res (fs @ [e])"
  by (simp add: ends_def)

lemma ends_before: "list_all (\<lambda>e. \<not> fatal e) es \<Longrightarrow> ends B res fs \<Longrightarrow> ends B res (es @ fs)"
  unfolding ends_def by (metis append.assoc list_all_append)

lemma stops_emits: "emits (\<lambda>e. \<not> fatal e) m \<Longrightarrow> stops B m"
  unfolding stops_def by (metis emitsD ends_quiet)

lemma stops_bind:
  assumes m: "stops B' m" and f: "\<And>a. stops B (f a)" and halt: "\<And>a. B' a \<Longrightarrow> halts B (f a)"
  shows "stops B (bind m f)"
  unfolding stops_def
proof (intro allI impI)
  fix w res w'
  assume run: "bind m f w = (res, w')"
  obtain x u where x: "m w = (x, u)" by fastforce
  from m x show "\<exists>es. hist w' = hist w @ es \<and> ends B res es"
  proof (cases rule: stopsD)
    case (quiet es)
    show ?thesis
    proof (cases x)
      case Panic
      with run x quiet show ?thesis by (auto simp: bind_def intro: ends_quiet)
    next
      case (Ret a)
      with run x have "f a u = (res, w')" by (simp add: bind_def)
      with f obtain fs where "hist w' = hist u @ fs" "ends B res fs" unfolding stops_def by blast
      with quiet ends_before show ?thesis by fastforce
    qed
  next
    case (fatal fs e)
    have "w' = u \<and> (res = Panic \<or> (\<exists>b. res = Ret b \<and> B b))"
    proof (cases x)
      case Panic
      with run x show ?thesis by (simp add: bind_def)
    next
      case (Ret a)
      with fatal(4) halt have "f a u = (Panic, u) \<or> (\<exists>b. f a u = (Ret b, u) \<and> B b)" unfolding halts_def by auto
      moreover from run x Ret have "f a u = (res, w')" by (simp add: bind_def)
      ultimately show ?thesis by auto
    qed
    with fatal ends_fatal show ?thesis by metis
  qed
qed

lemma stops_steps:
  "stops B (ret x)" "stops B' (fail e)" "stops B' (ok y)" "stops B panic"
  by (auto simp: stops_def ends_def go_inv)

lemma stops_branches:
  "(\<And>a. p = Some a \<Longrightarrow> stops B (f a)) \<Longrightarrow> stops B (deref p f)"
  "(\<And>x ys. xs = x # ys \<Longrightarrow> stops B (g x)) \<Longrightarrow> stops B (index0 xs g)"
  "(b \<Longrightarrow> stops B m) \<Longrightarrow> (\<not> b \<Longrightarrow> stops B n) \<Longrightarrow> stops B (if b then m else n)"
  "(q = None \<Longrightarrow> stops B m) \<Longrightarrow> (\<And>c. q = Some c \<Longrightarrow> stops B (h c)) \<Longrightarrow> stops B (case q of None \<Rightarrow> m | Some c \<Rightarrow> h c)"
  "(\<And>e. x = Inl e \<Longrightarrow> stops B (i e)) \<Longrightarrow> (\<And>d. x = Inr d \<Longrightarrow> stops B (j d)) \<Longrightarrow> stops B (case x of Inl e \<Rightarrow> i e | Inr d \<Rightarrow> j d)"
  "(\<And>c d. y = (c, d) \<Longrightarrow> stops B (k c d)) \<Longrightarrow> stops B (case y of (c, d) \<Rightarrow> k c d)"
  "(\<And>c. c = z \<Longrightarrow> stops B (l c)) \<Longrightarrow> stops B (let c = z in l c)"
  by (auto simp: deref_def index0_def stops_steps split: option.split sum.split prod.split list.split)

lemma halts_panic: "halts B panic"
  by (simp add: halts_def panic_def)

lemma halts_ret: "B x \<Longrightarrow> halts B (ret x)"
  by (simp add: halts_def ret_def)

lemma stops_andThen:
  assumes "stops (found P) m" and "\<And>a. stops B (f a)" and "\<And>a. P a \<Longrightarrow> halts B (f a)"
  shows "stops B (andThen m f)" "stops B (andThenWrap msg m f)"
  unfolding andThen_def andThenWrap_def
  by (rule stops_bind [OF assms(1)]; use assms(2,3) in \<open>auto split: sum.split intro: stops_steps\<close>)+

text \<open>After a step that has nothing to pass on, the rest may do what it likes.\<close>

lemma stops_seq:
  assumes "stops never m"
  shows "(\<And>a. stops B (f a)) \<Longrightarrow> stops B (bind m f)"
  using assms by (rule stops_bind) simp_all

lemma stops_seq_err:
  assumes "stops never m" and "\<And>a. stops B (f a)"
  shows "stops B (andThen m f)" "stops B (andThenWrap msg m f)"
  using stops_andThen [of never m B f] assms by (simp_all add: assms)

section \<open>Calls\<close>

lemma stops_answer:
  assumes "\<And>e. \<not> fatal (mk (Inl e))" and "\<And>a. fatal (mk (Inr a)) \<Longrightarrow> P a"
  shows "stops (found P) (perform g mk)"
  unfolding stops_def
proof (intro allI impI)
  fix w res w'
  assume "perform g mk w = (res, w')"
  then have run: "res = Ret (g (hist w))" "w' = w\<lparr>hist := hist w @ [mk (g (hist w))]\<rparr>" by (auto simp: perform_eq)
  show "\<exists>es. hist w' = hist w @ es \<and> ends (found P) res es"
  proof (cases "fatal (mk (g (hist w)))")
    case True
    with assms have "found P (g (hist w))" by (cases "g (hist w)") auto
    with True run show ?thesis by (auto simp: ends_def)
  next
    case False
    with run show ?thesis by (auto intro: ends_quiet)
  qed
qed

abbreviation undecoded :: "'a response \<Rightarrow> bool" where
  "undecoded r \<equiv> JSON r = None"

lemma stops_calls:
  "stops (found (\<lambda>r. StatusCode r = 200 \<and> undecoded r)) (w_CustomersList E n fs)"
  "stops (found undecoded) (w_ProjectsList E x)"
  "stops (found undecoded) (w_ProjectsCreate E pc)"
  "stops (found undecoded) (w_OpenstackFlavorsList E ou n)"
  "stops (found undecoded) (w_OpenstackImagesList E ou n)"
  "stops (found undecoded) (w_OpenstackSecurityGroupsList E u)"
  "stops (found undecoded) (w_OpenstackSubnetsList E u)"
  "stops (found undecoded) (w_OpenstackVolumeTypesList E u)"
  "stops (found undecoded) (w_MarketplacePublicOfferingsList E n)"
  "stops (found undecoded) (w_MarketplacePublicOfferingsRetrieve E u)"
  "stops (found undecoded) (w_MarketplaceResourcesRetrieve E u)"
  "stops (found (\<lambda>r. StatusCode r = 200 \<and> undecoded r)) (w_MarketplaceResourcesOfferingForSubresourcesList E u)"
  "stops (found (\<lambda>r. StatusCode r = 201 \<and> undecoded r)) (w_MarketplaceOrdersCreate E p)"
  "stops (found undecoded) (w_MarketplaceOrdersRetrieve E u)"
  "stops (found undecoded) (w_OpenstackTenantsRetrieve E u)"
  "stops (found (\<lambda>c. cl_InfrastructureRefName c = None)) (k_GetCluster E nn)"
  unfolding prim_defs by (rule stops_answer; simp)+

lemma stops_other_calls:
  "stops never (w_ProjectsDestroy E u)" "stops never (w_MarketplaceResourcesTerminate E u)"
  "stops never (w_OpenstackInstancesRetrieve E u fs)" "stops never (w_OpenstackInstancesStop E u)"
  "stops never (k_GetMachine E x)" "stops never (k_GetWaldurCluster E x)" "stops never (k_GetSecret E x)"
  "stops never (k_GetWaldurMachine E x)" "stops never (k_ListWaldurMachines E ns l)" "stops never (k_UpdateWaldurMachine E m)"
  "stops never (k_PatchWaldurMachine E m b)" "stops never (k_PatchWaldurMachineStatus E m b)" "stops never (k_UpdateWaldurCluster E c)"
  "stops never (k_PatchWaldurClusterStatus E c d)"
  unfolding prim_defs by (rule stops_emits; rule emits_perform; simp)+

lemma stops_pure: "stops never (ret x)"
  by (rule stops_steps)

lemmas after_fatal = stops_calls [THEN stops_andThen(1)] stops_calls [THEN stops_andThen(2)]
lemmas after_quiet = stops_other_calls [THEN stops_seq_err(1)] stops_other_calls [THEN stops_seq_err(2)]
  stops_other_calls [THEN stops_seq] stops_pure [THEN stops_seq_err(1)] stops_pure [THEN stops_seq_err(2)]
lemmas stops_rules = stops_steps stops_branches

section \<open>The lookups\<close>

lemma halts_nil_ok: "halts (\<lambda>r. r = Inr None) (ok None)"
  by (simp add: ok_def halts_ret)

lemma stops_lookups:
  "stops never (getFlavor E off n)" "stops never (getImage E off n)" "stops never (getTenantSecurityGroups E u)"
  "stops never (getTenantSubnets E u)" "stops never (getTenantVolumeTypes E u)" "stops never (getOffering E n)"
  "stops never (getOfferingByUUID E u)" "stops never (refreshOrder L E ord)"
  unfolding helper_defs
  by (intro stops_rules after_fatal after_quiet; simp add: halts_panic)+

lemma stops_getMarketplaceResource: "stops (found (\<lambda>p. p = None)) (getMarketplaceResource L E n)"
  unfolding getMarketplaceResource_def
  by (intro stops_rules after_fatal after_quiet) (simp add: halts_nil_ok)

lemma stops_getOpenStackTenant: "stops (found (\<lambda>p. p = None)) (getOpenStackTenant E u)"
  unfolding getOpenStackTenant_def
  by (intro stops_rules after_fatal) (simp add: halts_nil_ok)

lemma stops_submitTerminationOrder: "stops never (submitTerminationOrder L E n)"
  unfolding submitTerminationOrder_def by (intro stops_rules after_quiet)

lemmas after_lookup = stops_lookups [THEN stops_seq_err(1)] stops_lookups [THEN stops_seq_err(2)] stops_lookups [THEN stops_seq]
  stops_submitTerminationOrder [THEN stops_seq]
  stops_getMarketplaceResource [THEN stops_andThen(2)] stops_getMarketplaceResource [THEN stops_bind]
  stops_getOpenStackTenant [THEN stops_andThen(2)] stops_getOpenStackTenant [THEN stops_bind]

section \<open>Machines\<close>

lemma stops_refreshVM: "stops never (refreshVM L E m)"
proof -
  have "stops never (refreshVMResource L E m)" for m
    unfolding refreshVMResource_def
    by (intro stops_rules after_lookup after_quiet) (auto simp: halts_panic)
  then show ?thesis unfolding refreshVM_def by (intro stops_rules after_lookup)
qed

lemma stops_buildOrderPayload: "stops never (buildOrderPayload L E m c ud)"
proof -
  have pure: "stops never (findVMOffering offs)" "stops never (defaultSecurityGroups sgs)" for offs sgs
    by (rule stops_emits, rule emits_findVMOffering emits_defaultSecurityGroups)+
  have "stops never (getVMOffering L E u)" for u
    unfolding getVMOffering_def
    by (intro stops_rules after_fatal after_quiet pure [THEN stops_seq]) (auto simp: halts_panic)
  note offering = this [THEN stops_seq_err(2)]
  show ?thesis
    unfolding buildOrderPayload_def
    by (intro stops_rules after_fatal after_quiet after_lookup offering pure [THEN stops_seq]) (auto simp: halts_panic)
qed

lemma stops_createVM:
  assumes "wired r"
  shows "stops never (createVM L E r ma m c)"
proof -
  have "emits (\<lambda>e. kube_get e \<or> net_event e) (vmUserData L E r ma)"
    unfolding vmUserData_def prim_defs using assms unfolding wired_def
    by (intro ext.frame_rules emits_prims emits_mono [OF emits_readVaultConfigSecret]
        emits_mono [OF vault_contract.emits_buildUserDataWithRancherAgent]
        emits_mono [OF vault_contract.emits_buildUserDataWithVault]) auto
  then have user: "stops never (vmUserData L E r ma)" by (intro stops_emits, elim emits_mono) auto
  have "stops never (handleOrderResponse L r m sid role resp)" for sid role resp
    by (rule stops_emits, rule emits_mono [OF emits_handleOrderResponse [OF assms]]) auto
  then have "stops never (submitVMOrder L E r m c ud sid role)" for ud sid role
    unfolding submitVMOrder_def
    by (intro stops_buildOrderPayload [THEN stops_seq_err(1)] after_fatal) (auto simp: handleOrderResponse_def halts_panic)
  then show ?thesis
    unfolding createVM_def by (intro user [THEN stops_seq_err(1)] stops_rules)
qed

lemma stops_machine_Reconcile:
  assumes "wired r"
  shows "stops never (machine_Reconcile L E r req)"
proof -
  have terminate: "stops never (terminateVM L E m)" for m
    unfolding terminateVM_def by (intro stops_rules after_lookup after_quiet)
  have delete: "stops never (machine_reconcileDelete L E m)" for m
    unfolding machine_reconcileDelete_def removeMachineFinalizer_def stopVM_def
    by (intro stops_rules after_quiet terminate stops_refreshVM [THEN stops_seq])
  have "stops never (setProviderID L E b m)" for b m
    unfolding setProviderID_def patchMachineStatus_def by (intro stops_rules after_quiet)
  then have "stops never (reconcileVM L E r ma m c)" for ma m c
    unfolding reconcileVM_def
    by (intro stops_rules stops_createVM [OF assms, THEN stops_seq] stops_refreshVM [THEN stops_seq])
  then show ?thesis
    unfolding machine_Reconcile_def machine_reconcileLoaded_def
    by (intro stops_rules after_quiet after_fatal delete) (auto simp: halts_panic)
qed

section \<open>Clusters\<close>

lemma stops_refreshTenant: "stops never (refreshTenant L E t)"
proof -
  have "stops never (refreshTenantRest L E t)" for t
    unfolding refreshTenantRest_def refreshTenantResource_def
    by (intro stops_rules after_lookup) (auto simp: halts_panic)
  then show ?thesis unfolding refreshTenant_def by (intro stops_rules after_lookup)
qed

lemma stops_submitTenantCreationOrder: "stops (found (\<lambda>p. p = None)) (submitTenantCreationOrder L E off prj dc)"
proof -
  have "stops never (sumNodeGroups E off ngs c r s)" for ngs c r s
    by (induction ngs arbitrary: c r s) (auto intro!: stops_rules after_lookup simp: Let_def)
  then have "stops never (calculateLimits E off dc)"
    unfolding calculateLimits_def by (intro stops_seq_err(1) stops_rules)
  note limits = this [THEN stops_seq_err(2)]
  show ?thesis
    unfolding submitTenantCreationOrder_def
    by (intro stops_rules limits after_fatal) (auto simp: halts_nil_ok)
qed

lemma stops_createTenant: "stops (found (\<lambda>p. p = None)) (createTenant L E dc)"
proof -
  have customer: "stops never (getCustomer E n)" for n
    unfolding getCustomer_def by (intro stops_rules after_fatal) (auto simp: halts_panic)
  have project: "stops never (getOrCreateProject E org n)" for org n
    unfolding getOrCreateProject_def by (intro stops_rules after_fatal) (auto simp: halts_panic)
  have rest: "stops (found (\<lambda>p. p = None)) (recordTenantOrder L E prj od)" for prj od
    unfolding recordTenantOrder_def by (intro stops_rules after_lookup) (auto simp: halts_panic)
  show ?thesis
    unfolding createTenant_def
    by (intro stops_rules customer [THEN stops_seq_err(2)] project [THEN stops_seq_err(2)] after_lookup rest
        stops_submitTenantCreationOrder [THEN stops_andThen(2)]) (auto simp: halts_nil_ok)
qed

lemma stops_reconcileDatacenters: "stops never (reconcileDatacenters L E dcs ts)"
proof (induction dcs arbitrary: ts)
  case Nil
  then show ?case by (simp add: stops_steps)
next
  case (Cons dc dcs)
  show ?case
    unfolding reconcileDatacenters.simps
    by (intro stops_rules stops_refreshTenant [THEN stops_seq] stops_createTenant [THEN stops_bind] Cons.IH) (auto simp: halts_panic)
qed

lemma stops_terminateTenants: "stops never (terminateTenants L E ks ts d)"
proof (induction ks arbitrary: ts d)
  case Nil
  then show ?case by (simp add: stops_steps)
next
  case (Cons k ks)
  have "stops never (terminateTenant L E t)" for t
    unfolding terminateTenant_def by (intro stops_rules stops_refreshTenant [THEN stops_seq] after_lookup)
  note step = this [THEN stops_seq]
  show ?case unfolding terminateTenants.simps by (intro stops_rules step Cons.IH)
qed

lemma stops_deleteProjects: "stops never (deleteProjects E ts ks)"
proof (induction ks)
  case Nil
  then show ?case by (simp add: stops_steps)
next
  case (Cons k ks)
  have "stops never (deleteProject E n)" for n
    unfolding deleteProject_def by (intro stops_rules after_fatal after_quiet) (auto simp: halts_panic)
  note step = this [THEN stops_seq_err(2)]
  show ?case unfolding deleteProjects.simps by (intro stops_rules step Cons.IH)
qed

lemma stops_rangeOver: "(\<And>ks. stops B (f ks)) \<Longrightarrow> stops B (rangeOver R m f)"
  by (simp add: stops_def rangeOver_def)

lemma stops_cluster_Reconcile: "stops never (cluster_Reconcile L E R req)"
proof -
  have delete: "stops never (cluster_reconcileDelete L E R c)" for c
    unfolding cluster_reconcileDelete_def
    by (intro stops_rules stops_rangeOver after_quiet stops_terminateTenants [THEN stops_seq]
        stops_deleteProjects [THEN stops_seq_err(1)])
  have endpoint: "stops never (reconcileControlPlaneEndpoint L E c)" for c
    unfolding reconcileControlPlaneEndpoint_def
    by (intro stops_rules after_quiet after_lookup) (auto simp: halts_panic split: list.split intro!: stops_rules after_quiet)
  show ?thesis
    unfolding cluster_Reconcile_def cluster_reconcileLoaded_def reconcileTenants_def
    by (intro stops_rules after_quiet delete stops_reconcileDatacenters [THEN stops_seq] endpoint [THEN stops_seq])
qed

section \<open>The property\<close>

lemma stops_last:
  assumes "stops never m" and "m w = (res, w')" and "hist w' = hist w @ es" and "e \<in> set es" and "fatal e"
  shows "res = Panic \<and> last es = e"
  using assms(1,2)
proof (cases rule: stopsD)
  case (quiet fs)
  with assms(3-5) show ?thesis by (auto simp: list_all_iff)
next
  case (fatal fs e')
  with assms(3-5) show ?thesis by (auto simp: list_all_iff)
qed

text \<open>C35: an answer without a body ends the pass. When, in a pass of either reconciler, Waldur answers a lookup
  of offerings, flavors, images, subnets, volume types, security groups, projects, a marketplace
  resource, an order or a tenant (or the creation of a project) with a status for which the client
  decodes no body, or answers the lookup of a customer or of VM offerings with status 200, or a create
  order with status 201, and a body that is not decoded, or when the Cluster of a machine names no
  infrastructure object (an optional field), then this is not turned into an error: the reconciler
  panics, and that call is the last thing that happens in the pass. So no status is written any more,
  and an order that was just accepted is not recorded.\<close>

theorem fatal_answers_end_the_pass:
  assumes "wired r" and "machine_Reconcile L E r req w = (res, w')" and "hist w' = hist w @ es"
    and "cluster_Reconcile L E R creq v = (cres, v')" and "hist v' = hist v @ fs"
  shows "(\<forall>e\<in>set es. fatal e \<longrightarrow> res = Panic \<and> last es = e) \<and> (\<forall>e\<in>set fs. fatal e \<longrightarrow> cres = Panic \<and> last fs = e)"
  using stops_last [OF stops_machine_Reconcile [OF assms(1)] assms(2,3)] stops_last [OF stops_cluster_Reconcile assms(4,5)]
  by blast

text \<open>A Cluster without a reference for the machine, and an order for a tenant that is accepted with an
  undecodable body.\<close>

definition env_noref :: env where
  "env_noref = (env_vm 201)\<lparr>env_kube := (kube_vm machine_new)\<lparr>
     on_GetCluster := (\<lambda>_ _. Inr \<lparr>cl_Meta = meta_sample None, cl_InfrastructureRefName = None\<rparr>),
     on_GetWaldurCluster := (\<lambda>_ _. Inr (cluster_of None [dc_sample ''o''] []))\<rparr>,
   env_waldur := waldur_cluster\<lparr>on_MarketplaceOrdersCreate := (\<lambda>_ _. Inr \<lparr>StatusCode = 201, Body = [], JSON = None\<rparr>)\<rparr>\<rparr>"

lemma noref_runs:
  "list_ex fatal (hist (snd (machine_Reconcile lib_sample env_noref reconciler_sample (namespacedName ''ns'' ''m'') world_sample)))"
  "list_ex (\<lambda>e. fatal e \<and> creates_order e)
     (hist (snd (cluster_Reconcile lib_sample env_noref in_order (namespacedName ''ns'' ''c'') world_sample)))"
  by (simp add: machine_Reconcile_def machine_reconcileLoaded_def env_noref_def vm_samples sample_defs prim_defs run_defs
      timeIsZero_def ownerName_def getStr_def ClusterNameLabel_def)
    (simp add: cluster_Reconcile_def cluster_reconcileLoaded_def reconcileTenants_def createTenant_def getCustomer_def
      getOrCreateProject_def submitTenantCreationOrder_def calculateLimits_def helper_defs env_noref_def vm_samples cluster_samples
      prim_defs cluster_run_defs panic_def timeIsZero_def creates_order_def)

theorem fatal_answers_end_the_pass_witness:
  "\<exists>w' v'. machine_Reconcile lib_sample env_noref reconciler_sample (namespacedName ''ns'' ''m'') world_sample = (Panic, w') \<and>
     cluster_Reconcile lib_sample env_noref in_order (namespacedName ''ns'' ''c'') world_sample = (Panic, v') \<and>
     creates_order (last (hist v'))"
proof -
  obtain res w' where m: "machine_Reconcile lib_sample env_noref reconciler_sample (namespacedName ''ns'' ''m'') world_sample = (res, w')"
    by fastforce
  obtain cres v' where c: "cluster_Reconcile lib_sample env_noref in_order (namespacedName ''ns'' ''c'') world_sample = (cres, v')"
    by fastforce
  have h: "hist x = hist world_sample @ hist x" for x :: world by (simp add: world_sample_def)
  from fatal_answers_end_the_pass [OF wired_sample m h c h] noref_runs m c show ?thesis by (auto simp: list_ex_iff)
qed

end
