(* ===== verification/Cluster_Deletion.thy ===== *)
theory Cluster_Deletion
  imports Deletion_Protocol Panic_Freedom
begin

text \<open>
  Deletion of a whole cluster comes to an end. A round of the loop over the tenants moves each tenant
  along the deletion protocol; \<open>after_round\<close> says where to. Once no termination is left to submit, each
  pass polls the orders that are still open, until all are done and the pass deletes the projects and
  takes the finalizer off.
\<close>

section \<open>A round\<close>

definition parsableTenant :: "lib \<Rightarrow> OpenStackTenant \<Rightarrow> bool" where
  "parsableTenant L t \<longleftrightarrow> (t_MarketplaceResourceUuid t \<noteq> [] \<longrightarrow> (\<exists>u. uuid_Parse L (t_MarketplaceResourceUuid t) = Inr u)) \<and>
     (\<forall>x. t_Order t = Some x \<longrightarrow> (\<exists>u. uuid_Parse L (wo_Uuid x) = Inr u))"

abbreviation doneTenant :: "OpenStackTenant \<Rightarrow> bool" where
  "doneTenant t \<equiv> tenantPhase t \<in> {NeverProvisioned, Terminated}"

text \<open>A tenant before and after a round, when at least \<open>n\<close> polls were made before; orders land after \<open>k\<close>.\<close>

definition after_round :: "lib \<Rightarrow> nat \<Rightarrow> nat \<Rightarrow> OpenStackTenant \<Rightarrow> OpenStackTenant \<Rightarrow> bool" where
  "after_round L k n t t' \<longleftrightarrow> parsableTenant L t' \<and> tenantPhase t' \<noteq> SubmitDue \<and> (doneTenant t \<longrightarrow> t' = t) \<and>
     (tenantPhase t = InFlight \<and> k \<le> n \<longrightarrow> doneTenant t')"

definition terminating_cluster :: "env \<Rightarrow> nat \<Rightarrow> bool" where
  "terminating_cluster E k \<longleftrightarrow> complete_waldur (env_waldur E) \<and> terminations_accepted E \<and> orders_land E k \<and>
     (\<forall>h n b. \<exists>a. on_PatchWaldurClusterStatus (env_kube E) h n b = Inr a) \<and>
     (\<forall>h n. \<exists>a. on_UpdateWaldurCluster (env_kube E) h n = Inr a) \<and>
     (\<forall>h x. \<exists>resp ps. on_ProjectsList (env_waldur E) h x = Inr resp \<and> JSON resp = Some ps \<and> list_all (\<lambda>p. prj_Uuid p \<noteq> None) ps) \<and>
     (\<forall>h u. \<exists>resp. on_ProjectsDestroy (env_waldur E) h u = Inr resp \<and> StatusCode resp = 204)"

lemma emits_no_poll_tenant: "emits (\<lambda>e. \<not> poll_event e) (refreshTenantRest L E t)"
  unfolding refreshTenantRest_def refreshTenantResource_def getMarketplaceResource_def getOpenStackTenant_def prim_defs
  by (intro ext.frame_rules emits_perform) simp_all

lemma refreshTenant_lands:
  assumes env: "terminating_cluster E k" and phase: "tenantPhase t = InFlight" and "parsableTenant L t"
  shows "\<exists>t' err w'. refreshTenant L E t w = (Ret (t', err), w') \<and> polls (hist w') = Suc (polls (hist w)) \<and>
    parsableTenant L t' \<and> tenantPhase t' = (if polls (hist w) < k then InFlight else Terminated)"
proof -
  from phase obtain x where x: "t_Order t = Some x" "\<not> isOrderTerminal (wo_State x)" "wo_Type x = Terminate" "t_MarketplaceResourceUuid t \<noteq> []"
    by (auto simp: deletePhase_def split: if_splits option.splits)
  with assms(3) obtain u where u: "uuid_Parse L (wo_Uuid x) = Inr u" by (auto simp: parsableTenant_def)
  let ?st = "if polls (hist w) < k then OrderStateOther ''executing'' else OrderStateDone"
  from env have "orders_land E k" by (simp add: terminating_cluster_def)
  then obtain y resp where y: "refreshOrder L E x w = (Ret (Inr y), w\<lparr>hist := hist w @ [WaldurEv (MarketplaceOrdersRetrieve u (Inr resp))]\<rparr>)"
    "wo_State y = ?st" and same: "wo_Uuid y = wo_Uuid x" "wo_Type y = wo_Type x"
    by (rule refreshOrder_lands [OF _ u])
  let ?w1 = "w\<lparr>hist := hist w @ [WaldurEv (MarketplaceOrdersRetrieve u (Inr resp))]\<rparr>" and ?t = "t\<lparr>t_Order := Some y\<rparr>"
  from env have "complete_waldur (env_waldur E)" by (simp add: terminating_cluster_def)
  from returns_refreshTenantRest [OF this, of L ?t] obtain r w' where "refreshTenantRest L E ?t ?w1 = (Ret r, w')"
    unfolding returns_def by blast
  then obtain t' err where rest: "refreshTenantRest L E ?t ?w1 = (Ret (t', err), w')" by (cases r) auto
  have keeps: "t_Order t' = Some y" "t_MarketplaceResourceUuid t' = t_MarketplaceResourceUuid t"
    using refreshTenantRest_keeps [OF rest] x(4) by (auto simp: adoptResource_id)
  from emitsD [OF emits_no_poll_tenant rest] obtain es where "hist w' = hist ?w1 @ es" "list_all (\<lambda>e. \<not> poll_event e) es" .
  then have "polls (hist w') = polls (hist ?w1)" by (simp only: polls_none)
  also have "\<dots> = Suc (polls (hist w))" by (simp add: polls_append)
  finally have polls: "polls (hist w') = Suc (polls (hist w))" .
  have "refreshTenant L E t w = (Ret (t', err), w')"
    using x(1,2) y(1) rest by (simp add: refreshTenant_def bind_def)
  moreover have "parsableTenant L t'" using assms(3) keeps same u by (simp add: parsableTenant_def)
  moreover have "tenantPhase t' = (if polls (hist w) < k then InFlight else Terminated)"
    using keeps y(2) same x(3,4) by (simp add: deletePhase_def isOrderTerminal_def)
  ultimately show ?thesis using polls by blast
qed

lemma terminateTenant_round:
  assumes env: "terminating_cluster E k" and codec: "uuid_codec L" and "parsableTenant L t"
  shows "\<exists>stored w'. terminateTenant L E t w = (Ret (stored, doneTenant t), w') \<and>
    after_round L k (polls (hist w)) t (case stored of None \<Rightarrow> t | Some t' \<Rightarrow> t') \<and>
    polls (hist w') = polls (hist w) + (if tenantPhase t = InFlight then 1 else 0)"
proof (cases "tenantPhase t")
  case InFlight
  from refreshTenant_lands [OF env InFlight assms(3), of w] obtain t' err w' where
    "refreshTenant L E t w = (Ret (t', err), w')" "polls (hist w') = Suc (polls (hist w))"
    "parsableTenant L t'" "tenantPhase t' = (if polls (hist w) < k then InFlight else Terminated)" by blast
  with InFlight show ?thesis
    by (intro exI [of _ "Some t'"] exI [of _ w']) (auto simp: terminateTenant_phase bind_def ret_def after_round_def)
next
  case SubmitDue
  then have mp: "t_MarketplaceResourceUuid t \<noteq> []" by (auto simp: deletePhase_def)
  with assms(3) obtain u where u: "uuid_Parse L (t_MarketplaceResourceUuid t) = Inr u" by (auto simp: parsableTenant_def)
  from env have "terminations_accepted E" by (simp add: terminating_cluster_def)
  then obtain x resp where x: "submitTerminationOrder L E (t_MarketplaceResourceUuid t) w =
      (Ret (Inr x), w\<lparr>hist := hist w @ [WaldurEv (MarketplaceResourcesTerminate u (Inr resp))]\<rparr>)"
    "\<exists>v. uuid_Parse L (wo_Uuid x) = Inr v" "wo_Type x = Terminate" "wo_State x = OrderStatePendingProvider"
    by (rule submitTermination_accepted [OF _ codec u])
  let ?t = "t\<lparr>t_Order := Some x\<rparr>"
  have "tenantPhase ?t = InFlight" using x mp by (simp add: deletePhase_def isOrderTerminal_def)
  moreover have "parsableTenant L ?t" using x(2) u by (simp add: parsableTenant_def)
  ultimately show ?thesis using SubmitDue x(1)
    by (intro exI [of _ "Some ?t"]) (auto simp: terminateTenant_phase bind_def ret_def after_round_def polls_def)
qed (use assms(3) in \<open>auto simp: terminateTenant_phase ret_def after_round_def\<close>)

section \<open>The loop over the tenants\<close>

definition allDoneIn :: "string list \<Rightarrow> (string, OpenStackTenant) gomap \<Rightarrow> bool" where
  "allDoneIn ks ts \<longleftrightarrow> (\<forall>k\<in>set ks. \<forall>t. map_of ts k = Some t \<longrightarrow> doneTenant t)"

definition pendingIn :: "string list \<Rightarrow> (string, OpenStackTenant) gomap \<Rightarrow> bool" where
  "pendingIn ks ts \<longleftrightarrow> (\<exists>k\<in>set ks. \<exists>t. map_of ts k = Some t \<and> tenantPhase t = InFlight)"

lemma map_of_update_keys: "k \<in> fst ` set ts \<Longrightarrow> map fst (AList.update k v ts) = map fst ts"
  by (simp add: update_keys)

lemma terminateTenants_round:
  assumes env: "terminating_cluster E k" and codec: "uuid_codec L"
  shows "distinct ks \<Longrightarrow> \<forall>j\<in>set ks. \<forall>t. map_of ts j = Some t \<longrightarrow> parsableTenant L t \<Longrightarrow>
    \<exists>ts' w'. terminateTenants L E ks ts d w = (Ret (ts', d \<and> allDoneIn ks ts), w') \<and> map fst ts' = map fst ts \<and>
      (\<forall>j t. map_of ts j = Some t \<longrightarrow> (\<exists>t'. map_of ts' j = Some t' \<and>
         (if j \<in> set ks then after_round L k (polls (hist w)) t t' else t' = t))) \<and>
      polls (hist w) + (if pendingIn ks ts then 1 else 0) \<le> polls (hist w')"
proof (induction ks arbitrary: ts d w)
  case Nil
  then show ?case by (simp add: ret_def allDoneIn_def pendingIn_def)
next
  case (Cons j js)
  show ?case
  proof (cases "map_of ts j")
    case None
    with Cons.IH [of ts d w] Cons.prems obtain ts' w' where "terminateTenants L E js ts d w = (Ret (ts', d \<and> allDoneIn js ts), w')"
      "map fst ts' = map fst ts" "polls (hist w) + (if pendingIn js ts then 1 else 0) \<le> polls (hist w')"
      "\<forall>i t. map_of ts i = Some t \<longrightarrow> (\<exists>t'. map_of ts' i = Some t' \<and>
         (if i \<in> set js then after_round L k (polls (hist w)) t t' else t' = t))" by auto
    moreover have "allDoneIn (j # js) ts = allDoneIn js ts" "pendingIn (j # js) ts = pendingIn js ts"
      using None by (auto simp: allDoneIn_def pendingIn_def)
    moreover have "i \<noteq> j" if "map_of ts i = Some t" for i t using that None by auto
    ultimately show ?thesis using None by (intro exI [of _ ts'] exI [of _ w']) auto
  next
    case (Some t)
    from terminateTenant_round [OF env codec, of t w] Cons.prems(2) Some obtain stored w1 where
      one: "terminateTenant L E t w = (Ret (stored, doneTenant t), w1)"
      and t': "after_round L k (polls (hist w)) t (case stored of None \<Rightarrow> t | Some t' \<Rightarrow> t')"
      and p1: "polls (hist w1) = polls (hist w) + (if tenantPhase t = InFlight then 1 else 0)" by auto
    define t1 where "t1 = (case stored of None \<Rightarrow> t | Some t' \<Rightarrow> t')"
    define ts1 where "ts1 = (case stored of None \<Rightarrow> ts | Some t' \<Rightarrow> AList.update j t' ts)"
    have j: "j \<in> fst ` set ts" using Some by (force dest: map_of_SomeD)
    have ts1: "map fst ts1 = map fst ts" "map_of ts1 = (map_of ts)(j \<mapsto> t1)"
      using Some j by (auto simp: ts1_def t1_def map_of_update_keys update_conv' split: option.split)
    have prems: "distinct js" "\<forall>i\<in>set js. \<forall>t. map_of ts1 i = Some t \<longrightarrow> parsableTenant L t"
      using Cons.prems ts1(2) by auto
    from Cons.IH [OF prems, of "d \<and> doneTenant t" w1] obtain ts' w' where
      rest: "terminateTenants L E js ts1 (d \<and> doneTenant t) w1 = (Ret (ts', (d \<and> doneTenant t) \<and> allDoneIn js ts1), w')"
      and keys: "map fst ts' = map fst ts1" and p2: "polls (hist w1) + (if pendingIn js ts1 then 1 else 0) \<le> polls (hist w')"
      and each: "\<forall>i t. map_of ts1 i = Some t \<longrightarrow> (\<exists>t'. map_of ts' i = Some t' \<and>
         (if i \<in> set js then after_round L k (polls (hist w1)) t t' else t' = t))" by blast
    have js: "map_of ts1 i = map_of ts i" if "i \<in> set js" for i using that Cons.prems(1) ts1(2) by auto
    have run: "terminateTenants L E (j # js) ts d w = (Ret (ts', d \<and> allDoneIn (j # js) ts), w')"
      using Some one rest js by (auto simp: bind_def ts1_def [symmetric] allDoneIn_def)
    have mono: "after_round L k (polls (hist w)) u u'" if "after_round L k (polls (hist w1)) u u'" for u u'
      using that p1 by (auto simp: after_round_def split: if_splits)
    have "\<exists>u'. map_of ts' i = Some u' \<and> (if i \<in> set (j # js) then after_round L k (polls (hist w)) u u' else u' = u)"
      if u: "map_of ts i = Some u" for i u
    proof (cases "i = j")
      case True
      then have "map_of ts1 i = Some t1" using ts1(2) by simp
      with each True Cons.prems(1) have "map_of ts' i = Some t1" by fastforce
      with True u Some t' show ?thesis by (simp add: t1_def)
    next
      case False
      with u ts1(2) have "map_of ts1 i = Some u" by simp
      with each False mono show ?thesis by fastforce
    qed
    moreover have "polls (hist w) + (if pendingIn (j # js) ts then 1 else 0) \<le> polls (hist w')"
      using p1 p2 js Some by (auto simp: pendingIn_def split: if_splits)
    ultimately show ?thesis using run keys ts1(1) by (intro exI [of _ ts'] exI [of _ w']) auto
  qed
qed

section \<open>Passes\<close>

text \<open>
  The cluster in the API server after the writes of a pass, as for machines: a patch of the status
  stores the status, an update stores the rest, and lets the object go when it has lost its finalizer.
  A pass is the reconciler's work on the object that was read.
\<close>

fun afterClusterWrite :: "event \<Rightarrow> WaldurCluster option \<Rightarrow> WaldurCluster option" where
  "afterClusterWrite (KubeEv (PatchWaldurClusterStatus n b (Inr a))) (Some c) = Some (c\<lparr>wc_Status := wc_Status n\<rparr>)"
| "afterClusterWrite (KubeEv (UpdateWaldurCluster n (Inr a))) (Some c) =
     (if clusterFinalizer \<in> set (om_Finalizers (wc_Meta n)) then Some (n\<lparr>wc_Status := wc_Status c\<rparr>) else None)"
| "afterClusterWrite _ c = c"

definition clusterPass :: "lib \<Rightarrow> env \<Rightarrow> range_order \<Rightarrow> WaldurCluster \<times> world \<Rightarrow> (WaldurCluster \<times> world) option" where
  "clusterPass L E R s = (case s of (c, w) \<Rightarrow>
     let w' = snd (cluster_reconcileLoaded L E R c w) in
     map_option (\<lambda>c'. (c', w')) (fold afterClusterWrite (drop (length (hist w)) (hist w')) (Some c)))"

primrec clusterPasses :: "nat \<Rightarrow> lib \<Rightarrow> env \<Rightarrow> range_order \<Rightarrow> WaldurCluster \<times> world \<Rightarrow> (WaldurCluster \<times> world) option" where
  "clusterPasses 0 L E R s = Some s"
| "clusterPasses (Suc n) L E R s = Option.bind (clusterPass L E R s) (clusterPasses n L E R)"

abbreviation from_waldur :: "event \<Rightarrow> bool" where
  "from_waldur e \<equiv> \<exists>x. e = WaldurEv x"

lemma afterClusterWrites_waldur: "list_all from_waldur es \<Longrightarrow> fold afterClusterWrite es c = c"
  by (induction es arbitrary: c) auto

lemma emits_terminateTenants_waldur: "emits from_waldur (terminateTenants L E ks ts d)"
  by (rule emits_mono [OF emits_terminateTenants]) (auto simp: waldur_read_def terminates_iff)

abbreviation beingDeleted :: "WaldurCluster \<Rightarrow> bool" where
  "beingDeleted c \<equiv> \<not> timeIsZero (om_DeletionTimestamp (wc_Meta c))"

text \<open>An object whose deletion may go on: distinct keys, and identifiers that can be parsed.\<close>

definition deletable :: "lib \<Rightarrow> WaldurCluster \<Rightarrow> bool" where
  "deletable L c \<longleftrightarrow> wf_map (clusterTenants c) \<and> (\<forall>k t. map_of (clusterTenants c) k = Some t \<longrightarrow> parsableTenant L t)"

abbreviation everyTenant :: "(OpenStackTenant \<Rightarrow> bool) \<Rightarrow> WaldurCluster \<Rightarrow> bool" where
  "everyTenant P c \<equiv> \<forall>k t. map_of (clusterTenants c) k = Some t \<longrightarrow> P t"

lemma range_keys:
  assumes "go_range R" and "wf_map ts"
  shows "distinct (R h (map fst ts))" and "set (R h (map fst ts)) = fst ` set ts"
  using assms mset_eq_imp_distinct_iff [of "R h (map fst ts)" "map fst ts"]
  by (auto simp: go_range_def wf_map_def go_range_set)

lemma in_keys: "map_of ts k = Some t \<Longrightarrow> k \<in> fst ` set ts"
  by (force dest: map_of_SomeD)

text \<open>A pass that finds a tenant open stores the tenants and comes back.\<close>

lemma clusterPass_requeued:
  assumes "terminating_cluster E k" and "beingDeleted c"
    and run: "terminateTenants L E (R (hist w) (map fst (clusterTenants c))) (clusterTenants c) True w = (Ret (ts, False), w1)"
  shows "\<exists>w'. clusterPass L E R (c, w) = Some (setTenants ts c, w') \<and> polls (hist w') = polls (hist w1)"
proof -
  from assms(1) obtain a where a: "on_PatchWaldurClusterStatus (env_kube E) (hist w1) (setTenants ts c) c = Inr a"
    unfolding terminating_cluster_def by blast
  let ?e = "KubeEv (PatchWaldurClusterStatus (setTenants ts c) c (Inr a))"
  have pass: "cluster_reconcileDelete L E R c w = (Ret (Inr (requeueAfter 15)), w1\<lparr>hist := hist w1 @ [?e]\<rparr>)"
    using run a
    by (simp add: cluster_reconcileDelete_def rangeOver_def k_PatchWaldurClusterStatus_def andThenWrap_def bind_def perform_def ok_def ret_def Let_def)
  from emitsD [OF emits_terminateTenants_waldur run] obtain es where es: "hist w1 = hist w @ es" "list_all from_waldur es" .
  have "clusterPass L E R (c, w) = Some (setTenants ts c, w1\<lparr>hist := hist w1 @ [?e]\<rparr>)"
    using pass es assms(2) by (simp add: clusterPass_def cluster_reconcileLoaded_def afterClusterWrites_waldur setTenants_def)
  moreover have "polls (hist (w1\<lparr>hist := hist w1 @ [?e]\<rparr>)) = polls (hist w1)" by (simp add: polls_def)
  ultimately show ?thesis by blast
qed

text \<open>A round over all tenants, in whatever order Go visits them.\<close>

lemma terminateTenants_all:
  fixes w :: world
  assumes env: "terminating_cluster E k" and codec: "uuid_codec L" and range: "go_range R" and del: "deletable L c"
  defines "ks \<equiv> R (hist w) (map fst (clusterTenants c))"
  shows "\<exists>ts w1. terminateTenants L E ks (clusterTenants c) True w = (Ret (ts, allDoneIn ks (clusterTenants c)), w1) \<and>
    map fst ts = map fst (clusterTenants c) \<and>
    (\<forall>j t'. map_of ts j = Some t' \<longrightarrow> (\<exists>t. map_of (clusterTenants c) j = Some t \<and> after_round L k (polls (hist w)) t t')) \<and>
    polls (hist w) + (if pendingIn ks (clusterTenants c) then 1 else 0) \<le> polls (hist w1)"
proof -
  let ?ts = "clusterTenants c"
  have wf: "wf_map ?ts" using del by (simp add: deletable_def)
  note keys = range_keys [OF range wf, of "hist w", folded ks_def]
  have par: "\<forall>j\<in>set ks. \<forall>t. map_of ?ts j = Some t \<longrightarrow> parsableTenant L t" using del by (simp add: deletable_def)
  from terminateTenants_round [OF env codec keys(1) par, of True w] obtain ts w1 where
    run: "terminateTenants L E ks ?ts True w = (Ret (ts, True \<and> allDoneIn ks ?ts), w1)" and same: "map fst ts = map fst ?ts"
    and each: "\<forall>j t. map_of ?ts j = Some t \<longrightarrow> (\<exists>t'. map_of ts j = Some t' \<and>
       (if j \<in> set ks then after_round L k (polls (hist w)) t t' else t' = t))"
    and polls: "polls (hist w) + (if pendingIn ks ?ts then 1 else 0) \<le> polls (hist w1)"
    by (elim exE conjE) (rule that)
  have step: "\<exists>t. map_of ?ts j = Some t \<and> after_round L k (polls (hist w)) t t'" if "map_of ts j = Some t'" for j t'
  proof -
    from in_keys [OF that] same have j: "j \<in> fst ` set ?ts" by (metis list.set_map)
    then have ks: "j \<in> set ks" by (simp only: keys(2))
    from j obtain t where t: "map_of ?ts j = Some t" by (metis map_of_eq_None_iff not_None_eq)
    from each [rule_format, OF t] obtain u where "map_of ts j = Some u"
      "if j \<in> set ks then after_round L k (polls (hist w)) t u else u = t" by (elim exE conjE)
    then have "after_round L k (polls (hist w)) t t'" using that by (simp only: ks if_True option.inject)
    with t show ?thesis by (intro exI conjI)
  qed
  from run have "terminateTenants L E ks ?ts True w = (Ret (ts, allDoneIn ks ?ts), w1)" by simp
  then show ?thesis using same step polls by (intro exI [of _ ts] exI [of _ w1] conjI allI impI)
qed

lemma clusterPass_open:
  assumes env: "terminating_cluster E k" and codec: "uuid_codec L" and range: "go_range R" and del: "deletable L c"
    and "\<not> everyTenant doneTenant c" and "beingDeleted c"
  shows "\<exists>c' w'. clusterPass L E R (c, w) = Some (c', w') \<and> deletable L c' \<and> wc_Meta c' = wc_Meta c \<and> everyTenant (\<lambda>t. tenantPhase t \<noteq> SubmitDue) c' \<and>
    (everyTenant (\<lambda>t. tenantPhase t \<noteq> SubmitDue) c \<longrightarrow> Suc (polls (hist w)) \<le> polls (hist w') \<and> (k \<le> polls (hist w) \<longrightarrow> everyTenant doneTenant c'))"
proof -
  let ?ts = "clusterTenants c" and ?ks = "R (hist w) (map fst (clusterTenants c))"
  have wf: "wf_map ?ts" using del by (simp add: deletable_def)
  from terminateTenants_all [OF env codec range del, of w] obtain ts' w1 where
    run: "terminateTenants L E ?ks ?ts True w = (Ret (ts', allDoneIn ?ks ?ts), w1)" and same: "map fst ts' = map fst ?ts"
    and step: "\<forall>j t'. map_of ts' j = Some t' \<longrightarrow> (\<exists>t. map_of ?ts j = Some t \<and> after_round L k (polls (hist w)) t t')"
    and polls: "polls (hist w) + (if pendingIn ?ks ?ts then 1 else 0) \<le> polls (hist w1)"
    by (elim exE conjE) (rule that)
  from assms(5) obtain j t where t: "map_of ?ts j = Some t" "\<not> doneTenant t" by auto
  from in_keys [OF t(1)] have j: "j \<in> set ?ks" by (simp only: range_keys(2) [OF range wf])
  with t have open_now: "\<not> allDoneIn ?ks ?ts" unfolding allDoneIn_def by blast
  from open_now run have "terminateTenants L E ?ks ?ts True w = (Ret (ts', False), w1)" by simp
  from clusterPass_requeued [of E k c L R w, OF env assms(6) this] obtain w' where "clusterPass L E R (c, w) = Some (setTenants ts' c, w')"
    and w': "polls (hist w') = polls (hist w1)" by blast
  moreover have after: "parsableTenant L t' \<and> tenantPhase t' \<noteq> SubmitDue" if "map_of ts' j = Some t'" for j t'
    using step [rule_format, OF that] by (auto simp: after_round_def)
  have "wf_map ts'" using same wf by (simp add: wf_map_def)
  then have "deletable L (setTenants ts' c)" using after by (simp add: deletable_def)
  moreover have "everyTenant (\<lambda>t. tenantPhase t \<noteq> SubmitDue) (setTenants ts' c)"
    using after by simp
  moreover have "Suc (polls (hist w)) \<le> polls (hist w')" if "everyTenant (\<lambda>t. tenantPhase t \<noteq> SubmitDue) c"
  proof -
    from that t have "tenantPhase t = InFlight" by (cases "tenantPhase t") auto
    with t(1) j have "pendingIn ?ks ?ts" unfolding pendingIn_def by blast
    with polls w' show ?thesis by simp
  qed
  moreover have "everyTenant doneTenant (setTenants ts' c)" if "everyTenant (\<lambda>t. tenantPhase t \<noteq> SubmitDue) c" "k \<le> polls (hist w)"
  proof (intro allI impI)
    fix j t'
    assume "map_of (clusterTenants (setTenants ts' c)) j = Some t'"
    then obtain t where t: "map_of ?ts j = Some t" "after_round L k (polls (hist w)) t t'" using step by (simp only: setTenants_simps) blast
    with that show "doneTenant t'" by (cases "tenantPhase t") (auto simp: after_round_def)
  qed
  moreover have "wc_Meta (setTenants ts' c) = wc_Meta c" by simp
  ultimately show ?thesis by blast
qed

lemma deleteProjects_succeeds:
  assumes "terminating_cluster E k"
  shows "\<exists>w'. deleteProjects E ts ks w = (Ret (Inr ()), w')"
proof (induction ks arbitrary: w)
  case Nil
  then show ?case by (simp add: ok_def ret_def)
next
  case (Cons j js)
  have one: "\<exists>w1. deleteProject E slug w = (Ret (Inr ()), w1)" for slug
  proof -
    let ?q = "\<lparr>pl_NameExact = None, pl_Customer = None, pl_Slug = Some slug\<rparr>"
    from assms obtain resp ps where ps: "on_ProjectsList (env_waldur E) (hist w) ?q = Inr resp" "JSON resp = Some ps"
      "list_all (\<lambda>p. prj_Uuid p \<noteq> None) ps" unfolding terminating_cluster_def by blast
    let ?h = "hist w @ [WaldurEv (ProjectsList ?q (Inr resp))]"
    show ?thesis
    proof (cases ps)
      case Nil
      with ps show ?thesis by (simp add: deleteProject_def w_ProjectsList_def deref_def cluster_run_defs)
    next
      case (Cons p qs)
      with ps(3) obtain u where u: "prj_Uuid p = Some u" by auto
      from assms obtain r where "on_ProjectsDestroy (env_waldur E) ?h u = Inr r" "StatusCode r = 204"
        unfolding terminating_cluster_def by blast
      with Cons ps u show ?thesis by (simp add: deleteProject_def w_ProjectsList_def w_ProjectsDestroy_def deref_def cluster_run_defs)
    qed
  qed
  show ?case
  proof (cases "Option.bind (map_of ts j) t_ProjectSlug")
    case None
    with Cons.IH show ?thesis by simp
  next
    case (Some slug)
    from one obtain w1 where "deleteProject E slug w = (Ret (Inr ()), w1)" by blast
    with Some Cons.IH [of w1] show ?thesis by (simp add: andThenWrap_def bind_def)
  qed
qed

lemma clusterPass_release:
  assumes env: "terminating_cluster E k" and codec: "uuid_codec L" and fin: "finalizer_ops L" and range: "go_range R"
    and del: "deletable L c" and all_done: "everyTenant doneTenant c" and "beingDeleted c"
  shows "clusterPass L E R (c, w) = None"
proof -
  let ?ts = "clusterTenants c" and ?ks = "R (hist w) (map fst (clusterTenants c))"
  from terminateTenants_all [OF env codec range del, of w] obtain ts' w1 where
    run: "terminateTenants L E ?ks ?ts True w = (Ret (ts', allDoneIn ?ks ?ts), w1)" by (elim exE conjE) (rule that)
  have over: "allDoneIn ?ks ?ts" using all_done unfolding allDoneIn_def by blast
  from env obtain p where p: "on_PatchWaldurClusterStatus (env_kube E) (hist w1) (setTenants ts' c) c = Inr p"
    unfolding terminating_cluster_def by blast
  let ?e = "KubeEv (PatchWaldurClusterStatus (setTenants ts' c) c (Inr p))"
  let ?w2 = "w1\<lparr>hist := hist w1 @ [?e]\<rparr>"
  from deleteProjects_succeeds [OF env] obtain w3 where projects: "deleteProjects E ts' (R (hist ?w2) (map fst ts')) ?w2 = (Ret (Inr ()), w3)" by blast
  let ?n = "p\<lparr>wc_Meta := (wc_Meta p)\<lparr>om_Finalizers := RemoveFinalizer L (om_Finalizers (wc_Meta p)) clusterFinalizer\<rparr>\<rparr>"
  from env obtain q where q: "on_UpdateWaldurCluster (env_kube E) (hist w3) ?n = Inr q" unfolding terminating_cluster_def by blast
  let ?u = "KubeEv (UpdateWaldurCluster ?n (Inr q))"
  have pass: "snd (cluster_reconcileDelete L E R c w) = w3\<lparr>hist := hist w3 @ [?u]\<rparr>"
    using run p over projects q
    by (simp add: cluster_reconcileDelete_def rangeOver_def k_PatchWaldurClusterStatus_def k_UpdateWaldurCluster_def andThenWrap_def
        andThen_def bind_def perform_def ok_def ret_def Let_def)
  from emitsD [OF emits_terminateTenants_waldur run] obtain es where es: "hist w1 = hist w @ es" "list_all from_waldur es" .
  from emitsD [OF emits_deleteProjects projects] obtain fs where fs: "hist w3 = hist ?w2 @ fs" "list_all from_waldur fs" .
  have "clusterFinalizer \<notin> set (RemoveFinalizer L (om_Finalizers (wc_Meta p)) clusterFinalizer)"
    using fin by (simp add: finalizer_ops_def)
  then show ?thesis using pass es fs assms(7) by (simp add: clusterPass_def cluster_reconcileLoaded_def afterClusterWrites_waldur)
qed

section \<open>Completion\<close>

text \<open>With every termination submitted, the deletion ends after the polls that are still needed, and two passes.\<close>

lemma submitted_completes:
  assumes env: "terminating_cluster E k" and codec: "uuid_codec L" and fin: "finalizer_ops L" and range: "go_range R"
  shows "deletable L c \<Longrightarrow> everyTenant (\<lambda>t. tenantPhase t \<noteq> SubmitDue) c \<Longrightarrow> beingDeleted c \<Longrightarrow>
    \<exists>n \<le> k - polls (hist w) + 2. clusterPasses n L E R (c, w) = None"
proof (induction "k - polls (hist w)" arbitrary: c w rule: less_induct)
  case less
  note release = clusterPass_release [OF env codec fin range]
  show ?case
  proof (cases "everyTenant doneTenant c")
    case True
    from release [OF less.prems(1) True less.prems(3)] show ?thesis by (intro exI [of _ 1]) simp
  next
    case False
    from clusterPass_open [OF env codec range less.prems(1) False less.prems(3), of w] less.prems(2) obtain c' w' where
      pass: "clusterPass L E R (c, w) = Some (c', w')" and next_ok: "deletable L c'" and meta: "wc_Meta c' = wc_Meta c" and settled: "everyTenant (\<lambda>t. tenantPhase t \<noteq> SubmitDue) c'"
      and polls: "Suc (polls (hist w)) \<le> polls (hist w')" and last: "k \<le> polls (hist w) \<longrightarrow> everyTenant doneTenant c'"
      by (elim exE conjE) (erule (1) impE, elim conjE, rule that)
    from less.prems(3) meta have deleted: "beingDeleted c'" by simp
    show ?thesis
    proof (cases "k \<le> polls (hist w)")
      case True
      from release [OF next_ok last [THEN mp, OF True] deleted, of w'] pass show ?thesis by (intro exI [of _ 2]) (simp add: numeral_2_eq_2)
    next
      case False
      with polls have lt: "k - polls (hist w') < k - polls (hist w)" by simp
      from less.hyps [OF lt next_ok settled deleted] obtain n where "n \<le> k - polls (hist w') + 2" "clusterPasses n L E R (c', w') = None" by blast
      with pass lt show ?thesis by (intro exI [of _ "Suc n"]) simp
    qed
  qed
qed

text \<open>C8: deletion of a cluster comes to an end. If Waldur accepts terminations, reports an order as executing for the
  first \<open>k\<close> polls and as done afterwards, deletes projects, answers completely, and the API server accepts the
  writes, then the finalizer of a cluster under deletion is gone after at most \<open>k + 3\<close> passes, however
  many tenants it has, whatever phase each of them is in and in whatever order Go ranges over them.\<close>

theorem cluster_deletion_completes:
  assumes env: "terminating_cluster E k" and codec: "uuid_codec L" and fin: "finalizer_ops L" and range: "go_range R"
    and del: "deletable L c" "beingDeleted c"
  shows "\<exists>n \<le> k + 3. clusterPasses n L E R (c, w) = None"
proof (cases "everyTenant doneTenant c")
  case True
  from clusterPass_release [OF env codec fin range del(1) True del(2)] show ?thesis by (intro exI [of _ 1]) simp
next
  case False
  from clusterPass_open [OF env codec range del(1) False del(2), of w] obtain c' w' where
    pass: "clusterPass L E R (c, w) = Some (c', w')" and next_ok: "deletable L c'" and meta: "wc_Meta c' = wc_Meta c" and settled: "everyTenant (\<lambda>t. tenantPhase t \<noteq> SubmitDue) c'"
    by (elim exE conjE) (rule that)
  from del(2) meta have "beingDeleted c'" by simp
  from submitted_completes [OF env codec fin range next_ok settled this] obtain n where
    "n \<le> k - polls (hist w') + 2" "clusterPasses n L E R (c', w') = None" by blast
  with pass show ?thesis by (intro exI [of _ "Suc n"]) simp
qed

definition env_cluster_terminating :: env where
  "env_cluster_terminating = env_down\<lparr>
     env_kube := kube_down\<lparr>on_PatchWaldurClusterStatus := (\<lambda>_ n b. Inr n), on_UpdateWaldurCluster := (\<lambda>_ n. Inr n)\<rparr>,
     env_waldur := waldur_down\<lparr>
       on_MarketplaceResourcesTerminate := (\<lambda>_ _. reply 200 \<lparr>ou_OrderUuid = Some 7\<rparr>),
       on_MarketplaceOrdersRetrieve := (\<lambda>h _. reply 200 (order_reply\<lparr>od_State := Some (if polls h < 2
         then OrderStateOther ''executing'' else OrderStateDone)\<rparr>)),
       on_ProjectsList := (\<lambda>_ _. reply 200 [project_sample]),
       on_ProjectsDestroy := (\<lambda>_ _. reply 204 ())\<rparr>\<rparr>"

lemma env_cluster_terminating_ok: "terminating_cluster env_cluster_terminating 2"
  by (simp add: terminating_cluster_def terminations_accepted_def orders_land_def env_cluster_terminating_def complete_waldur_def
      body_def completeOrder_def completeProject_def order_reply_def project_sample_def sample_defs)

theorem cluster_deletion_completes_witness:
  "\<exists>n \<le> 5. clusterPasses n lib_sample env_cluster_terminating in_order (cluster_of (Some 1) []
     [(''a'', tenant_of CoreStatesOK None), (''b'', tenant_of CoreStatesOK (Some (tenant_order Terminate OrderStatePendingProvider)))],
     world_sample) = None"
proof -
  have "deletable lib_sample (cluster_of (Some 1) [] [(''a'', tenant_of CoreStatesOK None),
     (''b'', tenant_of CoreStatesOK (Some (tenant_order Terminate OrderStatePendingProvider)))])"
    by (auto simp: deletable_def cluster_of_def tenant_of_def tenant_order_def wf_map_def parsableTenant_def lib_sample_def)
  moreover have "beingDeleted (cluster_of (Some 1) [] [(''a'', tenant_of CoreStatesOK None),
     (''b'', tenant_of CoreStatesOK (Some (tenant_order Terminate OrderStatePendingProvider)))])"
    by (simp add: cluster_of_def timeIsZero_def)
  ultimately show ?thesis
    using cluster_deletion_completes [OF env_cluster_terminating_ok lib_sample_ok(1,3) in_order_range, of _ world_sample] by simp
qed

end
