(* ===== verification/Identifier_Types.thy ===== *)
theory Identifier_Types
  imports Cluster_Deletion Machine_Lifecycle
begin

text \<open>
  The identifiers in the statuses are strings; the code parses them as UUIDs when it uses them. Here
  they are typed: an identifier is absent or parses. The types are preserved by everything the two
  reconcilers write, so the passes that delete an object never stop at an identifier that an earlier
  pass has stored.
\<close>

section \<open>Types\<close>

definition isUuid :: "lib \<Rightarrow> string \<Rightarrow> bool" where
  "isUuid L s \<longleftrightarrow> (case uuid_Parse L s of Inr u \<Rightarrow> True | Inl e \<Rightarrow> False)"

definition typedOrder :: "lib \<Rightarrow> WaldurOrder \<Rightarrow> bool" where
  "typedOrder L x \<longleftrightarrow> isUuid L (wo_Uuid x) \<and> (wo_MarketplaceResourceUuid x = [] \<or> isUuid L (wo_MarketplaceResourceUuid x)) \<and>
     pred_option (isUuid L) (wo_ResourceUuid x)"

definition typedTenant :: "lib \<Rightarrow> OpenStackTenant \<Rightarrow> bool" where
  "typedTenant L t \<longleftrightarrow> (t_MarketplaceResourceUuid t = [] \<or> isUuid L (t_MarketplaceResourceUuid t)) \<and>
     pred_option (isUuid L) (t_Uuid t) \<and> pred_option (typedOrder L) (t_Order t)"

definition typedMachine :: "lib \<Rightarrow> WaldurMachine \<Rightarrow> bool" where
  "typedMachine L m \<longleftrightarrow> (machineResource m = [] \<or> isUuid L (machineResource m)) \<and>
     pred_option (isUuid L) (mst_VmUuid (wm_Status m)) \<and> pred_option (typedOrder L) (machineOrder m)"

definition typedTenants :: "lib \<Rightarrow> (string, OpenStackTenant) gomap \<Rightarrow> bool" where
  "typedTenants L ts \<longleftrightarrow> wf_map ts \<and> list_all (\<lambda>(k, t). typedTenant L t) ts"

lemma isUuid_String [simp]: "uuid_codec L \<Longrightarrow> isUuid L (uuid_String L u)"
  by (simp add: isUuid_def uuid_codec_def)

lemma isUuid_Parse: "isUuid L s \<longleftrightarrow> (\<exists>u. uuid_Parse L s = Inr u)"
  by (simp add: isUuid_def split: sum.split)

lemma isUuidI: "uuid_Parse L s = Inr u \<Longrightarrow> isUuid L s"
  by (simp add: isUuid_def)

text \<open>Typed objects meet the hypotheses under which their deletion is known to end.\<close>

lemma typedMachine_parsable: "typedMachine L m \<Longrightarrow> parsable L m"
  by (auto simp: typedMachine_def parsable_def typedOrder_def isUuid_Parse)

lemma typedTenants_deletable: "typedTenants L (clusterTenants c) \<Longrightarrow> deletable L c"
  by (auto simp: typedTenants_def deletable_def parsableTenant_def typedTenant_def typedOrder_def isUuid_Parse list_all_iff
      dest!: map_of_SomeD)

lemma typedTenants_lookup: "typedTenants L ts \<Longrightarrow> map_of ts k = Some t \<Longrightarrow> typedTenant L t"
  by (auto simp: typedTenants_def list_all_iff dest!: map_of_SomeD)

lemma typedTenants_update:
  assumes "typedTenants L ts" and "typedTenant L t"
  shows "typedTenants L (AList.update k t ts)"
proof -
  have "list_all (\<lambda>(k, t). typedTenant L t) (AList.update k t us)" if "list_all (\<lambda>(k, t). typedTenant L t) us" for us
    using that assms(2) by (induction us) auto
  with assms(1) show ?thesis by (simp add: typedTenants_def wf_map_update)
qed

section \<open>Orders\<close>

lemma refreshOrder_typed:
  assumes "refreshOrder L E x w = (Ret (Inr y), w')" and "uuid_codec L" and "typedOrder L x"
  shows "typedOrder L y"
  using assms by (auto simp: refreshOrder_def typedOrder_def Let_def go_inv split: option.splits)

lemma submitTerminationOrder_typed:
  assumes "submitTerminationOrder L E s w = (Ret (Inr y), w')" and "uuid_codec L"
  shows "typedOrder L y"
  using assms by (auto simp: submitTerminationOrder_def typedOrder_def go_inv split: option.splits intro: isUuidI)

section \<open>Objects with an order\<close>

text \<open>
  What machines and tenants have in common: an order can be put in, and the object can be refreshed;
  both keep the type. A termination that is submitted for a typed object leaves it typed.
\<close>

locale typed_object =
  fixes L :: lib and E :: env and resource :: "'a \<Rightarrow> string" and setOrder :: "WaldurOrder \<Rightarrow> 'a \<Rightarrow> 'a"
    and refresh :: "'a \<Rightarrow> ('a \<times> error option) io" and typed :: "'a \<Rightarrow> bool"
  assumes set_typed: "typed x \<Longrightarrow> typedOrder L y \<Longrightarrow> typed (setOrder y x)"
    and refresh_typed: "uuid_codec L \<Longrightarrow> refresh x w = (Ret (x', err), w') \<Longrightarrow> typed x \<Longrightarrow> typed x'"
begin

lemma terminate_typed:
  "uuid_codec L \<Longrightarrow> submitTerminationOrder L E (resource x) w = (Ret (Inr y), w') \<Longrightarrow> typed x \<Longrightarrow> typed (setOrder y x)"
  by (rule set_typed) (auto dest: submitTerminationOrder_typed)

lemma emits_refresh_then:
  assumes "uuid_codec L" and "typed x" and "emits P (refresh x)" and "\<And>x' err. typed x' \<Longrightarrow> emits P (f (x', err))"
  shows "emits P (bind (refresh x) f)"
  using assms(1,2,4) by (intro ext.bind_run assms(3)) (auto dest: refresh_typed)

end

lemma applyInstance_typed: "uuid_codec L \<Longrightarrow> typedMachine L m \<Longrightarrow> typedMachine L (applyInstance L i m)"
  by (simp add: applyInstance_def typedMachine_def Let_def split: option.split)

lemma applyTenant_typed: "uuid_codec L \<Longrightarrow> typedTenant L t \<Longrightarrow> typedTenant L (applyTenant L d u t)"
  by (simp add: applyTenant_def typedTenant_def Let_def split: option.split)

lemma resource_state_typed:
  "typedMachine L (m\<lparr>wm_Status := (wm_Status m)\<lparr>mst_MarketplaceResourceState := s\<rparr>\<rparr>) = typedMachine L m"
  "typedTenant L (t\<lparr>t_MarketplaceResourceState := s\<rparr>) = typedTenant L t"
  by (simp_all add: typedMachine_def typedTenant_def)

lemma refreshVMResource_typed:
  assumes "refreshVMResource L E m w = (Ret (m', err), w')" and "uuid_codec L" and "typedMachine L m"
  shows "typedMachine L m'"
  using assms
  by (auto simp: refreshVMResource_def w_OpenstackInstancesRetrieve_def resource_state_typed Let_def go_inv
      split: option.splits intro!: applyInstance_typed)

lemma refreshTenantResource_typed:
  assumes "refreshTenantResource L E t w = (Ret (t', err), w')" and "uuid_codec L" and "typedTenant L t"
  shows "typedTenant L t'"
  using assms
  by (auto simp: refreshTenantResource_def resource_state_typed Let_def go_inv split: option.splits intro!: applyTenant_typed)

lemma adoptResource_typed: "typedTenant L t \<Longrightarrow> typedTenant L (adoptResource t)"
  by (auto simp: adoptResource_def typedTenant_def typedOrder_def split: option.split)

lemma refreshTenantRest_typed:
  assumes "refreshTenantRest L E t w = (Ret (t', err), w')" and "uuid_codec L" and "typedTenant L t"
  shows "typedTenant L t'"
  using assms adoptResource_typed [OF assms(3)]
  by (auto simp: refreshTenantRest_def Let_def go_inv split: if_splits dest: refreshTenantResource_typed)

interpretation typed_machine: typed_object L E machineResource setMachineOrder "refreshVM L E" "typedMachine L" for L E
proof
  show "typedMachine L (setMachineOrder y m)" if "typedMachine L m" "typedOrder L y" for m y
    using that by (simp add: typedMachine_def)
  show "typedMachine L m'" if "uuid_codec L" "refreshVM L E m w = (Ret (m', err), w')" "typedMachine L m" for m w m' err w'
    using that
    by (auto simp: refreshVM_def go_inv typedMachine_def split: option.splits if_splits
        dest!: refreshVMResource_typed refreshOrder_typed)
qed

interpretation typed_tenant: typed_object L E t_MarketplaceResourceUuid "\<lambda>y t. t\<lparr>t_Order := Some y\<rparr>" "refreshTenant L E" "typedTenant L" for L E
proof
  show "typedTenant L (t\<lparr>t_Order := Some y\<rparr>)" if "typedTenant L t" "typedOrder L y" for t y
    using that by (simp add: typedTenant_def)
  show "typedTenant L t'" if "uuid_codec L" "refreshTenant L E t w = (Ret (t', err), w')" "typedTenant L t" for t w t' err w'
    using that
    by (auto simp: refreshTenant_def go_inv typedTenant_def split: option.splits if_splits
        dest!: refreshTenantRest_typed refreshOrder_typed)
qed

section \<open>Creation\<close>

lemma createVM_typed:
  assumes "createVM L E r ma m c w = (Ret (Inr m'), w')" and "uuid_codec L" and "typedMachine L m"
  shows "typedMachine L m'"
proof -
  from assms(1) obtain od v v' where "recordVMOrder L m od v = (Ret (Inr m'), v')"
    by (auto simp: createVM_def submitVMOrder_def handleOrderResponse_def go_inv)
  with assms(2,3) show ?thesis by (auto simp: recordVMOrder_def typedMachine_def typedOrder_def go_inv)
qed

lemma createTenant_typed:
  assumes "createTenant L E dc w = (Ret (Inr (Some t)), w')" and "uuid_codec L"
  shows "typedTenant L t"
proof -
  from assms(1) obtain prj od v v' where "recordTenantOrder L E prj od v = (Ret (Inr (Some t)), v')"
    by (auto simp: createTenant_def go_inv split: option.splits)
  with assms(2) show ?thesis
    by (auto simp: recordTenantOrder_def typedTenant_def typedOrder_def Let_def go_inv split: option.splits)
qed

lemma reconcileDatacenters_typed:
  assumes "uuid_codec L"
  shows "reconcileDatacenters L E dcs ts w = (Ret ts', w') \<Longrightarrow> typedTenants L ts \<Longrightarrow> typedTenants L ts'"
proof (induction dcs arbitrary: ts w)
  case Nil
  then show ?case by (simp add: go_inv)
next
  case (Cons dc dcs)
  show ?case
  proof (cases "map_of ts (dc_OfferingSlug dc)")
    case None
    with Cons.prems Cons.IH show ?thesis
      by (auto simp: go_inv split: sum.splits option.splits intro: typedTenants_update createTenant_typed [OF _ assms])
  next
    case (Some t)
    with Cons.prems(1) obtain t' err v where "refreshTenant L E t w = (Ret (t', err), v)"
      "reconcileDatacenters L E dcs (AList.update (dc_OfferingSlug dc) t' ts) v = (Ret ts', w')" by (auto simp: go_inv)
    with Cons.IH Cons.prems(2) Some show ?thesis
      by (blast intro: typedTenants_update typed_tenant.refresh_typed [OF assms] typedTenants_lookup)
  qed
qed

lemma terminateTenant_typed:
  assumes "terminateTenant L E t w = (Ret (Some t', d), w')" and "uuid_codec L" and "typedTenant L t"
  shows "typedTenant L t'"
  using assms
  by (auto simp: terminateTenant_phase go_inv split: delete_phase.splits sum.splits
      intro: typed_tenant.refresh_typed typed_tenant.terminate_typed)

lemma terminateTenants_typed:
  assumes "uuid_codec L"
  shows "terminateTenants L E ks ts d w = (Ret (ts', d'), w') \<Longrightarrow> typedTenants L ts \<Longrightarrow> typedTenants L ts'"
proof (induction ks arbitrary: ts d w)
  case Nil
  then show ?case by (simp add: go_inv)
next
  case (Cons k ks)
  show ?case
  proof (cases "map_of ts k")
    case None
    with Cons show ?thesis by simp
  next
    case (Some t)
    with Cons.prems(1) obtain stored e v where one: "terminateTenant L E t w = (Ret (stored, e), v)"
      and rest: "terminateTenants L E ks (case stored of None \<Rightarrow> ts | Some t' \<Rightarrow> AList.update k t' ts) (d \<and> e) v = (Ret (ts', d'), w')"
      by (auto simp: go_inv)
    show ?thesis
    proof (cases stored)
      case None
      with Cons.IH [OF rest] Cons.prems(2) show ?thesis by simp
    next
      case (Some t')
      with one terminateTenant_typed assms typedTenants_lookup [OF Cons.prems(2) \<open>map_of ts k = Some t\<close>] have "typedTenant L t'" by blast
      with Cons.IH [OF rest] Cons.prems(2) Some show ?thesis by (simp add: typedTenants_update)
    qed
  qed
qed

section \<open>Writes\<close>

definition typed_write :: "lib \<Rightarrow> event \<Rightarrow> bool" where
  "typed_write L e \<longleftrightarrow> (\<forall>m b a. e = KubeEv (PatchWaldurMachineStatus m b a) \<longrightarrow> typedMachine L m) \<and>
     (\<forall>c b a. e = KubeEv (PatchWaldurClusterStatus c b a) \<longrightarrow> typedTenants L (clusterTenants c))"

text \<open>The API server hands out typed objects: on reads, and as the answer to a patch of a machine.\<close>

definition serves_typed :: "lib \<Rightarrow> env \<Rightarrow> bool" where
  "serves_typed L E \<longleftrightarrow>
     (\<forall>h n m. on_GetWaldurMachine (env_kube E) h n = Inr m \<longrightarrow> typedMachine L m) \<and>
     (\<forall>h m b a. on_PatchWaldurMachine (env_kube E) h m b = Inr a \<longrightarrow> typedMachine L a) \<and>
     (\<forall>h n c. on_GetWaldurCluster (env_kube E) h n = Inr c \<longrightarrow> typedTenants L (clusterTenants c))"

lemma typed_write_waldur: "from_waldur e \<Longrightarrow> typed_write L e"
  by (auto simp: typed_write_def)

lemma typed_write_order: "creates_order e \<or> before_order e \<Longrightarrow> typed_write L e"
  by (auto simp: typed_write_def creates_order_iff before_order_def waldur_read_def)

lemma condition_typed: "typedMachine L (setMachineReadyCondition L m) = typedMachine L m"
  by (simp add: typedMachine_def setMachineReadyCondition_def Let_def)

lemma emits_typed_patch:
  "typedMachine L m \<Longrightarrow> emits (typed_write L) (k_PatchWaldurMachineStatus E m b)"
  "typedTenants L (clusterTenants c) \<Longrightarrow> emits (typed_write L) (k_PatchWaldurClusterStatus E c d)"
  unfolding prim_defs by (rule emits_perform; simp add: typed_write_def)+

lemma emits_typed_setProviderID:
  assumes "typedMachine L m" and "serves_typed L E"
  shows "emits (typed_write L) (setProviderID L E b m)"
proof -
  have patch: "emits (typed_write L) (patchMachineStatus L E c n)" if "typedMachine L n" for c n
    unfolding patchMachineStatus_def using that by (intro ext.frame_rules emits_typed_patch) (simp add: condition_typed)
  have spec: "emits (typed_write L) (andThenWrap msg (k_PatchWaldurMachine E n b) (\<lambda>p. patchMachineStatus L E p p))" for msg n
  proof (rule ext.andThenWrap_run)
    show "emits (typed_write L) (k_PatchWaldurMachine E n b)" unfolding prim_defs by (rule emits_perform) (simp add: typed_write_def)
  next
    fix s a t
    assume "k_PatchWaldurMachine E n b s = (Ret (Inr a), t)"
    with assms(2) have "typedMachine L a" by (auto simp: k_PatchWaldurMachine_def serves_typed_def perform_eq)
    then show "emits (typed_write L) (patchMachineStatus L E a a)" by (rule patch)
  qed
  show ?thesis unfolding setProviderID_def by (intro ext.case_option ext.ite spec patch assms(1))
qed

lemma emits_typed_delete:
  assumes "uuid_codec L" and "typedMachine L m"
  shows "emits (typed_write L) (machine_reconcileDelete L E m)"
proof -
  have terminate: "emits (typed_write L) (terminateVM L E m)"
    unfolding terminateVM_def
  proof (rule ext.bind_run)
    show "emits (typed_write L) (submitTerminationOrder L E (machineResource m))"
      by (rule emits_mono [OF emits_submit_waldur]) (rule typed_write_waldur)
  next
    fix s a t
    assume "submitTerminationOrder L E (machineResource m) s = (Ret a, t)"
    then show "emits (typed_write L) (case a of Inl e \<Rightarrow> ok (requeueAfter 15) | Inr order \<Rightarrow>
        andThenWrap ''unable to patch status'' (k_PatchWaldurMachineStatus E (setMachineOrder order m) m) (\<lambda>_. ok (requeueAfter 15)))"
      using assms by (cases a) (auto intro!: ext.ok ext.andThenWrap emits_typed_patch typed_machine.terminate_typed)
  qed
  have poll: "emits (typed_write L) (bind (refreshVM L E m) (\<lambda>(m', _).
       andThenWrap msg (k_PatchWaldurMachineStatus E m' m) (\<lambda>_. ok (requeueAfter 15))))" for msg
    by (rule typed_machine.emits_refresh_then [OF assms emits_mono [OF emits_refreshVM_waldur typed_write_waldur]])
      (auto intro!: ext.ok ext.andThenWrap emits_typed_patch)
  show ?thesis
    unfolding machine_reconcileDelete_def removeMachineFinalizer_def stopVM_def
    by (intro ext.frame_rules poll terminate; (unfold prim_defs)?; (intro emits_perform)?; (simp add: typed_write_def)?)
qed

lemma emits_typed_reconcileVM:
  assumes "wired r" and "uuid_codec L" and "typedMachine L m" and "serves_typed L E"
  shows "emits (typed_write L) (reconcileVM L E r ma m c)"
proof -
  note patched = emits_typed_setProviderID [OF _ assms(4)]
  have "emits (typed_write L) (bind (createVM L E r ma m c) (\<lambda>c. case c of
             Inl e \<Rightarrow> if isBootstrapNotReady e then ok (requeueAfter 10) else setProviderID L E m m
           | Inr m' \<Rightarrow> setProviderID L E m m'))"
  proof (rule ext.bind_run)
    show "emits (typed_write L) (createVM L E r ma m c)"
      by (rule emits_mono [OF emits_createVM [OF assms(1)]]) (blast intro: typed_write_order)
  next
    fix s a t
    assume "createVM L E r ma m c s = (Ret a, t)"
    then show "emits (typed_write L) (case a of
             Inl e \<Rightarrow> if isBootstrapNotReady e then ok (requeueAfter 10) else setProviderID L E m m
           | Inr m' \<Rightarrow> setProviderID L E m m')"
      using assms(3) by (cases a) (auto intro!: ext.ite ext.ok patched dest: createVM_typed [OF _ assms(2,3)])
  qed
  moreover have "emits (typed_write L) (bind (refreshVM L E m) (\<lambda>(m', _). setProviderID L E m m'))"
    by (rule typed_machine.emits_refresh_then [OF assms(2,3) emits_mono [OF emits_refreshVM_waldur typed_write_waldur]])
      (auto intro: patched)
  ultimately show ?thesis by (simp add: reconcileVM_def)
qed

lemma emits_typed_machine_pass:
  assumes "wired r" and "uuid_codec L" and "serves_typed L E"
  shows "emits (typed_write L) (machine_Reconcile L E r req)"
  unfolding machine_Reconcile_def
proof (rule ext.bind_run)
  show "emits (typed_write L) (k_GetWaldurMachine E req)" unfolding prim_defs by (rule emits_perform) (simp add: typed_write_def)
next
  fix s a t
  assume "k_GetWaldurMachine E req s = (Ret a, t)"
  with assms(3) have typed: "a = Inr m \<Longrightarrow> typedMachine L m" for m by (auto simp: k_GetWaldurMachine_def serves_typed_def perform_eq)
  have "emits (typed_write L) (machine_reconcileLoaded L E r m)" if "typedMachine L m" for m
    unfolding machine_reconcileLoaded_def prim_defs
    by (intro ext.frame_rules emits_perform emits_typed_delete emits_typed_reconcileVM assms that) (simp_all add: typed_write_def)
  then show "emits (typed_write L) (case a of Inl e \<Rightarrow> if e = ErrNotFound then ok (requeueAfter 0) else fail e
     | Inr m \<Rightarrow> machine_reconcileLoaded L E r m)"
    using typed by (cases a) (auto intro!: ext.ite ext.ok ext.fail)
qed

section \<open>Clusters\<close>

lemma emits_typed_cluster_delete:
  assumes "uuid_codec L" and "typedTenants L (clusterTenants c)"
  shows "emits (typed_write L) (cluster_reconcileDelete L E R c)"
  unfolding cluster_reconcileDelete_def
proof (intro emits_rangeOver ext.bind_run)
  fix h
  show "emits (typed_write L) (terminateTenants L E (R h (map fst (clusterTenants c))) (clusterTenants c) True)"
    by (rule emits_mono [OF emits_terminateTenants_waldur]) (rule typed_write_waldur)
next
  fix h s a t
  assume run: "terminateTenants L E (R h (map fst (clusterTenants c))) (clusterTenants c) True s = (Ret a, t)"
  have typed: "typedTenants L ts" if "a = (ts, d)" for ts d
    by (rule terminateTenants_typed [OF assms(1) run [unfolded that] assms(2)])
  show "emits (typed_write L) (case a of (tenants, allDone) \<Rightarrow>
     andThenWrap ''couldn't patch status for cluster %q'' (k_PatchWaldurClusterStatus E (setTenants tenants c) c) (\<lambda>patched.
     if \<not> allDone then ok (requeueAfter 15)
     else rangeOver R tenants (\<lambda>slugs'. andThen (deleteProjects E tenants slugs') (\<lambda>_.
     andThenWrap ''unable to remove finalizer''
       (k_UpdateWaldurCluster E (patched\<lparr>wc_Meta := (wc_Meta patched)\<lparr>
          om_Finalizers := RemoveFinalizer L (om_Finalizers (wc_Meta patched)) clusterFinalizer\<rparr>\<rparr>)) (\<lambda>_. ok (requeueAfter 0))))))"
    by (intro ext.frame_rules emits_rangeOver emits_typed_patch emits_mono [OF emits_deleteProjects typed_write_waldur];
        (unfold k_UpdateWaldurCluster_def)?; (intro emits_perform)?; (simp add: typed_write_def typed)?)
qed

lemma emits_typed_reconcileTenants:
  assumes "uuid_codec L" and "typedTenants L (clusterTenants c)"
  shows "emits (typed_write L) (reconcileTenants L E c)"
  unfolding reconcileTenants_def
proof (rule ext.bind_run)
  show "emits (typed_write L) (reconcileDatacenters L E (cs_Datacenters (wc_Spec c)) (clusterTenants c))"
    by (rule emits_mono [OF emits_reconcileDatacenters])
      (auto simp: tenant_event_def typed_write_def waldur_read_def creates_order_iff)
next
  fix s ts t
  assume "reconcileDatacenters L E (cs_Datacenters (wc_Spec c)) (clusterTenants c) s = (Ret ts, t)"
  then have typed: "typedTenants L ts" by (rule reconcileDatacenters_typed [OF assms(1) _ assms(2)])
  have endpoint: "emits (typed_write L) (reconcileControlPlaneEndpoint L E p)" for p
    unfolding reconcileControlPlaneEndpoint_def getMarketplaceResource_def prim_defs
    by (intro ext.frame_rules emits_perform; (simp add: typed_write_def)?)
      (auto split: list.split intro!: ext.frame_rules emits_perform simp: typed_write_def)
  show "emits (typed_write L) (andThenWrap ''couldn't patch status for cluster %q''
       (k_PatchWaldurClusterStatus E (setReadyCondition L (setTenants ts c)) c) (\<lambda>patched.
     bind (reconcileControlPlaneEndpoint L E patched) (\<lambda>_. ok (requeueAfter (if anyTenantPending ts then 15 else 300)))))"
    by (intro ext.frame_rules emits_typed_patch endpoint) (simp add: typed)
qed

lemma emits_typed_cluster_pass:
  assumes "uuid_codec L" and "serves_typed L E"
  shows "emits (typed_write L) (cluster_Reconcile L E R req)"
  unfolding cluster_Reconcile_def
proof (rule ext.bind_run)
  show "emits (typed_write L) (k_GetWaldurCluster E req)" unfolding prim_defs by (rule emits_perform) (simp add: typed_write_def)
next
  fix s a t
  assume "k_GetWaldurCluster E req s = (Ret a, t)"
  with assms(2) have typed: "a = Inr c \<Longrightarrow> typedTenants L (clusterTenants c)" for c
    by (auto simp: k_GetWaldurCluster_def serves_typed_def perform_eq)
  have "emits (typed_write L) (cluster_reconcileLoaded L E R c)" if "typedTenants L (clusterTenants c)" for c
    unfolding cluster_reconcileLoaded_def k_UpdateWaldurCluster_def
    by (intro ext.frame_rules emits_perform emits_typed_cluster_delete emits_typed_reconcileTenants assms that)
      (simp_all add: typed_write_def)
  then show "emits (typed_write L) (case a of Inl e \<Rightarrow> if e = ErrNotFound then ok (requeueAfter 0) else fail e
     | Inr c \<Rightarrow> cluster_reconcileLoaded L E R c)"
    using typed by (cases a) (auto intro!: ext.ite ext.ok ext.fail)
qed

section \<open>The property\<close>

text \<open>C14: identifiers stay UUIDs. When the objects that the API server hands out have only identifiers that are
  absent or parse as UUIDs, so do all statuses that a machine pass or a cluster pass writes, whatever
  Waldur and Vault answer: every identifier (of resources, VMs, tenants and orders) that is stored
  can be read back, and the objects written meet the hypotheses under which their deletion ends.\<close>

theorem stored_identifiers_are_uuids:
  assumes "uuid_codec L" and "wired r" and "serves_typed L E"
    and "machine_Reconcile L E r req w = (res, w')" and "hist w' = hist w @ es"
    and "cluster_Reconcile L E R creq v = (cres, v')" and "hist v' = hist v @ fs"
  shows "(\<forall>m b a. KubeEv (PatchWaldurMachineStatus m b a) \<in> set es \<longrightarrow> typedMachine L m \<and> parsable L m) \<and>
    (\<forall>c b a. KubeEv (PatchWaldurClusterStatus c b a) \<in> set fs \<longrightarrow> typedTenants L (clusterTenants c) \<and> deletable L c)"
proof -
  from emitsD [OF emits_typed_machine_pass [OF assms(2,1,3)] assms(4)] assms(5) have "list_all (typed_write L) es" by auto
  moreover from emitsD [OF emits_typed_cluster_pass [OF assms(1,3)] assms(6)] assms(7) have "list_all (typed_write L) fs" by auto
  ultimately show ?thesis
    unfolding list_all_iff typed_write_def by (blast intro: typedMachine_parsable typedTenants_deletable)
qed

definition env_typed :: env where
  "env_typed = env_cluster_terminating\<lparr>env_kube := (env_kube env_cluster_terminating)\<lparr>
     on_GetWaldurMachine := (\<lambda>_ _. Inr (machine_sample (Some 1) ''000'' (Some (order_sample Create OrderStateDone)) None CoreStatesOK)),
     on_PatchWaldurMachineStatus := (\<lambda>_ n b. Inr n),
     on_GetWaldurCluster := (\<lambda>_ _. Inr (cluster_of (Some 1) [] [(''a'', tenant_of CoreStatesOK None)]))\<rparr>\<rparr>"

lemma env_typed_ok: "serves_typed lib_sample env_typed"
  by (simp add: serves_typed_def env_typed_def env_cluster_terminating_def sample_defs machine_samples cluster_of_def tenant_of_def
      typedMachine_def typedTenants_def typedTenant_def typedOrder_def isUuid_def wf_map_def)

theorem stored_identifiers_are_uuids_witness:
  "(\<exists>m b a. KubeEv (PatchWaldurMachineStatus m b a) \<in>
       set (hist (snd (machine_Reconcile lib_sample env_typed reconciler_sample (namespacedName ''ns'' ''m'') world_sample))) \<and> parsable lib_sample m) \<and>
   (\<exists>c b a. KubeEv (PatchWaldurClusterStatus c b a) \<in>
       set (hist (snd (cluster_Reconcile lib_sample env_typed in_order (namespacedName ''ns'' ''c'') world_sample))) \<and> deletable lib_sample c)"
proof -
  obtain res w' where m: "machine_Reconcile lib_sample env_typed reconciler_sample (namespacedName ''ns'' ''m'') world_sample = (res, w')" by fastforce
  obtain cres v' where c: "cluster_Reconcile lib_sample env_typed in_order (namespacedName ''ns'' ''c'') world_sample = (cres, v')" by fastforce
  have h: "hist w' = hist world_sample @ hist w'" "hist v' = hist world_sample @ hist v'" by (simp_all add: world_sample_def)
  have "\<exists>m b a. KubeEv (PatchWaldurMachineStatus m b a) \<in> set (hist w')"
    using m by (auto simp: machine_Reconcile_def machine_reconcileLoaded_def machine_reconcileDelete_def terminateVM_def submitTerminationOrder_def
        env_typed_def env_cluster_terminating_def sample_defs machine_samples prim_defs cluster_run_defs timeIsZero_def)
  moreover have "\<exists>c b a. KubeEv (PatchWaldurClusterStatus c b a) \<in> set (hist v')"
    using c by (auto simp: cluster_Reconcile_def cluster_reconcileLoaded_def cluster_reconcileDelete_def rangeOver_def terminateTenant_def
        submitTerminationOrder_def env_typed_def env_cluster_terminating_def cluster_samples prim_defs cluster_run_defs timeIsZero_def)
  ultimately show ?thesis
    using stored_identifiers_are_uuids [OF lib_sample_ok(1) wired_sample env_typed_ok m h(1) c h(2)]
    unfolding m c snd_conv by blast
qed

end
