(* ===== verification/Cluster_Provisioning.thy ===== *)
theory Cluster_Provisioning
  imports Identifier_Types
begin

text \<open>
  Provisioning comes to an end: once the tenants of all datacenters are recorded, and Waldur brings
  them up, the passes over the cluster publish it as ready.
\<close>

section \<open>A Waldur that provisions\<close>

definition looks :: "event list \<Rightarrow> nat" where
  "looks h = length (filter (\<lambda>e. \<exists>u a. e = WaldurEv (OpenstackTenantsRetrieve u a)) h)"

text \<open>
  It answers the polls of orders and resources, knows the OpenStack tenant of each resource, and
  reports a tenant as being created for the first \<open>k\<close> looks at tenants and as OK afterwards. The API
  server accepts status patches, and answers them with the metadata and the specification it was sent.
\<close>

definition provisioning_env :: "env \<Rightarrow> nat \<Rightarrow> bool" where
  "provisioning_env E k \<longleftrightarrow>
     (\<forall>h n b. \<exists>a. on_PatchWaldurClusterStatus (env_kube E) h n b = Inr a \<and> wc_Meta a = wc_Meta n \<and> wc_Spec a = wc_Spec n) \<and>
     (\<forall>h u. \<exists>resp d. on_MarketplaceOrdersRetrieve (env_waldur E) h u = Inr resp \<and> JSON resp = Some d \<and> od_State d \<noteq> None) \<and>
     (\<forall>h u. \<exists>resp r v. on_MarketplaceResourcesRetrieve (env_waldur E) h u = Inr resp \<and> JSON resp = Some r \<and>
        res_Scope r \<noteq> None \<and> res_ResourceUuid r = Some v) \<and>
     (\<forall>h u. \<exists>resp d. on_OpenstackTenantsRetrieve (env_waldur E) h u = Inr resp \<and> JSON resp = Some d \<and>
        ot_State d = Some (if looks h < k then CoreStatesCREATING else CoreStatesOK))"

lemma looks_append: "looks (h @ es) = looks h + looks es"
  by (simp add: looks_def)

section \<open>One tenant\<close>

text \<open>A tenant that is recorded: its order was accepted, so its resource has an identifier.\<close>

definition recordedTenant :: "lib \<Rightarrow> OpenStackTenant \<Rightarrow> bool" where
  "recordedTenant L t \<longleftrightarrow> typedTenant L t \<and> t_MarketplaceResourceUuid t \<noteq> []"

lemma refreshTenantResource_provisions:
  assumes env: "provisioning_env E k" and rec: "recordedTenant L t"
  shows "\<exists>t' w'. refreshTenantResource L E t w = (Ret (t', None), w') \<and> looks (hist w') = Suc (looks (hist w)) \<and>
    t_State t' = (if looks (hist w) < k then CoreStatesCREATING else CoreStatesOK)"
proof -
  from rec obtain u where u: "uuid_Parse L (t_MarketplaceResourceUuid t) = Inr u"
    by (auto simp: recordedTenant_def typedTenant_def isUuid_Parse)
  from env obtain resp r v where r: "on_MarketplaceResourcesRetrieve (env_waldur E) (hist w) u = Inr resp" "JSON resp = Some r"
    "res_Scope r \<noteq> None" "res_ResourceUuid r = Some v" unfolding provisioning_env_def by blast
  let ?h = "hist w @ [WaldurEv (MarketplaceResourcesRetrieve u (Inr resp))]"
  from env obtain tresp d where d: "on_OpenstackTenantsRetrieve (env_waldur E) ?h v = Inr tresp" "JSON tresp = Some d"
    "ot_State d = Some (if looks ?h < k then CoreStatesCREATING else CoreStatesOK)" unfolding provisioning_env_def by blast
  have "looks ?h = looks (hist w)" by (simp add: looks_def)
  with u r d show ?thesis
    by (auto simp: refreshTenantResource_def getMarketplaceResource_def getOpenStackTenant_def applyTenant_def w_MarketplaceResourcesRetrieve_def
        w_OpenstackTenantsRetrieve_def cluster_run_defs deref_def looks_append looks_def split: option.split)
qed

lemma refreshTenantRest_provisions:
  assumes "provisioning_env E k" and "recordedTenant L t"
  shows "\<exists>t' w'. refreshTenantRest L E t w = (Ret (t', None), w') \<and> looks (hist w') = Suc (looks (hist w)) \<and>
    t_State t' = (if looks (hist w) < k then CoreStatesCREATING else CoreStatesOK)"
  using refreshTenantResource_provisions [OF assms, of w] assms(2)
  by (simp add: refreshTenantRest_def adoptResource_id recordedTenant_def)

lemma refreshTenant_provisions:
  assumes env: "provisioning_env E k" and codec: "uuid_codec L" and rec: "recordedTenant L t"
  shows "\<exists>t' w'. refreshTenant L E t w = (Ret (t', None), w') \<and> recordedTenant L t' \<and> looks (hist w') = Suc (looks (hist w)) \<and>
    t_State t' = (if looks (hist w) < k then CoreStatesCREATING else CoreStatesOK)"
proof -
  have "\<exists>t' w'. refreshTenant L E t w = (Ret (t', None), w') \<and> looks (hist w') = Suc (looks (hist w)) \<and>
    t_State t' = (if looks (hist w) < k then CoreStatesCREATING else CoreStatesOK)"
  proof (cases "\<exists>x. t_Order t = Some x \<and> \<not> isOrderTerminal (wo_State x)")
    case True
    then obtain x where x: "t_Order t = Some x" "\<not> isOrderTerminal (wo_State x)" by blast
    with rec have typed: "typedOrder L x" by (simp add: recordedTenant_def typedTenant_def)
    then obtain u where u: "uuid_Parse L (wo_Uuid x) = Inr u" by (auto simp: typedOrder_def isUuid_Parse)
    from env obtain resp d where "on_MarketplaceOrdersRetrieve (env_waldur E) (hist w) u = Inr resp" "JSON resp = Some d" "od_State d \<noteq> None"
      unfolding provisioning_env_def by blast
    with u have "\<exists>y. refreshOrder L E x w = (Ret (Inr y), w\<lparr>hist := hist w @ [WaldurEv (MarketplaceOrdersRetrieve u (Inr resp))]\<rparr>)"
      by (auto simp: refreshOrder_def w_MarketplaceOrdersRetrieve_def cluster_run_defs deref_def split: option.split)
    then obtain y where y: "refreshOrder L E x w = (Ret (Inr y), w\<lparr>hist := hist w @ [WaldurEv (MarketplaceOrdersRetrieve u (Inr resp))]\<rparr>)" ..
    from rec refreshOrder_typed [OF y codec typed] have "recordedTenant L (t\<lparr>t_Order := Some y\<rparr>)" by (auto simp: recordedTenant_def typedTenant_def)
    moreover let ?w1 = "w\<lparr>hist := hist w @ [WaldurEv (MarketplaceOrdersRetrieve u (Inr resp))]\<rparr>"
    have "looks (hist ?w1) = looks (hist w)" by (simp add: looks_def)
    moreover have "refreshTenant L E t w = refreshTenantRest L E (t\<lparr>t_Order := Some y\<rparr>) ?w1"
      using x y by (simp add: refreshTenant_def bind_def)
    ultimately show ?thesis using refreshTenantRest_provisions [OF env, of L "t\<lparr>t_Order := Some y\<rparr>" ?w1] by (simp only:)
  next
    case False
    then have "refreshTenant L E t = refreshTenantRest L E t" by (auto simp: refreshTenant_def split: option.split)
    with refreshTenantRest_provisions [OF env rec, of w] show ?thesis by simp
  qed
  then obtain t' w' where run: "refreshTenant L E t w = (Ret (t', None), w')" and more: "looks (hist w') = Suc (looks (hist w))"
    "t_State t' = (if looks (hist w) < k then CoreStatesCREATING else CoreStatesOK)" by blast
  have "recordedTenant L t'"
    using rec typed_tenant.refresh_typed [OF codec run] refreshTenant_keeps [OF run] by (auto simp: recordedTenant_def)
  with run more show ?thesis by blast
qed

section \<open>All datacenters\<close>

abbreviation slugs :: "DatacenterSpec list \<Rightarrow> string set" where
  "slugs dcs \<equiv> dc_OfferingSlug ` set dcs"

lemma reconcileDatacenters_provisions:
  assumes env: "provisioning_env E k" and codec: "uuid_codec L"
  shows "slugs dcs \<subseteq> fst ` set ts \<Longrightarrow> \<forall>j t. map_of ts j = Some t \<longrightarrow> recordedTenant L t \<Longrightarrow>
    \<exists>ts' w'. reconcileDatacenters L E dcs ts w = (Ret ts', w') \<and> map fst ts' = map fst ts \<and>
      (\<forall>j. j \<notin> slugs dcs \<longrightarrow> map_of ts' j = map_of ts j) \<and>
      (\<forall>j t. map_of ts' j = Some t \<longrightarrow> recordedTenant L t \<and> (k \<le> looks (hist w) \<and> j \<in> slugs dcs \<longrightarrow> t_State t = CoreStatesOK)) \<and>
      looks (hist w) + length dcs \<le> looks (hist w')"
proof (induction dcs arbitrary: ts w)
  case Nil
  then show ?case by (simp add: ret_def)
next
  case (Cons dc dcs)
  let ?j = "dc_OfferingSlug dc"
  from Cons.prems(1) have j: "?j \<in> fst ` set ts" by simp
  then obtain t where t: "map_of ts ?j = Some t" by (metis map_of_eq_None_iff not_None_eq)
  with Cons.prems(2) have "recordedTenant L t" by blast
  from refreshTenant_provisions [OF env codec this, of w] obtain t' w1 where
    one: "refreshTenant L E t w = (Ret (t', None), w1)" and t': "recordedTenant L t'"
    "t_State t' = (if looks (hist w) < k then CoreStatesCREATING else CoreStatesOK)"
    and l1: "looks (hist w1) = Suc (looks (hist w))" by blast
  let ?ts = "AList.update ?j t' ts"
  have keys: "map fst ?ts = map fst ts" using j by (rule map_of_update_keys)
  then have "fst ` set ?ts = fst ` set ts" by (metis list.set_map)
  with Cons.prems(1) have sub: "slugs dcs \<subseteq> fst ` set ?ts" by simp
  have rec: "\<forall>i u. map_of ?ts i = Some u \<longrightarrow> recordedTenant L u" using Cons.prems(2) t'(1) by (simp add: update_conv')
  from Cons.IH [OF sub rec, of w1] obtain ts' w' where
    rest: "reconcileDatacenters L E dcs ?ts w1 = (Ret ts', w')" and keys': "map fst ts' = map fst ?ts"
    and other: "\<forall>i. i \<notin> slugs dcs \<longrightarrow> map_of ts' i = map_of ?ts i"
    and each: "\<forall>i u. map_of ts' i = Some u \<longrightarrow> recordedTenant L u \<and> (k \<le> looks (hist w1) \<and> i \<in> slugs dcs \<longrightarrow> t_State u = CoreStatesOK)"
    and l2: "looks (hist w1) + length dcs \<le> looks (hist w')" by (elim exE conjE) (rule that)
  have run: "reconcileDatacenters L E (dc # dcs) ts w = (Ret ts', w')"
    using t one rest by (simp add: bind_def)
  have outside: "map_of ts' i = map_of ts i" if "i \<notin> slugs (dc # dcs)" for i
    using other that by (simp add: update_conv')
  have inside: "recordedTenant L u \<and> (k \<le> looks (hist w) \<and> i \<in> slugs (dc # dcs) \<longrightarrow> t_State u = CoreStatesOK)"
    if u: "map_of ts' i = Some u" for i u
  proof (cases "i \<in> slugs dcs")
    case True
    with each u l1 show ?thesis by simp
  next
    case False
    with other u have "map_of ?ts i = Some u" by simp
    then have "i = ?j \<Longrightarrow> u = t'" by (simp add: update_conv')
    with each u False t'(2) show ?thesis by auto
  qed
  have "looks (hist w) + length (dc # dcs) \<le> looks (hist w')" using l1 l2 by simp
  with run keys keys' outside inside show ?case by (intro exI [of _ ts'] exI [of _ w'] conjI) simp_all
qed

section \<open>The endpoint\<close>

text \<open>Setting the endpoint leaves everything alone that provisioning depends on.\<close>

definition endpoint_write :: "WaldurCluster \<Rightarrow> event \<Rightarrow> bool" where
  "endpoint_write p e \<longleftrightarrow> (\<forall>n b a. e \<noteq> KubeEv (PatchWaldurClusterStatus n b a)) \<and>
     (\<forall>n a. e = KubeEv (UpdateWaldurCluster n a) \<longrightarrow> wc_Meta n = wc_Meta p \<and>
        cs_Datacenters (wc_Spec n) = cs_Datacenters (wc_Spec p))"

lemma emits_endpoint_write: "emits (endpoint_write p) (reconcileControlPlaneEndpoint L E p)"
  unfolding reconcileControlPlaneEndpoint_def getMarketplaceResource_def prim_defs
  by (intro ext.frame_rules emits_perform; (simp add: endpoint_write_def)?)
    (auto split: list.split intro!: ext.frame_rules emits_perform simp: endpoint_write_def setEndpoint_def)

definition same_but_endpoint :: "WaldurCluster \<Rightarrow> WaldurCluster \<Rightarrow> bool" where
  "same_but_endpoint c d \<longleftrightarrow> wc_Meta d = wc_Meta c \<and> cs_Datacenters (wc_Spec d) = cs_Datacenters (wc_Spec c) \<and> wc_Status d = wc_Status c"

lemma endpoint_writes:
  assumes "clusterFinalizer \<in> set (om_Finalizers (wc_Meta p))"
  shows "list_all (endpoint_write p) es \<Longrightarrow> wc_Meta c = wc_Meta p \<Longrightarrow> cs_Datacenters (wc_Spec c) = cs_Datacenters (wc_Spec p) \<Longrightarrow>
    \<exists>d. fold afterClusterWrite es (Some c) = Some d \<and> same_but_endpoint c d"
proof (induction es arbitrary: c)
  case Nil
  then show ?case by (simp add: same_but_endpoint_def)
next
  case (Cons e es)
  have "\<exists>c1. afterClusterWrite e (Some c) = Some c1 \<and> same_but_endpoint c c1"
    using Cons.prems assms
    by (cases "(e, Some c)" rule: afterClusterWrite.cases) (auto simp: endpoint_write_def same_but_endpoint_def)
  then obtain c1 where c1: "afterClusterWrite e (Some c) = Some c1" "same_but_endpoint c c1" by blast
  with Cons.IH [of c1] Cons.prems obtain d where "fold afterClusterWrite es (Some c1) = Some d" "same_but_endpoint c1 d"
    by (auto simp: same_but_endpoint_def)
  with c1 show ?case by (auto simp: same_but_endpoint_def)
qed

section \<open>Passes\<close>

text \<open>A cluster that is reconciled: not deleted, with its finalizer and with its owner.\<close>

definition managed :: "WaldurCluster \<Rightarrow> bool" where
  "managed c \<longleftrightarrow> timeIsZero (om_DeletionTimestamp (wc_Meta c)) \<and> clusterFinalizer \<in> set (om_Finalizers (wc_Meta c)) \<and>
     list_ex (\<lambda>ref. or_Kind ref = ''Cluster'') (om_OwnerReferences (wc_Meta c))"

text \<open>Each datacenter has a recorded tenant, and there is no other one.\<close>

definition ordered :: "lib \<Rightarrow> WaldurCluster \<Rightarrow> bool" where
  "ordered L c \<longleftrightarrow> cs_Datacenters (wc_Spec c) \<noteq> [] \<and> distinct (map dc_OfferingSlug (cs_Datacenters (wc_Spec c))) \<and>
     fst ` set (clusterTenants c) = slugs (cs_Datacenters (wc_Spec c)) \<and> wf_map (clusterTenants c) \<and> everyTenant (recordedTenant L) c"

definition published :: "WaldurCluster \<Rightarrow> bool" where
  "published c \<longleftrightarrow> clusterReady c \<and> cst_Initialization (wc_Status c) = Some \<lparr>ci_Provisioned = Some True\<rparr> \<and>
     (\<forall>dc\<in>set (cs_Datacenters (wc_Spec c)). \<exists>t. map_of (clusterTenants c) (dc_OfferingSlug dc) = Some t \<and> t_State t = CoreStatesOK)"

lemma ready_when_all_ok:
  assumes "condition_setter L" and "ordered L c" and "everyTenant (\<lambda>t. t_State t = CoreStatesOK) c"
  shows "published (setReadyCondition L c)"
proof -
  let ?ts = "clusterTenants c" and ?dcs = "cs_Datacenters (wc_Spec c)"
  have wf: "distinct (map fst ?ts)" "distinct (map dc_OfferingSlug ?dcs)" and keys: "fst ` set ?ts = slugs ?dcs"
    using assms(2) by (auto simp: ordered_def wf_map_def)
  then have "length ?dcs = length ?ts" by (metis distinct_card length_map list.set_map)
  moreover have "t_State t = CoreStatesOK" if "(j, t) \<in> set ?ts" for j t
    using assms(3) that wf(1) by (metis map_of_eq_Some_iff)
  ultimately have ready: "clusterReady (setReadyCondition L c)" by (auto simp: setReadyCondition_Ready [OF assms(1)])
  moreover have "\<exists>t. map_of ?ts (dc_OfferingSlug dc) = Some t \<and> t_State t = CoreStatesOK" if "dc \<in> set ?dcs" for dc
  proof -
    from that keys have "dc_OfferingSlug dc \<in> fst ` set ?ts" by blast
    then obtain t where "map_of ?ts (dc_OfferingSlug dc) = Some t" by (metis map_of_eq_None_iff not_None_eq)
    with assms(3) show ?thesis by blast
  qed
  ultimately show ?thesis by (simp add: published_def setReadyCondition_Provisioned [OF assms(1)])
qed

lemma same_but_endpoint_keeps:
  assumes "same_but_endpoint c d"
  shows "managed d = managed c" "ordered L d = ordered L c" "published d = published c"
  using assms by (simp_all add: same_but_endpoint_def managed_def ordered_def published_def clusterReady_def)

text \<open>What a pass leaves in the API server, once the datacenters are done.\<close>

lemma provision_run:
  assumes env: "provisioning_env E k" and fin: "finalizer_ops L" and man: "managed c"
    and run: "reconcileDatacenters L E (cs_Datacenters (wc_Spec c)) (clusterTenants c) w = (Ret ts, w1)"
  shows "\<exists>c' w'. clusterPass L E R (c, w) = Some (c', w') \<and> same_but_endpoint (setReadyCondition L (setTenants ts c)) c' \<and>
    looks (hist w1) \<le> looks (hist w')"
proof -
  let ?n = "setReadyCondition L (setTenants ts c)"
  from env obtain p where p: "on_PatchWaldurClusterStatus (env_kube E) (hist w1) ?n c = Inr p" "wc_Meta p = wc_Meta c" "wc_Spec p = wc_Spec c"
    unfolding provisioning_env_def by (metis setReadyCondition_keeps(1,2) setTenants_simps(1,2))
  let ?e = "KubeEv (PatchWaldurClusterStatus ?n c (Inr p))"
  let ?w2 = "w1\<lparr>hist := hist w1 @ [?e]\<rparr>"
  obtain x w3 where ep: "reconcileControlPlaneEndpoint L E p ?w2 = (x, w3)" by fastforce
  have pass: "snd (cluster_reconcileLoaded L E R c w) = w3"
    using man fin run p(1) ep
    by (cases x) (simp_all add: cluster_reconcileLoaded_def reconcileTenants_def managed_def finalizer_ops_def k_PatchWaldurClusterStatus_def
        cluster_run_defs)
  from emitsD [OF emits_reconcileDatacenters run] obtain es where es: "hist w1 = hist w @ es" "list_all tenant_event es" .
  then have "list_all from_waldur es" by (auto simp: list_all_iff tenant_event_def waldur_read_def creates_order_iff)
  from emitsD [OF emits_endpoint_write ep] obtain fs where fs: "hist w3 = hist ?w2 @ fs" "list_all (endpoint_write p) fs" .
  have meta: "clusterFinalizer \<in> set (om_Finalizers (wc_Meta p))" using man p(2) by (simp add: managed_def)
  have stored: "c\<lparr>wc_Status := wc_Status ?n\<rparr> = ?n" by (rule WaldurCluster.equality) simp_all
  from endpoint_writes [OF meta fs(2), of ?n] p(2,3) obtain c' where
    c': "fold afterClusterWrite fs (Some ?n) = Some c'" "same_but_endpoint ?n c'" by auto
  have "clusterPass L E R (c, w) = Some (c', w3)"
    using pass es(1) fs(1) c'(1) \<open>list_all from_waldur es\<close> by (simp add: clusterPass_def afterClusterWrites_waldur stored)
  moreover have "looks (hist w1) \<le> looks (hist w3)" using fs(1) by (simp add: looks_append)
  ultimately show ?thesis using c'(2) by blast
qed

lemma provision_pass:
  assumes env: "provisioning_env E k" and codec: "uuid_codec L" and setter: "condition_setter L" and fin: "finalizer_ops L"
    and man: "managed c" and ord: "ordered L c"
  shows "\<exists>c' w'. clusterPass L E R (c, w) = Some (c', w') \<and> managed c' \<and> ordered L c' \<and> looks (hist w) < looks (hist w') \<and>
    (k \<le> looks (hist w) \<longrightarrow> published c')"
proof -
  let ?ts = "clusterTenants c" and ?dcs = "cs_Datacenters (wc_Spec c)"
  have sub: "slugs ?dcs \<subseteq> fst ` set ?ts" and rec: "\<forall>j t. map_of ?ts j = Some t \<longrightarrow> recordedTenant L t" and ne: "?dcs \<noteq> []"
    using ord by (simp_all add: ordered_def)
  from reconcileDatacenters_provisions [OF env codec sub rec, of w] obtain ts' w1 where
    run: "reconcileDatacenters L E ?dcs ?ts w = (Ret ts', w1)" and keys: "map fst ts' = map fst ?ts"
    and each: "\<forall>j t. map_of ts' j = Some t \<longrightarrow> recordedTenant L t \<and> (k \<le> looks (hist w) \<and> j \<in> slugs ?dcs \<longrightarrow> t_State t = CoreStatesOK)"
    and looks: "looks (hist w) + length ?dcs \<le> looks (hist w1)" by (elim exE conjE) (rule that)
  from provision_run [OF env fin man run, of R] obtain c' w' where pass: "clusterPass L E R (c, w) = Some (c', w')"
    and c': "same_but_endpoint (setReadyCondition L (setTenants ts' c)) c'" and more: "looks (hist w1) \<le> looks (hist w')" by blast
  note same = same_but_endpoint_keeps [OF c']
  have "managed c'" unfolding same using man by (simp add: managed_def)
  moreover have dom: "fst ` set ts' = fst ` set ?ts" using keys by (metis list.set_map)
  have "everyTenant (recordedTenant L) (setTenants ts' c)" unfolding setTenants_simps using each by blast
  with ord keys dom have now: "ordered L (setTenants ts' c)" by (simp add: ordered_def wf_map_def)
  then have "ordered L c'" unfolding same by (simp add: ordered_def)
  moreover have "0 < length ?dcs" using ne by simp
  then have "looks (hist w) < looks (hist w')" using looks more by linarith
  moreover have "published c'" if "k \<le> looks (hist w)"
  proof -
    have "everyTenant (\<lambda>t. t_State t = CoreStatesOK) (setTenants ts' c)"
    proof (intro allI impI)
      fix j t
      assume "map_of (clusterTenants (setTenants ts' c)) j = Some t"
      then have t: "map_of ts' j = Some t" by simp
      from in_keys [OF this] dom ord have "j \<in> slugs ?dcs" by (simp add: ordered_def)
      with each t that show "t_State t = CoreStatesOK" by blast
    qed
    from ready_when_all_ok [OF setter now this] show ?thesis by (simp add: same)
  qed
  ultimately show ?thesis using pass by blast
qed

section \<open>Completion\<close>

text \<open>C9: provisioning comes to an end. Take a cluster that is not being deleted, has its finalizer and its owner, and
  has at least one datacenter; its datacenters have different offering slugs, each of them has a
  recorded tenant with an accepted order, and no tenant is left over from a datacenter that was
  removed. When the API server accepts the status patches and Waldur answers the polls, reporting the
  tenants as being created for the first \<open>k\<close> looks and as OK afterwards, then after at most \<open>k + 1\<close>
  passes the cluster in the API server is published as ready and provisioned, with a tenant in
  state OK for every datacenter, whatever the machines and the endpoint do meanwhile.\<close>

theorem cluster_provisioning_completes:
  assumes env: "provisioning_env E k" and lib: "uuid_codec L" "condition_setter L" "finalizer_ops L"
    and "managed c" and "ordered L c"
  shows "\<exists>n c' w'. n \<le> k + 1 \<and> clusterPasses n L E R (c, w) = Some (c', w') \<and> published c'"
proof -
  have "\<exists>n c' w'. n \<le> k - looks (hist w) + 1 \<and> clusterPasses n L E R (c, w) = Some (c', w') \<and> published c'"
    if "managed c" "ordered L c" for c w
    using that
  proof (induction "k - looks (hist w)" arbitrary: c w rule: less_induct)
    case less
    from provision_pass [OF env lib less.prems, of R w] obtain c1 w1 where pass: "clusterPass L E R (c, w) = Some (c1, w1)"
      and ok: "managed c1" "ordered L c1" and look: "looks (hist w) < looks (hist w1)"
      and pub: "k \<le> looks (hist w) \<longrightarrow> published c1" by (elim exE conjE) (rule that)
    show ?case
    proof (cases "k \<le> looks (hist w)")
      case True
      with pass pub show ?thesis by (intro exI [of _ 1]) simp
    next
      case False
      with look have lt: "k - looks (hist w1) < k - looks (hist w)" by simp
      from less.hyps [OF lt ok] obtain n c' w' where "n \<le> k - looks (hist w1) + 1" "clusterPasses n L E R (c1, w1) = Some (c', w')" "published c'"
        by (elim exE conjE) (rule that)
      with pass lt show ?thesis by (intro exI [of _ "Suc n"] exI [of _ c'] exI [of _ w']) simp
    qed
  qed
  from this [OF assms(5,6), of w] obtain n c' w' where "n \<le> k - looks (hist w) + 1" "clusterPasses n L E R (c, w) = Some (c', w')" "published c'"
    by (elim exE conjE) (rule that)
  then show ?thesis by (intro exI [of _ n] exI [of _ c'] exI [of _ w']) simp
qed

definition env_provisioning :: env where
  "env_provisioning = env_down\<lparr>
     env_kube := kube_down\<lparr>on_PatchWaldurClusterStatus := (\<lambda>_ n b. Inr n)\<rparr>,
     env_waldur := waldur_down\<lparr>
       on_MarketplaceOrdersRetrieve := (\<lambda>_ _. reply 200 order_reply),
       on_MarketplaceResourcesRetrieve := (\<lambda>_ _. reply 200 \<lparr>res_State = Some ResourceStateOK, res_Scope = Some ''s'', res_ResourceUuid = Some 3\<rparr>),
       on_OpenstackTenantsRetrieve := (\<lambda>h _. reply 200 \<lparr>ot_State = Some (if looks h < 2 then CoreStatesCREATING else CoreStatesOK),
         ot_Name = None\<rparr>)\<rparr>\<rparr>"

lemma env_provisioning_ok: "provisioning_env env_provisioning 2"
  by (simp add: provisioning_env_def env_provisioning_def order_reply_def)

theorem cluster_provisioning_completes_witness:
  "\<exists>n c' w'. n \<le> 3 \<and> clusterPasses n lib_sample env_provisioning in_order (cluster_of None [dc_sample ''o'']
     [(''o'', tenant_of CoreStatesCREATING (Some (tenant_order Create OrderStatePendingProvider)))], world_sample) = Some (c', w') \<and> published c'"
proof -
  let ?c = "cluster_of None [dc_sample ''o''] [(''o'', tenant_of CoreStatesCREATING (Some (tenant_order Create OrderStatePendingProvider)))]"
  have "managed ?c" by (simp add: managed_def cluster_of_def timeIsZero_def)
  moreover have "ordered lib_sample ?c"
    by (simp add: ordered_def cluster_of_def dc_sample_def tenant_of_def tenant_order_def wf_map_def recordedTenant_def typedTenant_def
        typedOrder_def isUuid_def lib_sample_def)
  ultimately show ?thesis
    using cluster_provisioning_completes [OF env_provisioning_ok lib_sample_ok, of ?c in_order world_sample] by simp
qed

end
