(* ===== verification/Go_Heap.thy ===== *)
theory Go_Heap
  imports Go_Runtime
begin

text \<open>
  Memory, for the code whose point is which addresses are shared. A heap is a list of cells, an
  address an index into it; allocation appends a cell. Cells are of one type \<open>'c\<close> with an injection
  and a projection for each Go type stored in them. \<open>represents\<close> is the locale of a type whose values
  in memory stand for a value of the model: \<open>V\<close> reads the value, \<open>F\<close> is the footprint, the addresses
  the value depends on. \<open>copier\<close> is the contract of a deep copy: it allocates only, its result stands
  for the same value, and the footprint of the result is new. The section on combinators shows that
  the contract is kept by the ways the generated code builds copies: fields of a struct one after the
  other, pointers, slices and maps.
\<close>

section \<open>Cells\<close>

type_synonym addr = nat

definition new :: "'c \<Rightarrow> ('c list, addr) comp" where
  "new c = (\<lambda>h. (Ret (length h), h @ [c]))"

definition rd :: "('c \<Rightarrow> 'a option) \<Rightarrow> 'c list \<Rightarrow> addr \<Rightarrow> 'a option" where
  "rd prj h a = (if a < length h then prj (h ! a) else None)"

text \<open>Go pointers never dangle; reading an address that holds no value of the type is \<open>Panic\<close> here.\<close>

definition load :: "('c \<Rightarrow> 'a option) \<Rightarrow> addr \<Rightarrow> ('c list, 'a) comp" where
  "load prj a = (\<lambda>h. case rd prj h a of Some x \<Rightarrow> (Ret x, h) | None \<Rightarrow> (Panic, h))"

text \<open>Two heaps with the same cells at the addresses \<open>S\<close>.\<close>

definition agree :: "addr set \<Rightarrow> 'c list \<Rightarrow> 'c list \<Rightarrow> bool" where
  "agree S h g \<longleftrightarrow> (\<forall>a\<in>S. a < length h \<and> a < length g \<and> g ! a = h ! a)"

lemma rd_agree: "a \<in> S \<Longrightarrow> agree S h g \<Longrightarrow> rd prj g a = rd prj h a"
  by (simp add: agree_def rd_def)

lemma agree_Un: "agree (S \<union> T) h g \<longleftrightarrow> agree S h g \<and> agree T h g"
  by (auto simp: agree_def)

lemma agree_UN: "agree (\<Union>x\<in>X. S x) h g \<longleftrightarrow> (\<forall>x\<in>X. agree (S x) h g)"
  by (auto simp: agree_def)

lemma agree_insert: "agree (insert a S) h g \<longleftrightarrow> agree {a} h g \<and> agree S h g"
  by (auto simp: agree_def)

lemma agree_append: "S \<subseteq> {..<length h} \<Longrightarrow> agree S h (h @ ext)"
  by (auto simp: agree_def nth_append)

lemma rd_new: "prj c = Some x \<Longrightarrow> rd prj (h @ [c]) (length h) = Some x"
  by (simp add: rd_def)

section \<open>Values in memory\<close>

locale represents =
  fixes V :: "'c list \<Rightarrow> 'r \<Rightarrow> 'v option"
    and F :: "'c list \<Rightarrow> 'r \<Rightarrow> addr set"
  assumes bounded: "V h r = Some v \<Longrightarrow> F h r \<subseteq> {..<length h}"
    and footprint: "V h r = Some v \<Longrightarrow> agree (F h r) h g \<Longrightarrow> V g r = Some v \<and> F g r = F h r"
begin

text \<open>Allocation does not change what is there.\<close>

lemma grow: "V h r = Some v \<Longrightarrow> V (h @ ext) r = Some v \<and> F (h @ ext) r = F h r"
  by (intro footprint agree_append bounded)

end

locale copier = represents V F
  for V :: "'c list \<Rightarrow> 'r \<Rightarrow> 'v option" and F :: "'c list \<Rightarrow> 'r \<Rightarrow> addr set" +
  fixes copy :: "'r \<Rightarrow> ('c list, 'r) comp"
  assumes copies: "V h r = Some v \<Longrightarrow> \<exists>r' ext. copy r h = (Ret r', h @ ext) \<and> V (h @ ext) r' = Some v \<and>
    F (h @ ext) r' \<subseteq> {length h..<length (h @ ext)}"
begin

text \<open>
  What a caller of a deep copy may conclude: the original and the copy have the same value and no
  address in common, so writes through one of them are not seen through the other.
\<close>

lemma detached:
  assumes "V h r = Some v"
  obtains r' h' where "copy r h = (Ret r', h')" and "V h' r = Some v" and "V h' r' = Some v"
    and "F h' r \<inter> F h' r' = {}" and "F h' r = F h r" and "\<exists>ext. h' = h @ ext"
proof -
  from copies [OF assms] obtain r' ext where c: "copy r h = (Ret r', h @ ext)" "V (h @ ext) r' = Some v"
    "F (h @ ext) r' \<subseteq> {length h..<length (h @ ext)}" by blast
  from grow [OF assms, of ext] bounded [OF assms] c(3) have "F (h @ ext) r \<inter> F (h @ ext) r' = {}" by fastforce
  with c grow [OF assms, of ext] that [of r' "h @ ext"] show ?thesis by blast
qed

end

section \<open>Combinators\<close>

subsection \<open>Values without pointers\<close>

abbreviation valPlain :: "'c list \<Rightarrow> 'a \<Rightarrow> 'a option" where
  "valPlain h x \<equiv> Some x"

abbreviation footPlain :: "'c list \<Rightarrow> 'a \<Rightarrow> addr set" where
  "footPlain h x \<equiv> {}"

interpretation plain: copier valPlain footPlain ret
  by unfold_locales (auto simp: ret_def)

subsection \<open>Two fields, one after the other\<close>

definition valPair ::
    "('c list \<Rightarrow> 'r \<Rightarrow> 'v option) \<Rightarrow> ('c list \<Rightarrow> 's \<Rightarrow> 'u option) \<Rightarrow> 'c list \<Rightarrow> 'r \<times> 's \<Rightarrow> ('v \<times> 'u) option" where
  "valPair V W h = (\<lambda>(x, y). case V h x of None \<Rightarrow> None | Some v \<Rightarrow> map_option (Pair v) (W h y))"

definition footPair :: "('c list \<Rightarrow> 'r \<Rightarrow> addr set) \<Rightarrow> ('c list \<Rightarrow> 's \<Rightarrow> addr set) \<Rightarrow> 'c list \<Rightarrow> 'r \<times> 's \<Rightarrow> addr set" where
  "footPair F G h = (\<lambda>(x, y). F h x \<union> G h y)"

definition copyPair :: "('r \<Rightarrow> ('c list, 'r) comp) \<Rightarrow> ('s \<Rightarrow> ('c list, 's) comp) \<Rightarrow> 'r \<times> 's \<Rightarrow> ('c list, 'r \<times> 's) comp" where
  "copyPair c d = (\<lambda>(x, y). bind (c x) (\<lambda>x'. bind (d y) (\<lambda>y'. ret (x', y'))))"

lemma valPair_eq: "valPair V W h (x, y) = Some p \<longleftrightarrow> (\<exists>v u. p = (v, u) \<and> V h x = Some v \<and> W h y = Some u)"
  by (auto simp: valPair_def split: option.splits)

lemmas copier_represents = copier.axioms(1)

lemma represents_pair:
  assumes "represents V F" and "represents W G"
  shows "represents (valPair V W) (footPair F G)"
proof
  fix h r p
  assume "valPair V W h r = Some p"
  then show "footPair F G h r \<subseteq> {..<length h}"
    by (cases r) (auto simp: valPair_eq footPair_def dest!: represents.bounded [OF assms(1)] represents.bounded [OF assms(2)])
next
  fix h r p g
  assume val: "valPair V W h r = Some p" and agr: "agree (footPair F G h r) h g"
  then obtain x y v u where r: "r = (x, y)" "p = (v, u)" "V h x = Some v" "W h y = Some u"
    by (cases r) (auto simp: valPair_eq)
  with agr have "agree (F h x) h g" "agree (G h y) h g" by (auto simp: footPair_def agree_Un)
  with represents.footprint [OF assms(1) r(3)] represents.footprint [OF assms(2) r(4)] r(1,2)
  show "valPair V W g r = Some p \<and> footPair F G g r = footPair F G h r"
    by (simp add: valPair_eq footPair_def)
qed

lemma copier_pair:
  assumes c: "copier V F c" and d: "copier W G d"
  shows "copier (valPair V W) (footPair F G) (copyPair c d)"
proof (intro copier.intro represents_pair copier_represents [OF c] copier_represents [OF d] copier_axioms.intro)
  fix h r p
  assume "valPair V W h r = Some p"
  then obtain x y v u where r: "r = (x, y)" "p = (v, u)" "V h x = Some v" "W h y = Some u"
    by (cases r) (auto simp: valPair_eq)
  from copier.copies [OF c r(3)] obtain x' e where x: "c x h = (Ret x', h @ e)" "V (h @ e) x' = Some v"
    "F (h @ e) x' \<subseteq> {length h..<length (h @ e)}" by blast
  from represents.grow [OF copier_represents [OF d] r(4)] have "W (h @ e) y = Some u" by blast
  from copier.copies [OF d this] obtain y' f where y: "d y (h @ e) = (Ret y', (h @ e) @ f)" "W ((h @ e) @ f) y' = Some u"
    "G ((h @ e) @ f) y' \<subseteq> {length (h @ e)..<length ((h @ e) @ f)}" by blast
  from represents.grow [OF copier_represents [OF c] x(2), of f]
  have x': "V ((h @ e) @ f) x' = Some v" "F ((h @ e) @ f) x' = F (h @ e) x'" by blast+
  have "copyPair c d r h = (Ret (x', y'), h @ e @ f)"
    using r(1) x(1) y(1) by (simp add: copyPair_def bind_def ret_def)
  moreover have "valPair V W (h @ e @ f) (x', y') = Some p" using r(2) x'(1) y(2) by (simp add: valPair_eq)
  moreover have "footPair F G (h @ e @ f) (x', y') \<subseteq> {length h..<length (h @ e @ f)}"
    using x(3) x'(2) y(3) by (fastforce simp: footPair_def)
  ultimately show "\<exists>r' ext. copyPair c d r h = (Ret r', h @ ext) \<and> valPair V W (h @ ext) r' = Some p \<and>
    footPair F G (h @ ext) r' \<subseteq> {length h..<length (h @ ext)}" by blast
qed

subsection \<open>Structs\<close>

text \<open>
  A struct is copied by copying the fields \<open>sel x\<close> that hold pointers and putting the copies into the
  shallow copy (\<open>put x\<close>); its value is made of theirs (\<open>mk x\<close>), the other fields being plain.
\<close>

lemma copier_struct:
  assumes c: "copier V F c" and sel: "\<And>x p. sel (put x p) = p" and mk: "\<And>x p. mk (put x p) = mk x"
  shows "copier (\<lambda>h x. map_option (mk x) (V h (sel x))) (\<lambda>h x. F h (sel x)) (\<lambda>x. bind (c (sel x)) (\<lambda>p. ret (put x p)))"
proof
  fix h x v
  assume "map_option (mk x) (V h (sel x)) = Some v"
  then show "F h (sel x) \<subseteq> {..<length h}" using represents.bounded [OF copier_represents [OF c]] by blast
next
  fix h x v g
  assume val: "map_option (mk x) (V h (sel x)) = Some v" and agr: "agree (F h (sel x)) h g"
  from val obtain u where u: "V h (sel x) = Some u" "v = mk x u" by blast
  from represents.footprint [OF copier_represents [OF c] u(1) agr] u(2)
  show "map_option (mk x) (V g (sel x)) = Some v \<and> F g (sel x) = F h (sel x)" by simp
next
  fix h x v
  assume "map_option (mk x) (V h (sel x)) = Some v"
  then obtain u where u: "V h (sel x) = Some u" "v = mk x u" by blast
  from copier.copies [OF c u(1)] obtain p e where "c (sel x) h = (Ret p, h @ e)" "V (h @ e) p = Some u"
    "F (h @ e) p \<subseteq> {length h..<length (h @ e)}" by blast
  then show "\<exists>r' ext. bind (c (sel x)) (\<lambda>p. ret (put x p)) h = (Ret r', h @ ext) \<and>
    map_option (mk r') (V (h @ ext) (sel r')) = Some v \<and> F (h @ ext) (sel r') \<subseteq> {length h..<length (h @ ext)}"
    using u(2) by (intro exI [of _ "put x p"] exI [of _ e]) (simp add: sel mk bind_def ret_def)
qed

text \<open>The same for a type with its own reader, footprint and copy function.\<close>

lemma copier_structI:
  assumes "copier V F c"
    and val: "\<And>h x. V' h x = map_option (mk x) (V h (sel x))" and foot: "\<And>h x. F' h x = F h (sel x)"
    and copy: "\<And>x. c' x = bind (c (sel x)) (\<lambda>p. ret (put x p))"
    and "\<And>x p. sel (put x p) = p" and "\<And>x p. mk (put x p) = mk x"
  shows "copier V' F' c'"
proof -
  have "V' = (\<lambda>h x. map_option (mk x) (V h (sel x)))" "F' = (\<lambda>h x. F h (sel x))" "c' = (\<lambda>x. bind (c (sel x)) (\<lambda>p. ret (put x p)))"
    using val foot copy by (auto simp: fun_eq_iff)
  with copier_struct [OF assms(1), of sel put mk] assms(5,6) show ?thesis by simp
qed

subsection \<open>Pointers\<close>

definition valPtr :: "('c \<Rightarrow> 'r option) \<Rightarrow> ('c list \<Rightarrow> 'r \<Rightarrow> 'v option) \<Rightarrow> 'c list \<Rightarrow> addr option \<Rightarrow> 'v option option" where
  "valPtr prj V h p = (case p of None \<Rightarrow> Some None | Some a \<Rightarrow> map_option Some (Option.bind (rd prj h a) (V h)))"

definition footPtr :: "('c \<Rightarrow> 'r option) \<Rightarrow> ('c list \<Rightarrow> 'r \<Rightarrow> addr set) \<Rightarrow> 'c list \<Rightarrow> addr option \<Rightarrow> addr set" where
  "footPtr prj F h p = (case p of None \<Rightarrow> {} | Some a \<Rightarrow> insert a (case rd prj h a of None \<Rightarrow> {} | Some x \<Rightarrow> F h x))"

text \<open>
  \<^verbatim>\<open>if in != nil { *out = new(T); (*in).DeepCopyInto(*out) }\<close>, and the body of \<^verbatim>\<open>DeepCopy\<close>. The cell is
  allocated with its final contents: until the copy is complete nobody else has its address.
\<close>

definition copyPtr :: "('r \<Rightarrow> 'c) \<Rightarrow> ('c \<Rightarrow> 'r option) \<Rightarrow> ('r \<Rightarrow> ('c list, 'r) comp) \<Rightarrow> addr option \<Rightarrow> ('c list, addr option) comp" where
  "copyPtr mkc prj c p = (case p of
     None \<Rightarrow> ret None
   | Some a \<Rightarrow> bind (load prj a) (\<lambda>x. bind (c x) (\<lambda>x'. bind (new (mkc x')) (\<lambda>q. ret (Some q)))))"

lemma valPtr_eq:
  "valPtr prj V h p = Some v \<longleftrightarrow> p = None \<and> v = None \<or> (\<exists>a x u. p = Some a \<and> rd prj h a = Some x \<and> V h x = Some u \<and> v = Some u)"
  by (auto simp: valPtr_def bind_eq_Some_conv split: option.splits)

lemma represents_ptr:
  assumes "represents V F"
  shows "represents (valPtr prj V) (footPtr prj F)"
proof
  fix h p v
  assume "valPtr prj V h p = Some v"
  then show "footPtr prj F h p \<subseteq> {..<length h}"
    using represents.bounded [OF assms] by (fastforce simp: valPtr_eq footPtr_def rd_def split: if_splits)
next
  fix h p v g
  assume val: "valPtr prj V h p = Some v" and agr: "agree (footPtr prj F h p) h g"
  show "valPtr prj V g p = Some v \<and> footPtr prj F g p = footPtr prj F h p"
  proof (cases p)
    case None
    with val show ?thesis by (simp add: valPtr_def footPtr_def)
  next
    case (Some a)
    with val obtain x u where x: "rd prj h a = Some x" "V h x = Some u" "v = Some u" by (auto simp: valPtr_eq)
    from agr Some x(1) have "agree {a} h g" "agree (F h x) h g" by (auto simp: footPtr_def agree_def)
    with x have "rd prj g a = Some x" "V g x = Some u" "F g x = F h x"
      using rd_agree [of a "{a}" h g prj] represents.footprint [OF assms x(2)] by auto
    with Some x show ?thesis by (simp add: valPtr_def footPtr_def)
  qed
qed

lemma copier_ptr:
  assumes prj: "\<And>x. prj (mkc x) = Some x" and c: "copier V F c"
  shows "copier (valPtr prj V) (footPtr prj F) (copyPtr mkc prj c)"
proof (intro copier.intro represents_ptr copier_represents [OF c] copier_axioms.intro)
  fix h p v
  assume val: "valPtr prj V h p = Some v"
  show "\<exists>q ext. copyPtr mkc prj c p h = (Ret q, h @ ext) \<and> valPtr prj V (h @ ext) q = Some v \<and>
    footPtr prj F (h @ ext) q \<subseteq> {length h..<length (h @ ext)}"
  proof (cases p)
    case None
    with val show ?thesis by (intro exI [of _ None] exI [of _ "[]"]) (simp add: copyPtr_def ret_def footPtr_def)
  next
    case (Some a)
    with val obtain x u where x: "rd prj h a = Some x" "V h x = Some u" "v = Some u" by (auto simp: valPtr_eq)
    from copier.copies [OF c x(2)] obtain x' e where x': "c x h = (Ret x', h @ e)" "V (h @ e) x' = Some u"
      "F (h @ e) x' \<subseteq> {length h..<length (h @ e)}" by blast
    from represents.grow [OF copier_represents [OF c] x'(2), of "[mkc x']"]
    have grown: "V (h @ e @ [mkc x']) x' = Some u" "F (h @ e @ [mkc x']) x' = F (h @ e) x'" by auto
    have cell: "rd prj (h @ e @ [mkc x']) (length (h @ e)) = Some x'"
      using rd_new [of prj "mkc x'" x' "h @ e"] prj by simp
    have "copyPtr mkc prj c p h = (Ret (Some (length (h @ e))), h @ e @ [mkc x'])"
      using Some x(1) x'(1) by (simp add: copyPtr_def load_def bind_def new_def ret_def)
    moreover have "valPtr prj V (h @ e @ [mkc x']) (Some (length (h @ e))) = Some v"
      using cell grown(1) x(3) by (simp add: valPtr_eq)
    moreover have "footPtr prj F (h @ e @ [mkc x']) (Some (length (h @ e))) \<subseteq> {length h..<length (h @ e @ [mkc x'])}"
      using cell grown(2) x'(3) by (fastforce simp: footPtr_def)
    ultimately show ?thesis by blast
  qed
qed

text \<open>
  \<^verbatim>\<open>*v.DeepCopy()\<close> for a variable \<^verbatim>\<open>v\<close> that holds a struct: its address is taken, the struct is copied into
  a new cell, and the contents of that cell are the result.
\<close>

definition copyVar :: "('r \<Rightarrow> 'c) \<Rightarrow> ('c \<Rightarrow> 'r option) \<Rightarrow> (addr option \<Rightarrow> ('c list, addr option) comp) \<Rightarrow> 'r \<Rightarrow> ('c list, 'r) comp" where
  "copyVar mkc prj deepCopy x = bind (new (mkc x)) (\<lambda>a. bind (deepCopy (Some a)) (\<lambda>q. deref q (load prj)))"

lemma copier_var:
  assumes prj: "\<And>x. prj (mkc x) = Some x" and c: "copier V F c"
  shows "copier V F (copyVar mkc prj (copyPtr mkc prj c))"
proof (intro copier.intro copier_represents [OF c] copier_axioms.intro)
  fix h x v
  assume "V h x = Some v"
  with represents.grow [OF copier_represents [OF c]] have "V (h @ [mkc x]) x = Some v" by blast
  from copier.copies [OF c this] obtain x' e where x': "c x (h @ [mkc x]) = (Ret x', (h @ [mkc x]) @ e)" "V ((h @ [mkc x]) @ e) x' = Some v"
    "F ((h @ [mkc x]) @ e) x' \<subseteq> {length (h @ [mkc x])..<length ((h @ [mkc x]) @ e)}" by blast
  let ?g = "(h @ [mkc x]) @ e @ [mkc x']"
  have "rd prj (h @ [mkc x]) (length h) = Some x" using prj by (rule rd_new)
  moreover have "rd prj ?g (length ((h @ [mkc x]) @ e)) = Some x'"
    using rd_new [of prj "mkc x'" x' "(h @ [mkc x]) @ e"] prj by simp
  ultimately have "copyVar mkc prj (copyPtr mkc prj c) x h = (Ret x', ?g)"
    using x'(1) by (simp add: copyVar_def copyPtr_def load_def bind_def new_def ret_def)
  moreover have "V ?g x' = Some v" "F ?g x' = F ((h @ [mkc x]) @ e) x'"
    using represents.grow [OF copier_represents [OF c] x'(2), of "[mkc x']"] by auto
  ultimately show "\<exists>r' ext. copyVar mkc prj (copyPtr mkc prj c) x h = (Ret r', h @ ext) \<and> V (h @ ext) r' = Some v \<and>
    F (h @ ext) r' \<subseteq> {length h..<length (h @ ext)}"
    using x'(3) by (intro exI [of _ x'] exI [of _ "[mkc x] @ e @ [mkc x']"]) fastforce
qed

subsection \<open>Arrays, slices and maps\<close>

fun copyList :: "('r \<Rightarrow> ('c list, 'r) comp) \<Rightarrow> 'r list \<Rightarrow> ('c list, 'r list) comp" where
  "copyList c [] = ret []"
| "copyList c (x # xs) = bind (c x) (\<lambda>x'. bind (copyList c xs) (\<lambda>xs'. ret (x' # xs')))"

fun valList :: "('c list \<Rightarrow> 'r \<Rightarrow> 'v option) \<Rightarrow> 'c list \<Rightarrow> 'r list \<Rightarrow> 'v list option" where
  "valList V h [] = Some []"
| "valList V h (x # xs) = (case V h x of None \<Rightarrow> None | Some v \<Rightarrow> map_option (Cons v) (valList V h xs))"

definition footList :: "('c list \<Rightarrow> 'r \<Rightarrow> addr set) \<Rightarrow> 'c list \<Rightarrow> 'r list \<Rightarrow> addr set" where
  "footList F h xs = (\<Union>x\<in>set xs. F h x)"

lemma valList_Cons:
  "valList V h (x # xs) = Some vs \<longleftrightarrow> (\<exists>v us. vs = v # us \<and> V h x = Some v \<and> valList V h xs = Some us)"
  by (auto split: option.splits)

lemma footList_simps [simp]: "footList F h [] = {}" "footList F h (x # xs) = F h x \<union> footList F h xs"
  by (simp_all add: footList_def)

lemma represents_list:
  assumes "represents V F"
  shows "represents (valList V) (footList F)"
proof
  fix h xs vs
  show "valList V h xs = Some vs \<Longrightarrow> footList F h xs \<subseteq> {..<length h}"
  proof (induction xs arbitrary: vs)
    case (Cons x xs)
    from Cons.prems obtain v us where "V h x = Some v" "valList V h xs = Some us" unfolding valList_Cons by blast
    with represents.bounded [OF assms] Cons.IH show ?case by simp
  qed simp
next
  fix h xs vs g
  show "valList V h xs = Some vs \<Longrightarrow> agree (footList F h xs) h g \<Longrightarrow> valList V g xs = Some vs \<and> footList F g xs = footList F h xs"
  proof (induction xs arbitrary: vs)
    case (Cons x xs)
    from Cons.prems(1) obtain v us where v: "vs = v # us" "V h x = Some v" "valList V h xs = Some us" unfolding valList_Cons by blast
    from Cons.prems(2) have "agree (F h x) h g" "agree (footList F h xs) h g" by (auto simp: agree_Un)
    with represents.footprint [OF assms v(2)] Cons.IH [OF v(3)] v(1) show ?case by simp
  qed simp
qed

lemma copier_list:
  assumes c: "copier V F c"
  shows "copier (valList V) (footList F) (copyList c)"
proof (intro copier.intro represents_list copier_represents [OF c] copier_axioms.intro)
  fix h xs vs
  show "valList V h xs = Some vs \<Longrightarrow> \<exists>ys ext. copyList c xs h = (Ret ys, h @ ext) \<and> valList V (h @ ext) ys = Some vs \<and>
    footList F (h @ ext) ys \<subseteq> {length h..<length (h @ ext)}"
  proof (induction xs arbitrary: h vs)
    case Nil
    then show ?case by (intro exI [of _ "[]"]) (simp add: ret_def)
  next
    case (Cons x xs)
    from Cons.prems obtain v us where v: "vs = v # us" "V h x = Some v" "valList V h xs = Some us" unfolding valList_Cons by blast
    from copier.copies [OF c v(2)] obtain x' e where x': "c x h = (Ret x', h @ e)" "V (h @ e) x' = Some v"
      "F (h @ e) x' \<subseteq> {length h..<length (h @ e)}" by blast
    from represents.grow [OF represents_list [OF copier_represents [OF c]] v(3), of e] have "valList V (h @ e) xs = Some us" by blast
    from Cons.IH [OF this] obtain ys f where ys: "copyList c xs (h @ e) = (Ret ys, (h @ e) @ f)" "valList V ((h @ e) @ f) ys = Some us"
      "footList F ((h @ e) @ f) ys \<subseteq> {length (h @ e)..<length ((h @ e) @ f)}" by blast
    from represents.grow [OF copier_represents [OF c] x'(2), of f] have
      grown: "V ((h @ e) @ f) x' = Some v" "F ((h @ e) @ f) x' = F (h @ e) x'" by blast+
    have "copyList c (x # xs) h = (Ret (x' # ys), h @ e @ f)" using x'(1) ys(1) by (simp add: bind_def ret_def)
    moreover have "valList V (h @ e @ f) (x' # ys) = Some vs" using grown(1) ys(2) v(1) by simp
    moreover have "footList F (h @ e @ f) (x' # ys) \<subseteq> {length h..<length (h @ e @ f)}" using grown(2) x'(3) ys(3) by fastforce
    ultimately show ?case by blast
  qed
qed

text \<open>The elements of a slice, a nil slice having none; a map is the same with pairs as its elements.\<close>

definition elements :: "'a list option \<Rightarrow> 'a list" where
  "elements s = (case s of None \<Rightarrow> [] | Some xs \<Rightarrow> xs)"

abbreviation valSlice :: "('c \<Rightarrow> 'r list option) \<Rightarrow> ('c list \<Rightarrow> 'r \<Rightarrow> 'v option) \<Rightarrow> 'c list \<Rightarrow> addr option \<Rightarrow> 'v list option" where
  "valSlice prj V h s \<equiv> map_option elements (valPtr prj (valList V) h s)"

abbreviation footSlice :: "('c \<Rightarrow> 'r list option) \<Rightarrow> ('c list \<Rightarrow> 'r \<Rightarrow> addr set) \<Rightarrow> 'c list \<Rightarrow> addr option \<Rightarrow> addr set" where
  "footSlice prj F \<equiv> footPtr prj (footList F)"

abbreviation copySlice ::
    "('r list \<Rightarrow> 'c) \<Rightarrow> ('c \<Rightarrow> 'r list option) \<Rightarrow> ('r \<Rightarrow> ('c list, 'r) comp) \<Rightarrow> addr option \<Rightarrow> ('c list, addr option) comp" where
  "copySlice mkc prj c \<equiv> copyPtr mkc prj (copyList c)"

lemma copier_slice:
  assumes "\<And>xs. prj (mkc xs) = Some xs" and "copier V F c"
  shows "copier (valSlice prj V) (footSlice prj F) (copySlice mkc prj c)"
  using copier_struct [OF copier_ptr [OF assms(1) copier_list [OF assms(2)]], of "\<lambda>x. x" "\<lambda>_ p. p" "\<lambda>_. elements"]
  by simp

end
