(* ===== verification/Memory_Layout.thy ===== *)
theory Memory_Layout
  imports Go_Heap Api_Types
begin

text \<open>
  The structs of \<^verbatim>\<open>api/v1beta2\<close> as they lie in memory, field by field: a pointer, a slice and a map is an
  address or nil (\<open>None\<close>). The metadata structs of Kubernetes are a handle, whose meaning is a parameter
  of \<open>Deep_Copy\<close>. \<open>cell\<close> is what can stand at an address.
\<close>

section \<open>Structs in memory\<close>

record TypeMeta =
  tm_Kind :: string
  tm_APIVersion :: string

record ListMeta =
  lm_SelfLink :: string
  lm_ResourceVersion :: string
  lm_Continue :: string
  lm_RemainingItemCount :: "goint option"

record OpenstackInfrastructureP =
  oip_Name :: string
  oip_CustomerName :: string
  oip_Uuid :: "addr option"

record NodeGroupSpecP =
  ngp_Type :: NodeType
  ngp_Flavor :: string
  ngp_Count :: goint
  ngp_DataDiskSize :: "addr option"
  ngp_VsanDiskSize :: "addr option"

record DatacenterSpecP =
  dcp_OfferingSlug :: string
  dcp_Name :: string
  dcp_OpenstackInfrastructure :: OpenstackInfrastructureP
  dcp_NodeGroups :: "addr option"

record SecurityRuleP =
  srp_Direction :: string
  srp_CIDR :: string
  srp_Port :: "addr option"
  srp_Protocol :: "addr option"

record WaldurClusterSpecP =
  csp_KubernetesVersion :: string
  csp_Topology :: ClusterTopology
  csp_Datacenters :: "addr option"
  csp_SecurityRules :: "addr option"
  csp_ControlPlaneEndpoint :: APIEndpoint

record WaldurOrderP =
  wop_Uuid :: string
  wop_Type :: RequestTypes
  wop_State :: OrderState
  wop_MarketplaceResourceUuid :: string
  wop_ResourceUuid :: "addr option"

record OpenStackTenantP =
  tp_State :: CoreStates
  tp_Uuid :: "addr option"
  tp_Name :: string
  tp_MarketplaceResourceUuid :: string
  tp_MarketplaceResourceState :: ResourceState
  tp_ProjectSlug :: "addr option"
  tp_Order :: "addr option"

record WaldurClusterInitializationP =
  cip_Provisioned :: "addr option"

record WaldurClusterStatusP =
  cstp_Conditions :: "addr option"
  cstp_Initialization :: "addr option"
  cstp_Tenants :: "addr option"

record WaldurClusterP =
  wcp_TypeMeta :: TypeMeta
  wcp_ObjectMeta :: nat
  wcp_Spec :: WaldurClusterSpecP
  wcp_Status :: WaldurClusterStatusP

record WaldurClusterListP =
  wclp_TypeMeta :: TypeMeta
  wclp_ListMeta :: nat
  wclp_Items :: "addr option"

record WaldurMachineSpecP =
  msp_ProviderID :: "addr option"
  msp_OfferingSlug :: string
  msp_NodeType :: NodeType
  msp_Flavor :: string
  msp_Image :: string
  msp_SystemDiskSize :: "addr option"
  msp_DataDiskSize :: "addr option"
  msp_VsanDiskSize :: "addr option"

record WaldurMachineInitializationP =
  mip_Provisioned :: "addr option"

record WaldurMachineStatusP =
  mstp_Conditions :: "addr option"
  mstp_Initialization :: "addr option"
  mstp_VmUuid :: "addr option"
  mstp_State :: CoreStates
  mstp_MarketplaceResourceUuid :: string
  mstp_MarketplaceResourceState :: ResourceState
  mstp_Order :: "addr option"

record WaldurMachineP =
  wmp_TypeMeta :: TypeMeta
  wmp_ObjectMeta :: nat
  wmp_Spec :: WaldurMachineSpecP
  wmp_Status :: WaldurMachineStatusP

record WaldurMachineListP =
  wmlp_TypeMeta :: TypeMeta
  wmlp_ListMeta :: nat
  wmlp_Items :: "addr option"

record WaldurMachineTemplateResourceP =
  mtrp_ObjectMeta :: nat
  mtrp_Spec :: WaldurMachineSpecP

record WaldurMachineTemplateSpecP =
  mtsp_Template :: WaldurMachineTemplateResourceP

record WaldurMachineTemplateP =
  mtp_TypeMeta :: TypeMeta
  mtp_ObjectMeta :: nat
  mtp_Spec :: WaldurMachineTemplateSpecP

record WaldurMachineTemplateListP =
  mtlp_TypeMeta :: TypeMeta
  mtlp_ListMeta :: nat
  mtlp_Items :: "addr option"

section \<open>Cells\<close>

text \<open>
  What can stand at an address: a variable of a basic or of a struct type, the array behind a slice,
  the table of a map; the last two are used by a sample of the Kubernetes functions only.
\<close>

datatype cell =
    CString string
  | CInt goint
  | CBool bool
  | COpenstackInfrastructure OpenstackInfrastructureP
  | CNodeGroupSpec NodeGroupSpecP
  | CDatacenterSpec DatacenterSpecP
  | CSecurityRule SecurityRuleP
  | CWaldurClusterSpec WaldurClusterSpecP
  | CWaldurOrder WaldurOrderP
  | COpenStackTenant OpenStackTenantP
  | CWaldurClusterInitialization WaldurClusterInitializationP
  | CWaldurClusterStatus WaldurClusterStatusP
  | CWaldurCluster WaldurClusterP
  | CWaldurClusterList WaldurClusterListP
  | CWaldurMachineSpec WaldurMachineSpecP
  | CWaldurMachineInitialization WaldurMachineInitializationP
  | CWaldurMachineStatus WaldurMachineStatusP
  | CWaldurMachine WaldurMachineP
  | CWaldurMachineList WaldurMachineListP
  | CWaldurMachineTemplateResource WaldurMachineTemplateResourceP
  | CWaldurMachineTemplateSpec WaldurMachineTemplateSpecP
  | CWaldurMachineTemplate WaldurMachineTemplateP
  | CWaldurMachineTemplateList WaldurMachineTemplateListP
  | CNodeGroups "NodeGroupSpecP list"
  | CDatacenters "DatacenterSpecP list"
  | CSecurityRules "SecurityRuleP list"
  | CConditions "Condition list"
  | CTenants "(string \<times> OpenStackTenantP) list"
  | CClusters "WaldurClusterP list"
  | CMachines "WaldurMachineP list"
  | CTemplates "WaldurMachineTemplateP list"
  | CMeta ObjectMeta
  | CListMeta ListMeta

definition asString :: "cell \<Rightarrow> string option" where
  "asString c = (case c of CString x \<Rightarrow> Some x | _ \<Rightarrow> None)"

definition asInt :: "cell \<Rightarrow> goint option" where
  "asInt c = (case c of CInt x \<Rightarrow> Some x | _ \<Rightarrow> None)"

definition asBool :: "cell \<Rightarrow> bool option" where
  "asBool c = (case c of CBool x \<Rightarrow> Some x | _ \<Rightarrow> None)"

definition asOpenstackInfrastructure :: "cell \<Rightarrow> OpenstackInfrastructureP option" where
  "asOpenstackInfrastructure c = (case c of COpenstackInfrastructure x \<Rightarrow> Some x | _ \<Rightarrow> None)"

definition asNodeGroupSpec :: "cell \<Rightarrow> NodeGroupSpecP option" where
  "asNodeGroupSpec c = (case c of CNodeGroupSpec x \<Rightarrow> Some x | _ \<Rightarrow> None)"

definition asDatacenterSpec :: "cell \<Rightarrow> DatacenterSpecP option" where
  "asDatacenterSpec c = (case c of CDatacenterSpec x \<Rightarrow> Some x | _ \<Rightarrow> None)"

definition asSecurityRule :: "cell \<Rightarrow> SecurityRuleP option" where
  "asSecurityRule c = (case c of CSecurityRule x \<Rightarrow> Some x | _ \<Rightarrow> None)"

definition asWaldurClusterSpec :: "cell \<Rightarrow> WaldurClusterSpecP option" where
  "asWaldurClusterSpec c = (case c of CWaldurClusterSpec x \<Rightarrow> Some x | _ \<Rightarrow> None)"

definition asWaldurOrder :: "cell \<Rightarrow> WaldurOrderP option" where
  "asWaldurOrder c = (case c of CWaldurOrder x \<Rightarrow> Some x | _ \<Rightarrow> None)"

definition asOpenStackTenant :: "cell \<Rightarrow> OpenStackTenantP option" where
  "asOpenStackTenant c = (case c of COpenStackTenant x \<Rightarrow> Some x | _ \<Rightarrow> None)"

definition asWaldurClusterInitialization :: "cell \<Rightarrow> WaldurClusterInitializationP option" where
  "asWaldurClusterInitialization c = (case c of CWaldurClusterInitialization x \<Rightarrow> Some x | _ \<Rightarrow> None)"

definition asWaldurClusterStatus :: "cell \<Rightarrow> WaldurClusterStatusP option" where
  "asWaldurClusterStatus c = (case c of CWaldurClusterStatus x \<Rightarrow> Some x | _ \<Rightarrow> None)"

definition asWaldurCluster :: "cell \<Rightarrow> WaldurClusterP option" where
  "asWaldurCluster c = (case c of CWaldurCluster x \<Rightarrow> Some x | _ \<Rightarrow> None)"

definition asWaldurClusterList :: "cell \<Rightarrow> WaldurClusterListP option" where
  "asWaldurClusterList c = (case c of CWaldurClusterList x \<Rightarrow> Some x | _ \<Rightarrow> None)"

definition asWaldurMachineSpec :: "cell \<Rightarrow> WaldurMachineSpecP option" where
  "asWaldurMachineSpec c = (case c of CWaldurMachineSpec x \<Rightarrow> Some x | _ \<Rightarrow> None)"

definition asWaldurMachineInitialization :: "cell \<Rightarrow> WaldurMachineInitializationP option" where
  "asWaldurMachineInitialization c = (case c of CWaldurMachineInitialization x \<Rightarrow> Some x | _ \<Rightarrow> None)"

definition asWaldurMachineStatus :: "cell \<Rightarrow> WaldurMachineStatusP option" where
  "asWaldurMachineStatus c = (case c of CWaldurMachineStatus x \<Rightarrow> Some x | _ \<Rightarrow> None)"

definition asWaldurMachine :: "cell \<Rightarrow> WaldurMachineP option" where
  "asWaldurMachine c = (case c of CWaldurMachine x \<Rightarrow> Some x | _ \<Rightarrow> None)"

definition asWaldurMachineList :: "cell \<Rightarrow> WaldurMachineListP option" where
  "asWaldurMachineList c = (case c of CWaldurMachineList x \<Rightarrow> Some x | _ \<Rightarrow> None)"

definition asWaldurMachineTemplateResource :: "cell \<Rightarrow> WaldurMachineTemplateResourceP option" where
  "asWaldurMachineTemplateResource c = (case c of CWaldurMachineTemplateResource x \<Rightarrow> Some x | _ \<Rightarrow> None)"

definition asWaldurMachineTemplateSpec :: "cell \<Rightarrow> WaldurMachineTemplateSpecP option" where
  "asWaldurMachineTemplateSpec c = (case c of CWaldurMachineTemplateSpec x \<Rightarrow> Some x | _ \<Rightarrow> None)"

definition asWaldurMachineTemplate :: "cell \<Rightarrow> WaldurMachineTemplateP option" where
  "asWaldurMachineTemplate c = (case c of CWaldurMachineTemplate x \<Rightarrow> Some x | _ \<Rightarrow> None)"

definition asWaldurMachineTemplateList :: "cell \<Rightarrow> WaldurMachineTemplateListP option" where
  "asWaldurMachineTemplateList c = (case c of CWaldurMachineTemplateList x \<Rightarrow> Some x | _ \<Rightarrow> None)"

definition asNodeGroups :: "cell \<Rightarrow> (NodeGroupSpecP list) option" where
  "asNodeGroups c = (case c of CNodeGroups x \<Rightarrow> Some x | _ \<Rightarrow> None)"

definition asDatacenters :: "cell \<Rightarrow> (DatacenterSpecP list) option" where
  "asDatacenters c = (case c of CDatacenters x \<Rightarrow> Some x | _ \<Rightarrow> None)"

definition asSecurityRules :: "cell \<Rightarrow> (SecurityRuleP list) option" where
  "asSecurityRules c = (case c of CSecurityRules x \<Rightarrow> Some x | _ \<Rightarrow> None)"

definition asConditions :: "cell \<Rightarrow> (Condition list) option" where
  "asConditions c = (case c of CConditions x \<Rightarrow> Some x | _ \<Rightarrow> None)"

definition asTenants :: "cell \<Rightarrow> ((string \<times> OpenStackTenantP) list) option" where
  "asTenants c = (case c of CTenants x \<Rightarrow> Some x | _ \<Rightarrow> None)"

definition asClusters :: "cell \<Rightarrow> (WaldurClusterP list) option" where
  "asClusters c = (case c of CClusters x \<Rightarrow> Some x | _ \<Rightarrow> None)"

definition asMachines :: "cell \<Rightarrow> (WaldurMachineP list) option" where
  "asMachines c = (case c of CMachines x \<Rightarrow> Some x | _ \<Rightarrow> None)"

definition asTemplates :: "cell \<Rightarrow> (WaldurMachineTemplateP list) option" where
  "asTemplates c = (case c of CTemplates x \<Rightarrow> Some x | _ \<Rightarrow> None)"

definition asMeta :: "cell \<Rightarrow> ObjectMeta option" where
  "asMeta c = (case c of CMeta x \<Rightarrow> Some x | _ \<Rightarrow> None)"

definition asListMeta :: "cell \<Rightarrow> ListMeta option" where
  "asListMeta c = (case c of CListMeta x \<Rightarrow> Some x | _ \<Rightarrow> None)"

lemma as_cell [simp]:
  "asString (CString x0) = Some x0" "asInt (CInt x1) = Some x1" "asBool (CBool x2) = Some x2"
  "asOpenstackInfrastructure (COpenstackInfrastructure x3) = Some x3" "asNodeGroupSpec (CNodeGroupSpec x4) = Some x4" "asDatacenterSpec (CDatacenterSpec x5) = Some x5"
  "asSecurityRule (CSecurityRule x6) = Some x6" "asWaldurClusterSpec (CWaldurClusterSpec x7) = Some x7" "asWaldurOrder (CWaldurOrder x8) = Some x8"
  "asOpenStackTenant (COpenStackTenant x9) = Some x9" "asWaldurClusterInitialization (CWaldurClusterInitialization x10) = Some x10" "asWaldurClusterStatus (CWaldurClusterStatus x11) = Some x11"
  "asWaldurCluster (CWaldurCluster x12) = Some x12" "asWaldurClusterList (CWaldurClusterList x13) = Some x13" "asWaldurMachineSpec (CWaldurMachineSpec x14) = Some x14"
  "asWaldurMachineInitialization (CWaldurMachineInitialization x15) = Some x15" "asWaldurMachineStatus (CWaldurMachineStatus x16) = Some x16" "asWaldurMachine (CWaldurMachine x17) = Some x17"
  "asWaldurMachineList (CWaldurMachineList x18) = Some x18" "asWaldurMachineTemplateResource (CWaldurMachineTemplateResource x19) = Some x19" "asWaldurMachineTemplateSpec (CWaldurMachineTemplateSpec x20) = Some x20"
  "asWaldurMachineTemplate (CWaldurMachineTemplate x21) = Some x21" "asWaldurMachineTemplateList (CWaldurMachineTemplateList x22) = Some x22" "asNodeGroups (CNodeGroups x23) = Some x23"
  "asDatacenters (CDatacenters x24) = Some x24" "asSecurityRules (CSecurityRules x25) = Some x25" "asConditions (CConditions x26) = Some x26"
  "asTenants (CTenants x27) = Some x27" "asClusters (CClusters x28) = Some x28" "asMachines (CMachines x29) = Some x29"
  "asTemplates (CTemplates x30) = Some x30" "asMeta (CMeta x31) = Some x31" "asListMeta (CListMeta x32) = Some x32"
 
  by (simp_all add: asString_def asInt_def asBool_def asOpenstackInfrastructure_def asNodeGroupSpec_def asDatacenterSpec_def asSecurityRule_def asWaldurClusterSpec_def asWaldurOrder_def asOpenStackTenant_def asWaldurClusterInitialization_def asWaldurClusterStatus_def asWaldurCluster_def asWaldurClusterList_def asWaldurMachineSpec_def asWaldurMachineInitialization_def asWaldurMachineStatus_def asWaldurMachine_def asWaldurMachineList_def asWaldurMachineTemplateResource_def asWaldurMachineTemplateSpec_def asWaldurMachineTemplate_def asWaldurMachineTemplateList_def asNodeGroups_def asDatacenters_def asSecurityRules_def asConditions_def asTenants_def asClusters_def asMachines_def asTemplates_def asMeta_def asListMeta_def)

end
