(* ===== verification/Deep_Copy.thy ===== *)
theory Deep_Copy
  imports Memory_Layout
begin

text \<open>
  The deep copies of \<^verbatim>\<open>api/v1beta2/zz_generated.deepcopy.go\<close>, in memory. For each struct,
  \<open>val\<close> reads the value of the model (a record of \<open>Api_Types\<close>) that the struct stands for, \<open>foot\<close> is the
  set of addresses it depends on, \<open>DeepCopyInto\<close> returns what the function leaves in \<^verbatim>\<open>*out\<close>, and
  \<open>DeepCopy\<close> works on pointers. Each \<open>DeepCopyInto\<close> keeps the contract \<open>copier\<close> of \<open>Go_Heap\<close>. The other
  theories treat objects as values; they may, because the reconcilers work on such copies.

  The metadata structs and the conditions are Kubernetes code: their copy functions, and how their
  handle is read, are parameters in the record \<open>k8s\<close>, whose contract is \<open>k8s_copies\<close>.
\<close>

section \<open>The parts\<close>

record k8s =
  om_val :: "cell list \<Rightarrow> nat \<Rightarrow> ObjectMeta option"
  om_foot :: "cell list \<Rightarrow> nat \<Rightarrow> addr set"
  om_DeepCopyInto :: "nat \<Rightarrow> (cell list, nat) comp"
  lm_val :: "cell list \<Rightarrow> nat \<Rightarrow> ListMeta option"
  lm_foot :: "cell list \<Rightarrow> nat \<Rightarrow> addr set"
  lm_DeepCopyInto :: "nat \<Rightarrow> (cell list, nat) comp"
  cond_DeepCopyInto :: "Condition \<Rightarrow> (cell list, Condition) comp"

definition k8s_copies :: "k8s \<Rightarrow> bool" where
  "k8s_copies K \<longleftrightarrow> copier (om_val K) (om_foot K) (om_DeepCopyInto K) \<and>
     copier (lm_val K) (lm_foot K) (lm_DeepCopyInto K) \<and> copier valPlain footPlain (cond_DeepCopyInto K)"

lemma copier_meta: "k8s_copies K \<Longrightarrow> copier (om_val K) (om_foot K) (om_DeepCopyInto K)"
  and copier_listMeta: "k8s_copies K \<Longrightarrow> copier (lm_val K) (lm_foot K) (lm_DeepCopyInto K)"
  and copier_condition: "k8s_copies K \<Longrightarrow> copier valPlain footPlain (cond_DeepCopyInto K)"
  by (simp_all add: k8s_copies_def)

text \<open>Pointers to the basic types.\<close>

abbreviation valStr :: "cell list \<Rightarrow> addr option \<Rightarrow> string option option" where
  "valStr \<equiv> valPtr asString valPlain"

abbreviation footStr :: "cell list \<Rightarrow> addr option \<Rightarrow> addr set" where
  "footStr \<equiv> footPtr asString footPlain"

abbreviation copyStr :: "addr option \<Rightarrow> (cell list, addr option) comp" where
  "copyStr \<equiv> copyPtr CString asString ret"

abbreviation valInt :: "cell list \<Rightarrow> addr option \<Rightarrow> goint option option" where
  "valInt \<equiv> valPtr asInt valPlain"

abbreviation footInt :: "cell list \<Rightarrow> addr option \<Rightarrow> addr set" where
  "footInt \<equiv> footPtr asInt footPlain"

abbreviation copyInt :: "addr option \<Rightarrow> (cell list, addr option) comp" where
  "copyInt \<equiv> copyPtr CInt asInt ret"

abbreviation valBool :: "cell list \<Rightarrow> addr option \<Rightarrow> bool option option" where
  "valBool \<equiv> valPtr asBool valPlain"

abbreviation footBool :: "cell list \<Rightarrow> addr option \<Rightarrow> addr set" where
  "footBool \<equiv> footPtr asBool footPlain"

abbreviation copyBool :: "addr option \<Rightarrow> (cell list, addr option) comp" where
  "copyBool \<equiv> copyPtr CBool asBool ret"

lemma copier_string: "copier valStr footStr copyStr"
  and copier_int: "copier valInt footInt copyInt"
  and copier_bool: "copier valBool footBool copyBool"
  by (rule copier_ptr [OF _ plain.copier_axioms], simp)+

lemma copier_conditions:
  "k8s_copies K \<Longrightarrow> copier (valSlice asConditions valPlain) (footSlice asConditions footPlain)
     (copySlice CConditions asConditions (cond_DeepCopyInto K))"
  by (rule copier_slice [OF _ copier_condition]) simp_all

section \<open>The structs\<close>

subsection \<open>\<^verbatim>\<open>WaldurOrder\<close>\<close>

definition valWaldurOrder :: "cell list \<Rightarrow> WaldurOrderP \<Rightarrow> (WaldurOrder) option" where
  "valWaldurOrder h x = map_option (\<lambda>p. \<lparr>wo_Uuid = wop_Uuid x, wo_Type = wop_Type x, wo_State = wop_State x,
       wo_MarketplaceResourceUuid = wop_MarketplaceResourceUuid x, wo_ResourceUuid = p\<rparr>)
     (valStr h (wop_ResourceUuid x))"

definition footWaldurOrder :: "cell list \<Rightarrow> WaldurOrderP \<Rightarrow> addr set" where
  "footWaldurOrder h x = footStr h (wop_ResourceUuid x)"

definition WaldurOrder_DeepCopyInto :: "WaldurOrderP \<Rightarrow> (cell list, WaldurOrderP) comp" where
  "WaldurOrder_DeepCopyInto x =
     bind (copyStr (wop_ResourceUuid x)) (\<lambda>p.
     ret (x\<lparr>wop_ResourceUuid := p\<rparr>))"

definition WaldurOrder_DeepCopy :: "addr option \<Rightarrow> (cell list, addr option) comp" where
  "WaldurOrder_DeepCopy = copyPtr CWaldurOrder asWaldurOrder WaldurOrder_DeepCopyInto"

lemma copier_WaldurOrder:
  "copier (valWaldurOrder) (footWaldurOrder) (WaldurOrder_DeepCopyInto)"
  by (rule copier_structI [OF copier_string valWaldurOrder_def footWaldurOrder_def,
        where put = "\<lambda>x p. x\<lparr>wop_ResourceUuid := p\<rparr>"])
    (simp_all add: WaldurOrder_DeepCopyInto_def copyPair_def bind_bind split: prod.split)

lemma copier_WaldurOrder_ptr:
  "copier (valPtr asWaldurOrder valWaldurOrder) (footPtr asWaldurOrder footWaldurOrder) (WaldurOrder_DeepCopy)"
  unfolding WaldurOrder_DeepCopy_def by (rule copier_ptr [OF _ copier_WaldurOrder]) simp

subsection \<open>\<^verbatim>\<open>OpenStackTenant\<close>\<close>

definition valOpenStackTenant :: "cell list \<Rightarrow> OpenStackTenantP \<Rightarrow> (OpenStackTenant) option" where
  "valOpenStackTenant h x = map_option (\<lambda>(p, q, r). \<lparr>t_State = tp_State x, t_Uuid = p, t_Name = tp_Name x,
       t_MarketplaceResourceUuid = tp_MarketplaceResourceUuid x, t_MarketplaceResourceState = tp_MarketplaceResourceState x,
       t_ProjectSlug = q, t_Order = r\<rparr>)
     (valPair (valStr) (valPair (valStr) (valPtr asWaldurOrder valWaldurOrder)) h (tp_Uuid x, tp_ProjectSlug x, tp_Order x))"

definition footOpenStackTenant :: "cell list \<Rightarrow> OpenStackTenantP \<Rightarrow> addr set" where
  "footOpenStackTenant h x = footPair (footStr) (footPair (footStr) (footPtr asWaldurOrder footWaldurOrder)) h (tp_Uuid x,
       tp_ProjectSlug x, tp_Order x)"

definition OpenStackTenant_DeepCopyInto :: "OpenStackTenantP \<Rightarrow> (cell list, OpenStackTenantP) comp" where
  "OpenStackTenant_DeepCopyInto x =
     bind (copyStr (tp_Uuid x)) (\<lambda>p.
     bind (copyStr (tp_ProjectSlug x)) (\<lambda>q.
     bind (copyPtr CWaldurOrder asWaldurOrder WaldurOrder_DeepCopyInto (tp_Order x)) (\<lambda>r.
     ret (x\<lparr>tp_Uuid := p, tp_ProjectSlug := q, tp_Order := r\<rparr>))))"

definition OpenStackTenant_DeepCopy :: "addr option \<Rightarrow> (cell list, addr option) comp" where
  "OpenStackTenant_DeepCopy = copyPtr COpenStackTenant asOpenStackTenant OpenStackTenant_DeepCopyInto"

lemma copier_OpenStackTenant:
  "copier (valOpenStackTenant) (footOpenStackTenant) (OpenStackTenant_DeepCopyInto)"
  by (rule copier_structI [OF copier_pair [OF copier_string copier_pair [OF copier_string copier_WaldurOrder_ptr]]
       valOpenStackTenant_def footOpenStackTenant_def,
        where put = "\<lambda>x (p, q, r). x\<lparr>tp_Uuid := p, tp_ProjectSlug := q, tp_Order := r\<rparr>"])
    (simp_all add: OpenStackTenant_DeepCopyInto_def copyPair_def bind_bind WaldurOrder_DeepCopy_def split: prod.split)

lemma copier_OpenStackTenant_ptr:
  "copier (valPtr asOpenStackTenant valOpenStackTenant) (footPtr asOpenStackTenant footOpenStackTenant) (OpenStackTenant_DeepCopy)"
  unfolding OpenStackTenant_DeepCopy_def by (rule copier_ptr [OF _ copier_OpenStackTenant]) simp

text \<open>One entry of the map of tenants: \<^verbatim>\<open>(*out)[key] = *val.DeepCopy()\<close>.\<close>

definition copyTenantEntry :: "string \<times> OpenStackTenantP \<Rightarrow> (cell list, string \<times> OpenStackTenantP) comp" where
  "copyTenantEntry e = (case e of (key, val) \<Rightarrow>
     bind (copyVar COpenStackTenant asOpenStackTenant OpenStackTenant_DeepCopy val) (\<lambda>val'. ret (key, val')))"

abbreviation valTenantEntry :: "cell list \<Rightarrow> string \<times> OpenStackTenantP \<Rightarrow> (string \<times>
     OpenStackTenant) option" where
  "valTenantEntry \<equiv> valPair valPlain valOpenStackTenant"

abbreviation footTenantEntry :: "cell list \<Rightarrow> string \<times> OpenStackTenantP \<Rightarrow> addr set" where
  "footTenantEntry \<equiv> footPair footPlain footOpenStackTenant"

lemma copier_tenantEntry: "copier valTenantEntry footTenantEntry copyTenantEntry"
proof -
  have "copyPair ret (copyVar COpenStackTenant asOpenStackTenant OpenStackTenant_DeepCopy) = copyTenantEntry"
    by (simp add: fun_eq_iff copyPair_def copyTenantEntry_def split: prod.split)
  moreover have "copier valOpenStackTenant footOpenStackTenant (copyVar COpenStackTenant asOpenStackTenant OpenStackTenant_DeepCopy)"
    unfolding OpenStackTenant_DeepCopy_def by (rule copier_var [OF _ copier_OpenStackTenant]) simp
  ultimately show ?thesis using copier_pair [OF plain.copier_axioms] by metis
qed

lemma copier_tenants:
  "copier (valSlice asTenants valTenantEntry) (footSlice asTenants footTenantEntry) (copySlice CTenants asTenants copyTenantEntry)"
  by (rule copier_slice [OF _ copier_tenantEntry]) simp

text \<open>The structs without Kubernetes parts are copiers without a hypothesis.\<close>

interpretation order_copy: copier valWaldurOrder footWaldurOrder WaldurOrder_DeepCopyInto
  by (rule copier_WaldurOrder)

interpretation tenant_copy: copier valOpenStackTenant footOpenStackTenant OpenStackTenant_DeepCopyInto
  by (rule copier_OpenStackTenant)

interpretation tenant_entries: copier "valList valTenantEntry" "footList footTenantEntry" "copyList copyTenantEntry"
  by (rule copier_list [OF copier_tenantEntry])

subsection \<open>\<^verbatim>\<open>OpenstackInfrastructure\<close>\<close>

definition valOpenstackInfrastructure :: "cell list \<Rightarrow> OpenstackInfrastructureP \<Rightarrow> (OpenstackInfrastructure)
     option" where
  "valOpenstackInfrastructure h x = map_option (\<lambda>p. \<lparr>oi_Name = oip_Name x, oi_CustomerName = oip_CustomerName x,
       oi_Uuid = p\<rparr>)
     (valStr h (oip_Uuid x))"

definition footOpenstackInfrastructure :: "cell list \<Rightarrow> OpenstackInfrastructureP \<Rightarrow> addr set" where
  "footOpenstackInfrastructure h x = footStr h (oip_Uuid x)"

definition OpenstackInfrastructure_DeepCopyInto :: "OpenstackInfrastructureP \<Rightarrow> (cell list, OpenstackInfrastructureP) comp" where
  "OpenstackInfrastructure_DeepCopyInto x =
     bind (copyStr (oip_Uuid x)) (\<lambda>p.
     ret (x\<lparr>oip_Uuid := p\<rparr>))"

definition OpenstackInfrastructure_DeepCopy :: "addr option \<Rightarrow> (cell list, addr option) comp" where
  "OpenstackInfrastructure_DeepCopy = copyPtr COpenstackInfrastructure asOpenstackInfrastructure OpenstackInfrastructure_DeepCopyInto"

lemma copier_OpenstackInfrastructure:
  "copier (valOpenstackInfrastructure) (footOpenstackInfrastructure) (OpenstackInfrastructure_DeepCopyInto)"
  by (rule copier_structI [OF copier_string valOpenstackInfrastructure_def footOpenstackInfrastructure_def,
        where put = "\<lambda>x p. x\<lparr>oip_Uuid := p\<rparr>"])
    (simp_all add: OpenstackInfrastructure_DeepCopyInto_def copyPair_def bind_bind split: prod.split)

lemma copier_OpenstackInfrastructure_ptr:
  "copier (valPtr asOpenstackInfrastructure valOpenstackInfrastructure) (footPtr asOpenstackInfrastructure
       footOpenstackInfrastructure) (OpenstackInfrastructure_DeepCopy)"
  unfolding OpenstackInfrastructure_DeepCopy_def by (rule copier_ptr [OF _ copier_OpenstackInfrastructure]) simp

subsection \<open>\<^verbatim>\<open>NodeGroupSpec\<close>\<close>

definition valNodeGroupSpec :: "cell list \<Rightarrow> NodeGroupSpecP \<Rightarrow> (NodeGroupSpec) option" where
  "valNodeGroupSpec h x = map_option (\<lambda>(p, q). \<lparr>ng_Type = ngp_Type x, ng_Flavor = ngp_Flavor x, ng_Count = ngp_Count
       x, ng_DataDiskSize = p, ng_VsanDiskSize = q\<rparr>)
     (valPair (valInt) (valInt) h (ngp_DataDiskSize x, ngp_VsanDiskSize x))"

definition footNodeGroupSpec :: "cell list \<Rightarrow> NodeGroupSpecP \<Rightarrow> addr set" where
  "footNodeGroupSpec h x = footPair (footInt) (footInt) h (ngp_DataDiskSize x, ngp_VsanDiskSize x)"

definition NodeGroupSpec_DeepCopyInto :: "NodeGroupSpecP \<Rightarrow> (cell list, NodeGroupSpecP) comp" where
  "NodeGroupSpec_DeepCopyInto x =
     bind (copyInt (ngp_DataDiskSize x)) (\<lambda>p.
     bind (copyInt (ngp_VsanDiskSize x)) (\<lambda>q.
     ret (x\<lparr>ngp_DataDiskSize := p, ngp_VsanDiskSize := q\<rparr>)))"

definition NodeGroupSpec_DeepCopy :: "addr option \<Rightarrow> (cell list, addr option) comp" where
  "NodeGroupSpec_DeepCopy = copyPtr CNodeGroupSpec asNodeGroupSpec NodeGroupSpec_DeepCopyInto"

lemma copier_NodeGroupSpec:
  "copier (valNodeGroupSpec) (footNodeGroupSpec) (NodeGroupSpec_DeepCopyInto)"
  by (rule copier_structI [OF copier_pair [OF copier_int copier_int] valNodeGroupSpec_def footNodeGroupSpec_def,
        where put = "\<lambda>x (p, q). x\<lparr>ngp_DataDiskSize := p, ngp_VsanDiskSize := q\<rparr>"])
    (simp_all add: NodeGroupSpec_DeepCopyInto_def copyPair_def bind_bind split: prod.split)

lemma copier_NodeGroupSpec_ptr:
  "copier (valPtr asNodeGroupSpec valNodeGroupSpec) (footPtr asNodeGroupSpec footNodeGroupSpec) (NodeGroupSpec_DeepCopy)"
  unfolding NodeGroupSpec_DeepCopy_def by (rule copier_ptr [OF _ copier_NodeGroupSpec]) simp

subsection \<open>\<^verbatim>\<open>DatacenterSpec\<close>\<close>

definition valDatacenterSpec :: "cell list \<Rightarrow> DatacenterSpecP \<Rightarrow> (DatacenterSpec) option" where
  "valDatacenterSpec h x = map_option (\<lambda>(p, q). \<lparr>dc_OfferingSlug = dcp_OfferingSlug x, dc_Name = dcp_Name x,
       dc_OpenstackInfrastructure = p, dc_NodeGroups = q\<rparr>)
     (valPair (valOpenstackInfrastructure) (valSlice asNodeGroups valNodeGroupSpec) h (dcp_OpenstackInfrastructure x, dcp_NodeGroups x))"

definition footDatacenterSpec :: "cell list \<Rightarrow> DatacenterSpecP \<Rightarrow> addr set" where
  "footDatacenterSpec h x = footPair (footOpenstackInfrastructure) (footSlice asNodeGroups footNodeGroupSpec) h
       (dcp_OpenstackInfrastructure x, dcp_NodeGroups x)"

definition DatacenterSpec_DeepCopyInto :: "DatacenterSpecP \<Rightarrow> (cell list, DatacenterSpecP) comp" where
  "DatacenterSpec_DeepCopyInto x =
     bind (OpenstackInfrastructure_DeepCopyInto (dcp_OpenstackInfrastructure x)) (\<lambda>p.
     bind (copySlice CNodeGroups asNodeGroups NodeGroupSpec_DeepCopyInto (dcp_NodeGroups x)) (\<lambda>q.
     ret (x\<lparr>dcp_OpenstackInfrastructure := p, dcp_NodeGroups := q\<rparr>)))"

definition DatacenterSpec_DeepCopy :: "addr option \<Rightarrow> (cell list, addr option) comp" where
  "DatacenterSpec_DeepCopy = copyPtr CDatacenterSpec asDatacenterSpec DatacenterSpec_DeepCopyInto"

lemma copier_DatacenterSpec:
  "copier (valDatacenterSpec) (footDatacenterSpec) (DatacenterSpec_DeepCopyInto)"
  by (rule copier_structI [OF copier_pair [OF copier_OpenstackInfrastructure copier_slice [OF as_cell(24) copier_NodeGroupSpec]]
       valDatacenterSpec_def footDatacenterSpec_def,
        where put = "\<lambda>x (p, q). x\<lparr>dcp_OpenstackInfrastructure := p, dcp_NodeGroups := q\<rparr>"])
    (simp_all add: DatacenterSpec_DeepCopyInto_def copyPair_def bind_bind split: prod.split)

lemma copier_DatacenterSpec_ptr:
  "copier (valPtr asDatacenterSpec valDatacenterSpec) (footPtr asDatacenterSpec footDatacenterSpec) (DatacenterSpec_DeepCopy)"
  unfolding DatacenterSpec_DeepCopy_def by (rule copier_ptr [OF _ copier_DatacenterSpec]) simp

subsection \<open>\<^verbatim>\<open>SecurityRule\<close>\<close>

definition valSecurityRule :: "cell list \<Rightarrow> SecurityRuleP \<Rightarrow> (SecurityRule) option" where
  "valSecurityRule h x = map_option (\<lambda>(p, q). \<lparr>sr_Direction = srp_Direction x, sr_CIDR = srp_CIDR x, sr_Port = p,
       sr_Protocol = q\<rparr>)
     (valPair (valStr) (valStr) h (srp_Port x, srp_Protocol x))"

definition footSecurityRule :: "cell list \<Rightarrow> SecurityRuleP \<Rightarrow> addr set" where
  "footSecurityRule h x = footPair (footStr) (footStr) h (srp_Port x, srp_Protocol x)"

definition SecurityRule_DeepCopyInto :: "SecurityRuleP \<Rightarrow> (cell list, SecurityRuleP) comp" where
  "SecurityRule_DeepCopyInto x =
     bind (copyStr (srp_Port x)) (\<lambda>p.
     bind (copyStr (srp_Protocol x)) (\<lambda>q.
     ret (x\<lparr>srp_Port := p, srp_Protocol := q\<rparr>)))"

definition SecurityRule_DeepCopy :: "addr option \<Rightarrow> (cell list, addr option) comp" where
  "SecurityRule_DeepCopy = copyPtr CSecurityRule asSecurityRule SecurityRule_DeepCopyInto"

lemma copier_SecurityRule:
  "copier (valSecurityRule) (footSecurityRule) (SecurityRule_DeepCopyInto)"
  by (rule copier_structI [OF copier_pair [OF copier_string copier_string] valSecurityRule_def footSecurityRule_def,
        where put = "\<lambda>x (p, q). x\<lparr>srp_Port := p, srp_Protocol := q\<rparr>"])
    (simp_all add: SecurityRule_DeepCopyInto_def copyPair_def bind_bind split: prod.split)

lemma copier_SecurityRule_ptr:
  "copier (valPtr asSecurityRule valSecurityRule) (footPtr asSecurityRule footSecurityRule) (SecurityRule_DeepCopy)"
  unfolding SecurityRule_DeepCopy_def by (rule copier_ptr [OF _ copier_SecurityRule]) simp

subsection \<open>\<^verbatim>\<open>WaldurClusterSpec\<close>\<close>

definition valWaldurClusterSpec :: "cell list \<Rightarrow> WaldurClusterSpecP \<Rightarrow> (WaldurClusterSpec) option" where
  "valWaldurClusterSpec h x = map_option (\<lambda>(p, q). \<lparr>cs_KubernetesVersion = csp_KubernetesVersion x, cs_Topology =
       csp_Topology x, cs_Datacenters = p, cs_SecurityRules = q, cs_ControlPlaneEndpoint = csp_ControlPlaneEndpoint x\<rparr>)
     (valPair (valSlice asDatacenters valDatacenterSpec) (valSlice asSecurityRules valSecurityRule) h (csp_Datacenters x,
          csp_SecurityRules x))"

definition footWaldurClusterSpec :: "cell list \<Rightarrow> WaldurClusterSpecP \<Rightarrow> addr set" where
  "footWaldurClusterSpec h x = footPair (footSlice asDatacenters footDatacenterSpec) (footSlice asSecurityRules footSecurityRule) h
       (csp_Datacenters x, csp_SecurityRules x)"

definition WaldurClusterSpec_DeepCopyInto :: "WaldurClusterSpecP \<Rightarrow> (cell list, WaldurClusterSpecP) comp" where
  "WaldurClusterSpec_DeepCopyInto x =
     bind (copySlice CDatacenters asDatacenters DatacenterSpec_DeepCopyInto (csp_Datacenters x)) (\<lambda>p.
     bind (copySlice CSecurityRules asSecurityRules SecurityRule_DeepCopyInto (csp_SecurityRules x)) (\<lambda>q.
     ret (x\<lparr>csp_Datacenters := p, csp_SecurityRules := q\<rparr>)))"

definition WaldurClusterSpec_DeepCopy :: "addr option \<Rightarrow> (cell list, addr option) comp" where
  "WaldurClusterSpec_DeepCopy = copyPtr CWaldurClusterSpec asWaldurClusterSpec WaldurClusterSpec_DeepCopyInto"

lemma copier_WaldurClusterSpec:
  "copier (valWaldurClusterSpec) (footWaldurClusterSpec) (WaldurClusterSpec_DeepCopyInto)"
  by (rule copier_structI [OF copier_pair [OF copier_slice [OF as_cell(25) copier_DatacenterSpec] copier_slice [OF as_cell(26)
       copier_SecurityRule]] valWaldurClusterSpec_def footWaldurClusterSpec_def,
        where put = "\<lambda>x (p, q). x\<lparr>csp_Datacenters := p, csp_SecurityRules := q\<rparr>"])
    (simp_all add: WaldurClusterSpec_DeepCopyInto_def copyPair_def bind_bind split: prod.split)

lemma copier_WaldurClusterSpec_ptr:
  "copier (valPtr asWaldurClusterSpec valWaldurClusterSpec) (footPtr asWaldurClusterSpec footWaldurClusterSpec)
       (WaldurClusterSpec_DeepCopy)"
  unfolding WaldurClusterSpec_DeepCopy_def by (rule copier_ptr [OF _ copier_WaldurClusterSpec]) simp

subsection \<open>\<^verbatim>\<open>WaldurClusterInitialization\<close>\<close>

definition valWaldurClusterInitialization :: "cell list \<Rightarrow> WaldurClusterInitializationP \<Rightarrow>
     (WaldurClusterInitialization) option" where
  "valWaldurClusterInitialization h x = map_option (\<lambda>p. \<lparr>ci_Provisioned = p\<rparr>)
     (valBool h (cip_Provisioned x))"

definition footWaldurClusterInitialization :: "cell list \<Rightarrow> WaldurClusterInitializationP \<Rightarrow> addr set" where
  "footWaldurClusterInitialization h x = footBool h (cip_Provisioned x)"

definition WaldurClusterInitialization_DeepCopyInto :: "WaldurClusterInitializationP \<Rightarrow> (cell list,
     WaldurClusterInitializationP) comp" where
  "WaldurClusterInitialization_DeepCopyInto x =
     bind (copyBool (cip_Provisioned x)) (\<lambda>p.
     ret (x\<lparr>cip_Provisioned := p\<rparr>))"

definition WaldurClusterInitialization_DeepCopy :: "addr option \<Rightarrow> (cell list, addr option) comp" where
  "WaldurClusterInitialization_DeepCopy = copyPtr CWaldurClusterInitialization asWaldurClusterInitialization
       WaldurClusterInitialization_DeepCopyInto"

lemma copier_WaldurClusterInitialization:
  "copier (valWaldurClusterInitialization) (footWaldurClusterInitialization) (WaldurClusterInitialization_DeepCopyInto)"
  by (rule copier_structI [OF copier_bool valWaldurClusterInitialization_def footWaldurClusterInitialization_def,
        where put = "\<lambda>x p. x\<lparr>cip_Provisioned := p\<rparr>"])
    (simp_all add: WaldurClusterInitialization_DeepCopyInto_def copyPair_def bind_bind split: prod.split)

lemma copier_WaldurClusterInitialization_ptr:
  "copier (valPtr asWaldurClusterInitialization valWaldurClusterInitialization) (footPtr asWaldurClusterInitialization
       footWaldurClusterInitialization) (WaldurClusterInitialization_DeepCopy)"
  unfolding WaldurClusterInitialization_DeepCopy_def by (rule copier_ptr [OF _ copier_WaldurClusterInitialization]) simp

subsection \<open>\<^verbatim>\<open>WaldurClusterStatus\<close>\<close>

definition valWaldurClusterStatus :: "k8s \<Rightarrow> cell list \<Rightarrow> WaldurClusterStatusP \<Rightarrow>
     (WaldurClusterStatus) option" where
  "valWaldurClusterStatus K h x = map_option (\<lambda>(p, q, r). \<lparr>cst_Conditions = p, cst_Initialization = q, cst_Tenants =
       r\<rparr>)
     (valPair (valSlice asConditions valPlain) (valPair (valPtr asWaldurClusterInitialization valWaldurClusterInitialization)
          (valSlice asTenants valTenantEntry)) h (cstp_Conditions x, cstp_Initialization x, cstp_Tenants x))"

definition footWaldurClusterStatus :: "k8s \<Rightarrow> cell list \<Rightarrow> WaldurClusterStatusP \<Rightarrow> addr set" where
  "footWaldurClusterStatus K h x = footPair (footSlice asConditions footPlain) (footPair (footPtr asWaldurClusterInitialization
       footWaldurClusterInitialization) (footSlice asTenants footTenantEntry)) h (cstp_Conditions x, cstp_Initialization x, cstp_Tenants x)"

definition WaldurClusterStatus_DeepCopyInto :: "k8s \<Rightarrow> WaldurClusterStatusP \<Rightarrow> (cell list,
     WaldurClusterStatusP) comp" where
  "WaldurClusterStatus_DeepCopyInto K x =
     bind (copySlice CConditions asConditions (cond_DeepCopyInto K) (cstp_Conditions x)) (\<lambda>p.
     bind (copyPtr CWaldurClusterInitialization asWaldurClusterInitialization WaldurClusterInitialization_DeepCopyInto
          (cstp_Initialization x)) (\<lambda>q.
     bind (copySlice CTenants asTenants copyTenantEntry (cstp_Tenants x)) (\<lambda>r.
     ret (x\<lparr>cstp_Conditions := p, cstp_Initialization := q, cstp_Tenants := r\<rparr>))))"

definition WaldurClusterStatus_DeepCopy :: "k8s \<Rightarrow> addr option \<Rightarrow> (cell list, addr option) comp" where
  "WaldurClusterStatus_DeepCopy K = copyPtr CWaldurClusterStatus asWaldurClusterStatus (WaldurClusterStatus_DeepCopyInto K)"

lemma copier_WaldurClusterStatus:
  assumes "k8s_copies K"
  shows "copier (valWaldurClusterStatus K) (footWaldurClusterStatus K) (WaldurClusterStatus_DeepCopyInto K)"
  by (rule copier_structI [OF copier_pair [OF copier_conditions [OF assms] copier_pair [OF copier_WaldurClusterInitialization_ptr
       copier_tenants]] valWaldurClusterStatus_def footWaldurClusterStatus_def,
        where put = "\<lambda>x (p, q, r). x\<lparr>cstp_Conditions := p, cstp_Initialization := q, cstp_Tenants := r\<rparr>"])
    (simp_all add: WaldurClusterStatus_DeepCopyInto_def copyPair_def bind_bind WaldurClusterInitialization_DeepCopy_def split: prod.split)

lemma copier_WaldurClusterStatus_ptr:
  assumes "k8s_copies K"
  shows "copier (valPtr asWaldurClusterStatus (valWaldurClusterStatus K)) (footPtr asWaldurClusterStatus (footWaldurClusterStatus
       K)) (WaldurClusterStatus_DeepCopy K)"
  unfolding WaldurClusterStatus_DeepCopy_def by (rule copier_ptr [OF _ copier_WaldurClusterStatus [OF assms]]) simp

subsection \<open>\<^verbatim>\<open>WaldurCluster\<close>\<close>

definition valWaldurCluster :: "k8s \<Rightarrow> cell list \<Rightarrow> WaldurClusterP \<Rightarrow> (TypeMeta \<times>
     WaldurCluster) option" where
  "valWaldurCluster K h x = map_option (\<lambda>(p, q, r). (wcp_TypeMeta x, \<lparr>wc_Meta = p, wc_Spec = q, wc_Status = r\<rparr>))
     (valPair (om_val K) (valPair (valWaldurClusterSpec) (valWaldurClusterStatus K)) h (wcp_ObjectMeta x, wcp_Spec x, wcp_Status x))"

definition footWaldurCluster :: "k8s \<Rightarrow> cell list \<Rightarrow> WaldurClusterP \<Rightarrow> addr set" where
  "footWaldurCluster K h x = footPair (om_foot K) (footPair (footWaldurClusterSpec) (footWaldurClusterStatus K)) h (wcp_ObjectMeta
       x, wcp_Spec x, wcp_Status x)"

definition WaldurCluster_DeepCopyInto :: "k8s \<Rightarrow> WaldurClusterP \<Rightarrow> (cell list, WaldurClusterP) comp" where
  "WaldurCluster_DeepCopyInto K x =
     bind (om_DeepCopyInto K (wcp_ObjectMeta x)) (\<lambda>p.
     bind (WaldurClusterSpec_DeepCopyInto (wcp_Spec x)) (\<lambda>q.
     bind (WaldurClusterStatus_DeepCopyInto K (wcp_Status x)) (\<lambda>r.
     ret (x\<lparr>wcp_ObjectMeta := p, wcp_Spec := q, wcp_Status := r\<rparr>))))"

definition WaldurCluster_DeepCopy :: "k8s \<Rightarrow> addr option \<Rightarrow> (cell list, addr option) comp" where
  "WaldurCluster_DeepCopy K = copyPtr CWaldurCluster asWaldurCluster (WaldurCluster_DeepCopyInto K)"

lemma copier_WaldurCluster:
  assumes "k8s_copies K"
  shows "copier (valWaldurCluster K) (footWaldurCluster K) (WaldurCluster_DeepCopyInto K)"
  by (rule copier_structI [OF copier_pair [OF copier_meta [OF assms] copier_pair [OF copier_WaldurClusterSpec
       copier_WaldurClusterStatus [OF assms]]] valWaldurCluster_def footWaldurCluster_def,
        where put = "\<lambda>x (p, q, r). x\<lparr>wcp_ObjectMeta := p, wcp_Spec := q, wcp_Status := r\<rparr>"])
    (simp_all add: WaldurCluster_DeepCopyInto_def copyPair_def bind_bind split: prod.split)

lemma copier_WaldurCluster_ptr:
  assumes "k8s_copies K"
  shows "copier (valPtr asWaldurCluster (valWaldurCluster K)) (footPtr asWaldurCluster (footWaldurCluster K)) (WaldurCluster_DeepCopy K)"
  unfolding WaldurCluster_DeepCopy_def by (rule copier_ptr [OF _ copier_WaldurCluster [OF assms]]) simp

subsection \<open>\<^verbatim>\<open>WaldurClusterList\<close>\<close>

definition valWaldurClusterList :: "k8s \<Rightarrow> cell list \<Rightarrow> WaldurClusterListP \<Rightarrow> (TypeMeta \<times>
     ListMeta \<times> (TypeMeta \<times> WaldurCluster) list) option" where
  "valWaldurClusterList K h x = map_option (\<lambda>(p, q). (wclp_TypeMeta x, p, q))
     (valPair (lm_val K) (valSlice asClusters (valWaldurCluster K)) h (wclp_ListMeta x, wclp_Items x))"

definition footWaldurClusterList :: "k8s \<Rightarrow> cell list \<Rightarrow> WaldurClusterListP \<Rightarrow> addr set" where
  "footWaldurClusterList K h x = footPair (lm_foot K) (footSlice asClusters (footWaldurCluster K)) h (wclp_ListMeta x, wclp_Items x)"

definition WaldurClusterList_DeepCopyInto :: "k8s \<Rightarrow> WaldurClusterListP \<Rightarrow> (cell list, WaldurClusterListP) comp" where
  "WaldurClusterList_DeepCopyInto K x =
     bind (lm_DeepCopyInto K (wclp_ListMeta x)) (\<lambda>p.
     bind (copySlice CClusters asClusters (WaldurCluster_DeepCopyInto K) (wclp_Items x)) (\<lambda>q.
     ret (x\<lparr>wclp_ListMeta := p, wclp_Items := q\<rparr>)))"

definition WaldurClusterList_DeepCopy :: "k8s \<Rightarrow> addr option \<Rightarrow> (cell list, addr option) comp" where
  "WaldurClusterList_DeepCopy K = copyPtr CWaldurClusterList asWaldurClusterList (WaldurClusterList_DeepCopyInto K)"

lemma copier_WaldurClusterList:
  assumes "k8s_copies K"
  shows "copier (valWaldurClusterList K) (footWaldurClusterList K) (WaldurClusterList_DeepCopyInto K)"
  by (rule copier_structI [OF copier_pair [OF copier_listMeta [OF assms] copier_slice [OF as_cell(29) copier_WaldurCluster [OF
       assms]]] valWaldurClusterList_def footWaldurClusterList_def,
        where put = "\<lambda>x (p, q). x\<lparr>wclp_ListMeta := p, wclp_Items := q\<rparr>"])
    (simp_all add: WaldurClusterList_DeepCopyInto_def copyPair_def bind_bind split: prod.split)

lemma copier_WaldurClusterList_ptr:
  assumes "k8s_copies K"
  shows "copier (valPtr asWaldurClusterList (valWaldurClusterList K)) (footPtr asWaldurClusterList (footWaldurClusterList K))
       (WaldurClusterList_DeepCopy K)"
  unfolding WaldurClusterList_DeepCopy_def by (rule copier_ptr [OF _ copier_WaldurClusterList [OF assms]]) simp

subsection \<open>\<^verbatim>\<open>WaldurMachineSpec\<close>\<close>

definition valWaldurMachineSpec :: "cell list \<Rightarrow> WaldurMachineSpecP \<Rightarrow> (WaldurMachineSpec) option" where
  "valWaldurMachineSpec h x = map_option (\<lambda>(p, q, r, s). \<lparr>ms_ProviderID = p, ms_OfferingSlug = msp_OfferingSlug x,
       ms_NodeType = msp_NodeType x, ms_Flavor = msp_Flavor x, ms_Image = msp_Image x, ms_SystemDiskSize = q, ms_DataDiskSize = r,
       ms_VsanDiskSize = s\<rparr>)
     (valPair (valStr) (valPair (valInt) (valPair (valInt) (valInt))) h (msp_ProviderID x, msp_SystemDiskSize x, msp_DataDiskSize
          x, msp_VsanDiskSize x))"

definition footWaldurMachineSpec :: "cell list \<Rightarrow> WaldurMachineSpecP \<Rightarrow> addr set" where
  "footWaldurMachineSpec h x = footPair (footStr) (footPair (footInt) (footPair (footInt) (footInt))) h (msp_ProviderID x,
       msp_SystemDiskSize x, msp_DataDiskSize x, msp_VsanDiskSize x)"

definition WaldurMachineSpec_DeepCopyInto :: "WaldurMachineSpecP \<Rightarrow> (cell list, WaldurMachineSpecP) comp" where
  "WaldurMachineSpec_DeepCopyInto x =
     bind (copyStr (msp_ProviderID x)) (\<lambda>p.
     bind (copyInt (msp_SystemDiskSize x)) (\<lambda>q.
     bind (copyInt (msp_DataDiskSize x)) (\<lambda>r.
     bind (copyInt (msp_VsanDiskSize x)) (\<lambda>s.
     ret (x\<lparr>msp_ProviderID := p, msp_SystemDiskSize := q, msp_DataDiskSize := r, msp_VsanDiskSize := s\<rparr>)))))"

definition WaldurMachineSpec_DeepCopy :: "addr option \<Rightarrow> (cell list, addr option) comp" where
  "WaldurMachineSpec_DeepCopy = copyPtr CWaldurMachineSpec asWaldurMachineSpec WaldurMachineSpec_DeepCopyInto"

lemma copier_WaldurMachineSpec:
  "copier (valWaldurMachineSpec) (footWaldurMachineSpec) (WaldurMachineSpec_DeepCopyInto)"
  by (rule copier_structI [OF copier_pair [OF copier_string copier_pair [OF copier_int copier_pair [OF copier_int copier_int]]]
       valWaldurMachineSpec_def footWaldurMachineSpec_def,
        where put = "\<lambda>x (p, q, r, s). x\<lparr>msp_ProviderID := p, msp_SystemDiskSize := q, msp_DataDiskSize := r,
             msp_VsanDiskSize := s\<rparr>"])
    (simp_all add: WaldurMachineSpec_DeepCopyInto_def copyPair_def bind_bind split: prod.split)

lemma copier_WaldurMachineSpec_ptr:
  "copier (valPtr asWaldurMachineSpec valWaldurMachineSpec) (footPtr asWaldurMachineSpec footWaldurMachineSpec)
       (WaldurMachineSpec_DeepCopy)"
  unfolding WaldurMachineSpec_DeepCopy_def by (rule copier_ptr [OF _ copier_WaldurMachineSpec]) simp

subsection \<open>\<^verbatim>\<open>WaldurMachineInitialization\<close>\<close>

definition valWaldurMachineInitialization :: "cell list \<Rightarrow> WaldurMachineInitializationP \<Rightarrow>
     (WaldurMachineInitialization) option" where
  "valWaldurMachineInitialization h x = map_option (\<lambda>p. \<lparr>mi_Provisioned = p\<rparr>)
     (valBool h (mip_Provisioned x))"

definition footWaldurMachineInitialization :: "cell list \<Rightarrow> WaldurMachineInitializationP \<Rightarrow> addr set" where
  "footWaldurMachineInitialization h x = footBool h (mip_Provisioned x)"

definition WaldurMachineInitialization_DeepCopyInto :: "WaldurMachineInitializationP \<Rightarrow> (cell list,
     WaldurMachineInitializationP) comp" where
  "WaldurMachineInitialization_DeepCopyInto x =
     bind (copyBool (mip_Provisioned x)) (\<lambda>p.
     ret (x\<lparr>mip_Provisioned := p\<rparr>))"

definition WaldurMachineInitialization_DeepCopy :: "addr option \<Rightarrow> (cell list, addr option) comp" where
  "WaldurMachineInitialization_DeepCopy = copyPtr CWaldurMachineInitialization asWaldurMachineInitialization
       WaldurMachineInitialization_DeepCopyInto"

lemma copier_WaldurMachineInitialization:
  "copier (valWaldurMachineInitialization) (footWaldurMachineInitialization) (WaldurMachineInitialization_DeepCopyInto)"
  by (rule copier_structI [OF copier_bool valWaldurMachineInitialization_def footWaldurMachineInitialization_def,
        where put = "\<lambda>x p. x\<lparr>mip_Provisioned := p\<rparr>"])
    (simp_all add: WaldurMachineInitialization_DeepCopyInto_def copyPair_def bind_bind split: prod.split)

lemma copier_WaldurMachineInitialization_ptr:
  "copier (valPtr asWaldurMachineInitialization valWaldurMachineInitialization) (footPtr asWaldurMachineInitialization
       footWaldurMachineInitialization) (WaldurMachineInitialization_DeepCopy)"
  unfolding WaldurMachineInitialization_DeepCopy_def by (rule copier_ptr [OF _ copier_WaldurMachineInitialization]) simp

subsection \<open>\<^verbatim>\<open>WaldurMachineStatus\<close>\<close>

definition valWaldurMachineStatus :: "k8s \<Rightarrow> cell list \<Rightarrow> WaldurMachineStatusP \<Rightarrow>
     (WaldurMachineStatus) option" where
  "valWaldurMachineStatus K h x = map_option (\<lambda>(p, q, r, s). \<lparr>mst_Conditions = p, mst_Initialization = q, mst_VmUuid
       = r, mst_State = mstp_State x, mst_MarketplaceResourceUuid = mstp_MarketplaceResourceUuid x, mst_MarketplaceResourceState =
       mstp_MarketplaceResourceState x, mst_Order = s\<rparr>)
     (valPair (valSlice asConditions valPlain) (valPair (valPtr asWaldurMachineInitialization valWaldurMachineInitialization)
          (valPair (valStr) (valPtr asWaldurOrder valWaldurOrder))) h (mstp_Conditions x, mstp_Initialization x, mstp_VmUuid x,
          mstp_Order x))"

definition footWaldurMachineStatus :: "k8s \<Rightarrow> cell list \<Rightarrow> WaldurMachineStatusP \<Rightarrow> addr set" where
  "footWaldurMachineStatus K h x = footPair (footSlice asConditions footPlain) (footPair (footPtr asWaldurMachineInitialization
       footWaldurMachineInitialization) (footPair (footStr) (footPtr asWaldurOrder footWaldurOrder))) h (mstp_Conditions x,
       mstp_Initialization x, mstp_VmUuid x, mstp_Order x)"

definition WaldurMachineStatus_DeepCopyInto :: "k8s \<Rightarrow> WaldurMachineStatusP \<Rightarrow> (cell list,
     WaldurMachineStatusP) comp" where
  "WaldurMachineStatus_DeepCopyInto K x =
     bind (copySlice CConditions asConditions (cond_DeepCopyInto K) (mstp_Conditions x)) (\<lambda>p.
     bind (copyPtr CWaldurMachineInitialization asWaldurMachineInitialization WaldurMachineInitialization_DeepCopyInto
          (mstp_Initialization x)) (\<lambda>q.
     bind (copyStr (mstp_VmUuid x)) (\<lambda>r.
     bind (copyPtr CWaldurOrder asWaldurOrder WaldurOrder_DeepCopyInto (mstp_Order x)) (\<lambda>s.
     ret (x\<lparr>mstp_Conditions := p, mstp_Initialization := q, mstp_VmUuid := r, mstp_Order := s\<rparr>)))))"

definition WaldurMachineStatus_DeepCopy :: "k8s \<Rightarrow> addr option \<Rightarrow> (cell list, addr option) comp" where
  "WaldurMachineStatus_DeepCopy K = copyPtr CWaldurMachineStatus asWaldurMachineStatus (WaldurMachineStatus_DeepCopyInto K)"

lemma copier_WaldurMachineStatus:
  assumes "k8s_copies K"
  shows "copier (valWaldurMachineStatus K) (footWaldurMachineStatus K) (WaldurMachineStatus_DeepCopyInto K)"
  by (rule copier_structI [OF copier_pair [OF copier_conditions [OF assms] copier_pair [OF copier_WaldurMachineInitialization_ptr
       copier_pair [OF copier_string copier_WaldurOrder_ptr]]] valWaldurMachineStatus_def footWaldurMachineStatus_def,
        where put = "\<lambda>x (p, q, r, s). x\<lparr>mstp_Conditions := p, mstp_Initialization := q, mstp_VmUuid := r, mstp_Order
             := s\<rparr>"])
    (simp_all add: WaldurMachineStatus_DeepCopyInto_def copyPair_def bind_bind WaldurMachineInitialization_DeepCopy_def
         WaldurOrder_DeepCopy_def split: prod.split)

lemma copier_WaldurMachineStatus_ptr:
  assumes "k8s_copies K"
  shows "copier (valPtr asWaldurMachineStatus (valWaldurMachineStatus K)) (footPtr asWaldurMachineStatus (footWaldurMachineStatus
       K)) (WaldurMachineStatus_DeepCopy K)"
  unfolding WaldurMachineStatus_DeepCopy_def by (rule copier_ptr [OF _ copier_WaldurMachineStatus [OF assms]]) simp

subsection \<open>\<^verbatim>\<open>WaldurMachine\<close>\<close>

definition valWaldurMachine :: "k8s \<Rightarrow> cell list \<Rightarrow> WaldurMachineP \<Rightarrow> (TypeMeta \<times>
     WaldurMachine) option" where
  "valWaldurMachine K h x = map_option (\<lambda>(p, q, r). (wmp_TypeMeta x, \<lparr>wm_Meta = p, wm_Spec = q, wm_Status = r\<rparr>))
     (valPair (om_val K) (valPair (valWaldurMachineSpec) (valWaldurMachineStatus K)) h (wmp_ObjectMeta x, wmp_Spec x, wmp_Status x))"

definition footWaldurMachine :: "k8s \<Rightarrow> cell list \<Rightarrow> WaldurMachineP \<Rightarrow> addr set" where
  "footWaldurMachine K h x = footPair (om_foot K) (footPair (footWaldurMachineSpec) (footWaldurMachineStatus K)) h (wmp_ObjectMeta
       x, wmp_Spec x, wmp_Status x)"

definition WaldurMachine_DeepCopyInto :: "k8s \<Rightarrow> WaldurMachineP \<Rightarrow> (cell list, WaldurMachineP) comp" where
  "WaldurMachine_DeepCopyInto K x =
     bind (om_DeepCopyInto K (wmp_ObjectMeta x)) (\<lambda>p.
     bind (WaldurMachineSpec_DeepCopyInto (wmp_Spec x)) (\<lambda>q.
     bind (WaldurMachineStatus_DeepCopyInto K (wmp_Status x)) (\<lambda>r.
     ret (x\<lparr>wmp_ObjectMeta := p, wmp_Spec := q, wmp_Status := r\<rparr>))))"

definition WaldurMachine_DeepCopy :: "k8s \<Rightarrow> addr option \<Rightarrow> (cell list, addr option) comp" where
  "WaldurMachine_DeepCopy K = copyPtr CWaldurMachine asWaldurMachine (WaldurMachine_DeepCopyInto K)"

lemma copier_WaldurMachine:
  assumes "k8s_copies K"
  shows "copier (valWaldurMachine K) (footWaldurMachine K) (WaldurMachine_DeepCopyInto K)"
  by (rule copier_structI [OF copier_pair [OF copier_meta [OF assms] copier_pair [OF copier_WaldurMachineSpec
       copier_WaldurMachineStatus [OF assms]]] valWaldurMachine_def footWaldurMachine_def,
        where put = "\<lambda>x (p, q, r). x\<lparr>wmp_ObjectMeta := p, wmp_Spec := q, wmp_Status := r\<rparr>"])
    (simp_all add: WaldurMachine_DeepCopyInto_def copyPair_def bind_bind split: prod.split)

lemma copier_WaldurMachine_ptr:
  assumes "k8s_copies K"
  shows "copier (valPtr asWaldurMachine (valWaldurMachine K)) (footPtr asWaldurMachine (footWaldurMachine K)) (WaldurMachine_DeepCopy K)"
  unfolding WaldurMachine_DeepCopy_def by (rule copier_ptr [OF _ copier_WaldurMachine [OF assms]]) simp

subsection \<open>\<^verbatim>\<open>WaldurMachineList\<close>\<close>

definition valWaldurMachineList :: "k8s \<Rightarrow> cell list \<Rightarrow> WaldurMachineListP \<Rightarrow> (TypeMeta \<times>
     ListMeta \<times> (TypeMeta \<times> WaldurMachine) list) option" where
  "valWaldurMachineList K h x = map_option (\<lambda>(p, q). (wmlp_TypeMeta x, p, q))
     (valPair (lm_val K) (valSlice asMachines (valWaldurMachine K)) h (wmlp_ListMeta x, wmlp_Items x))"

definition footWaldurMachineList :: "k8s \<Rightarrow> cell list \<Rightarrow> WaldurMachineListP \<Rightarrow> addr set" where
  "footWaldurMachineList K h x = footPair (lm_foot K) (footSlice asMachines (footWaldurMachine K)) h (wmlp_ListMeta x, wmlp_Items x)"

definition WaldurMachineList_DeepCopyInto :: "k8s \<Rightarrow> WaldurMachineListP \<Rightarrow> (cell list, WaldurMachineListP) comp" where
  "WaldurMachineList_DeepCopyInto K x =
     bind (lm_DeepCopyInto K (wmlp_ListMeta x)) (\<lambda>p.
     bind (copySlice CMachines asMachines (WaldurMachine_DeepCopyInto K) (wmlp_Items x)) (\<lambda>q.
     ret (x\<lparr>wmlp_ListMeta := p, wmlp_Items := q\<rparr>)))"

definition WaldurMachineList_DeepCopy :: "k8s \<Rightarrow> addr option \<Rightarrow> (cell list, addr option) comp" where
  "WaldurMachineList_DeepCopy K = copyPtr CWaldurMachineList asWaldurMachineList (WaldurMachineList_DeepCopyInto K)"

lemma copier_WaldurMachineList:
  assumes "k8s_copies K"
  shows "copier (valWaldurMachineList K) (footWaldurMachineList K) (WaldurMachineList_DeepCopyInto K)"
  by (rule copier_structI [OF copier_pair [OF copier_listMeta [OF assms] copier_slice [OF as_cell(30) copier_WaldurMachine [OF
       assms]]] valWaldurMachineList_def footWaldurMachineList_def,
        where put = "\<lambda>x (p, q). x\<lparr>wmlp_ListMeta := p, wmlp_Items := q\<rparr>"])
    (simp_all add: WaldurMachineList_DeepCopyInto_def copyPair_def bind_bind split: prod.split)

lemma copier_WaldurMachineList_ptr:
  assumes "k8s_copies K"
  shows "copier (valPtr asWaldurMachineList (valWaldurMachineList K)) (footPtr asWaldurMachineList (footWaldurMachineList K))
       (WaldurMachineList_DeepCopy K)"
  unfolding WaldurMachineList_DeepCopy_def by (rule copier_ptr [OF _ copier_WaldurMachineList [OF assms]]) simp

subsection \<open>\<^verbatim>\<open>WaldurMachineTemplateResource\<close>\<close>

definition valWaldurMachineTemplateResource :: "k8s \<Rightarrow> cell list \<Rightarrow> WaldurMachineTemplateResourceP
     \<Rightarrow> (WaldurMachineTemplateResource) option" where
  "valWaldurMachineTemplateResource K h x = map_option (\<lambda>(p, q). \<lparr>mtr_Meta = p, mtr_Spec = q\<rparr>)
     (valPair (om_val K) (valWaldurMachineSpec) h (mtrp_ObjectMeta x, mtrp_Spec x))"

definition footWaldurMachineTemplateResource :: "k8s \<Rightarrow> cell list \<Rightarrow> WaldurMachineTemplateResourceP
     \<Rightarrow> addr set" where
  "footWaldurMachineTemplateResource K h x = footPair (om_foot K) (footWaldurMachineSpec) h (mtrp_ObjectMeta x, mtrp_Spec x)"

definition WaldurMachineTemplateResource_DeepCopyInto :: "k8s \<Rightarrow> WaldurMachineTemplateResourceP \<Rightarrow> (cell
     list, WaldurMachineTemplateResourceP) comp" where
  "WaldurMachineTemplateResource_DeepCopyInto K x =
     bind (om_DeepCopyInto K (mtrp_ObjectMeta x)) (\<lambda>p.
     bind (WaldurMachineSpec_DeepCopyInto (mtrp_Spec x)) (\<lambda>q.
     ret (x\<lparr>mtrp_ObjectMeta := p, mtrp_Spec := q\<rparr>)))"

definition WaldurMachineTemplateResource_DeepCopy :: "k8s \<Rightarrow> addr option \<Rightarrow> (cell list, addr option) comp" where
  "WaldurMachineTemplateResource_DeepCopy K = copyPtr CWaldurMachineTemplateResource asWaldurMachineTemplateResource
       (WaldurMachineTemplateResource_DeepCopyInto K)"

lemma copier_WaldurMachineTemplateResource:
  assumes "k8s_copies K"
  shows "copier (valWaldurMachineTemplateResource K) (footWaldurMachineTemplateResource K) (WaldurMachineTemplateResource_DeepCopyInto K)"
  by (rule copier_structI [OF copier_pair [OF copier_meta [OF assms] copier_WaldurMachineSpec] valWaldurMachineTemplateResource_def
       footWaldurMachineTemplateResource_def,
        where put = "\<lambda>x (p, q). x\<lparr>mtrp_ObjectMeta := p, mtrp_Spec := q\<rparr>"])
    (simp_all add: WaldurMachineTemplateResource_DeepCopyInto_def copyPair_def bind_bind split: prod.split)

lemma copier_WaldurMachineTemplateResource_ptr:
  assumes "k8s_copies K"
  shows "copier (valPtr asWaldurMachineTemplateResource (valWaldurMachineTemplateResource K)) (footPtr
       asWaldurMachineTemplateResource (footWaldurMachineTemplateResource K)) (WaldurMachineTemplateResource_DeepCopy K)"
  unfolding WaldurMachineTemplateResource_DeepCopy_def by (rule copier_ptr [OF _ copier_WaldurMachineTemplateResource [OF assms]]) simp

subsection \<open>\<^verbatim>\<open>WaldurMachineTemplateSpec\<close>\<close>

definition valWaldurMachineTemplateSpec :: "k8s \<Rightarrow> cell list \<Rightarrow> WaldurMachineTemplateSpecP \<Rightarrow>
     (WaldurMachineTemplateSpec) option" where
  "valWaldurMachineTemplateSpec K h x = map_option (\<lambda>p. \<lparr>mts_Template = p\<rparr>)
     (valWaldurMachineTemplateResource K h (mtsp_Template x))"

definition footWaldurMachineTemplateSpec :: "k8s \<Rightarrow> cell list \<Rightarrow> WaldurMachineTemplateSpecP \<Rightarrow>
     addr set" where
  "footWaldurMachineTemplateSpec K h x = footWaldurMachineTemplateResource K h (mtsp_Template x)"

definition WaldurMachineTemplateSpec_DeepCopyInto :: "k8s \<Rightarrow> WaldurMachineTemplateSpecP \<Rightarrow> (cell list,
     WaldurMachineTemplateSpecP) comp" where
  "WaldurMachineTemplateSpec_DeepCopyInto K x =
     bind (WaldurMachineTemplateResource_DeepCopyInto K (mtsp_Template x)) (\<lambda>p.
     ret (x\<lparr>mtsp_Template := p\<rparr>))"

definition WaldurMachineTemplateSpec_DeepCopy :: "k8s \<Rightarrow> addr option \<Rightarrow> (cell list, addr option) comp" where
  "WaldurMachineTemplateSpec_DeepCopy K = copyPtr CWaldurMachineTemplateSpec asWaldurMachineTemplateSpec
       (WaldurMachineTemplateSpec_DeepCopyInto K)"

lemma copier_WaldurMachineTemplateSpec:
  assumes "k8s_copies K"
  shows "copier (valWaldurMachineTemplateSpec K) (footWaldurMachineTemplateSpec K) (WaldurMachineTemplateSpec_DeepCopyInto K)"
  by (rule copier_structI [OF copier_WaldurMachineTemplateResource [OF assms] valWaldurMachineTemplateSpec_def
       footWaldurMachineTemplateSpec_def,
        where put = "\<lambda>x p. x\<lparr>mtsp_Template := p\<rparr>"])
    (simp_all add: WaldurMachineTemplateSpec_DeepCopyInto_def copyPair_def bind_bind split: prod.split)

lemma copier_WaldurMachineTemplateSpec_ptr:
  assumes "k8s_copies K"
  shows "copier (valPtr asWaldurMachineTemplateSpec (valWaldurMachineTemplateSpec K)) (footPtr asWaldurMachineTemplateSpec
       (footWaldurMachineTemplateSpec K)) (WaldurMachineTemplateSpec_DeepCopy K)"
  unfolding WaldurMachineTemplateSpec_DeepCopy_def by (rule copier_ptr [OF _ copier_WaldurMachineTemplateSpec [OF assms]]) simp

subsection \<open>\<^verbatim>\<open>WaldurMachineTemplate\<close>\<close>

definition valWaldurMachineTemplate :: "k8s \<Rightarrow> cell list \<Rightarrow> WaldurMachineTemplateP \<Rightarrow> (TypeMeta
     \<times> WaldurMachineTemplate) option" where
  "valWaldurMachineTemplate K h x = map_option (\<lambda>(p, q). (mtp_TypeMeta x, \<lparr>mt_Meta = p, mt_Spec = q\<rparr>))
     (valPair (om_val K) (valWaldurMachineTemplateSpec K) h (mtp_ObjectMeta x, mtp_Spec x))"

definition footWaldurMachineTemplate :: "k8s \<Rightarrow> cell list \<Rightarrow> WaldurMachineTemplateP \<Rightarrow> addr set" where
  "footWaldurMachineTemplate K h x = footPair (om_foot K) (footWaldurMachineTemplateSpec K) h (mtp_ObjectMeta x, mtp_Spec x)"

definition WaldurMachineTemplate_DeepCopyInto :: "k8s \<Rightarrow> WaldurMachineTemplateP \<Rightarrow> (cell list,
     WaldurMachineTemplateP) comp" where
  "WaldurMachineTemplate_DeepCopyInto K x =
     bind (om_DeepCopyInto K (mtp_ObjectMeta x)) (\<lambda>p.
     bind (WaldurMachineTemplateSpec_DeepCopyInto K (mtp_Spec x)) (\<lambda>q.
     ret (x\<lparr>mtp_ObjectMeta := p, mtp_Spec := q\<rparr>)))"

definition WaldurMachineTemplate_DeepCopy :: "k8s \<Rightarrow> addr option \<Rightarrow> (cell list, addr option) comp" where
  "WaldurMachineTemplate_DeepCopy K = copyPtr CWaldurMachineTemplate asWaldurMachineTemplate (WaldurMachineTemplate_DeepCopyInto K)"

lemma copier_WaldurMachineTemplate:
  assumes "k8s_copies K"
  shows "copier (valWaldurMachineTemplate K) (footWaldurMachineTemplate K) (WaldurMachineTemplate_DeepCopyInto K)"
  by (rule copier_structI [OF copier_pair [OF copier_meta [OF assms] copier_WaldurMachineTemplateSpec [OF assms]]
       valWaldurMachineTemplate_def footWaldurMachineTemplate_def,
        where put = "\<lambda>x (p, q). x\<lparr>mtp_ObjectMeta := p, mtp_Spec := q\<rparr>"])
    (simp_all add: WaldurMachineTemplate_DeepCopyInto_def copyPair_def bind_bind split: prod.split)

lemma copier_WaldurMachineTemplate_ptr:
  assumes "k8s_copies K"
  shows "copier (valPtr asWaldurMachineTemplate (valWaldurMachineTemplate K)) (footPtr asWaldurMachineTemplate
       (footWaldurMachineTemplate K)) (WaldurMachineTemplate_DeepCopy K)"
  unfolding WaldurMachineTemplate_DeepCopy_def by (rule copier_ptr [OF _ copier_WaldurMachineTemplate [OF assms]]) simp

subsection \<open>\<^verbatim>\<open>WaldurMachineTemplateList\<close>\<close>

definition valWaldurMachineTemplateList :: "k8s \<Rightarrow> cell list \<Rightarrow> WaldurMachineTemplateListP \<Rightarrow>
     (TypeMeta \<times> ListMeta \<times> (TypeMeta \<times> WaldurMachineTemplate) list) option" where
  "valWaldurMachineTemplateList K h x = map_option (\<lambda>(p, q). (mtlp_TypeMeta x, p, q))
     (valPair (lm_val K) (valSlice asTemplates (valWaldurMachineTemplate K)) h (mtlp_ListMeta x, mtlp_Items x))"

definition footWaldurMachineTemplateList :: "k8s \<Rightarrow> cell list \<Rightarrow> WaldurMachineTemplateListP \<Rightarrow>
     addr set" where
  "footWaldurMachineTemplateList K h x = footPair (lm_foot K) (footSlice asTemplates (footWaldurMachineTemplate K)) h
       (mtlp_ListMeta x, mtlp_Items x)"

definition WaldurMachineTemplateList_DeepCopyInto :: "k8s \<Rightarrow> WaldurMachineTemplateListP \<Rightarrow> (cell list,
     WaldurMachineTemplateListP) comp" where
  "WaldurMachineTemplateList_DeepCopyInto K x =
     bind (lm_DeepCopyInto K (mtlp_ListMeta x)) (\<lambda>p.
     bind (copySlice CTemplates asTemplates (WaldurMachineTemplate_DeepCopyInto K) (mtlp_Items x)) (\<lambda>q.
     ret (x\<lparr>mtlp_ListMeta := p, mtlp_Items := q\<rparr>)))"

definition WaldurMachineTemplateList_DeepCopy :: "k8s \<Rightarrow> addr option \<Rightarrow> (cell list, addr option) comp" where
  "WaldurMachineTemplateList_DeepCopy K = copyPtr CWaldurMachineTemplateList asWaldurMachineTemplateList
       (WaldurMachineTemplateList_DeepCopyInto K)"

lemma copier_WaldurMachineTemplateList:
  assumes "k8s_copies K"
  shows "copier (valWaldurMachineTemplateList K) (footWaldurMachineTemplateList K) (WaldurMachineTemplateList_DeepCopyInto K)"
  by (rule copier_structI [OF copier_pair [OF copier_listMeta [OF assms] copier_slice [OF as_cell(31) copier_WaldurMachineTemplate
       [OF assms]]] valWaldurMachineTemplateList_def footWaldurMachineTemplateList_def,
        where put = "\<lambda>x (p, q). x\<lparr>mtlp_ListMeta := p, mtlp_Items := q\<rparr>"])
    (simp_all add: WaldurMachineTemplateList_DeepCopyInto_def copyPair_def bind_bind split: prod.split)

lemma copier_WaldurMachineTemplateList_ptr:
  assumes "k8s_copies K"
  shows "copier (valPtr asWaldurMachineTemplateList (valWaldurMachineTemplateList K)) (footPtr asWaldurMachineTemplateList
       (footWaldurMachineTemplateList K)) (WaldurMachineTemplateList_DeepCopy K)"
  unfolding WaldurMachineTemplateList_DeepCopy_def by (rule copier_ptr [OF _ copier_WaldurMachineTemplateList [OF assms]]) simp

section \<open>Copies as Kubernetes objects\<close>

text \<open>
  \<^verbatim>\<open>DeepCopyObject\<close> returns an interface value: nil (\<open>None\<close>), or a pointer with its type. An interface value
  that holds a typed nil pointer, as in \<open>Some (ObjWaldurCluster None)\<close>, does not compare equal to nil.
\<close>

datatype runtime_object =
    ObjWaldurCluster "addr option"
  | ObjWaldurClusterList "addr option"
  | ObjWaldurMachine "addr option"
  | ObjWaldurMachineList "addr option"
  | ObjWaldurMachineTemplate "addr option"
  | ObjWaldurMachineTemplateList "addr option"

definition asObject :: "(addr option \<Rightarrow> runtime_object) \<Rightarrow> (cell list, addr option) comp \<Rightarrow> (cell list, runtime_object option) comp" where
  "asObject tag deepCopy = bind deepCopy (\<lambda>c. ret (if c \<noteq> None then Some (tag c) else None))"

definition WaldurCluster_DeepCopyObject :: "k8s \<Rightarrow> addr option \<Rightarrow> (cell list, runtime_object option) comp" where
  "WaldurCluster_DeepCopyObject K p = asObject ObjWaldurCluster (WaldurCluster_DeepCopy K p)"

definition WaldurClusterList_DeepCopyObject :: "k8s \<Rightarrow> addr option \<Rightarrow> (cell list, runtime_object option) comp" where
  "WaldurClusterList_DeepCopyObject K p = asObject ObjWaldurClusterList (WaldurClusterList_DeepCopy K p)"

definition WaldurMachine_DeepCopyObject :: "k8s \<Rightarrow> addr option \<Rightarrow> (cell list, runtime_object option) comp" where
  "WaldurMachine_DeepCopyObject K p = asObject ObjWaldurMachine (WaldurMachine_DeepCopy K p)"

definition WaldurMachineList_DeepCopyObject :: "k8s \<Rightarrow> addr option \<Rightarrow> (cell list, runtime_object option) comp" where
  "WaldurMachineList_DeepCopyObject K p = asObject ObjWaldurMachineList (WaldurMachineList_DeepCopy K p)"

definition WaldurMachineTemplate_DeepCopyObject :: "k8s \<Rightarrow> addr option \<Rightarrow> (cell list, runtime_object option) comp" where
  "WaldurMachineTemplate_DeepCopyObject K p = asObject ObjWaldurMachineTemplate (WaldurMachineTemplate_DeepCopy K p)"

definition WaldurMachineTemplateList_DeepCopyObject :: "k8s \<Rightarrow> addr option \<Rightarrow> (cell list, runtime_object option) comp" where
  "WaldurMachineTemplateList_DeepCopyObject K p = asObject ObjWaldurMachineTemplateList (WaldurMachineTemplateList_DeepCopy K p)"

section \<open>The copies a reconciler makes\<close>

text \<open>
  \<^verbatim>\<open>tenants := make(map[string]OpenStackTenant, ...); for k, v := range ... { tenants[k] = *v.DeepCopy() }\<close>;
  the result is never nil.
\<close>

definition copyTenants :: "addr option \<Rightarrow> (cell list, addr) comp" where
  "copyTenants p =
     bind (case p of None \<Rightarrow> ret [] | Some a \<Rightarrow> load asTenants a) (\<lambda>entries.
     bind (copyList copyTenantEntry entries) (\<lambda>entries'.
     new (CTenants entries')))"

text \<open>The start of both halves of the cluster's \<^verbatim>\<open>Reconcile\<close>: the base of the patch and the working copy.\<close>

definition baseAndTenants :: "k8s \<Rightarrow> addr \<Rightarrow> (cell list, addr option \<times> addr) comp" where
  "baseAndTenants K waldurCluster =
     bind (WaldurCluster_DeepCopy K (Some waldurCluster)) (\<lambda>base.
     bind (load asWaldurCluster waldurCluster) (\<lambda>x.
     bind (copyTenants (cstp_Tenants (wcp_Status x))) (\<lambda>tenants.
     ret (base, tenants))))"

section \<open>Properties\<close>

text \<open>What a deep copy of a pointer gives: same value, nothing shared, independent from then on.\<close>

definition deep_copies :: "(cell list \<Rightarrow> addr option \<Rightarrow> 'v option) \<Rightarrow> (cell list \<Rightarrow> addr option \<Rightarrow> addr set) \<Rightarrow>
    (addr option \<Rightarrow> (cell list, addr option) comp) \<Rightarrow> bool" where
  "deep_copies V F copy \<longleftrightarrow> (\<forall>h p v. V h p = Some v \<longrightarrow> (\<exists>q g. copy p h = (Ret q, g) \<and> V g q = Some v \<and> F g p \<inter> F g q = {} \<and>
     (\<forall>g'. agree (F g p) g g' \<longrightarrow> V g' p = Some v) \<and> (\<forall>g'. agree (F g q) g g' \<longrightarrow> V g' q = Some v)))"

lemma deep_copies_copier:
  assumes "copier V F c"
  shows "deep_copies V F c"
  unfolding deep_copies_def
proof (intro allI impI)
  fix h p v
  assume "V h p = Some v"
  with assms obtain q g where "c p h = (Ret q, g)" "V g p = Some v" "V g q = Some v" "F g p \<inter> F g q = {}"
    by (rule copier.detached) blast
  then show "\<exists>q g. c p h = (Ret q, g) \<and> V g q = Some v \<and> F g p \<inter> F g q = {} \<and>
      (\<forall>g'. agree (F g p) g g' \<longrightarrow> V g' p = Some v) \<and> (\<forall>g'. agree (F g q) g g' \<longrightarrow> V g' q = Some v)"
    using represents.footprint [OF copier_represents [OF assms]] by (intro exI [of _ q] exI [of _ g]) blast
qed

text \<open>The interface value of a copy: nil for nil, and otherwise a pointer that is not nil.\<close>

definition proper_object :: "(addr option \<Rightarrow> runtime_object) \<Rightarrow> (addr option \<Rightarrow> (cell list, runtime_object option) comp) \<Rightarrow> bool" where
  "proper_object tag f \<longleftrightarrow> (\<forall>p h ob g. f p h = (Ret ob, g) \<longrightarrow>
     (case p of None \<Rightarrow> ob = None | Some _ \<Rightarrow> \<exists>a. ob = Some (tag (Some a))))"

lemma proper_object_copyPtr: "proper_object tag (\<lambda>p. asObject tag (copyPtr mkc prj c p))"
  by (auto simp: proper_object_def asObject_def copyPtr_def new_def go_inv split: option.splits)

lemma proper_objects:
  "proper_object ObjWaldurCluster (WaldurCluster_DeepCopyObject K)"
  "proper_object ObjWaldurClusterList (WaldurClusterList_DeepCopyObject K)"
  "proper_object ObjWaldurMachine (WaldurMachine_DeepCopyObject K)"
  "proper_object ObjWaldurMachineList (WaldurMachineList_DeepCopyObject K)"
  "proper_object ObjWaldurMachineTemplate (WaldurMachineTemplate_DeepCopyObject K)"
  "proper_object ObjWaldurMachineTemplateList (WaldurMachineTemplateList_DeepCopyObject K)"
  unfolding WaldurCluster_DeepCopyObject_def WaldurCluster_DeepCopy_def
    WaldurClusterList_DeepCopyObject_def WaldurClusterList_DeepCopy_def
    WaldurMachine_DeepCopyObject_def WaldurMachine_DeepCopy_def
    WaldurMachineList_DeepCopyObject_def WaldurMachineList_DeepCopy_def
    WaldurMachineTemplate_DeepCopyObject_def WaldurMachineTemplate_DeepCopy_def
    WaldurMachineTemplateList_DeepCopyObject_def WaldurMachineTemplateList_DeepCopy_def
  by (rule proper_object_copyPtr)+

text \<open>C15: a deep copy stands for the same object and shares no memory with it. For every cluster, machine and machine
  template (and for the lists of them) in memory, \<^verbatim>\<open>DeepCopy\<close> returns a pointer that stands for the
  same value and whose footprint is disjoint from that of the original: whatever is written later
  outside the footprint of one of them, through the other in particular, leaves its value as it is.
  \<^verbatim>\<open>DeepCopyObject\<close> of nil is nil, and of anything else a pointer that is not nil, never a typed nil.\<close>

theorem deep_copies_share_nothing:
  assumes "k8s_copies K"
  shows "deep_copies (valPtr asWaldurCluster (valWaldurCluster K)) (footPtr asWaldurCluster (footWaldurCluster K)) (WaldurCluster_DeepCopy K) \<and>
    deep_copies (valPtr asWaldurClusterList (valWaldurClusterList K)) (footPtr asWaldurClusterList (footWaldurClusterList K)) (WaldurClusterList_DeepCopy K) \<and>
    deep_copies (valPtr asWaldurMachine (valWaldurMachine K)) (footPtr asWaldurMachine (footWaldurMachine K)) (WaldurMachine_DeepCopy K) \<and>
    deep_copies (valPtr asWaldurMachineList (valWaldurMachineList K)) (footPtr asWaldurMachineList (footWaldurMachineList K)) (WaldurMachineList_DeepCopy K) \<and>
    deep_copies (valPtr asWaldurMachineTemplate (valWaldurMachineTemplate K)) (footPtr asWaldurMachineTemplate (footWaldurMachineTemplate K)) (WaldurMachineTemplate_DeepCopy K) \<and>
    deep_copies (valPtr asWaldurMachineTemplateList (valWaldurMachineTemplateList K)) (footPtr asWaldurMachineTemplateList (footWaldurMachineTemplateList K)) (WaldurMachineTemplateList_DeepCopy K) \<and>
    proper_object ObjWaldurCluster (WaldurCluster_DeepCopyObject K) \<and>
    proper_object ObjWaldurClusterList (WaldurClusterList_DeepCopyObject K) \<and>
    proper_object ObjWaldurMachine (WaldurMachine_DeepCopyObject K) \<and>
    proper_object ObjWaldurMachineList (WaldurMachineList_DeepCopyObject K) \<and>
    proper_object ObjWaldurMachineTemplate (WaldurMachineTemplate_DeepCopyObject K) \<and>
    proper_object ObjWaldurMachineTemplateList (WaldurMachineTemplateList_DeepCopyObject K)"
  by (intro conjI proper_objects deep_copies_copier copier_WaldurCluster_ptr
      copier_WaldurClusterList_ptr
      copier_WaldurMachine_ptr
      copier_WaldurMachineList_ptr
      copier_WaldurMachineTemplate_ptr
      copier_WaldurMachineTemplateList_ptr assms)

text \<open>A concrete instance: the handle of the metadata is the address of one cell with all of it.\<close>

definition k8s_sample :: k8s where
  "k8s_sample = \<lparr>om_val = (\<lambda>h a. Option.bind (valPtr asMeta valPlain h (Some a)) (\<lambda>v. v)),
     om_foot = (\<lambda>h a. footPtr asMeta footPlain h (Some a)),
     om_DeepCopyInto = (\<lambda>a. bind (load asMeta a) (\<lambda>m. new (CMeta m))),
     lm_val = (\<lambda>h a. Option.bind (valPtr asListMeta valPlain h (Some a)) (\<lambda>v. v)),
     lm_foot = (\<lambda>h a. footPtr asListMeta footPlain h (Some a)),
     lm_DeepCopyInto = (\<lambda>a. bind (load asListMeta a) (\<lambda>m. new (CListMeta m))),
     cond_DeepCopyInto = ret\<rparr>"

lemma copier_handle:
  assumes "\<And>x. prj (mkc x) = Some x"
  shows "copier (\<lambda>h a. Option.bind (valPtr prj valPlain h (Some a)) (\<lambda>v. v)) (\<lambda>h a. footPtr prj footPlain h (Some a))
     (\<lambda>a. bind (load prj a) (\<lambda>m. new (mkc m)))"
  by unfold_locales
    (auto simp: valPtr_def footPtr_def rd_def load_def new_def bind_def agree_def nth_append assms bind_eq_Some_conv
      split: if_splits option.splits)

lemma k8s_sample_copies: "k8s_copies k8s_sample"
  by (simp add: k8s_copies_def k8s_sample_def copier_handle plain.copier_axioms)

definition meta_of :: "string \<Rightarrow> ObjectMeta" where
  "meta_of n = \<lparr>om_Name = n, om_Namespace = ''ns'', om_Labels = [], om_Finalizers = [], om_OwnerReferences = [], om_DeletionTimestamp = None\<rparr>"

text \<open>A cluster with one tenant and its order, at address 4; no datacenters, conditions or initialization.\<close>

definition heap_sample :: "cell list" where
  "heap_sample = [CMeta (meta_of ''c''), CString ''slug'',
     CWaldurOrder \<lparr>wop_Uuid = ''0'', wop_Type = Create, wop_State = OrderStatePendingProvider, wop_MarketplaceResourceUuid = ''1'',
       wop_ResourceUuid = None\<rparr>,
     CTenants [(''o'', \<lparr>tp_State = CoreStatesOK, tp_Uuid = None, tp_Name = ''t'', tp_MarketplaceResourceUuid = ''1'',
       tp_MarketplaceResourceState = ResourceStateOK, tp_ProjectSlug = Some 1, tp_Order = Some 2\<rparr>)],
     CWaldurCluster \<lparr>wcp_TypeMeta = \<lparr>tm_Kind = ''WaldurCluster'', tm_APIVersion = ''v1beta2''\<rparr>, wcp_ObjectMeta = 0,
       wcp_Spec = \<lparr>csp_KubernetesVersion = [], csp_Topology = SingleDatacenter, csp_Datacenters = None, csp_SecurityRules = None,
         csp_ControlPlaneEndpoint = \<lparr>ep_Host = [], ep_Port = 0\<rparr>\<rparr>,
       wcp_Status = \<lparr>cstp_Conditions = None, cstp_Initialization = None, cstp_Tenants = Some 3\<rparr>\<rparr>]"

lemmas val_defs = valWaldurCluster_def valWaldurClusterSpec_def valWaldurClusterStatus_def valOpenStackTenant_def valWaldurOrder_def
  valPtr_def valPair_def rd_def elements_def

lemma heap_sample_cluster:
  "\<exists>tm c. valPtr asWaldurCluster (valWaldurCluster k8s_sample) heap_sample (Some 4) = Some (Some (tm, c)) \<and>
     wc_Meta c = meta_of ''c'' \<and> map fst (cst_Tenants (wc_Status c)) = [''o'']"
  by (simp add: heap_sample_def k8s_sample_def val_defs)

theorem deep_copies_share_nothing_witness:
  "\<exists>tm c q g. valPtr asWaldurCluster (valWaldurCluster k8s_sample) heap_sample (Some 4) = Some (Some (tm, c)) \<and>
     WaldurCluster_DeepCopy k8s_sample (Some 4) heap_sample = (Ret q, g) \<and>
     valPtr asWaldurCluster (valWaldurCluster k8s_sample) g q = Some (Some (tm, c))"
proof -
  obtain tm c where c: "valPtr asWaldurCluster (valWaldurCluster k8s_sample) heap_sample (Some 4) = Some (Some (tm, c))"
    using heap_sample_cluster by blast
  from deep_copies_share_nothing [OF k8s_sample_copies] have
    "deep_copies (valPtr asWaldurCluster (valWaldurCluster k8s_sample)) (footPtr asWaldurCluster (footWaldurCluster k8s_sample))
       (WaldurCluster_DeepCopy k8s_sample)" by (elim conjE)
  with c obtain q g where "WaldurCluster_DeepCopy k8s_sample (Some 4) heap_sample = (Ret q, g)"
    "valPtr asWaldurCluster (valWaldurCluster k8s_sample) g q = Some (Some (tm, c))" unfolding deep_copies_def by blast
  with c show ?thesis by blast
qed

lemma valWaldurCluster_tenants:
  "valWaldurCluster K h x = Some (tm, c) \<Longrightarrow>
     valSlice asTenants valTenantEntry h (cstp_Tenants (wcp_Status x)) = Some (cst_Tenants (wc_Status c))"
  by (auto simp: valWaldurCluster_def valWaldurClusterStatus_def valPair_eq)

lemma copyTenants_fresh:
  assumes "valSlice asTenants valTenantEntry h p = Some ts"
  obtains t ext where "copyTenants p h = (Ret t, h @ ext)" and "valSlice asTenants valTenantEntry (h @ ext) (Some t) = Some ts"
    and "footSlice asTenants footTenantEntry (h @ ext) (Some t) \<subseteq> {length h..<length (h @ ext)}"
proof -
  have "\<exists>es. (case p of None \<Rightarrow> ret [] | Some a \<Rightarrow> load asTenants a) h = (Ret es, h) \<and> valList valTenantEntry h es = Some ts"
    using assms by (auto simp: valPtr_eq elements_def load_def ret_def)
  then obtain es where es: "(case p of None \<Rightarrow> ret [] | Some a \<Rightarrow> load asTenants a) h = (Ret es, h)" "valList valTenantEntry h es = Some ts"
    by blast
  from tenant_entries.copies [OF es(2)] obtain fs e where fs: "copyList copyTenantEntry es h = (Ret fs, h @ e)"
    "valList valTenantEntry (h @ e) fs = Some ts" "footList footTenantEntry (h @ e) fs \<subseteq> {length h..<length (h @ e)}" by blast
  let ?g = "h @ e @ [CTenants fs]"
  have grown: "valList valTenantEntry ?g fs = Some ts" "footList footTenantEntry ?g fs = footList footTenantEntry (h @ e) fs"
    using tenant_entries.grow [OF fs(2), of "[CTenants fs]"] by auto
  have cell: "rd asTenants ?g (length (h @ e)) = Some fs" using rd_new [of asTenants "CTenants fs" fs "h @ e"] by simp
  have "copyTenants p h = (Ret (length (h @ e)), ?g)"
    unfolding copyTenants_def bind_def es(1) by (simp add: fs(1) new_def)
  moreover have "valSlice asTenants valTenantEntry ?g (Some (length (h @ e))) = Some ts"
    using cell grown(1) by (simp add: valPtr_def elements_def)
  moreover have "footSlice asTenants footTenantEntry ?g (Some (length (h @ e))) \<subseteq> {length h..<length ?g}"
    using cell grown(2) fs(3) by (fastforce simp: footPtr_def)
  ultimately show ?thesis using that by blast
qed

text \<open>C16: a reconciler works on private copies. After the cluster reconciler has taken the base of its patch and the copy
  of the tenants, the copy has the tenants of the cluster it read, and whatever is then written at
  addresses of the copy (an order that is refreshed in place, a tenant that is replaced) or newly
  allocated, the base and the object that was read keep their value; so the patch against the base
  carries every change.\<close>

theorem working_copies_are_private:
  assumes K: "k8s_copies K" and val: "valPtr asWaldurCluster (valWaldurCluster K) h (Some a) = Some (Some (tm, c))"
  shows "\<exists>base tenants g. baseAndTenants K a h = (Ret (base, tenants), g) \<and>
    valSlice asTenants valTenantEntry g (Some tenants) = Some (cst_Tenants (wc_Status c)) \<and>
    (\<forall>g'. length g \<le> length g' \<and>
        (\<forall>b<length g. b \<notin> footSlice asTenants footTenantEntry g (Some tenants) \<longrightarrow> g' ! b = g ! b) \<longrightarrow>
       valPtr asWaldurCluster (valWaldurCluster K) g' base = Some (Some (tm, c)) \<and>
       valPtr asWaldurCluster (valWaldurCluster K) g' (Some a) = Some (Some (tm, c)))"
proof -
  let ?V = "valPtr asWaldurCluster (valWaldurCluster K)" and ?F = "footPtr asWaldurCluster (footWaldurCluster K)"
  note copier = copier_WaldurCluster_ptr [OF K]
  note repr = copier_represents [OF copier]
  obtain base g1 where base: "WaldurCluster_DeepCopy K (Some a) h = (Ret base, g1)"
    "?V g1 (Some a) = Some (Some (tm, c))" "?V g1 base = Some (Some (tm, c))"
    by (rule copier.detached [OF copier val]) (rule that)
  from base(2) obtain x where x: "rd asWaldurCluster g1 a = Some x" "valWaldurCluster K g1 x = Some (tm, c)" by (auto simp: valPtr_eq)
  from copyTenants_fresh [OF valWaldurCluster_tenants [OF x(2)]] obtain t ext where t: "copyTenants (cstp_Tenants (wcp_Status x)) g1 = (Ret t, g1 @ ext)"
    "valSlice asTenants valTenantEntry (g1 @ ext) (Some t) = Some (cst_Tenants (wc_Status c))"
    "footSlice asTenants footTenantEntry (g1 @ ext) (Some t) \<subseteq> {length g1..<length (g1 @ ext)}" .
  have run: "baseAndTenants K a h = (Ret (base, t), g1 @ ext)"
    using base(1) x(1) t(1) by (simp add: baseAndTenants_def bind_def load_def ret_def)
  have kept: "?V g' r = Some (Some (tm, c))" if "?V g1 r = Some (Some (tm, c))" "length (g1 @ ext) \<le> length g'"
    "\<forall>b<length (g1 @ ext). b \<notin> footSlice asTenants footTenantEntry (g1 @ ext) (Some t) \<longrightarrow> g' ! b = (g1 @ ext) ! b" for g' r
  proof -
    have same: "g' ! b = g1 ! b" if "b < length g1" for b
    proof -
      from that t(3) have "b \<notin> footSlice asTenants footTenantEntry (g1 @ ext) (Some t)" by auto
      with that \<open>\<forall>b<_. _\<close> have "g' ! b = (g1 @ ext) ! b" by simp
      with that show ?thesis by (simp add: nth_append)
    qed
    have "?F g1 r \<subseteq> {..<length g1}" by (rule represents.bounded [OF repr that(1)])
    moreover have "length g1 \<le> length g'" using that(2) by simp
    ultimately have "agree (?F g1 r) g1 g'" unfolding agree_def using same by fastforce
    with represents.footprint [OF repr that(1)] show ?thesis by blast
  qed
  from run t(2) kept [OF base(3)] kept [OF base(2)] show ?thesis
    by (intro exI [of _ base] exI [of _ t] exI [of _ "g1 @ ext"]) simp
qed

theorem working_copies_are_private_witness:
  "\<exists>base tenants g. baseAndTenants k8s_sample 4 heap_sample = (Ret (base, tenants), g) \<and>
     (\<exists>ts. valSlice asTenants valTenantEntry g (Some tenants) = Some ts \<and> map fst ts = [''o''])"
proof -
  obtain tm and c :: WaldurCluster where c: "valPtr asWaldurCluster (valWaldurCluster k8s_sample) heap_sample (Some 4) = Some (Some (tm, c))"
    "map fst (cst_Tenants (wc_Status c)) = [''o'']" using heap_sample_cluster by (elim exE conjE) (rule that)
  obtain base tenants g where "baseAndTenants k8s_sample 4 heap_sample = (Ret (base, tenants), g)"
    "valSlice asTenants valTenantEntry g (Some tenants) = Some (cst_Tenants (wc_Status c))"
    using working_copies_are_private [OF k8s_sample_copies c(1)] by (elim exE conjE) (rule that)
  with c(2) show ?thesis
    by (intro exI [of _ base] exI [of _ tenants] exI [of _ g] exI [of _ "cst_Tenants (wc_Status c)"] conjI)
qed

end
