(* ===== verification/Manager_Main.thy ===== *)
theory Manager_Main
  imports Machine_Controller
begin

text \<open>
  The start of the controller manager, \<^verbatim>\<open>cmd/main.go\<close>: the options of the webhook and metrics
  servers, the environment variables, the Waldur client, the base template, the Vault client and
  the reconcilers. \<open>setupManager\<close> is \<^verbatim>\<open>main\<close> up to \<^verbatim>\<open>mgr.Start\<close>; a left summand is a branch that ends in
  \<^verbatim>\<open>os.Exit(1)\<close>, with the error that is logged. What the libraries decide (whether a manager can be
  created, whether a token and a URL are accepted, whether a controller can be registered) is the
  parameter \<open>runtime\<close>; \<open>getenv\<close> is \<^verbatim>\<open>os.Getenv\<close>, the empty string for an unset variable.
\<close>

section \<open>Flags and server options\<close>

record flags =
  flag_metricsAddr :: string
  flag_probeAddr :: string
  flag_enableLeaderElection :: bool
  flag_secureMetrics :: bool
  flag_webhookCertPath :: string
  flag_webhookCertName :: string
  flag_webhookCertKey :: string
  flag_metricsCertPath :: string
  flag_metricsCertName :: string
  flag_metricsCertKey :: string
  flag_enableHTTP2 :: bool

definition defaultFlags :: flags where
  "defaultFlags = \<lparr>flag_metricsAddr = ''0'', flag_probeAddr = '':8081'', flag_enableLeaderElection = False, flag_secureMetrics = True,
     flag_webhookCertPath = [], flag_webhookCertName = ''tls.crt'', flag_webhookCertKey = ''tls.key'',
     flag_metricsCertPath = [], flag_metricsCertName = ''tls.crt'', flag_metricsCertKey = ''tls.key'', flag_enableHTTP2 = False\<rparr>"

text \<open>The part of \<^verbatim>\<open>tls.Config\<close> the sources change.\<close>

record tls_config =
  NextProtos :: "string list"

definition disableHTTP2 :: "tls_config \<Rightarrow> tls_config" where
  "disableHTTP2 c = c\<lparr>NextProtos := [''http/1.1'']\<rparr>"

definition tlsOpts :: "flags \<Rightarrow> (tls_config \<Rightarrow> tls_config) list" where
  "tlsOpts f = (if \<not> flag_enableHTTP2 f then [disableHTTP2] else [])"

text \<open>The fields of \<^verbatim>\<open>webhook.Options\<close> and \<^verbatim>\<open>metricsserver.Options\<close> that are set; \<open>sv_Filter\<close> is whether
  the filter \<^verbatim>\<open>WithAuthenticationAndAuthorization\<close> is installed.\<close>

record server_options =
  sv_BindAddress :: string
  sv_SecureServing :: bool
  sv_TLSOpts :: "(tls_config \<Rightarrow> tls_config) list"
  sv_CertDir :: string
  sv_CertName :: string
  sv_KeyName :: string
  sv_Filter :: bool

definition withCerts :: "string \<Rightarrow> string \<Rightarrow> string \<Rightarrow> server_options \<Rightarrow> server_options" where
  "withCerts path name key opts =
     (if path \<noteq> [] then opts\<lparr>sv_CertDir := path, sv_CertName := name, sv_KeyName := key\<rparr> else opts)"

definition webhookServerOptions :: "flags \<Rightarrow> server_options" where
  "webhookServerOptions f = withCerts (flag_webhookCertPath f) (flag_webhookCertName f) (flag_webhookCertKey f)
     \<lparr>sv_BindAddress = [], sv_SecureServing = False, sv_TLSOpts = tlsOpts f,
      sv_CertDir = [], sv_CertName = [], sv_KeyName = [], sv_Filter = False\<rparr>"

definition metricsServerOptions :: "flags \<Rightarrow> server_options" where
  "metricsServerOptions f =
     (let opts = \<lparr>sv_BindAddress = flag_metricsAddr f, sv_SecureServing = flag_secureMetrics f, sv_TLSOpts = tlsOpts f,
            sv_CertDir = [], sv_CertName = [], sv_KeyName = [], sv_Filter = False\<rparr>;
          opts = (if flag_secureMetrics f then opts\<lparr>sv_Filter := True\<rparr> else opts)
      in withCerts (flag_metricsCertPath f) (flag_metricsCertName f) (flag_metricsCertKey f) opts)"

record manager_options =
  mo_Metrics :: server_options
  mo_WebhookServer :: server_options
  mo_HealthProbeBindAddress :: string
  mo_LeaderElection :: bool
  mo_LeaderElectionID :: string

definition managerOptions :: "flags \<Rightarrow> manager_options" where
  "managerOptions f = \<lparr>mo_Metrics = metricsServerOptions f, mo_WebhookServer = webhookServerOptions f,
     mo_HealthProbeBindAddress = flag_probeAddr f, mo_LeaderElection = flag_enableLeaderElection f,
     mo_LeaderElectionID = ''c2cd5ec4.cluster.waldur.com''\<rparr>"

section \<open>The libraries\<close>

text \<open>The address and the token a Waldur client was made with.\<close>

record waldur_handle =
  wh_Url :: string
  wh_Token :: string

record runtime =
  NewManager :: "manager_options \<Rightarrow> error option"
  NewTokenAuth :: "string \<Rightarrow> error option"
  NewClientWithResponses :: "string \<Rightarrow> error option"
  SetupClusterController :: "error option"
  SetupMachineController :: "error option"
  AddHealthzCheck :: "error option"
  AddReadyzCheck :: "error option"
  StartManager :: "error option"

text \<open>A call whose only result is an error.\<close>

definition require :: "error option \<Rightarrow> (error + unit) io" where
  "require err = (case err of Some e \<Rightarrow> fail e | None \<Rightarrow> ok ())"

definition initWaldurClient :: "runtime \<Rightarrow> string \<Rightarrow> string \<Rightarrow> error + waldur_handle" where
  "initWaldurClient rt apiUrl apiToken =
     (case NewTokenAuth rt apiToken of
        Some e \<Rightarrow> Inl e
      | None \<Rightarrow> (case NewClientWithResponses rt apiUrl of
          Some e \<Rightarrow> Inl e
        | None \<Rightarrow> Inr \<lparr>wh_Url = apiUrl, wh_Token = apiToken\<rparr>))"

section \<open>The parts of main\<close>

definition requiredEnv :: "(string \<Rightarrow> string) \<Rightarrow> string \<Rightarrow> (error + string) io" where
  "requiredEnv getenv name =
     (if getenv name = [] then fail (Errorf (''missing required env '' @ name) []) else ok (getenv name))"

definition operatorNamespaceOf :: "(string \<Rightarrow> string) \<Rightarrow> string" where
  "operatorNamespaceOf getenv =
     (if getenv ''POD_NAMESPACE'' = [] then ''cluster-api-provider-waldur-system'' else getenv ''POD_NAMESPACE'')"

definition loadBaseTemplate :: "(string \<Rightarrow> string) \<Rightarrow> env \<Rightarrow> string \<Rightarrow> (error + string) io" where
  "loadBaseTemplate getenv E operatorNamespace =
     (let baseTemplateConfigMap = getenv ''BASE_TEMPLATE_CONFIGMAP'' in
      if baseTemplateConfigMap \<noteq> []
      then andThen (k_GetConfigMap E (namespacedName operatorNamespace baseTemplateConfigMap)) (\<lambda>cm.
           ok (case map_of (cm_Data cm) ''cloud-init.yaml'' of Some data \<Rightarrow> data | None \<Rightarrow> []))
      else ok [])"

text \<open>The new client object becomes the one the interface value \<open>clientOf\<close> works on.\<close>

definition installClient :: "env \<Rightarrow> vault_client \<Rightarrow> (error + vault_iface option) io" where
  "installClient E c = (\<lambda>w. (Ret (Inr (Some (clientOf E))), w\<lparr>vault := c\<rparr>))"

definition initVaultClient :: "(string \<Rightarrow> string) \<Rightarrow> env \<Rightarrow> string \<Rightarrow> (error + vault_iface option) io" where
  "initVaultClient getenv E operatorNamespace =
     (let vaultAddr = getenv ''VAULT_ADDR'' in
      if vaultAddr \<noteq> []
      then let vaultK8sRole = getenv ''VAULT_K8S_ROLE'';
               vaultAppRoleSecret = (if getenv ''VAULT_APPROLE_SECRET'' = [] then ''waldur-vault-approle''
                                     else getenv ''VAULT_APPROLE_SECRET'')
           in if vaultK8sRole \<noteq> []
              then andThen (NewClient E \<lparr>cfg_Addr = vaultAddr, cfg_AuthPath = [], cfg_Role = vaultK8sRole, cfg_TokenPath = []\<rparr>)
                     (installClient E)
              else andThen (k_GetSecret E (namespacedName operatorNamespace vaultAppRoleSecret)) (\<lambda>secret.
                   let roleID = getStr (sec_Data secret) ''role_id'';
                       secretID = getStr (sec_Data secret) ''secret_id''
                   in if roleID = [] \<or> secretID = []
                      then fail (Errorf ''Vault AppRole secret must contain non-empty role_id and secret_id'' [])
                      else andThen (NewClientWithAppRole E vaultAddr roleID secretID) (installClient E))
      else ok None)"

text \<open>A manager that is ready to start.\<close>

record manager =
  mg_Options :: manager_options
  mg_Waldur :: waldur_handle
  mg_Machine :: WaldurMachineReconciler

definition setupManager :: "runtime \<Rightarrow> (string \<Rightarrow> string) \<Rightarrow> env \<Rightarrow> flags \<Rightarrow> (error + manager) io" where
  "setupManager rt getenv E f =
     andThen (require (NewManager rt (managerOptions f))) (\<lambda>_.
     andThen (requiredEnv getenv ''WALDUR_API_URL'') (\<lambda>waldurApiUrl.
     andThen (requiredEnv getenv ''WALDUR_API_TOKEN'') (\<lambda>waldurApiToken.
     andThen (ret (initWaldurClient rt waldurApiUrl waldurApiToken)) (\<lambda>waldur.
     let operatorNamespace = operatorNamespaceOf getenv in
     andThen (loadBaseTemplate getenv E operatorNamespace) (\<lambda>baseTemplate.
     andThen (initVaultClient getenv E operatorNamespace) (\<lambda>vaultClient.
     andThen (require (SetupClusterController rt)) (\<lambda>_.
     andThen (require (SetupMachineController rt)) (\<lambda>_.
     andThen (require (AddHealthzCheck rt)) (\<lambda>_.
     andThen (require (AddReadyzCheck rt)) (\<lambda>_.
     ok \<lparr>mg_Options = managerOptions f, mg_Waldur = waldur,
         mg_Machine = \<lparr>mr_VaultClient = vaultClient, mr_BaseTemplate = baseTemplate,
           mr_OperatorNamespace = operatorNamespace\<rparr>\<rparr>))))))))))"

text \<open>The exit status of the program.\<close>

definition main :: "runtime \<Rightarrow> (string \<Rightarrow> string) \<Rightarrow> env \<Rightarrow> flags \<Rightarrow> nat io" where
  "main rt getenv E f =
     bind (setupManager rt getenv E f) (\<lambda>s. case s of
       Inl _ \<Rightarrow> ret 1
     | Inr _ \<Rightarrow> ret (case StartManager rt of Some _ \<Rightarrow> 1 | None \<Rightarrow> 0))"

section \<open>What a started manager has\<close>

lemma require_eq_Inr [go_inv]: "require err w = (Ret (Inr x), w') \<longleftrightarrow> err = None \<and> w' = w"
  by (cases err) (auto simp: require_def go_inv)

lemma requiredEnv_eq_Inr [go_inv]:
  "requiredEnv g n w = (Ret (Inr v), w') \<longleftrightarrow> g n \<noteq> [] \<and> v = g n \<and> w' = w"
  by (auto simp: requiredEnv_def go_inv)

lemma installClient_eq [go_inv]:
  "installClient E c w = (r, w') \<longleftrightarrow> r = Ret (Inr (Some (clientOf E))) \<and> w' = w\<lparr>vault := c\<rparr>"
  by (auto simp: installClient_def)

lemma initWaldurClient_Inr: "initWaldurClient rt u t = Inr h \<Longrightarrow> wh_Url h = u \<and> wh_Token h = t"
  by (auto simp: initWaldurClient_def split: option.splits)

lemma new_client_k8s:
  assumes "NewClient E \<lparr>cfg_Addr = addr, cfg_AuthPath = [], cfg_Role = role, cfg_TokenPath = []\<rparr> w = (Ret (Inr c), w')"
  shows "vc_method c = authMethodKubernetes \<and> vc_vaultToken c \<noteq> [] \<and> vc_addr c = addr \<and> vc_k8sRole c = role"
  using assms by (auto simp: NewClient_def go_inv Let_def elim!: login_cases)

lemma new_client_approle:
  assumes "NewClientWithAppRole E addr rid sid w = (Ret (Inr c), w')"
  shows "vc_method c = authMethodAppRole \<and> vc_vaultToken c \<noteq> [] \<and> vc_addr c = addr \<and> vc_appRoleID c = rid \<and> vc_appSecretID c = sid"
  using assms by (auto simp: NewClientWithAppRole_def go_inv Let_def elim!: login_cases)

text \<open>What the Vault part of \<^verbatim>\<open>main\<close> leaves behind.\<close>

definition vault_ready :: "(string \<Rightarrow> string) \<Rightarrow> env \<Rightarrow> vault_iface option \<Rightarrow> vault_client \<Rightarrow> bool" where
  "vault_ready getenv E V c \<longleftrightarrow>
     (if getenv ''VAULT_ADDR'' = [] then V = None
      else V = Some (clientOf E) \<and> vc_addr c = getenv ''VAULT_ADDR'' \<and> vc_vaultToken c \<noteq> [] \<and>
        (if getenv ''VAULT_K8S_ROLE'' \<noteq> [] then vc_method c = authMethodKubernetes \<and> vc_k8sRole c = getenv ''VAULT_K8S_ROLE''
         else vc_method c = authMethodAppRole \<and> vc_appRoleID c \<noteq> [] \<and> vc_appSecretID c \<noteq> []))"

lemma initVaultClient_ready:
  assumes "initVaultClient getenv E ns w = (Ret (Inr V), w')"
  shows "vault_ready getenv E V (vault w')"
  using assms
  by (auto simp: initVaultClient_def vault_ready_def go_inv Let_def split: if_splits
      dest: new_client_k8s new_client_approle)

lemma setupManager_steps:
  assumes "setupManager rt getenv E f w = (Ret (Inr m), w')"
  obtains u where "loadBaseTemplate getenv E (operatorNamespaceOf getenv) w = (Ret (Inr (mr_BaseTemplate (mg_Machine m))), u)"
    and "initVaultClient getenv E (operatorNamespaceOf getenv) u = (Ret (Inr (mr_VaultClient (mg_Machine m))), w')"
    and "mr_OperatorNamespace (mg_Machine m) = operatorNamespaceOf getenv" and "mg_Options m = managerOptions f"
    and "getenv ''WALDUR_API_URL'' \<noteq> []" and "getenv ''WALDUR_API_TOKEN'' \<noteq> []"
    and "mg_Waldur m = \<lparr>wh_Url = getenv ''WALDUR_API_URL'', wh_Token = getenv ''WALDUR_API_TOKEN''\<rparr>"
  using assms
  by (auto simp: setupManager_def go_inv Let_def dest!: initWaldurClient_Inr intro: waldur_handle.equality)

lemma setupManager_wired:
  assumes "setupManager rt getenv E f w = (Ret (Inr m), w')"
  shows "wired (mg_Machine m)"
  using assms
proof (rule setupManager_steps)
  fix u
  assume "initVaultClient getenv E (operatorNamespaceOf getenv) u = (Ret (Inr (mr_VaultClient (mg_Machine m))), w')"
  then have "vault_ready getenv E (mr_VaultClient (mg_Machine m)) (vault w')" by (rule initVaultClient_ready)
  then show ?thesis by (intro wired_clientOf [of _ E]) (auto simp: vault_ready_def split: if_splits)
qed

text \<open>C26: the manager starts only with a complete configuration. Without \<^verbatim>\<open>WALDUR_API_URL\<close> or \<^verbatim>\<open>WALDUR_API_TOKEN\<close>
  the program exits with status 1 before it makes any call of its own to Vault, Waldur or the file
  system (calls inside the manager library are not counted). A manager that comes up talks to that
  URL with that token, and its machine reconciler has exactly the Vault client the environment
  asks for: none without \<^verbatim>\<open>VAULT_ADDR\<close>, otherwise one for that address which is logged in, by the
  Kubernetes method with the given role if \<^verbatim>\<open>VAULT_K8S_ROLE\<close> is set and else by AppRole with
  non-empty credentials.\<close>

theorem started_manager_is_configured:
  "(getenv ''WALDUR_API_URL'' = [] \<or> getenv ''WALDUR_API_TOKEN'' = [] \<longrightarrow> main rt getenv E f w = (Ret 1, w)) \<and>
   (\<forall>m w'. setupManager rt getenv E f w = (Ret (Inr m), w') \<longrightarrow>
      mg_Waldur m = \<lparr>wh_Url = getenv ''WALDUR_API_URL'', wh_Token = getenv ''WALDUR_API_TOKEN''\<rparr> \<and>
      mr_OperatorNamespace (mg_Machine m) = operatorNamespaceOf getenv \<and>
      vault_ready getenv E (mr_VaultClient (mg_Machine m)) (vault w') \<and> wired (mg_Machine m))"
proof (intro conjI impI allI)
  assume "getenv ''WALDUR_API_URL'' = [] \<or> getenv ''WALDUR_API_TOKEN'' = []"
  then show "main rt getenv E f w = (Ret 1, w)"
    by (auto simp: main_def setupManager_def requiredEnv_def require_def andThen_def bind_def ok_def fail_def ret_def split: option.split)
next
  fix m w'
  assume run: "setupManager rt getenv E f w = (Ret (Inr m), w')"
  then show "wired (mg_Machine m)" by (rule setupManager_wired)
  from run show "mg_Waldur m = \<lparr>wh_Url = getenv ''WALDUR_API_URL'', wh_Token = getenv ''WALDUR_API_TOKEN''\<rparr>"
    and "mr_OperatorNamespace (mg_Machine m) = operatorNamespaceOf getenv"
    and "vault_ready getenv E (mr_VaultClient (mg_Machine m)) (vault w')"
    by (auto elim!: setupManager_steps dest: initVaultClient_ready)
qed

text \<open>
  A sample start: environment variables from a table, a runtime whose calls succeed, and a Vault that
  accepts a login with the service account token.
\<close>

definition env_relogin_k8s :: env where
  "env_relogin_k8s = env_relogin\<lparr>env_net := (env_net env_relogin)\<lparr>on_ReadFile := (\<lambda>_ _. Inr ''jwt'')\<rparr>\<rparr>"

definition getenv_of :: "(string, string) gomap \<Rightarrow> string \<Rightarrow> string" where
  "getenv_of vars = getStr vars"

definition runtime_sample :: runtime where
  "runtime_sample = \<lparr>NewManager = (\<lambda>_. None), NewTokenAuth = (\<lambda>_. None), NewClientWithResponses = (\<lambda>_. None),
     SetupClusterController = None, SetupMachineController = None, AddHealthzCheck = None, AddReadyzCheck = None,
     StartManager = None\<rparr>"

definition vars_sample :: "(string, string) gomap" where
  "vars_sample = [(''WALDUR_API_URL'', ''https://w''), (''WALDUR_API_TOKEN'', ''tok''), (''VAULT_ADDR'', ''v''),
     (''VAULT_K8S_ROLE'', ''role''), (''VAULT_APPROLE_SECRET'', ''s'')]"

lemma setup_run:
  "\<exists>m w'. setupManager runtime_sample (getenv_of vars_sample) env_relogin_k8s defaultFlags world_sample = (Ret (Inr m), w')"
  by (simp add: setupManager_def require_def requiredEnv_def initWaldurClient_def loadBaseTemplate_def initVaultClient_def
      installClient_def runtime_sample_def getenv_of_def getStr_def vars_sample_def andThen_def ok_def NewClient_def
      loginWithKubernetes_def n_ReadFile_def env_relogin_k8s_def relogin_defs)

theorem started_manager_is_configured_witness:
  "main runtime_sample (getenv_of []) env_relogin_k8s defaultFlags world_sample = (Ret 1, world_sample) \<and>
   (\<exists>m w'. setupManager runtime_sample (getenv_of vars_sample) env_relogin_k8s defaultFlags world_sample = (Ret (Inr m), w') \<and>
      vault_ready (getenv_of vars_sample) env_relogin_k8s (mr_VaultClient (mg_Machine m)) (vault w'))"
  using started_manager_is_configured [of "getenv_of []" runtime_sample env_relogin_k8s defaultFlags world_sample]
    started_manager_is_configured [of "getenv_of vars_sample" runtime_sample env_relogin_k8s defaultFlags world_sample] setup_run
  by (auto simp: getenv_of_def getStr_def)

text \<open>C38: with \<^verbatim>\<open>VAULT_K8S_ROLE\<close> set, \<^verbatim>\<open>VAULT_APPROLE_SECRET\<close> is ignored: the manager comes up in exactly the same way
  whatever its value is, although the documentation says that the controller exits with an error if
  both are set.\<close>

theorem approle_secret_ignored_with_k8s_role:
  assumes "getenv ''VAULT_K8S_ROLE'' \<noteq> []"
  shows "main rt (getenv(''VAULT_APPROLE_SECRET'' := x)) E f = main rt getenv E f \<and>
    setupManager rt (getenv(''VAULT_APPROLE_SECRET'' := x)) E f = setupManager rt getenv E f"
proof -
  have "initVaultClient (getenv(''VAULT_APPROLE_SECRET'' := x)) E ns = initVaultClient getenv E ns" for ns
    using assms by (simp add: initVaultClient_def Let_def)
  then have "setupManager rt (getenv(''VAULT_APPROLE_SECRET'' := x)) E f = setupManager rt getenv E f"
    by (simp add: setupManager_def requiredEnv_def loadBaseTemplate_def operatorNamespaceOf_def)
  then show ?thesis by (simp add: main_def)
qed

theorem approle_secret_ignored_with_k8s_role_witness:
  "\<exists>m w'. setupManager runtime_sample ((getenv_of vars_sample)(''VAULT_APPROLE_SECRET'' := ''other'')) env_relogin_k8s defaultFlags
     world_sample = (Ret (Inr m), w')"
  using setup_run approle_secret_ignored_with_k8s_role [of "getenv_of vars_sample" runtime_sample "''other''" env_relogin_k8s defaultFlags]
  by (simp add: getenv_of_def getStr_def vars_sample_def)

end
