(* ===== verification/Spec2Isabelle.thy ===== *)
theory Spec2Isabelle
  imports Machine_Lifecycle Deletion_Protocol Panic_Causes Cluster_Provisioning Deep_Copy Manager_Main
begin

text \<open>
  A verification development for the Cluster API infrastructure provider for Waldur: a Kubernetes
  controller manager that turns \<^verbatim>\<open>WaldurCluster\<close> objects into OpenStack tenants and \<^verbatim>\<open>WaldurMachine\<close>
  objects into virtual machines, both ordered through the Waldur marketplace, and that keeps the
  credentials of the nodes in HashiCorp Vault.

  \<^bold>\<open>The program and its parts.\<close> \<^verbatim>\<open>cmd/main.go\<close> reads the environment, builds the Waldur and the Vault
  client and registers two reconcilers. The cluster reconciler
  (\<^verbatim>\<open>internal/controller/waldurcluster_controller.go\<close>) orders one tenant for each datacenter, records it
  in the status, publishes readiness and the control plane endpoint, and on deletion terminates the
  tenants, then deletes the projects, then removes its finalizer. The machine reconciler
  (\<^verbatim>\<open>waldurmachine_controller.go\<close>) builds the user data of a node (\<^verbatim>\<open>cloudinit.go\<close>), exchanging the join
  token for a Vault secret identifier (\<^verbatim>\<open>internal/vault/client.go\<close>), orders the VM in the tenant the
  cluster recorded, follows the order, publishes the provider ID, and on deletion stops the VM,
  terminates it and removes its finalizer. Both share the lookups and the order operations of
  \<^verbatim>\<open>waldur_helpers.go\<close>. The two reconcilers communicate only through the objects in the API server:
  the machine reconciler reads the tenants from the cluster's status, the cluster reconciler reads
  the machines to find the control plane endpoint.

  \<^bold>\<open>How the code is modelled.\<close> Go code is a computation \<open>('s, 'a) comp\<close> (theory \<open>Go_Runtime\<close>): it takes
  the state and returns \<open>Ret\<close> a result or \<open>Panic\<close>, with the new state. A nil dereference and an index
  into an empty slice are the value \<open>Panic\<close>; a Go error is a left summand; a function that changes an
  object in place also when it fails returns the object beside the error. \<^verbatim>\<open>int\<close> is a 64-bit word and
  wraps around. Log lines are left out unless evaluating an argument can panic.

  Code outside the repository is a parameter (theory \<open>Platform\<close>). The environment \<open>env\<close> answers every
  call of the Kubernetes API, of the Waldur API, of \<^verbatim>\<open>net/http\<close> and of the file system by a function
  of the whole history of calls and of the arguments; the world keeps that history as a list of
  events, so a statement for all \<open>env\<close> is a statement for all behaviours of the services, and what the
  program does is what it appends to the history. \<open>lib\<close> has the pure third-party functions (UUIDs,
  YAML, conditions, finalizers), \<open>runtime\<close> the success of the calls of the manager library, and
  \<open>range_order\<close> the order in which Go visits the keys of a map. Where a property needs what such code
  documents, the hypothesis has a name: \<open>uuid_codec\<close>, \<open>yaml_roundtrip\<close>, \<open>condition_setter\<close>,
  \<open>finalizer_ops\<close>, \<open>go_range\<close>, and \<open>k8s_copies\<close> for the deep copies of Kubernetes' own structs. Theory \<open>Sample_Env\<close> has concrete instances for the witnesses.

  \<^bold>\<open>Theories and sources.\<close>
  \<^item> \<open>Go_Runtime\<close>: the prelude; inversion rules \<open>go_inv\<close>, the locale \<open>frame\<close> for relations between the
    states before and after a computation, absence of panics.
  \<^item> \<open>Api_Types\<close>: \<^verbatim>\<open>api/v1beta2/*_types.go\<close>, one record for each struct, and the fields of the Kubernetes,
    Cluster API and Waldur objects the sources use.
  \<^item> \<open>Platform\<close>: the environment, the history, and the logic of events: \<open>emits P m\<close> (a run of \<open>m\<close> appends
    only events with \<open>P\<close>, an interpretation of \<open>frame\<close>) and \<open>at_most P n m\<close> (at most \<open>n\<close> of them).
  \<^item> \<open>Vault_Client\<close>: \<^verbatim>\<open>internal/vault/client.go\<close>. The locale \<open>vault_contract\<close> is what the machine
    reconciler relies on (calls return, talk only to Vault and hand out non-empty identifiers); it is
    interpreted by the client. Properties: a request is sent a second time only when it was refused, after
    a login that succeeded in between, and with the new token; the operations keep the configuration of the client; a generated identifier is Vault's.
  \<^item> \<open>Cloud_Init\<close>: \<^verbatim>\<open>cloudinit.go\<close>. Properties: stripping removes the join token and keeps the rest;
    the order of files and commands in the merged document; the secret identifier is confined to its own
    file in both kinds of documents; a document without a configuration.
  \<^item> \<open>Waldur_Helpers\<close>: \<^verbatim>\<open>waldur_helpers.go\<close>, and the locale \<open>terminable\<close> for objects that own a marketplace
    resource and an order, interpreted by machines and by tenants.
  \<^item> \<open>Machine_Controller\<close>, \<open>Machine_Properties\<close>: \<^verbatim>\<open>waldurmachine_controller.go\<close>. Properties: a machine is let
    go only when its termination is done; a pass orders at most one VM; the payload of the order; the
    VM is stopped before it is terminated; what is recorded; no join token reaches Waldur; revocation
    of identifiers; the bootstrap gate.
  \<^item> \<open>Machine_Lifecycle\<close>: the step relation \<open>life\<close> of one machine over any number of passes, with other
    events in between, and its invariant: at most one accepted VM order for each machine, and the
    resource recorded for it is the one in the answer to that order.
  \<^item> \<open>Cluster_Controller\<close>, \<open>Cluster_Properties\<close>: \<^verbatim>\<open>waldurcluster_controller.go\<close>. Properties: the cluster is let
    go, and its projects are deleted, only when every tenant is terminated; the tenant
    orders of a pass belong to different datacenters without a tenant, in the order of the specification;
    tenants are recorded with the project and the limits they were ordered with, and never lost from
    the status; the limits cover the
    node groups when the sums do not overflow; readiness, which compares numbers of tenants and
    datacenters only; the control plane endpoint.
  \<^item> \<open>Deletion_Protocol\<close>: the abstract protocol \<open>delete_step\<close>, whose steps are labelled with the requests that
    change something in Waldur, the refinement of it by both reconcilers, and that deletion ends when Waldur carries it out.
  \<^item> \<open>Cluster_Deletion\<close>: the same for a whole cluster, whatever the number of its tenants, the phases they
    are in and the order of iteration.
  \<^item> \<open>Identifier_Types\<close>: the identifiers in the statuses as typed strings; whatever the reconcilers
    write keeps the types, so what a pass stores a later pass can parse. The locale \<open>typed_object\<close> is what
    machines and tenants share.
  \<^item> \<open>Cluster_Provisioning\<close>: once its tenants are recorded and Waldur brings them up, a cluster is published
    as ready after a bounded number of passes.
  \<^item> \<open>Go_Heap\<close>, \<open>Memory_Layout\<close>, \<open>Deep_Copy\<close>: memory as a list of cells, the structs of the API with
    their pointers, slices and maps as addresses, and every function of
    \<^verbatim>\<open>api/v1beta2/zz_generated.deepcopy.go\<close>. The locales \<open>represents\<close> and \<open>copier\<close> say that a struct
    stands for a value of the model, that the value depends on a footprint only, and that a copy has
    the same value and a new footprint. Properties: deep copies share nothing with the original; the
    cluster reconciler changes its working copy without changing the base of its patch. This is why
    all other theories may treat objects as values.
  \<^item> \<open>Panic_Freedom\<close>: which parts of a Waldur answer the sources dereference, call by call, and that no
    pass of either reconciler panics when the answers have them.
  \<^item> \<open>Panic_Causes\<close>: the converse; an answer that lacks what the sources dereference ends the pass with a
    panic at once.
  \<^item> \<open>Manager_Main\<close>: \<^verbatim>\<open>cmd/main.go\<close> from the flags to the exit status. Properties: the configuration of a
    manager that came up.
  \<^item> This theory: a property from the start of the program to the orders of its machine reconciler.

  \<^bold>\<open>Loops and bounds.\<close> Every loop of the sources runs over a finite slice or map and is a structural
  recursion, so no fuel is used and every definition is total; passes are repeated by the
  controller library, which is \<open>life\<close>, \<open>deletionPasses\<close> and \<open>clusterPasses\<close> here. That a pass returns is proved
  (\<open>Panic_Freedom\<close>), as is the number of passes that a deletion and the provisioning of a cluster take.

  \<^bold>\<open>Where the code is weaker than it looks\<close>, stated as theorems: a secret identifier is not revoked when
  the payload cannot be built; a termination answered with 202 is taken as failed; an answer
  without the body the sources dereference (an error status of most lookups, an accepted order that
  was not decoded) and an owner without an infrastructure reference end the pass with a panic; a
  stale tenant can hide a missing one from readiness; the providerID patch delays the
  published state by one pass; the vSAN disk size is not ordered; \<^verbatim>\<open>VAULT_APPROLE_SECRET\<close> is silently
  ignored next to \<^verbatim>\<open>VAULT_K8S_ROLE\<close>.

  \<^bold>\<open>Not modelled.\<close> \<^verbatim>\<open>groupversion_info.go\<close>, the \<^verbatim>\<open>init\<close> functions and \<^verbatim>\<open>SetupWithManager\<close> only register types and watches
  with the controller library; flag parsing is the flag library's. The bytes of JSON and YAML, TLS
  and context cancellation are behind the parameters. In \<open>Deep_Copy\<close> a new cell is allocated with its
  final contents, where the code allocates first and fills in afterwards. A crash of the process between an accepted
  order and the patch of the status, and reads from a stale cache, are outside \<open>life\<close>
  (\<open>fresh_reads\<close> and \<open>status_patches_succeed\<close> are its hypotheses): in both cases the code orders
  a second VM.
\<close>

section \<open>From the start of the program to the orders it submits\<close>

text \<open>C11: a manager started with Vault never hands a join token to Waldur. When \<^verbatim>\<open>main\<close> brought the manager up
  with \<^verbatim>\<open>VAULT_ADDR\<close> set, every later pass of its machine reconciler, from any state of the world,
  submits at most one create order, and the user data of that order has no RKE2 configuration with a
  token (for bootstrap documents with at most one such file and a base template without one).\<close>

theorem started_manager_hides_tokens:
  assumes up: "setupManager rt getenv E f w = (Ret (Inr m), w')" and "getenv ''VAULT_ADDR'' \<noteq> []"
    and "yaml_roundtrip L" and "plain_base L (mr_BaseTemplate (mg_Machine m))" and "single_config L E"
    and run: "machine_Reconcile L E (mg_Machine m) req v = (res, v')" and es: "hist v' = hist v @ es"
  shows "length (filter creates_order es) \<le> 1 \<and> list_all (hides_token L) es"
proof -
  from up have wired: "wired (mg_Machine m)" by (rule setupManager_wired)
  from up obtain u where "initVaultClient getenv E (operatorNamespaceOf getenv) u = (Ret (Inr (mr_VaultClient (mg_Machine m))), w')"
    by (rule setupManager_steps)
  from initVaultClient_ready [OF this] assms(2) have "mr_VaultClient (mg_Machine m) = Some (clientOf E)"
    by (simp add: vault_ready_def)
  from emits_hides_token_pass [OF assms(3) this wired assms(4,5)] have "emits (hides_token L) (machine_Reconcile L E (mg_Machine m) req)" .
  from emits_event [OF this run es] have "list_all (hides_token L) es" by (simp add: list_all_iff)
  moreover obtain fs where "hist v' = hist v @ fs" "length (filter creates_order fs) \<le> 1"
    by (rule at_most_pass [OF wired run])
  ultimately show ?thesis using es by simp
qed

text \<open>Vault answers a login with a token and a request for a secret identifier with \<open>s\<close>.\<close>

definition env_manager :: env where
  "env_manager = env_rke2\<lparr>env_net := net_down\<lparr>on_ReadFile := (\<lambda>_ _. Inr ''jwt''), on_HttpSend := (\<lambda>_ _. Inr \<lparr>rs_StatusCode = 200,
     rs_Body = [], rs_Json = Some (JObject [(''auth'', JObject [(''client_token'', JString ''t'')]),
       (''data'', JObject [(''secret_id'', JString ''s'')])])\<rparr>)\<rparr>\<rparr>"

lemma manager_run:
  "\<exists>m w'. setupManager runtime_sample (getenv_of vars_sample) env_manager defaultFlags world_sample = (Ret (Inr m), w') \<and>
     mr_BaseTemplate (mg_Machine m) = []"
  by (simp add: setupManager_def require_def requiredEnv_def initWaldurClient_def loadBaseTemplate_def initVaultClient_def
      installClient_def runtime_sample_def getenv_of_def getStr_def vars_sample_def andThen_def ok_def NewClient_def
      loginWithKubernetes_def n_ReadFile_def env_manager_def env_rke2_def env_vm_def relogin_defs)

theorem started_manager_hides_tokens_witness:
  "\<exists>m w' res v'. setupManager runtime_sample (getenv_of vars_sample) env_manager defaultFlags world_sample = (Ret (Inr m), w') \<and>
     machine_Reconcile lib_yaml env_manager (mg_Machine m) (namespacedName ''ns'' ''m'') world_sample = (res, v') \<and>
     length (filter creates_order (hist v')) \<le> 1 \<and> list_all (hides_token lib_yaml) (hist v')"
proof -
  obtain m w' where up: "setupManager runtime_sample (getenv_of vars_sample) env_manager defaultFlags world_sample = (Ret (Inr m), w')"
    and base: "mr_BaseTemplate (mg_Machine m) = []" using manager_run by blast
  obtain res v' where run: "machine_Reconcile lib_yaml env_manager (mg_Machine m) (namespacedName ''ns'' ''m'') world_sample = (res, v')"
    by fastforce
  have addr: "getenv_of vars_sample ''VAULT_ADDR'' \<noteq> []" by (simp add: getenv_of_def getStr_def vars_sample_def)
  have plain: "plain_base lib_yaml (mr_BaseTemplate (mg_Machine m))"
    by (simp add: base plain_base_def parseStatic_def emptyCloudInit_def)
  have single: "single_config lib_yaml env_manager"
    by (auto simp: single_config_def env_manager_def env_rke2_def getStr_def lib_yaml_def Let_def ci_of_def)
  have "hist v' = hist world_sample @ hist v'" by (simp add: world_sample_def)
  from started_manager_hides_tokens [OF up addr lib_yaml_roundtrip plain single run this] up run show ?thesis by blast
qed

end
